(* ===== verification/Prelude.thy ===== *)
theory Prelude
  imports Main "HOL-Library.List_Lexorder" "HOL-Library.Char_ord" "HOL-Library.AList"
    "HOL-Library.Multiset"
begin

text \<open>
  Shared vocabulary of the development: the model's names for Go's pointers, maps and errors, the
  list operations that the Go code writes as loops, and the lemmas on lists, options and
  association lists that more than one component needs.  Strings are ASCII character lists ordered
  bytewise, which is Go's \<open><\<close> on such strings (theories List-Lexorder and Char-ord).
\<close>

named_theorems go_find "lookup in lists with at most one entry for each key"
named_theorems go_map "lookup and update of Go maps"

subsection \<open>Go's maps and pointers\<close>

text \<open>A pointer or interface value that may be nil is an option.  A Go map is an association list
  whose order stands for the iteration order of one run; a nil map is \<open>None\<close>.\<close>

type_synonym gomap = "(string \<times> string) list"

definition map_get :: "gomap \<Rightarrow> string \<Rightarrow> string" where
  "map_get m k = (case map_of m k of None \<Rightarrow> '''' | Some v \<Rightarrow> v)"

definition map_has :: "gomap \<Rightarrow> string \<Rightarrow> bool" where
  "map_has m k \<longleftrightarrow> map_of m k \<noteq> None"

definition nil_map_get :: "gomap option \<Rightarrow> string \<Rightarrow> string" where
  "nil_map_get m k = (case m of None \<Rightarrow> '''' | Some xs \<Rightarrow> map_get xs k)"

lemma map_get_update [simp, go_map]:
  "map_get (AList.update k v m) k' = (if k' = k then v else map_get m k')"
  by (simp add: map_get_def update_conv')

lemma map_has_update [simp, go_map]: "map_has (AList.update k v m) k' \<longleftrightarrow> k' = k \<or> map_has m k'"
  by (simp add: map_has_def update_conv')

lemma map_get_Nil [simp]: "map_get [] k = ''''"
  by (simp add: map_get_def)

subsection \<open>Lists with at most one entry for each key\<close>

lemma find_filter_neq [go_find]:
  "find (\<lambda>x. f x = k) (filter (\<lambda>x. f x \<noteq> k') xs) = (if k = k' then None else find (\<lambda>x. f x = k) xs)"
  by (induction xs) auto

lemma find_append [go_find]:
  "find P (xs @ ys) = (case find P xs of None \<Rightarrow> find P ys | Some x \<Rightarrow> Some x)"
  by (induction xs) auto

lemma find_key_None [go_find]: "find (\<lambda>x. f x = k) xs = None \<longleftrightarrow> k \<notin> f ` set xs"
  by (auto simp: find_None_iff)

lemma find_key_Some_iff:
  assumes "distinct (map f xs)"
  shows "find (\<lambda>x. f x = k) xs = Some x \<longleftrightarrow> x \<in> set xs \<and> f x = k"
  using assms by (induction xs) (auto simp: rev_image_eqI)

lemma find_key_sound:
  assumes "find (\<lambda>x. f x = k) xs = Some x" shows "x \<in> set xs" and "f x = k"
  using assms by (induction xs) (auto split: if_splits)

lemma find_key_cong_set:
  assumes "distinct (map f xs)" "distinct (map f ys)" "set xs = set ys"
  shows "find (\<lambda>x. f x = k) xs = find (\<lambda>x. f x = k) ys"
proof (cases "find (\<lambda>x. f x = k) ys")
  case None
  then have "k \<notin> f ` set xs" using assms by (simp add: find_key_None)
  then show ?thesis using None find_key_None[of f k xs] by simp
next
  case (Some y)
  then have "find (\<lambda>x. f x = k) xs = Some y"
    using find_key_Some_iff[OF assms(1)] find_key_Some_iff[OF assms(2)] assms(3) by auto
  then show ?thesis using Some by simp
qed

lemma distinct_map_sort_key [simp]: "distinct (map f (sort_key g xs)) = distinct (map f xs)"
  by (metis mset_map mset_sort mset_eq_imp_distinct_iff)

lemma find_sort_key [go_find]:
  assumes "distinct (map f xs)"
  shows "find (\<lambda>x. f x = k) (sort_key g xs) = find (\<lambda>x. f x = k) xs"
  by (rule find_key_cong_set) (use assms in auto)

lemma distinct_map_filter: "distinct (map f xs) \<Longrightarrow> distinct (map f (filter P xs))"
  by (induction xs) auto

lemma sorted_map_filter: "sorted (map f xs) \<Longrightarrow> sorted (map f (filter P xs))"
  by (induction xs) auto

subsection \<open>Numbers in strings\<close>

text \<open>Go's decimal formatting (\<open>%d\<close>, \<open>strconv.Itoa\<close>), and \<open>time.RFC3339\<close> for an instant in UTC given
  as nanoseconds since 1970 (the days-to-date step is the usual one on 400-year eras counted from
  the first of March of year 0).\<close>

definition digit :: "nat \<Rightarrow> char" where
  "digit n = char_of (48 + n mod 10)"

fun show_nat :: "nat \<Rightarrow> string" where
  "show_nat n = (if n < 10 then [digit n] else show_nat (n div 10) @ [digit n])"

declare show_nat.simps [simp del]

definition show_int :: "int \<Rightarrow> string" where
  "show_int i = (if i < 0 then CHR ''-'' # show_nat (nat (- i)) else show_nat (nat i))"

definition pad2 :: "int \<Rightarrow> string" where
  "pad2 i = (if i < 10 then CHR ''0'' # show_int i else show_int i)"

definition pad4 :: "int \<Rightarrow> string" where
  "pad4 i = replicate (4 - length (show_int i)) CHR ''0'' @ show_int i"

definition civil_of_days :: "int \<Rightarrow> int \<times> int \<times> int" where
  "civil_of_days z =
    (let z = z + 719468;
         era = z div 146097;
         doe = z mod 146097;
         yoe = (doe - doe div 1460 + doe div 36524 - doe div 146096) div 365;
         doy = doe - (365 * yoe + yoe div 4 - yoe div 100);
         mp = (5 * doy + 2) div 153;
         d = doy - (153 * mp + 2) div 5 + 1;
         m = (if mp < 10 then mp + 3 else mp - 9);
         y = yoe + era * 400 + (if m \<le> 2 then 1 else 0)
     in (y, m, d))"

definition rfc3339 :: "int \<Rightarrow> string" where
  "rfc3339 ns =
    (let s = ns div 1000000000;
         (y, m, d) = civil_of_days (s div 86400);
         t = s mod 86400
     in pad4 y @ ''-'' @ pad2 m @ ''-'' @ pad2 d @ ''T'' @
        pad2 (t div 3600) @ '':'' @ pad2 (t mod 3600 div 60) @ '':'' @ pad2 (t mod 60) @ ''Z'')"

lemma show_nat_small: "n < 10 \<Longrightarrow> show_nat n = [digit n]"
  and show_nat_large: "\<not> n < 10 \<Longrightarrow> show_nat n = show_nat (n div 10) @ [digit n]"
  by (simp_all add: show_nat.simps[of n])

lemma char_of_digits:
  "char_of (48::nat) = CHR ''0''" "char_of (49::nat) = CHR ''1''" "char_of (50::nat) = CHR ''2''"
  "char_of (51::nat) = CHR ''3''" "char_of (52::nat) = CHR ''4''" "char_of (53::nat) = CHR ''5''"
  "char_of (54::nat) = CHR ''6''" "char_of (55::nat) = CHR ''7''" "char_of (56::nat) = CHR ''8''"
  "char_of (57::nat) = CHR ''9''"
  by code_simp+

lemmas show_int_eval = show_int_def show_nat_small show_nat_large digit_def char_of_digits

lemma show_nat_not_Nil [simp]: "show_nat n \<noteq> []"
  by (subst show_nat.simps) simp

text \<open>\<open>strconv.ParseBool\<close>: \<open>None\<close> is its error.\<close>

definition ParseBool :: "string \<Rightarrow> bool option" where
  "ParseBool s =
    (if s \<in> set [''1'', ''t'', ''T'', ''TRUE'', ''true'', ''True''] then Some True
     else if s \<in> set [''0'', ''f'', ''F'', ''FALSE'', ''false'', ''False''] then Some False
     else None)"

subsection \<open>Strings and paths\<close>

text \<open>\<open>strings.Split\<close> on one character, \<open>strings.Join\<close>, \<open>strings.ToLower\<close> on ASCII.\<close>

fun split_on :: "char \<Rightarrow> string \<Rightarrow> string list" where
  "split_on c [] = [[]]"
| "split_on c (x # xs) =
    (if x = c then [] # split_on c xs
     else (case split_on c xs of [] \<Rightarrow> [[x]] | y # ys \<Rightarrow> (x # y) # ys))"

fun join_with :: "string \<Rightarrow> string list \<Rightarrow> string" where
  "join_with sep [] = []"
| "join_with sep [x] = x"
| "join_with sep (x # y # ys) = x @ sep @ join_with sep (y # ys)"

definition lower_char :: "char \<Rightarrow> char" where
  "lower_char c = (let n = (of_char c :: nat) in if 65 \<le> n \<and> n \<le> 90 then char_of (n + 32) else c)"

definition ToLower :: "string \<Rightarrow> string" where
  "ToLower s = map lower_char s"

lemma split_on_not_Nil [simp]: "split_on c s \<noteq> []"
  by (induction s) (auto split: list.splits)

lemma join_split [simp]: "join_with [c] (split_on c s) = s"
proof (induction s)
  case (Cons x xs)
  obtain y ys where "split_on c xs = y # ys" by (cases "split_on c xs") auto
  then show ?case using Cons by (cases ys) auto
qed simp

lemma split_on_no_sep: "y \<in> set (split_on c s) \<Longrightarrow> c \<notin> set y"
  by (induction s arbitrary: y) (auto split: list.splits if_splits)

text \<open>\<open>path.Clean\<close> and \<open>path.Join\<close>: a stack of the path's elements, newest first.\<close>

definition clean_step :: "bool \<Rightarrow> string list \<Rightarrow> string \<Rightarrow> string list" where
  "clean_step rooted st seg =
    (if seg = '''' \<or> seg = ''.'' then st
     else if seg = ''..'' then
       (case st of
          t # rest \<Rightarrow> (if t = ''..'' then seg # st else rest)
        | [] \<Rightarrow> (if rooted then [] else [seg]))
     else seg # st)"

definition path_clean :: "string \<Rightarrow> string" where
  "path_clean p =
    (let rooted = (p \<noteq> [] \<and> hd p = CHR ''/'');
         body = join_with ''/'' (rev (foldl (clean_step rooted) [] (split_on CHR ''/'' p)))
     in if rooted then CHR ''/'' # body else if body = [] then ''.'' else body)"

definition path_join :: "string list \<Rightarrow> string" where
  "path_join elems =
    (let es = filter (\<lambda>e. e \<noteq> []) elems in if es = [] then [] else path_clean (join_with ''/'' es))"

text \<open>The JSON text of a string as \<open>encoding/json\<close> writes it (ASCII input).\<close>

definition hex_nibble :: "nat \<Rightarrow> char" where
  "hex_nibble n = (if n < 10 then char_of (48 + n) else char_of (87 + n))"

definition json_char :: "char \<Rightarrow> string" where
  "json_char c =
    (let n = (of_char c :: nat)
     in if n = 34 then [char_of (92::nat), c]
        else if n = 92 then [char_of (92::nat), c]
        else if n = 10 then [char_of (92::nat), CHR ''n'']
        else if n = 13 then [char_of (92::nat), CHR ''r'']
        else if n = 9 then [char_of (92::nat), CHR ''t'']
        else if n < 32 \<or> n \<in> {38, 60, 62}
             then char_of (92::nat) # ''u00'' @ [hex_nibble (n div 16), hex_nibble (n mod 16)]
        else [c])"

definition json_string :: "string \<Rightarrow> string" where
  "json_string s = char_of (34::nat) # concat (map json_char s) @ [char_of (34::nat)]"

lemma map_sum_Inr_iff: "map_sum f g x = Inr y \<longleftrightarrow> (\<exists>z. x = Inr z \<and> y = g z)"
  by (cases x) auto

lemma map_sum_Inl_iff: "map_sum f g x = Inl y \<longleftrightarrow> (\<exists>z. x = Inl z \<and> y = f z)"
  by (cases x) auto

end
