(* ===== verification/K8s_Types.thy ===== *)
theory K8s_Types
  imports Prelude
begin

text \<open>
  The Kubernetes objects the operator handles (\<open>k8s.io/api\<close>, \<open>knative.dev\<close>), which are not part of the
  repository: records with the fields the modelled code reads or writes, and nothing else.
  Instants are nanoseconds (0 is the zero time), integer fields are \<open>int\<close>.
\<close>

record object_meta =
  om_name :: string
  om_namespace :: string
  om_uid :: string
  om_resourceVersion :: string
  om_generation :: int
  om_creationTimestamp :: int
  om_deletionTimestamp :: "int option"
  om_labels :: "gomap option"
  om_annotations :: "gomap option"
  om_finalizers :: "string list"

text \<open>The source of a variable's value: the key of a config map or of a secret, with the pointer
  \<open>optional\<close>, or another source.\<close>

datatype env_source =
    EsConfigMap string string "bool option"
  | EsSecret string string "bool option"
  | EsOther string

record env_var =
  ev_name :: string
  ev_value :: string
  ev_valueFrom :: "env_source option"

record container_port =
  cp_name :: string
  cp_containerPort :: int
  cp_protocol :: string

record volume_mount =
  vm_name :: string
  vm_readOnly :: bool
  vm_mountPath :: string
  vm_subPath :: string

text \<open>A projected source is a config map with its (key, path) items or some other projection.\<close>

datatype projection =
    PjConfigMap (pj_name: string) (pj_items: "(string \<times> string) list")
  | PjOther string

datatype volume_source =
    VsConfigMap string "(string \<times> string) list"
  | VsProjected "projection list"
  | VsSecret string "(string \<times> string) list"
  | VsOther string

record volume =
  vl_name :: string
  vl_source :: volume_source

text \<open>An HTTP probe; a resource list is a map from resource names to quantities.\<close>

record http_probe =
  hp_path :: string
  hp_port :: int
  hp_initialDelay :: int
  hp_timeout :: int
  hp_period :: int
  hp_failureThreshold :: int

record container_extras =
  ce_liveness :: "http_probe option"
  ce_readiness :: "http_probe option"
  ce_startup :: "http_probe option"
  ce_secured :: bool
  ce_requests :: gomap
  ce_limits :: gomap

definition no_extras :: container_extras where
  "no_extras = \<lparr>ce_liveness = None, ce_readiness = None, ce_startup = None, ce_secured = False,
     ce_requests = [], ce_limits = []\<rparr>"

text \<open>\<open>ce_secured\<close> tells that the security context is the operator's default one.\<close>

record container =
  ct_name :: string
  ct_image :: string
  ct_imagePullPolicy :: string
  ct_args :: "string list"
  ct_workingDir :: string
  ct_env :: "env_var list"
  ct_mounts :: "volume_mount list"
  ct_ports :: "container_port list"
  ct_extras :: container_extras

record pod_spec =
  ps_containers :: "container list"
  ps_initContainers :: "container list"
  ps_volumes :: "volume list"

record deployment_condition =
  dc_type :: string
  dc_status :: string
  dc_reason :: string
  dc_message :: string

record deployment =
  dp_meta :: object_meta
  dp_paused :: bool
  dp_selector :: gomap
  dp_replicas :: "int option"
  dp_strategy :: string
  dp_templateLabels :: gomap
  dp_templateAnnotations :: "gomap option"
  dp_pod :: pod_spec
  dp_conditions :: "deployment_condition list"

record service_port =
  sp_name :: string
  sp_protocol :: string
  sp_port :: int
  sp_targetPort :: int
  sp_nodePort :: int

record service =
  sv_meta :: object_meta
  sv_type :: string
  sv_clusterIP :: string
  sv_externalName :: string
  sv_selector :: gomap
  sv_ports :: "service_port list"

text \<open>A container's state: waiting with a reason and a message, or terminated.\<close>

record terminated_state =
  te_exitCode :: int
  te_reason :: string
  te_message :: string
  te_finishedAt :: int

record container_status =
  cs_name :: string
  cs_ready :: bool
  cs_waiting :: "(string \<times> string) option"
  cs_terminated :: "terminated_state option"

record pod =
  pd_meta :: object_meta
  pd_spec :: pod_spec
  pd_phase :: string
  pd_podIP :: string
  pd_hostIP :: string
  pd_owner :: "(string \<times> string) option"
  pd_conditions :: "(string \<times> string) list"
  pd_initStatuses :: "container_status list"
  pd_statuses :: "container_status list"

record config_map =
  cm_meta :: object_meta
  cm_data :: "gomap option"

record secret =
  se_meta :: object_meta
  se_data :: "gomap option"

text \<open>A Knative service: the part of its status the operator follows.\<close>

record kservice =
  ks_meta :: object_meta
  ks_templateLabels :: gomap
  ks_pod :: pod_spec
  ks_url :: "string option"
  ks_latestCreatedRevisionName :: string

record revision =
  rv_meta :: object_meta
  rv_pod :: pod_spec

record stateful_set =
  ss_meta :: object_meta
  ss_matchLabels :: gomap

text \<open>An ingress: whether it has TLS entries, and the (hostname, IP) pairs of its load balancer.\<close>

record ingress =
  in_meta :: object_meta
  in_tls :: nat
  in_addresses :: "(string \<times> string) list"

record service_monitor =
  sm_meta :: object_meta
  sm_matchLabels :: gomap
  sm_port :: string
  sm_path :: string

record route =
  ro_meta :: object_meta
  ro_host :: string
  ro_service :: string
  ro_tls :: bool

record deployment_config =
  dg_meta :: object_meta
  dg_selector :: gomap

text \<open>Errors of the API server, by the predicates the operator uses on them
  (\<open>IsNotFound\<close>, \<open>IsAlreadyExists\<close>), and every other error with its text.\<close>

datatype kerror =
    NotFound string
  | AlreadyExists string
  | Conflict string
  | OtherError string

primrec error_text :: "kerror \<Rightarrow> string" where
  "error_text (NotFound s) = s"
| "error_text (AlreadyExists s) = s"
| "error_text (Conflict s) = s"
| "error_text (OtherError s) = s"

primrec IsNotFound :: "kerror \<Rightarrow> bool" where
  "IsNotFound (NotFound _) = True"
| "IsNotFound (AlreadyExists _) = False"
| "IsNotFound (Conflict _) = False"
| "IsNotFound (OtherError _) = False"

definition IsAlreadyExists :: "kerror \<Rightarrow> bool" where
  "IsAlreadyExists e = (case e of AlreadyExists _ \<Rightarrow> True | _ \<Rightarrow> False)"

definition IsConflict :: "kerror \<Rightarrow> bool" where
  "IsConflict e = (case e of Conflict _ \<Rightarrow> True | _ \<Rightarrow> False)"

definition new_meta :: "string \<Rightarrow> string \<Rightarrow> object_meta" where
  "new_meta ns name =
    \<lparr>om_name = name, om_namespace = ns, om_uid = '''', om_resourceVersion = '''', om_generation = 0,
     om_creationTimestamp = 0, om_deletionTimestamp = None, om_labels = None, om_annotations = None,
     om_finalizers = []\<rparr>"

end
