(* ===== verification/Checksums.thy ===== *)
theory Checksums
  imports Prelude "HOL-Library.Word"
begin

text \<open>
  The checksums the operator keeps: the CRC-32 of a workflow's flow (\<open>utils/crc.go\<close>, on the bytes
  of \<open>encoding/gob\<close>) and the hexadecimal SHA-256 of the application properties
  (\<open>calculateHash\<close> in \<open>utils/kubernetes/deployment.go\<close>), both on machine words.  The lemmas show that
  the CRC register is updated injectively in the register and in the byte, so that one changed byte
  always changes the checksum.
\<close>

unbundle bit_operations_syntax

subsection \<open>CRC-32 (IEEE)\<close>

definition crc_poly :: "32 word" where
  "crc_poly = 0xEDB88320"

definition crc_shift :: "32 word \<Rightarrow> 32 word" where
  "crc_shift c = (if bit c 0 then drop_bit 1 c XOR crc_poly else drop_bit 1 c)"

definition crc_byte :: "32 word \<Rightarrow> 8 word \<Rightarrow> 32 word" where
  "crc_byte c b = (crc_shift ^^ 8) (c XOR ucast b)"

definition crc32 :: "8 word list \<Rightarrow> 32 word" where
  "crc32 bs = NOT (foldl crc_byte (NOT 0) bs)"

lemma xor_cancel_left: "a XOR b = a XOR c \<Longrightarrow> b = c" for a b c :: "'a::len word"
proof -
  assume "a XOR b = a XOR c"
  then have "a XOR (a XOR b) = a XOR (a XOR c)" by simp
  then show ?thesis by (simp flip: xor.assoc)
qed

lemma xor_cancel_right: "b XOR a = c XOR a \<Longrightarrow> b = c" for a b c :: "'a::len word"
  by (rule xor_cancel_left[of a]) (simp add: xor.commute)

lemma crc_shift_inj: "crc_shift c = crc_shift d \<Longrightarrow> c = d"
proof -
  assume eq: "crc_shift c = crc_shift d"
  have top: "bit (crc_shift x) 31 = bit x 0" for x :: "32 word"
  proof -
    have "bit crc_poly 31" by (simp add: crc_poly_def)
    moreover have "\<not> bit (drop_bit 1 x) 31"
      using bit_imp_le_length[of x 32] by (auto simp: bit_drop_bit_eq)
    ultimately show ?thesis by (simp add: crc_shift_def bit_xor_iff)
  qed
  have b0: "bit c 0 = bit d 0" using top[of c] top[of d] eq by simp
  then have sh: "drop_bit 1 c = drop_bit 1 d"
    using eq by (auto simp: crc_shift_def split: if_splits dest: xor_cancel_right)
  show "c = d"
  proof (rule bit_word_eqI)
    fix n assume "n < LENGTH(32)"
    show "bit c n = bit d n"
    proof (cases n)
      case (Suc m)
      then show ?thesis using arg_cong[OF sh, of "\<lambda>w. bit w m"] by (simp add: bit_drop_bit_eq)
    qed (use b0 in simp)
  qed
qed

lemma crc_shift_pow_inj: "(crc_shift ^^ n) c = (crc_shift ^^ n) d \<Longrightarrow> c = d"
  by (induction n) (auto dest: crc_shift_inj)

lemma ucast_8_32_inj: "(ucast (a :: 8 word) :: 32 word) = ucast b \<Longrightarrow> a = b"
proof (rule bit_word_eqI)
  fix n assume eq: "(ucast a :: 32 word) = ucast b" and n: "n < LENGTH(8)"
  have "bit (ucast a :: 32 word) n = bit (ucast b :: 32 word) n" by (simp only: eq)
  then show "bit a n = bit b n" using n by (simp add: bit_ucast_iff)
qed

lemma crc_byte_inj_register: "crc_byte c b = crc_byte d b \<Longrightarrow> c = d"
  unfolding crc_byte_def
  by (drule crc_shift_pow_inj) (rule xor_cancel_right)

lemma crc_byte_inj_byte:
  assumes "crc_byte c a = crc_byte c b" shows "a = b"
proof -
  have "c XOR ucast a = c XOR ucast b"
    using assms crc_shift_pow_inj unfolding crc_byte_def by blast
  then have "(ucast a :: 32 word) = ucast b"
    by (rule xor_cancel_left)
  then show ?thesis by (rule ucast_8_32_inj)
qed

lemma foldl_crc_inj: "foldl crc_byte c bs = foldl crc_byte d bs \<Longrightarrow> c = d"
  by (induction bs arbitrary: c d) (auto dest: crc_byte_inj_register)

lemma crc32_one_byte:
  assumes "crc32 (xs @ a # ys) = crc32 (xs @ b # ys)" shows "a = b"
proof -
  have "foldl crc_byte (crc_byte (foldl crc_byte (NOT 0) xs) a) ys =
        foldl crc_byte (crc_byte (foldl crc_byte (NOT 0) xs) b) ys"
    using assms unfolding crc32_def by (metis bit.double_compl foldl_append foldl_Cons)
  then show ?thesis by (blast dest: foldl_crc_inj crc_byte_inj_byte)
qed

text \<open>A test vector: the checksum of the one byte of the letter a.\<close>

lemma crc32_check_value: "crc32 [97] = 0xE8B7BE43"
  by code_simp

subsection \<open>SHA-256\<close>

text \<open>The constants are the first 32 bits of the fractional parts of the cube roots of the first 64
  primes, and of the square roots of the first 8: integer roots of the primes shifted left, found
  bit by bit.\<close>

definition int_root :: "nat \<Rightarrow> int \<Rightarrow> int" where
  "int_root k n = foldl (\<lambda>r b. if (r + 2 ^ b) ^ k \<le> n then r + 2 ^ b else r) 0 (rev [0..<35])"

definition small_primes :: "nat list" where
  "small_primes = filter (\<lambda>n. list_all (\<lambda>d. n mod d \<noteq> 0) [2..<n]) [2..<312]"

definition sha256_K :: "32 word list" where
  "sha256_K = map (\<lambda>q. word_of_int (int_root 3 (int q * 2 ^ 96))) small_primes"

definition sha256_H0 :: "32 word list" where
  "sha256_H0 = map (\<lambda>q. word_of_int (int_root 2 (int q * 2 ^ 64))) [2, 3, 5, 7, 11, 13, 17, 19]"

definition rotr :: "nat \<Rightarrow> 32 word \<Rightarrow> 32 word" where
  "rotr n w = drop_bit n w OR push_bit (32 - n) w"

text \<open>Padding: a one bit, zeros, and the length in bits as 8 bytes, big endian.\<close>

definition sha256_pad :: "8 word list \<Rightarrow> 8 word list" where
  "sha256_pad m =
    (let l = length m; z = (119 - l mod 64) mod 64
     in m @ [0x80] @ replicate z 0 @ map (\<lambda>i. word_of_nat (8 * l div 256 ^ (7 - i))) [0..<8])"

fun be_words :: "8 word list \<Rightarrow> 32 word list" where
  "be_words (a # b # c # d # bs) =
    (push_bit 24 (ucast a) OR push_bit 16 (ucast b) OR push_bit 8 (ucast c) OR ucast d) # be_words bs"
| "be_words _ = []"

text \<open>The message schedule, kept newest first while it is extended.\<close>

fun sha256_extend :: "nat \<Rightarrow> 32 word list \<Rightarrow> 32 word list" where
  "sha256_extend 0 ws = ws"
| "sha256_extend (Suc n) ws =
    (let w15 = ws ! 14; w2 = ws ! 1;
         s0 = rotr 7 w15 XOR rotr 18 w15 XOR drop_bit 3 w15;
         s1 = rotr 17 w2 XOR rotr 19 w2 XOR drop_bit 10 w2
     in sha256_extend n ((ws ! 15 + s0 + ws ! 6 + s1) # ws))"

definition sha256_round :: "32 word list \<Rightarrow> 32 word \<times> 32 word \<Rightarrow> 32 word list" where
  "sha256_round st kw =
    (case (st, kw) of ([a, b, c, d, e, f, g, h], (k, w)) \<Rightarrow>
      (let s1 = rotr 6 e XOR rotr 11 e XOR rotr 25 e;
           ch = (e AND f) XOR (NOT e AND g);
           t1 = h + s1 + ch + k + w;
           s0 = rotr 2 a XOR rotr 13 a XOR rotr 22 a;
           maj = (a AND b) XOR (a AND c) XOR (b AND c)
       in [t1 + s0 + maj, a, b, c, d + t1, e, f, g])
     | _ \<Rightarrow> st)"

definition sha256_block :: "32 word list \<Rightarrow> 8 word list \<Rightarrow> 32 word list" where
  "sha256_block h blk =
    (let ws = rev (sha256_extend 48 (rev (be_words blk)))
     in map2 (+) h (foldl sha256_round h (zip sha256_K ws)))"

fun blocks64 :: "nat \<Rightarrow> 8 word list \<Rightarrow> 8 word list list" where
  "blocks64 0 bs = []"
| "blocks64 (Suc n) bs = take 64 bs # blocks64 n (drop 64 bs)"

definition sha256 :: "8 word list \<Rightarrow> 32 word list" where
  "sha256 m = (let p = sha256_pad m in foldl sha256_block sha256_H0 (blocks64 (length p div 64) p))"

definition hex_digit :: "nat \<Rightarrow> char" where
  "hex_digit n = (if n < 10 then char_of (48 + n) else char_of (87 + n))"

definition hex_word :: "32 word \<Rightarrow> string" where
  "hex_word w = map (\<lambda>i. hex_digit (unat w div 16 ^ (7 - i) mod 16)) [0..<8]"

definition sha256_hex :: "string \<Rightarrow> string" where
  "sha256_hex s = concat (map hex_word (sha256 (map (\<lambda>c. word_of_nat (of_char c)) s)))"

lemma sha256_round_length: "length st = 8 \<Longrightarrow> length (sha256_round st kw) = 8"
  by (auto simp: sha256_round_def Let_def split: list.splits prod.splits)

lemma foldl_sha256_round_length: "length st = 8 \<Longrightarrow> length (foldl sha256_round st kws) = 8"
  by (induction kws arbitrary: st) (auto simp: sha256_round_length)

lemma sha256_length: "length (sha256 m) = 8"
proof -
  have "length h = 8 \<Longrightarrow> length (foldl sha256_block h bs) = 8" for h bs
    by (induction bs arbitrary: h)
      (auto simp: sha256_block_def Let_def foldl_sha256_round_length)
  then show ?thesis by (simp add: sha256_def Let_def sha256_H0_def)
qed

lemma concat_map_length: "\<forall>x\<in>set xs. length (f x) = n \<Longrightarrow> length (concat (map f xs)) = n * length xs"
  by (induction xs) auto

text \<open>The digest is never empty, so it is never mistaken for a missing annotation.\<close>

lemma sha256_hex_length: "length (sha256_hex s) = 64"
  by (simp add: sha256_hex_def concat_map_length[where n = 8] hex_word_def sha256_length)

lemma sha256_hex_not_Nil [simp]: "sha256_hex s \<noteq> []"
  using sha256_hex_length[of s] by auto

end
