(* ===== verification/Kube_Utils.thy ===== *)
theory Kube_Utils
  imports K8s_Types Checksums
begin

text \<open>
  The helpers on Kubernetes objects (\<open>utils/kubernetes\<close>): the state of a deployment, the updates of
  the containers, volumes, mounts and environment of a pod, image tags, annotations.  The three
  add-or-replace loops of the code are one algorithm on keyed lists; its closed form says which entries
  stay where, that the order of the existing entries never changes and that a second pass changes
  nothing.
\<close>

subsection \<open>The state of a deployment\<close>

definition isDeploymentInCondition :: "deployment \<Rightarrow> string \<Rightarrow> string \<Rightarrow> bool" where
  "isDeploymentInCondition d t st \<longleftrightarrow>
    list_ex (\<lambda>c. dc_type c = t \<and> dc_status c = st) (dp_conditions d)"

definition IsDeploymentAvailable :: "deployment \<Rightarrow> bool" where
  "IsDeploymentAvailable d = isDeploymentInCondition d ''Available'' ''True''"

definition IsDeploymentFailed :: "deployment \<Rightarrow> bool" where
  "IsDeploymentFailed d =
    (if IsDeploymentAvailable d then False else isDeploymentInCondition d ''ReplicaFailure'' ''True'')"

definition IsDeploymentMinimumReplicasUnavailable :: "deployment \<Rightarrow> bool" where
  "IsDeploymentMinimumReplicasUnavailable d \<longleftrightarrow>
    list_ex (\<lambda>c. dc_type c = ''Available'' \<and> dc_status c = ''False'' \<and>
                 dc_reason c = ''MinimumReplicasUnavailable'') (dp_conditions d)"

definition unavailability_text :: "deployment \<Rightarrow> deployment_condition \<Rightarrow> string" where
  "unavailability_text d c =
    ''deployment '' @ om_name (dp_meta d) @ '' unavailable: reason '' @ dc_reason c @
    '', message '' @ dc_message c"

definition replica_failure :: "deployment_condition \<Rightarrow> bool" where
  "replica_failure c \<longleftrightarrow>
    (dc_type c = ''Progressing'' \<and> dc_status c = ''False'') \<or>
    (dc_type c = ''ReplicaFailure'' \<and> dc_status c = ''True'')"

definition deployment_unavailability :: "deployment \<Rightarrow> string" where
  "deployment_unavailability d =
    (case find replica_failure (dp_conditions d) of
       None \<Rightarrow> '''' | Some c \<Rightarrow> unavailability_text d c)"

definition RestartedAt :: string where "RestartedAt = ''sonataflow.org/restartedAt''"
definition Checksum :: string where "Checksum = ''sonataflow.org/checksum-config''"

definition map_init :: "gomap option \<Rightarrow> gomap" where
  "map_init m = (case m of None \<Rightarrow> [] | Some xs \<Rightarrow> xs)"

definition paused_error :: string where
  "paused_error = ''can't restart paused deployment (run rollout resume first)''"

definition MarkDeploymentToRollout :: "int \<Rightarrow> deployment \<Rightarrow> string + deployment" where
  "MarkDeploymentToRollout now d =
    (if dp_paused d then Inl paused_error
     else Inr (d\<lparr>dp_templateAnnotations :=
                 Some (AList.update RestartedAt (rfc3339 now) (map_init (dp_templateAnnotations d)))\<rparr>))"

text \<open>The checksum of the two property files of a workflow; the file names come with the workflow
  (\<open>workflowproj\<close>).\<close>

definition dataFromCM :: "config_map \<Rightarrow> string \<Rightarrow> string" where
  "dataFromCM cm key = nil_map_get (cm_data cm) key"

definition calculateHash :: "config_map \<Rightarrow> config_map \<Rightarrow> string \<Rightarrow> string \<Rightarrow> string" where
  "calculateHash userCM managedCM userFile managedFile =
    sha256_hex (dataFromCM userCM userFile @ '','' @ dataFromCM managedCM managedFile)"

definition AnnotateDeploymentConfigChecksum ::
  "int \<Rightarrow> config_map \<Rightarrow> config_map \<Rightarrow> string \<Rightarrow> string \<Rightarrow> deployment \<Rightarrow> string + deployment" where
  "AnnotateDeploymentConfigChecksum now userCM managedCM userFile managedFile d =
    (if dp_paused d then Inl paused_error
     else (let anns = map_init (dp_templateAnnotations d);
               current = map_get anns Checksum;
               new = calculateHash userCM managedCM userFile managedFile;
               anns' = (if new \<noteq> current
                        then (let a = AList.update Checksum new anns
                              in if current \<noteq> '''' then AList.update RestartedAt (rfc3339 now) a else a)
                        else anns)
           in Inr (d\<lparr>dp_templateAnnotations := Some anns'\<rparr>)))"

subsection \<open>Containers and ports by name\<close>

text \<open>\<open>(Some x, i)\<close> for the first element of the name at index i, \<open>(None, -1)\<close> when there is none.\<close>

fun index_by :: "('a \<Rightarrow> string) \<Rightarrow> string \<Rightarrow> int \<Rightarrow> 'a list \<Rightarrow> 'a option \<times> int" where
  "index_by f name i [] = (None, -1)"
| "index_by f name i (x # xs) = (if f x = name then (Some x, i) else index_by f name (i + 1) xs)"

definition GetContainerByName :: "string \<Rightarrow> pod_spec option \<Rightarrow> container option \<times> int" where
  "GetContainerByName name ps =
    (case ps of None \<Rightarrow> (None, -1) | Some p \<Rightarrow> index_by ct_name name 0 (ps_containers p))"

definition GetContainerPortByName :: "string \<Rightarrow> container option \<Rightarrow> container_port option \<times> int" where
  "GetContainerPortByName name c =
    (case c of None \<Rightarrow> (None, -1) | Some c \<Rightarrow> index_by cp_name name 0 (ct_ports c))"

definition GetServicePortByName :: "string \<Rightarrow> service option \<Rightarrow> service_port option \<times> int" where
  "GetServicePortByName name s =
    (case s of None \<Rightarrow> (None, -1) | Some s \<Rightarrow> index_by sp_name name 0 (sv_ports s))"

definition AddOrReplaceContainer :: "string \<Rightarrow> container \<Rightarrow> pod_spec \<Rightarrow> pod_spec" where
  "AddOrReplaceContainer name c ps =
    (let idx = snd (GetContainerByName name (Some ps))
     in if idx < 0 then ps\<lparr>ps_containers := ps_containers ps @ [c]\<rparr>
        else ps\<lparr>ps_containers := (ps_containers ps)[nat idx := c]\<rparr>)"

subsection \<open>Adding or replacing keyed entries\<close>

text \<open>The inner loop: replace the first entry with the key, \<open>None\<close> when there is none.\<close>

fun replace_first :: "('a \<Rightarrow> string) \<Rightarrow> 'a \<Rightarrow> 'a list \<Rightarrow> 'a list option" where
  "replace_first key v [] = None"
| "replace_first key v (x # xs) =
    (if key v = key x then Some (v # xs) else map_option ((#) x) (replace_first key v xs))"

definition upsert_step :: "('a \<Rightarrow> string) \<Rightarrow> 'a list \<times> 'a list \<Rightarrow> 'a \<Rightarrow> 'a list \<times> 'a list" where
  "upsert_step key st v =
    (case replace_first key v (fst st) of
       Some xs \<Rightarrow> (xs, snd st)
     | None \<Rightarrow> (fst st, snd st @ [v]))"

definition upsert_all :: "('a \<Rightarrow> string) \<Rightarrow> 'a list \<Rightarrow> 'a list \<Rightarrow> 'a list" where
  "upsert_all key xs vs = (case foldl (upsert_step key) (xs, []) vs of (xs, new) \<Rightarrow> xs @ new)"

definition AddOrReplaceVolume :: "pod_spec \<Rightarrow> volume list \<Rightarrow> pod_spec" where
  "AddOrReplaceVolume ps vs = ps\<lparr>ps_volumes := upsert_all vl_name (ps_volumes ps) vs\<rparr>"

definition AddOrReplaceVolumeMount :: "container \<Rightarrow> volume_mount list \<Rightarrow> container" where
  "AddOrReplaceVolumeMount c ms = c\<lparr>ct_mounts := upsert_all vm_name (ct_mounts c) ms\<rparr>"

definition AddOrReplaceEnvVar :: "container \<Rightarrow> env_var list \<Rightarrow> container" where
  "AddOrReplaceEnvVar c es = c\<lparr>ct_env := upsert_all ev_name (ct_env c) es\<rparr>"

text \<open>\<open>CreateOrReplaceEnv\<close> sets the value of every variable of the name and keeps the rest of it.\<close>

definition CreateOrReplaceEnv :: "container \<Rightarrow> string \<Rightarrow> string \<Rightarrow> container" where
  "CreateOrReplaceEnv c name v =
    (let env = map (\<lambda>e. if ev_name e = name then e\<lparr>ev_value := v\<rparr> else e) (ct_env c)
     in if list_ex (\<lambda>e. ev_name e = name) (ct_env c) then c\<lparr>ct_env := env\<rparr>
        else c\<lparr>ct_env := env @ [\<lparr>ev_name = name, ev_value = v, ev_valueFrom = None\<rparr>]\<rparr>)"

definition AddEnvIfNotPresent :: "container \<Rightarrow> env_var \<Rightarrow> container \<times> bool" where
  "AddEnvIfNotPresent c e =
    (if list_ex (\<lambda>x. ev_name x = ev_name e) (ct_env c) then (c, False)
     else (c\<lparr>ct_env := ct_env c @ [e]\<rparr>, True))"

text \<open>\<open>VolumeMountAdd\<close>: the loop variable it writes to is a copy, so a mount with the path is left as
  it is.\<close>

definition VolumeMountAdd :: "volume_mount list \<Rightarrow> string \<Rightarrow> string \<Rightarrow> volume_mount list" where
  "VolumeMountAdd ms name path =
    (if list_ex (\<lambda>m. vm_mountPath m = path) ms then ms
     else ms @ [\<lparr>vm_name = name, vm_readOnly = False, vm_mountPath = path, vm_subPath = ''''\<rparr>])"

definition mk_VolumeMount :: "string \<Rightarrow> bool \<Rightarrow> string \<Rightarrow> volume_mount" where
  "mk_VolumeMount name ro path = \<lparr>vm_name = name, vm_readOnly = ro, vm_mountPath = path,
     vm_subPath = ''''\<rparr>"

definition mk_VolumeConfigMap :: "string \<Rightarrow> string \<Rightarrow> (string \<times> string) list \<Rightarrow> volume" where
  "mk_VolumeConfigMap name cm items = \<lparr>vl_name = name, vl_source = VsConfigMap cm items\<rparr>"

text \<open>\<open>VolumeProjectionAddConfigMap\<close>: \<open>None\<close> is the nil dereference on a source that is not a config
  map and stands before the one searched for.\<close>

fun VolumeProjectionAddConfigMap ::
  "string \<Rightarrow> (string \<times> string) list \<Rightarrow> projection list \<Rightarrow> projection list option" where
  "VolumeProjectionAddConfigMap cm items [] = Some [PjConfigMap cm items]"
| "VolumeProjectionAddConfigMap cm items (PjOther s # ps) = None"
| "VolumeProjectionAddConfigMap cm items (PjConfigMap n is # ps) =
    (if n = cm then Some (PjConfigMap cm items # ps)
     else map_option ((#) (PjConfigMap n is)) (VolumeProjectionAddConfigMap cm items ps))"

text \<open>\<open>VolumeAddVolumeProjectionConfigMap\<close>: the projection goes to every volume of the mount name; a
  volume of that name that is not projected is the nil dereference.\<close>

definition VolumeAddVolumeProjectionConfigMap ::
  "volume list \<Rightarrow> string \<Rightarrow> string \<Rightarrow> volume list option" where
  "VolumeAddVolumeProjectionConfigMap vs cm mount =
    (if list_ex (\<lambda>v. vl_name v = mount) vs
     then those (map (\<lambda>v. if vl_name v \<noteq> mount then Some v
                          else case vl_source v of
                            VsProjected ps \<Rightarrow> Some (v\<lparr>vl_source := VsProjected (ps @ [PjConfigMap cm []])\<rparr>)
                          | _ \<Rightarrow> None) vs)
     else Some (vs @ [\<lparr>vl_name = mount, vl_source = VsProjected [PjConfigMap cm []]\<rparr>]))"

subsection \<open>Image tags and pull policies\<close>

definition has_colon :: "string \<Rightarrow> bool" where
  "has_colon s \<longleftrightarrow> CHR '':'' \<in> set s"

definition GetImageTag :: "string \<Rightarrow> string" where
  "GetImageTag s =
    (if s = '''' then '''' else if \<not> has_colon s then ''''
     else rev (takeWhile (\<lambda>c. c \<noteq> CHR '':'') (rev s)))"

definition GetImagePullPolicy :: "string \<Rightarrow> string" where
  "GetImagePullPolicy s =
    (if s = '''' then ''''
     else if \<not> has_colon s then ''Always''
     else if GetImageTag s = ''latest'' then ''Always'' else '''')"

subsection \<open>Services, annotations and new objects\<close>

definition retrieveServiceHost :: "service \<Rightarrow> string" where
  "retrieveServiceHost s =
    (let ns = (if om_namespace (sv_meta s) = '''' then ''default'' else om_namespace (sv_meta s))
     in om_name (sv_meta s) @ ''.'' @ ns @ ''.'' @ ''svc.cluster.local'')"

definition RetrieveServiceURL :: "service \<Rightarrow> string" where
  "RetrieveServiceURL s = ''http://'' @ retrieveServiceHost s @ ''/'' @ om_name (sv_meta s)"

definition GetAnnotationAsBool :: "gomap option \<Rightarrow> string \<Rightarrow> bool" where
  "GetAnnotationAsBool anns key =
    (case anns of None \<Rightarrow> False
     | Some m \<Rightarrow> (case ParseBool (map_get m key) of None \<Rightarrow> False | Some b \<Rightarrow> b))"

definition SetAnnotation :: "gomap option \<Rightarrow> string \<Rightarrow> string \<Rightarrow> gomap option" where
  "SetAnnotation anns key v =
    (case anns of None \<Rightarrow> Some [(key, v)] | Some m \<Rightarrow> Some (AList.update key v m))"

definition IsObjectNew :: "object_meta \<Rightarrow> bool" where
  "IsObjectNew m \<longleftrightarrow> om_uid m = '''' \<and> om_resourceVersion m = ''''"

subsection \<open>Why the containers of a deployment are not ready\<close>

definition terminated_reason :: "container_status \<Rightarrow> string option" where
  "terminated_reason c =
    (case cs_terminated c of
       Some t \<Rightarrow> (if te_exitCode t > 0
                  then Some (''ContainerNotReady: ('' @ te_reason t @ '') '' @ te_message t) else None)
     | None \<Rightarrow> None)"

definition status_reason :: "string \<Rightarrow> container_status \<Rightarrow> string option" where
  "status_reason cname c =
    (if cs_name c = cname \<and> \<not> cs_ready c
     then (case cs_waiting c of
             Some (r, m) \<Rightarrow> if r \<noteq> ''ContainerCreating''
                            then Some (''ContainerNotReady: ('' @ r @ '') '' @ m)
                            else terminated_reason c
           | None \<Rightarrow> terminated_reason c)
     else None)"

definition pods_reason :: "string \<Rightarrow> pod list \<Rightarrow> string" where
  "pods_reason cname pods =
    (case List.map_filter (status_reason cname)
            (concat (map pd_statuses
               (filter (\<lambda>p. \<not> (pd_phase p = ''Running'' \<or> pd_phase p = ''Succeeded'')) pods)))
     of [] \<Rightarrow> '''' | r # _ \<Rightarrow> r)"

text \<open>\<open>ReasonMessage\<close>: the answer to listing the pods by the deployment's selector is an argument.\<close>

definition ReasonMessage :: "(gomap \<Rightarrow> string \<Rightarrow> kerror + pod list) \<Rightarrow> deployment \<Rightarrow> string \<Rightarrow> kerror + string" where
  "ReasonMessage list_pods d cname =
    (case list_pods (dp_selector d) (om_namespace (dp_meta d)) of
       Inl e \<Rightarrow> Inl e
     | Inr pods \<Rightarrow> Inr (pods_reason cname pods))"

subsection \<open>The closed form of add-or-replace\<close>

text \<open>The entry that takes the place of \<open>x\<close>: the new one of the same key, if any.\<close>

definition superseded :: "('a \<Rightarrow> string) \<Rightarrow> 'a list \<Rightarrow> 'a \<Rightarrow> 'a" where
  "superseded key vs x = (case find (\<lambda>v. key v = key x) vs of Some v \<Rightarrow> v | None \<Rightarrow> x)"

definition upsert_spec :: "('a \<Rightarrow> string) \<Rightarrow> 'a list \<Rightarrow> 'a list \<Rightarrow> 'a list" where
  "upsert_spec key xs vs =
    map (superseded key vs) xs @ filter (\<lambda>v. key v \<notin> key ` set xs) vs"

lemma superseded_Nil [simp]: "superseded key [] x = x"
  by (simp add: superseded_def)

lemma key_superseded [simp]: "key (superseded key vs x) = key x"
  by (auto simp: superseded_def dest: find_key_sound(2) split: option.splits)

lemma superseded_cong: "key x = key y \<Longrightarrow> key x \<in> key ` set vs \<Longrightarrow> superseded key vs x = superseded key vs y"
  using find_key_None[of key "key y" vs] by (auto simp: superseded_def split: option.splits)

lemma superseded_id: "key x \<notin> key ` set vs \<Longrightarrow> superseded key vs x = x"
  using find_key_None[of key "key x" vs] by (auto simp: superseded_def split: option.splits)

lemma superseded_mem:
  assumes "distinct (map key vs)" "v \<in> set vs" "key x = key v" shows "superseded key vs x = v"
  using assms find_key_Some_iff[of key vs "key x" v] by (simp add: superseded_def)

lemma replace_first_None: "replace_first key v xs = None \<longleftrightarrow> key v \<notin> key ` set xs"
  by (induction xs) auto

lemma replace_first_Some:
  "distinct (map key xs) \<Longrightarrow> key v \<in> key ` set xs \<Longrightarrow>
    replace_first key v xs = Some (map (superseded key [v]) xs)"
proof (induction xs)
  case (Cons x xs)
  then show ?case
    by (cases "key v = key x") (auto simp: superseded_def intro!: map_idI[symmetric])
qed simp

lemma superseded_step:
  assumes "key v \<notin> key ` set vs"
  shows "superseded key vs (superseded key [v] x) = superseded key (v # vs) x"
proof (cases "key v = key x")
  case True
  then have "superseded key [v] x = v" "superseded key (v # vs) x = v" by (simp_all add: superseded_def)
  then show ?thesis using assms by (simp add: superseded_id)
next
  case False
  then show ?thesis by (simp add: superseded_def)
qed

lemma foldl_upsert:
  assumes "distinct (map key xs)" "distinct (map key vs)"
  shows "foldl (upsert_step key) (xs, new) vs =
    (map (superseded key vs) xs, new @ filter (\<lambda>v. key v \<notin> key ` set xs) vs)"
  using assms
proof (induction vs arbitrary: xs new)
  case (Cons v vs)
  have v: "key v \<notin> key ` set vs" using Cons.prems(2) by auto
  show ?case
  proof (cases "key v \<in> key ` set xs")
    case True
    have keys: "map key (map (superseded key [v]) xs) = map key xs" by simp
    then have set: "key ` set (map (superseded key [v]) xs) = key ` set xs"
      by (metis list.set_map)
    show ?thesis
      using Cons.IH[of "map (superseded key [v]) xs" new] Cons.prems keys True v set
      by (simp add: upsert_step_def replace_first_Some superseded_step o_def)
  next
    case False
    then have "replace_first key v xs = None" by (simp add: replace_first_None)
    moreover have "superseded key (v # vs) x = superseded key vs x" if "x \<in> set xs" for x
      using that False by (auto simp: superseded_def)
    ultimately show ?thesis
      using Cons.IH[of xs "new @ [v]"] Cons.prems False by (simp add: upsert_step_def)
  qed
qed (simp add: map_idI)

lemma upsert_all_spec:
  assumes "distinct (map key xs)" "distinct (map key vs)"
  shows "upsert_all key xs vs = upsert_spec key xs vs"
  using foldl_upsert[OF assms] by (simp add: upsert_all_def upsert_spec_def)

lemma map_key_upsert_spec:
  "map key (upsert_spec key xs vs) = map key xs @ filter (\<lambda>k. k \<notin> key ` set xs) (map key vs)"
  by (simp add: upsert_spec_def filter_map o_def)

lemma distinct_upsert_spec:
  "distinct (map key xs) \<Longrightarrow> distinct (map key vs) \<Longrightarrow> distinct (map key (upsert_spec key xs vs))"
  by (auto simp: map_key_upsert_spec)

lemma upsert_spec_idem:
  assumes "distinct (map key xs)" "distinct (map key vs)"
  shows "upsert_spec key (upsert_spec key xs vs) vs = upsert_spec key xs vs"
proof -
  have "key ` set (upsert_spec key xs vs) = key ` (set xs \<union> set vs)"
    using arg_cong[OF map_key_upsert_spec[of key xs vs], of set] by auto
  then have none: "filter (\<lambda>v. key v \<notin> key ` set (upsert_spec key xs vs)) vs = []"
    by (auto simp: filter_empty_conv)
  have same: "superseded key vs y = y" if "y \<in> set (upsert_spec key xs vs)" for y
  proof (cases "key y \<in> key ` set vs")
    case True
    then obtain v where v: "v \<in> set vs" "key y = key v" by auto
    have "y = v"
      using that v superseded_mem[OF assms(2) v(1)] inj_onD[of key "set vs" y v] assms(2)
      by (auto simp: upsert_spec_def distinct_map)
    then show ?thesis using v superseded_mem[OF assms(2)] by blast
  qed (rule superseded_id)
  then have "map (superseded key vs) (upsert_spec key xs vs) = upsert_spec key xs vs"
    by (simp add: map_idI)
  then show ?thesis using none by (simp add: upsert_spec_def[of key "upsert_spec key xs vs"])
qed

lemma find_upsert_spec:
  assumes "distinct (map key xs)" "distinct (map key vs)"
  shows "find (\<lambda>x. key x = k) (upsert_spec key xs vs) =
    (case find (\<lambda>v. key v = k) vs of Some v \<Rightarrow> Some v | None \<Rightarrow> find (\<lambda>x. key x = k) xs)"
proof -
  note d = distinct_upsert_spec[OF assms]
  show ?thesis
  proof (cases "find (\<lambda>v. key v = k) vs")
    case (Some v)
    then have v: "v \<in> set vs" "key v = k" by (auto dest: find_key_sound)
    have "v \<in> set (upsert_spec key xs vs)"
      using v superseded_mem[OF assms(2) v(1)] by (force simp: upsert_spec_def image_iff)
    then show ?thesis using Some v find_key_Some_iff[OF d, of k v] by simp
  next
    case None
    then have k: "k \<notin> key ` set vs" by (simp add: find_key_None)
    have "find (\<lambda>x. key x = k) (map (superseded key vs) xs) = find (\<lambda>x. key x = k) xs"
      using k by (induction xs) (auto simp: superseded_id)
    moreover have "find (\<lambda>x. key x = k) (filter (\<lambda>v. key v \<notin> key ` set xs) vs) = None"
      using k by (auto simp: find_None_iff)
    ultimately show ?thesis using None by (simp add: upsert_spec_def find_append split: option.splits)
  qed
qed

lemma superseded_absent_list: "key ` set xs \<inter> key ` set vs = {} \<Longrightarrow> map (superseded key vs) xs = xs"
  by (rule map_idI) (auto intro: superseded_id)

subsection \<open>Index lookups\<close>

lemma index_by_None: "fst (index_by f n i xs) = None \<longleftrightarrow> n \<notin> f ` set xs"
  by (induction xs arbitrary: i) auto

lemma index_by_spec:
  "index_by f n i xs =
    (case find (\<lambda>x. f x = n) xs of
       None \<Rightarrow> (None, -1)
     | Some x \<Rightarrow> (Some x, i + int (length (takeWhile (\<lambda>x. f x \<noteq> n) xs))))"
  by (induction xs arbitrary: i) (auto split: option.splits)

lemma replace_at_takeWhile:
  "n \<in> f ` set xs \<Longrightarrow> f y = n \<Longrightarrow>
    replace_first f y xs = Some (xs[length (takeWhile (\<lambda>x. f x \<noteq> n) xs) := y])"
  by (induction xs) auto

text \<open>With the container's own name, adding or replacing a container is the keyed update.\<close>

lemma AddOrReplaceContainer_upsert:
  assumes "ct_name c = name"
  shows "ps_containers (AddOrReplaceContainer name c ps) = upsert_all ct_name (ps_containers ps) [c]"
proof (cases "find (\<lambda>x. ct_name x = name) (ps_containers ps)")
  case None
  then have "replace_first ct_name c (ps_containers ps) = None"
    using assms by (simp add: replace_first_None find_key_None)
  then show ?thesis
    using None by (simp add: AddOrReplaceContainer_def GetContainerByName_def index_by_spec
        upsert_all_def upsert_step_def)
next
  case (Some x)
  then have "name \<in> ct_name ` set (ps_containers ps)" by (force dest: find_key_sound)
  then have "replace_first ct_name c (ps_containers ps) =
      Some ((ps_containers ps)[length (takeWhile (\<lambda>x. ct_name x \<noteq> name) (ps_containers ps)) := c])"
    using assms by (rule replace_at_takeWhile)
  then show ?thesis
    using Some by (simp add: AddOrReplaceContainer_def GetContainerByName_def index_by_spec Let_def
        upsert_all_def upsert_step_def)
qed

subsection \<open>Checksums and restarts\<close>

lemma map_init_Some [simp]: "map_init (Some m) = m" by (simp add: map_init_def)

lemma calculateHash_not_Nil [simp]: "calculateHash u m uf mf \<noteq> ''''"
  by (simp add: calculateHash_def)

lemma annotation_keys_neq [simp]: "RestartedAt \<noteq> Checksum" "Checksum \<noteq> RestartedAt"
  by (simp_all add: RestartedAt_def Checksum_def)

definition template_annotation :: "deployment \<Rightarrow> string \<Rightarrow> string" where
  "template_annotation d k = map_get (map_init (dp_templateAnnotations d)) k"

subsection \<open>Properties\<close>

text \<open>C33: with distinct names on both sides, \<open>AddOrReplaceVolume\<close> keeps every existing volume at its
  place (replaced in place when a new volume has its name), appends the remaining new volumes in
  their order, and a second application with the same volumes changes nothing: the pod
  specification is stable across reconciliations.\<close>

theorem volumes_stable:
  assumes "distinct (map vl_name (ps_volumes ps))" "distinct (map vl_name vs)"
  shows "ps_volumes (AddOrReplaceVolume ps vs) = upsert_spec vl_name (ps_volumes ps) vs \<and>
    map vl_name (ps_volumes (AddOrReplaceVolume ps vs)) =
      map vl_name (ps_volumes ps) @
      filter (\<lambda>n. n \<notin> vl_name ` set (ps_volumes ps)) (map vl_name vs) \<and>
    AddOrReplaceVolume (AddOrReplaceVolume ps vs) vs = AddOrReplaceVolume ps vs"
proof (intro conjI)
  show "AddOrReplaceVolume (AddOrReplaceVolume ps vs) vs = AddOrReplaceVolume ps vs"
    using assms
    by (simp add: AddOrReplaceVolume_def upsert_all_spec distinct_upsert_spec upsert_spec_idem)
qed (use assms in \<open>simp_all add: AddOrReplaceVolume_def upsert_all_spec map_key_upsert_spec\<close>)

definition ex_pod_spec :: pod_spec where
  "ex_pod_spec = \<lparr>ps_containers = [],
     ps_initContainers = [], ps_volumes = [mk_VolumeConfigMap ''a'' ''x'' [], mk_VolumeConfigMap ''b'' ''y'' []]\<rparr>"

theorem volumes_stable_witness:
  "ps_volumes (AddOrReplaceVolume ex_pod_spec [mk_VolumeConfigMap ''c'' ''z'' [], mk_VolumeConfigMap ''a'' ''w'' []])
   = [mk_VolumeConfigMap ''a'' ''w'' [], mk_VolumeConfigMap ''b'' ''y'' [], mk_VolumeConfigMap ''c'' ''z'' []]"
  using volumes_stable[of ex_pod_spec "[mk_VolumeConfigMap ''c'' ''z'' [], mk_VolumeConfigMap ''a'' ''w'' []]"]
  by (simp add: ex_pod_spec_def mk_VolumeConfigMap_def upsert_spec_def superseded_def)

text \<open>The checksum annotation makes a rollout happen exactly when the properties change: a second
  reconciliation with the same properties leaves the deployment as it is, the restart annotation
  is stamped only when a different checksum was recorded before, and a paused deployment is an
  error.\<close>

theorem checksum_rollout:
  shows "(dp_paused d \<longrightarrow> AnnotateDeploymentConfigChecksum now u m uf mf d = Inl paused_error) \<and>
    (\<not> dp_paused d \<longrightarrow> (\<exists>d'. AnnotateDeploymentConfigChecksum now u m uf mf d = Inr d' \<and>
       AnnotateDeploymentConfigChecksum later u m uf mf d' = Inr d' \<and>
       template_annotation d' Checksum = calculateHash u m uf mf \<and>
       template_annotation d' RestartedAt =
         (if template_annotation d Checksum \<in> {'''', calculateHash u m uf mf}
          then template_annotation d RestartedAt else rfc3339 now)))"
  by (auto simp: AnnotateDeploymentConfigChecksum_def template_annotation_def Let_def)

definition ex_deployment :: deployment where
  "ex_deployment = \<lparr>dp_meta = new_meta ''ns'' ''wf'', dp_paused = False, dp_selector = [],
     dp_replicas = Some 1, dp_strategy = '''', dp_templateLabels = [],
     dp_templateAnnotations = Some [(Checksum, ''old'')], dp_pod = ex_pod_spec, dp_conditions = []\<rparr>"

definition ex_cm :: config_map where
  "ex_cm = \<lparr>cm_meta = new_meta ''ns'' ''cm'', cm_data = Some [(''application.properties'', ''a=b'')]\<rparr>"

lemma calculateHash_neq_short: "length s \<noteq> 64 \<Longrightarrow> calculateHash u m uf mf \<noteq> s"
  using sha256_hex_length by (auto simp: calculateHash_def)

theorem checksum_rollout_witness:
  "\<exists>d'. AnnotateDeploymentConfigChecksum 0 ex_cm ex_cm ''application.properties'' ''p'' ex_deployment = Inr d' \<and>
     template_annotation d' RestartedAt = rfc3339 0"
  using checksum_rollout[of ex_deployment 0 ex_cm ex_cm "''application.properties''" "''p''"]
    calculateHash_neq_short[of "''old''" ex_cm ex_cm "''application.properties''" "''p''"]
  by (auto simp: ex_deployment_def template_annotation_def map_get_def)

text \<open>an image reference whose only colon is the port of its registry is taken for one with a
  tag: its pull policy is left empty although it names no tag, unlike every other reference
  without a tag.\<close>

theorem registry_port_is_taken_for_tag:
  assumes "\<not> has_colon rest" "rest \<noteq> ''latest''"
  shows "GetImagePullPolicy (host @ '':'' @ rest) = '''' \<and> GetImageTag (host @ '':'' @ rest) = rest \<and>
    (rest \<noteq> '''' \<longrightarrow> GetImagePullPolicy rest = ''Always'')"
proof -
  have "takeWhile (\<lambda>c. c \<noteq> CHR '':'') (rev rest @ CHR '':'' # rev host) = rev rest"
    using assms(1) by (subst takeWhile_append2) (auto simp: has_colon_def)
  then have "GetImageTag (host @ '':'' @ rest) = rest"
    by (simp add: GetImageTag_def has_colon_def)
  then show ?thesis using assms by (simp add: GetImagePullPolicy_def has_colon_def)
qed

theorem registry_port_is_taken_for_tag_witness:
  "GetImagePullPolicy ''localhost:5000/greeting'' = '''' \<and> GetImagePullPolicy ''5000/greeting'' = ''Always''"
  using registry_port_is_taken_for_tag[of "''5000/greeting''" "''localhost''"]
  by (simp add: has_colon_def)

end
