(* ===== verification/Kube_Client.thy ===== *)
theory Kube_Client
  imports K8s_Types
begin

text \<open>
  The API server as the operator sees it through \<open>sigs.k8s.io/controller-runtime\<close>, which is not in
  the repository: for each kind of object a record of operations on an abstract world \<open>'w\<close>.  Reads do
  not change the world; a write answers with an error or with the new world.  Nothing is assumed of
  the operations unless a lemma says so: the locale \<open>object_store\<close> states the documented contract
  of a store without concurrent writers, and the association-list store at the end provides it.
\<close>

record ('w, 'o) client =
  c_get :: "'w \<Rightarrow> string \<Rightarrow> string \<Rightarrow> kerror + 'o"
  c_list :: "'w \<Rightarrow> string \<Rightarrow> kerror + 'o list"
  c_create :: "'w \<Rightarrow> 'o \<Rightarrow> kerror option \<times> 'w"
  c_update :: "'w \<Rightarrow> 'o \<Rightarrow> kerror option \<times> 'w"
  c_status :: "'w \<Rightarrow> 'o \<Rightarrow> kerror option \<times> 'w"
  c_patch :: "'w \<Rightarrow> 'o \<Rightarrow> kerror option \<times> 'w"
  c_delete :: "'w \<Rightarrow> string \<Rightarrow> string \<Rightarrow> kerror option \<times> 'w"

text \<open>How a Go function ends: with a value, with an error, or with a panic.\<close>

datatype 'a outcome = Ret 'a | Fail kerror | Panic

text \<open>\<open>retry.RetryOnConflict\<close> with the default back-off: at most five attempts in all, repeated only
  on a conflict; the answer is that of the last attempt.\<close>

fun retry_conflict :: "nat \<Rightarrow> ('w \<Rightarrow> kerror option \<times> 'w) \<Rightarrow> 'w \<Rightarrow> kerror option \<times> 'w" where
  "retry_conflict 0 f w = f w"
| "retry_conflict (Suc n) f w =
    (case f w of
       (Some e, w') \<Rightarrow> if IsConflict e then retry_conflict n f w' else (Some e, w')
     | (None, w') \<Rightarrow> (None, w'))"

definition RetryOnConflict :: "('w \<Rightarrow> kerror option \<times> 'w) \<Rightarrow> 'w \<Rightarrow> kerror option \<times> 'w" where
  "RetryOnConflict f w = retry_conflict 4 f w"

subsection \<open>The contract of a store\<close>

locale object_store =
  fixes cl :: "('w, 'o) client"
    and ns_of :: "'o \<Rightarrow> string" and name_of :: "'o \<Rightarrow> string"
  assumes create_get: "c_create cl w x = (None, w') \<Longrightarrow> c_get cl w' (ns_of x) (name_of x) = Inr x"
    and create_new: "c_create cl w x = (None, w') \<Longrightarrow> \<exists>e. c_get cl w (ns_of x) (name_of x) = Inl e"
    and update_get: "c_update cl w x = (None, w') \<Longrightarrow> c_get cl w' (ns_of x) (name_of x) = Inr x"
    and create_frame: "c_create cl w x = (None, w') \<Longrightarrow> (n, m) \<noteq> (ns_of x, name_of x) \<Longrightarrow>
      c_get cl w' n m = c_get cl w n m"
    and update_frame: "c_update cl w x = (None, w') \<Longrightarrow> (n, m) \<noteq> (ns_of x, name_of x) \<Longrightarrow>
      c_get cl w' n m = c_get cl w n m"
    and delete_get: "c_delete cl w n m = (None, w') \<Longrightarrow> \<exists>e. c_get cl w' n m = Inl e \<and> IsNotFound e"
    and delete_frame: "c_delete cl w n m = (None, w') \<Longrightarrow> (n', m') \<noteq> (n, m) \<Longrightarrow>
      c_get cl w' n' m' = c_get cl w n' m'"
    and delete_missing: "c_delete cl w n m = (Some e, w') \<Longrightarrow> IsNotFound e \<Longrightarrow>
      w' = w \<and> (\<exists>e. c_get cl w n m = Inl e \<and> IsNotFound e)"
begin

lemma create_not_idempotent:
  assumes "c_create cl w x = (None, w')" shows "\<exists>e w''. c_create cl w' x = (Some e, w'')"
proof (cases "c_create cl w' x")
  case (Pair a w'')
  then show ?thesis using create_get[OF assms] create_new[of w' x w''] by (cases a) auto
qed

lemma update_twice_frame:
  assumes "c_update cl w x = (None, w1)" "c_update cl w1 y = (None, w2)"
    "(ns_of y, name_of y) \<noteq> (ns_of x, name_of x)"
  shows "c_get cl w2 (ns_of x) (name_of x) = Inr x"
  using update_get[OF assms(1)] update_frame[OF assms(2), of "ns_of x" "name_of x"] assms(3) by auto

end

subsection \<open>A store in memory\<close>

text \<open>A list of objects keyed by namespace and name, in insertion order, embedded in a larger world by
  a getter and a setter.  The witnesses run the operator's code against it.\<close>

definition store_find :: "('o \<Rightarrow> string) \<Rightarrow> ('o \<Rightarrow> string) \<Rightarrow> string \<Rightarrow> string \<Rightarrow> 'o list \<Rightarrow> 'o option" where
  "store_find ns_of name_of n m xs = find (\<lambda>x. ns_of x = n \<and> name_of x = m) xs"

fun store_set :: "('o \<Rightarrow> string) \<Rightarrow> ('o \<Rightarrow> string) \<Rightarrow> 'o \<Rightarrow> 'o list \<Rightarrow> 'o list" where
  "store_set ns_of name_of v [] = []"
| "store_set ns_of name_of v (x # xs) =
    (if ns_of x = ns_of v \<and> name_of x = name_of v then v # xs else x # store_set ns_of name_of v xs)"

definition mem_client ::
  "('o \<Rightarrow> string) \<Rightarrow> ('o \<Rightarrow> string) \<Rightarrow> ('w \<Rightarrow> 'o list) \<Rightarrow> ('o list \<Rightarrow> 'w \<Rightarrow> 'w) \<Rightarrow> ('w, 'o) client" where
  "mem_client ns_of name_of get upd =
    (let put = (\<lambda>w x. case store_find ns_of name_of (ns_of x) (name_of x) (get w) of
                        None \<Rightarrow> (Some (NotFound ''not found''), w)
                      | Some _ \<Rightarrow> (None, upd (store_set ns_of name_of x (get w)) w))
     in \<lparr>c_get = (\<lambda>w n m. case store_find ns_of name_of n m (get w) of
                          None \<Rightarrow> Inl (NotFound ''not found'') | Some x \<Rightarrow> Inr x),
         c_list = (\<lambda>w n. Inr (filter (\<lambda>x. n = '''' \<or> ns_of x = n) (get w))),
         c_create = (\<lambda>w x. case store_find ns_of name_of (ns_of x) (name_of x) (get w) of
                            None \<Rightarrow> (None, upd (get w @ [x]) w)
                          | Some _ \<Rightarrow> (Some (AlreadyExists ''already exists''), w)),
         c_update = put, c_status = put, c_patch = put,
         c_delete = (\<lambda>w n m. case store_find ns_of name_of n m (get w) of
                              None \<Rightarrow> (Some (NotFound ''not found''), w)
                            | Some _ \<Rightarrow> (None, upd (filter (\<lambda>x. \<not> (ns_of x = n \<and> name_of x = m)) (get w)) w))\<rparr>)"

lemma store_find_append:
  "store_find f g n m (xs @ ys) =
    (case store_find f g n m xs of None \<Rightarrow> store_find f g n m ys | Some x \<Rightarrow> Some x)"
  unfolding store_find_def by (rule find_append)

lemma store_find_set:
  "store_find f g n m (store_set f g v xs) =
    (if (n, m) = (f v, g v) then (if store_find f g n m xs = None then None else Some v)
     else store_find f g n m xs)"
  by (induction xs) (auto simp: store_find_def)

lemma store_find_delete:
  "store_find f g n m (filter (\<lambda>x. f x = n \<longrightarrow> g x \<noteq> m) xs) = None"
  by (auto simp: store_find_def find_None_iff)

lemma store_find_delete_other:
  "(n', m') \<noteq> (n, m) \<Longrightarrow>
    store_find f g n' m' (filter (\<lambda>x. f x = n \<longrightarrow> g x \<noteq> m) xs) = store_find f g n' m' xs"
  by (induction xs) (auto simp: store_find_def)

lemma mem_client_store:
  assumes "\<And>v w. get (upd v w) = v"
  shows "object_store (mem_client f g get upd) f g"
  by unfold_locales
    (auto simp: mem_client_def Let_def assms store_find_append store_find_set store_find_delete
      store_find_delete_other
      store_find_def[of _ _ _ _ "[x]" for x] split: option.splits if_splits)

interpretation mem_list: object_store "mem_client f g (\<lambda>w. w) (\<lambda>v w. v)" f g
  by (rule mem_client_store) simp

end
