(* ===== verification/Conditions.thy ===== *)
theory Conditions
  imports Prelude
begin

text \<open>
  The conditions of a resource's status and their manager (\<open>api/condition_types.go\<close>,
  \<open>api/status_types.go\<close>).  A status keeps a list of conditions; the manager is the only writer.  A
  \<open>*Condition\<close> that may be nil is an option.  The clock is an argument of every operation that
  writes (nanoseconds, 0 is the zero time); an operation that writes twice stamps both writes with
  one reading.  Messages are the already formatted strings; where the code passes the text of an error
  as the format, the text is taken to have no percent sign.  The manager's reader is never nil in
  the operator (\<open>Manager()\<close> of each status passes itself), so the nil guard has no branch here.
\<close>

subsection \<open>Data\<close>

datatype cond_status = CTrue | CFalse | CUnknown

record condition =
  cd_type :: string
  cd_status :: cond_status
  cd_lastUpdate :: int
  cd_reason :: string
  cd_message :: string

record api_status =
  st_conditions :: "condition list"
  st_observedGeneration :: int

definition RunningConditionType :: string where "RunningConditionType = ''Running''"
definition SucceedConditionType :: string where "SucceedConditionType = ''Succeed''"
definition BuiltConditionType :: string where "BuiltConditionType = ''Built''"

definition WaitingForDeploymentReason :: string where
  "WaitingForDeploymentReason = ''WaitingForDeployment''"
definition ExternalResourcesNotFoundReason :: string where
  "ExternalResourcesNotFoundReason = ''ExternalResourcesNotFound''"
definition DeploymentFailureReason :: string where
  "DeploymentFailureReason = ''DeploymentFailure''"
definition DeploymentUnavailableReason :: string where
  "DeploymentUnavailableReason = ''DeploymentIsUnavailable''"
definition RedeploymentExhaustedReason :: string where
  "RedeploymentExhaustedReason = ''AttemptToRedeployFailed''"
definition WaitingForPlatformReason :: string where
  "WaitingForPlatformReason = ''WaitingForPlatform''"
definition BuildFailedReason :: string where "BuildFailedReason = ''BuildFailedReason''"
definition WaitingForBuildReason :: string where "WaitingForBuildReason = ''WaitingForBuild''"
definition BuildIsRunningReason :: string where "BuildIsRunningReason = ''BuildIsRunning''"
definition BuildSkippedReason :: string where "BuildSkippedReason = ''BuildSkipped''"
definition BuildSuccessfulReason :: string where "BuildSuccessfulReason = ''BuildSuccessful''"
definition BuildMarkedToRestartReason :: string where
  "BuildMarkedToRestartReason = ''BuildMarkedToRestart''"

lemmas condition_type_defs = RunningConditionType_def SucceedConditionType_def BuiltConditionType_def

lemmas condition_reason_defs = WaitingForDeploymentReason_def ExternalResourcesNotFoundReason_def
  DeploymentFailureReason_def DeploymentUnavailableReason_def RedeploymentExhaustedReason_def
  WaitingForPlatformReason_def BuildFailedReason_def WaitingForBuildReason_def
  BuildIsRunningReason_def BuildSkippedReason_def BuildSuccessfulReason_def
  BuildMarkedToRestartReason_def

lemma condition_types_neq [simp]:
  "RunningConditionType \<noteq> BuiltConditionType" "BuiltConditionType \<noteq> RunningConditionType"
  by (simp_all add: condition_type_defs)

text \<open>The nil-safe readers of \<open>*Condition\<close>.\<close>

definition IsTrue :: "condition option \<Rightarrow> bool" where
  "IsTrue c = (case c of None \<Rightarrow> False | Some c \<Rightarrow> cd_status c = CTrue)"

definition IsFalse :: "condition option \<Rightarrow> bool" where
  "IsFalse c = (case c of None \<Rightarrow> False | Some c \<Rightarrow> cd_status c = CFalse)"

definition IsUnknown :: "condition option \<Rightarrow> bool" where
  "IsUnknown c = (case c of None \<Rightarrow> True | Some c \<Rightarrow> cd_status c = CUnknown)"

definition GetReason :: "condition option \<Rightarrow> string" where
  "GetReason c = (case c of None \<Rightarrow> '''' | Some c \<Rightarrow> cd_reason c)"

definition GetMessage :: "condition option \<Rightarrow> string" where
  "GetMessage c = (case c of None \<Rightarrow> '''' | Some c \<Rightarrow> cd_message c)"

text \<open>\<open>Status.GetCondition\<close>: the first condition of the type, or nil.\<close>

definition getCondition :: "api_status \<Rightarrow> string \<Rightarrow> condition option" where
  "getCondition s t = find (\<lambda>c. cd_type c = t) (st_conditions s)"

subsection \<open>The manager's writes\<close>

text \<open>The loop of \<open>setCondition\<close>: \<open>None\<close> when it returns because only the time would change,
  otherwise the conditions of the other types.  The condition being set takes over the time of the
  one it is compared with, so a later duplicate is compared with that time replaced again.\<close>

fun set_scan :: "condition \<Rightarrow> condition list \<Rightarrow> condition list option" where
  "set_scan cond [] = Some []"
| "set_scan cond (c # cs) =
    (if cd_type c \<noteq> cd_type cond then map_option ((#) c) (set_scan cond cs)
     else (let cond' = cond\<lparr>cd_lastUpdate := cd_lastUpdate c\<rparr>
           in if cond' = c then None else set_scan cond' cs))"

definition setCondition :: "int \<Rightarrow> condition \<Rightarrow> api_status \<Rightarrow> api_status" where
  "setCondition now cond s =
    (case set_scan cond (st_conditions s) of
       None \<Rightarrow> s
     | Some others \<Rightarrow>
         s\<lparr>st_conditions := sort_key cd_type (others @ [cond\<lparr>cd_lastUpdate := now\<rparr>])\<rparr>)"

text \<open>The condition literals of the callers: the fields a literal leaves out have Go's zero values.\<close>

definition mk_condition :: "string \<Rightarrow> cond_status \<Rightarrow> string \<Rightarrow> string \<Rightarrow> condition" where
  "mk_condition t st reason msg =
    \<lparr>cd_type = t, cd_status = st, cd_lastUpdate = 0, cd_reason = reason, cd_message = msg\<rparr>"

text \<open>A manager: the top-level (\<open>ready\<close>) condition and its dependents.\<close>

record condition_manager =
  cm_ready :: string
  cm_dependents :: "string list"

definition NewConditionManager :: "string \<Rightarrow> string list \<Rightarrow> condition_manager" where
  "NewConditionManager ready deps = \<lparr>cm_ready = ready, cm_dependents = deps\<rparr>"

definition isTerminal :: "condition_manager \<Rightarrow> string \<Rightarrow> bool" where
  "isTerminal m t \<longleftrightarrow> t \<in> set (cm_dependents m) \<or> t = cm_ready m"

definition ClearCondition ::
  "condition_manager \<Rightarrow> string \<Rightarrow> api_status \<Rightarrow> string option \<times> api_status" where
  "ClearCondition m t s =
    (if isTerminal m t then (Some ''clearing terminal conditions not implemented'', s)
     else case getCondition s t of
       None \<Rightarrow> (None, s)
     | Some _ \<Rightarrow> (None, s\<lparr>st_conditions :=
                      sort_key cd_type (filter (\<lambda>c. cd_type c \<noteq> t) (st_conditions s))\<rparr>))"

definition MarkTrue :: "int \<Rightarrow> string \<Rightarrow> api_status \<Rightarrow> api_status" where
  "MarkTrue now t s = setCondition now (mk_condition t CTrue '''' '''') s"

definition MarkTrueWithReason :: "int \<Rightarrow> string \<Rightarrow> string \<Rightarrow> string \<Rightarrow> api_status \<Rightarrow> api_status" where
  "MarkTrueWithReason now t reason msg s = setCondition now (mk_condition t CTrue reason msg) s"

definition MarkFalse :: "int \<Rightarrow> string \<Rightarrow> string \<Rightarrow> string \<Rightarrow> api_status \<Rightarrow> api_status" where
  "MarkFalse now t reason msg s = setCondition now (mk_condition t CFalse reason msg) s"

text \<open>The dependents' loop of \<open>MarkUnknown\<close>: \<open>Inl ()\<close> when a dependent is False (the loop ends
  there), \<open>Inr b\<close> with whether the type was seen among the dependents.\<close>

fun unknown_scan :: "api_status \<Rightarrow> string \<Rightarrow> bool \<Rightarrow> string list \<Rightarrow> unit + bool" where
  "unknown_scan s t isDependent [] = Inr isDependent"
| "unknown_scan s t isDependent (d # ds) =
    (if IsFalse (getCondition s d) then Inl ()
     else unknown_scan s t (if d = t then True else isDependent) ds)"

definition MarkUnknown ::
  "int \<Rightarrow> condition_manager \<Rightarrow> string \<Rightarrow> string \<Rightarrow> string \<Rightarrow> api_status \<Rightarrow> api_status" where
  "MarkUnknown now m t reason msg s =
    (let s = setCondition now (mk_condition t CUnknown reason msg) s
     in case unknown_scan s t False (cm_dependents m) of
          Inl _ \<Rightarrow>
            (if \<not> IsFalse (getCondition s (cm_ready m))
             then MarkFalse now (cm_ready m) reason msg s else s)
        | Inr isDependent \<Rightarrow>
            (if isDependent
             then setCondition now (mk_condition (cm_ready m) CUnknown reason msg) s else s))"

definition initializeTerminalCondition ::
  "int \<Rightarrow> cond_status \<Rightarrow> api_status \<Rightarrow> string \<Rightarrow> api_status" where
  "initializeTerminalCondition now st s t =
    (case getCondition s t of
       Some _ \<Rightarrow> s
     | None \<Rightarrow> setCondition now (mk_condition t st '''' '''') s)"

definition InitializeConditions :: "int \<Rightarrow> condition_manager \<Rightarrow> api_status \<Rightarrow> api_status" where
  "InitializeConditions now m s =
    (let (ready, s) =
       (case getCondition s (cm_ready m) of
          Some c \<Rightarrow> (c, s)
        | None \<Rightarrow> (let c = mk_condition (cm_ready m) CUnknown '''' '''' in (c, setCondition now c s)));
         st = (if cd_status ready = CTrue then CTrue else CUnknown)
     in foldl (initializeTerminalCondition now st) s (cm_dependents m))"

subsection \<open>Well-formed condition lists\<close>

text \<open>Sorted by type with one condition for each type, which is what the API server's merge key
  asks of the list.\<close>

definition wf_conditions :: "condition list \<Rightarrow> bool" where
  "wf_conditions cs \<longleftrightarrow> sorted (map cd_type cs) \<and> distinct (map cd_type cs)"

definition wf_status :: "api_status \<Rightarrow> bool" where
  "wf_status s \<longleftrightarrow> wf_conditions (st_conditions s)"

text \<open>What \<open>setCondition\<close> leaves for the type it sets, from what was there before.\<close>

definition stamped :: "int \<Rightarrow> condition \<Rightarrow> condition option \<Rightarrow> condition" where
  "stamped now c old =
    (case old of
       None \<Rightarrow> c\<lparr>cd_lastUpdate := now\<rparr>
     | Some b \<Rightarrow> if c\<lparr>cd_lastUpdate := cd_lastUpdate b\<rparr> = b then b else c\<lparr>cd_lastUpdate := now\<rparr>)"

lemma set_scan_distinct:
  assumes "distinct (map cd_type cs)"
  shows "set_scan c cs =
    (case find (\<lambda>x. cd_type x = cd_type c) cs of
       None \<Rightarrow> Some cs
     | Some b \<Rightarrow> if c\<lparr>cd_lastUpdate := cd_lastUpdate b\<rparr> = b then None
                else Some (filter (\<lambda>x. cd_type x \<noteq> cd_type c) cs))"
  using assms
proof (induction cs arbitrary: c)
  case (Cons b cs)
  show ?case
  proof (cases "cd_type b = cd_type c")
    case True
    then have none: "find (\<lambda>x. cd_type x = cd_type c) cs = None" "filter (\<lambda>x. cd_type x \<noteq> cd_type c) cs = cs"
      using Cons.prems by (auto simp: find_None_iff filter_id_conv image_iff)
    from True show ?thesis using Cons none by (simp add: Let_def)
  next
    case False
    then show ?thesis using Cons by (auto split: option.splits)
  qed
qed simp

lemma set_scan_other:
  "set_scan c cs = Some rest \<Longrightarrow> t \<noteq> cd_type c \<Longrightarrow>
    find (\<lambda>x. cd_type x = t) rest = find (\<lambda>x. cd_type x = t) cs"
  by (induction c cs arbitrary: rest rule: set_scan.induct) (auto split: if_splits simp: Let_def)

lemma set_scan_sub:
  "set_scan c cs = Some rest \<Longrightarrow> rest = filter (\<lambda>x. cd_type x \<noteq> cd_type c) cs"
  by (induction c cs arbitrary: rest rule: set_scan.induct) (auto split: if_splits simp: Let_def)

lemma setCondition_wf [intro]:
  assumes "wf_status s" shows "wf_status (setCondition now c s)"
proof (cases "set_scan c (st_conditions s)")
  case (Some rest)
  then show ?thesis
    using assms set_scan_sub[OF Some]
    by (auto simp: setCondition_def wf_status_def wf_conditions_def distinct_map_filter)
qed (use assms in \<open>simp add: setCondition_def\<close>)

lemma getCondition_setCondition_same:
  assumes "wf_status s"
  shows "getCondition (setCondition now c s) (cd_type c) = Some (stamped now c (getCondition s (cd_type c)))"
proof -
  have d: "distinct (map cd_type (st_conditions s))"
    using assms by (simp add: wf_status_def wf_conditions_def)
  have d': "distinct (map cd_type (filter (\<lambda>x. cd_type x \<noteq> cd_type c) (st_conditions s) @ [c\<lparr>cd_lastUpdate := now\<rparr>]))"
    using d by (auto simp: distinct_map_filter)
  show ?thesis
  proof (cases "find (\<lambda>x. cd_type x = cd_type c) (st_conditions s)")
    case None
    have f: "filter (\<lambda>x. cd_type x \<noteq> cd_type c) (st_conditions s) = st_conditions s"
      using None by (auto simp: find_None_iff filter_id_conv)
    have "find (\<lambda>x. cd_type x = cd_type c) (sort_key cd_type (st_conditions s @ [c\<lparr>cd_lastUpdate := now\<rparr>]))
        = Some (c\<lparr>cd_lastUpdate := now\<rparr>)"
      using d' by (simp only: f find_sort_key find_append None) simp
    then show ?thesis
      using None d by (simp add: setCondition_def set_scan_distinct getCondition_def stamped_def)
  next
    case (Some b)
    have "find (\<lambda>x. cd_type x = cd_type c)
         (sort_key cd_type (filter (\<lambda>x. cd_type x \<noteq> cd_type c) (st_conditions s) @ [c\<lparr>cd_lastUpdate := now\<rparr>]))
        = Some (c\<lparr>cd_lastUpdate := now\<rparr>)"
      using d' by (simp only: find_sort_key find_append find_filter_neq) simp
    then show ?thesis
      using Some d by (simp add: setCondition_def set_scan_distinct getCondition_def stamped_def)
  qed
qed

lemma getCondition_setCondition_other:
  assumes "t \<noteq> cd_type c" "wf_status s"
  shows "getCondition (setCondition now c s) t = getCondition s t"
proof (cases "set_scan c (st_conditions s)")
  case (Some rest)
  have d: "distinct (map cd_type (rest @ [c\<lparr>cd_lastUpdate := now\<rparr>]))"
    using assms(2) set_scan_sub[OF Some]
    by (auto simp: wf_status_def wf_conditions_def distinct_map_filter)
  have "find (\<lambda>x. cd_type x = t) (sort_key cd_type (rest @ [c\<lparr>cd_lastUpdate := now\<rparr>]))
      = find (\<lambda>x. cd_type x = t) (st_conditions s)"
    using d set_scan_other[OF Some assms(1)] assms(1)
    by (simp only: find_sort_key find_append) (auto split: option.splits)
  then show ?thesis using Some by (simp add: setCondition_def getCondition_def)
qed (simp add: setCondition_def)

subsection \<open>The contract of a condition store\<close>

text \<open>What the rest of the operator relies on: reading back what was written, leaving the other
  types alone and keeping the representation well formed.  A reader sees the payload of a condition
  (status, reason, message) and, separately, its time.\<close>

type_synonym payload = "cond_status \<times> string \<times> string"

definition payload :: "condition \<Rightarrow> payload" where
  "payload c = (cd_status c, cd_reason c, cd_message c)"

lemma payload_mk_condition [simp]: "payload (mk_condition t st r m) = (st, r, m)"
  by (simp add: payload_def mk_condition_def)

lemma mk_condition_sel [simp]:
  "cd_type (mk_condition t st r m) = t" "cd_status (mk_condition t st r m) = st"
  "cd_reason (mk_condition t st r m) = r" "cd_message (mk_condition t st r m) = m"
  by (simp_all add: mk_condition_def)

lemma same_but_time:
  "c\<lparr>cd_lastUpdate := cd_lastUpdate b\<rparr> = b \<longleftrightarrow> cd_type b = cd_type c \<and> payload b = payload c"
  by (cases b; cases c) (auto simp: payload_def)

lemma payload_time [simp]: "payload (c\<lparr>cd_lastUpdate := n\<rparr>) = payload c"
  by (simp add: payload_def)

lemma payload_stamped [simp]: "payload (stamped now c old) = payload c"
  by (cases old) (auto simp: stamped_def same_but_time)

lemma cd_status_stamped [simp]: "cd_status (stamped now c old) = cd_status c"
  using payload_stamped[of now c old] by (simp add: payload_def)

lemma stamped_time:
  "cd_lastUpdate (stamped now c old) =
    (case old of Some b \<Rightarrow> if cd_type b = cd_type c \<and> payload b = payload c then cd_lastUpdate b else now
     | None \<Rightarrow> now)"
  by (cases old) (simp_all add: stamped_def same_but_time)

locale condition_store =
  fixes get :: "'s \<Rightarrow> string \<Rightarrow> condition option"
    and put :: "int \<Rightarrow> condition \<Rightarrow> 's \<Rightarrow> 's"
    and ok :: "'s \<Rightarrow> bool"
  assumes put_ok: "ok s \<Longrightarrow> ok (put now c s)"
    and get_same: "ok s \<Longrightarrow> get (put now c s) (cd_type c) = Some (stamped now c (get s (cd_type c)))"
    and get_other: "ok s \<Longrightarrow> t \<noteq> cd_type c \<Longrightarrow> get (put now c s) t = get s t"
begin

definition view :: "'s \<Rightarrow> string \<rightharpoonup> payload" where
  "view s t = map_option payload (get s t)"

lemma view_put: "ok s \<Longrightarrow> view (put now c s) = (view s)(cd_type c \<mapsto> payload c)"
  by (rule ext) (auto simp: view_def get_same get_other)

lemma get_put:
  "ok s \<Longrightarrow> get (put now c s) t =
    (if t = cd_type c then Some (stamped now c (get s t)) else get s t)"
  by (auto simp: get_same get_other)

lemma put_same_payload_keeps_time:
  assumes "ok s" "get s (cd_type c) = Some b" "cd_type b = cd_type c" "payload b = payload c"
  shows "map_option cd_lastUpdate (get (put now c s) (cd_type c)) = Some (cd_lastUpdate b)"
  using assms by (simp add: get_same stamped_time)

end

interpretation conds: condition_store getCondition setCondition wf_status
  by unfold_locales
    (auto simp: getCondition_setCondition_same getCondition_setCondition_other)

text \<open>The view of a status: for each type, the payload of its condition.\<close>

definition cond_view :: "api_status \<Rightarrow> string \<rightharpoonup> payload" where
  "cond_view s t = map_option payload (getCondition s t)"

lemma cond_view_eq: "cond_view s = conds.view s"
  by (rule ext) (simp add: cond_view_def conds.view_def)

lemma cond_view_setCondition [simp]:
  "wf_status s \<Longrightarrow> cond_view (setCondition now c s) = (cond_view s)(cd_type c \<mapsto> payload c)"
  by (simp add: cond_view_eq conds.view_put)

definition view_is :: "cond_status \<Rightarrow> payload option \<Rightarrow> bool" where
  "view_is st v \<longleftrightarrow> (case v of None \<Rightarrow> False | Some p \<Rightarrow> fst p = st)"

lemma IsFalse_view: "IsFalse (getCondition s t) = view_is CFalse (cond_view s t)"
  by (simp add: IsFalse_def view_is_def cond_view_def payload_def split: option.splits)

lemma IsTrue_view: "IsTrue (getCondition s t) = view_is CTrue (cond_view s t)"
  by (simp add: IsTrue_def view_is_def cond_view_def payload_def split: option.splits)

lemma IsUnknown_view:
  "IsUnknown (getCondition s t) \<longleftrightarrow> cond_view s t = None \<or> view_is CUnknown (cond_view s t)"
  by (simp add: IsUnknown_def view_is_def cond_view_def payload_def split: option.splits)

lemma GetReason_view:
  "GetReason (getCondition s t) = (case cond_view s t of None \<Rightarrow> '''' | Some (_, r, _) \<Rightarrow> r)"
  by (simp add: GetReason_def cond_view_def payload_def split: option.splits)

lemmas cond_readers_view = IsFalse_view IsTrue_view IsUnknown_view GetReason_view

lemma view_is_simps [simp]:
  "view_is st None = False" "view_is st (Some p) = (fst p = st)"
  by (simp_all add: view_is_def)

subsection \<open>The manager refines an abstract map of payloads\<close>

text \<open>The specification of the manager on maps from types to payloads, with no list, order or
  time in it.\<close>

definition spec_MarkUnknown ::
  "condition_manager \<Rightarrow> string \<Rightarrow> string \<Rightarrow> string \<Rightarrow> (string \<rightharpoonup> payload) \<Rightarrow> (string \<rightharpoonup> payload)" where
  "spec_MarkUnknown m t r msg v =
    (let v = v(t \<mapsto> (CUnknown, r, msg))
     in if \<exists>d\<in>set (cm_dependents m). view_is CFalse (v d)
        then (if view_is CFalse (v (cm_ready m)) then v else v(cm_ready m \<mapsto> (CFalse, r, msg)))
        else if t \<in> set (cm_dependents m) then v(cm_ready m \<mapsto> (CUnknown, r, msg)) else v)"

definition spec_Initialize :: "condition_manager \<Rightarrow> (string \<rightharpoonup> payload) \<Rightarrow> (string \<rightharpoonup> payload)" where
  "spec_Initialize m v =
    (let v = (if v (cm_ready m) = None then v(cm_ready m \<mapsto> (CUnknown, '''', '''')) else v);
         st = (if view_is CTrue (v (cm_ready m)) then CTrue else CUnknown)
     in (\<lambda>t. if t \<in> set (cm_dependents m) \<and> v t = None then Some (st, '''', '''') else v t))"

lemma unknown_scan_eq:
  "unknown_scan s t b ds =
    (if \<exists>d\<in>set ds. view_is CFalse (cond_view s d) then Inl () else Inr (b \<or> t \<in> set ds))"
  by (induction ds arbitrary: b) (auto simp: IsFalse_view)

lemma MarkUnknown_view:
  assumes "wf_status s"
  shows "cond_view (MarkUnknown now m t r msg s) = spec_MarkUnknown m t r msg (cond_view s)"
  using assms setCondition_wf[OF assms]
  by (simp add: MarkUnknown_def spec_MarkUnknown_def Let_def unknown_scan_eq MarkFalse_def
      IsFalse_view del: fun_upd_apply)

lemma Mark_view [simp]:
  assumes "wf_status s"
  shows "cond_view (MarkTrue now t s) = (cond_view s)(t \<mapsto> (CTrue, '''', ''''))"
    and "cond_view (MarkTrueWithReason now t r msg s) = (cond_view s)(t \<mapsto> (CTrue, r, msg))"
    and "cond_view (MarkFalse now t r msg s) = (cond_view s)(t \<mapsto> (CFalse, r, msg))"
  using assms by (simp_all add: MarkTrue_def MarkTrueWithReason_def MarkFalse_def)

lemma Mark_wf [intro]:
  assumes "wf_status s"
  shows "wf_status (MarkTrue now t s)" "wf_status (MarkTrueWithReason now t r msg s)"
    "wf_status (MarkFalse now t r msg s)" "wf_status (MarkUnknown now m t r msg s)"
  using assms
  by (auto simp: MarkTrue_def MarkTrueWithReason_def MarkFalse_def MarkUnknown_def Let_def
      split: sum.splits)

lemma initializeTerminal_wf [intro]:
  "wf_status s \<Longrightarrow> wf_status (initializeTerminalCondition now st s t)"
  by (auto simp: initializeTerminalCondition_def split: option.splits)

lemma initializeTerminal_view:
  assumes "wf_status s"
  shows "cond_view (initializeTerminalCondition now st s d) =
    (\<lambda>t. if t = d \<and> cond_view s t = None then Some (st, '''', '''') else cond_view s t)"
proof (cases "getCondition s d")
  case None
  then have "cond_view s d = None" by (simp add: cond_view_def)
  then show ?thesis using None assms by (auto simp: initializeTerminalCondition_def fun_eq_iff)
next
  case (Some c)
  then have "cond_view s d = Some (payload c)" by (simp add: cond_view_def)
  then show ?thesis using Some by (auto simp: initializeTerminalCondition_def fun_eq_iff)
qed

lemma foldl_initializeTerminal:
  assumes "wf_status s"
  shows "wf_status (foldl (initializeTerminalCondition now st) s ds) \<and>
    cond_view (foldl (initializeTerminalCondition now st) s ds) =
    (\<lambda>t. if t \<in> set ds \<and> cond_view s t = None then Some (st, '''', '''') else cond_view s t)"
  using assms
proof (induction ds arbitrary: s)
  case (Cons d ds)
  show ?case
    using Cons.IH[OF initializeTerminal_wf[OF Cons.prems]] initializeTerminal_view[OF Cons.prems]
    by (auto simp: fun_eq_iff)
qed simp

lemma InitializeConditions_wf [intro]: "wf_status s \<Longrightarrow> wf_status (InitializeConditions now m s)"
  by (auto simp: InitializeConditions_def Let_def foldl_initializeTerminal setCondition_wf
      split: option.splits)

lemma InitializeConditions_view:
  assumes "wf_status s"
  shows "cond_view (InitializeConditions now m s) = spec_Initialize m (cond_view s)"
proof (cases "getCondition s (cm_ready m)")
  case None
  then have "cond_view s (cm_ready m) = None" by (simp add: cond_view_def)
  then show ?thesis
    using None foldl_initializeTerminal[OF setCondition_wf[OF assms]] assms
    by (auto simp: InitializeConditions_def spec_Initialize_def Let_def)
next
  case (Some c)
  then have v: "cond_view s (cm_ready m) = Some (payload c)" by (simp add: cond_view_def)
  show ?thesis
    using Some v foldl_initializeTerminal[OF assms]
    by (auto simp: InitializeConditions_def spec_Initialize_def Let_def payload_def)
qed

lemma ClearCondition_wf [intro]: "wf_status s \<Longrightarrow> wf_status (snd (ClearCondition m t s))"
  by (auto simp: ClearCondition_def wf_status_def wf_conditions_def distinct_map_filter
      split: option.splits)

lemma ClearCondition_view:
  assumes "wf_status s" "\<not> isTerminal m t"
  shows "cond_view (snd (ClearCondition m t s)) = (cond_view s)(t := None)"
proof -
  have d: "distinct (map cd_type (filter (\<lambda>c. cd_type c \<noteq> t) (st_conditions s)))"
    using assms(1) by (simp add: wf_status_def wf_conditions_def distinct_map_filter)
  show ?thesis
    using assms(2) d
    by (auto simp: fun_eq_iff ClearCondition_def cond_view_def getCondition_def find_sort_key
        find_filter_neq split: option.splits)
qed

subsection \<open>Reachable statuses\<close>

text \<open>Any sequence of manager operations, at any times, starting from the empty status.\<close>

inductive cond_step :: "condition_manager \<Rightarrow> api_status \<Rightarrow> api_status \<Rightarrow> bool" for m where
  step_true: "cond_step m s (MarkTrue now t s)"
| step_reason: "cond_step m s (MarkTrueWithReason now t r msg s)"
| step_false: "cond_step m s (MarkFalse now t r msg s)"
| step_unknown: "cond_step m s (MarkUnknown now m t r msg s)"
| step_init: "cond_step m s (InitializeConditions now m s)"
| step_clear: "cond_step m s (snd (ClearCondition m t s))"

inductive cond_reach :: "condition_manager \<Rightarrow> api_status \<Rightarrow> bool" for m where
  reach_empty: "st_conditions s = [] \<Longrightarrow> cond_reach m s"
| reach_step: "cond_reach m s \<Longrightarrow> cond_step m s s' \<Longrightarrow> cond_reach m s'"

inductive_cases cond_stepE: "cond_step m s s'"

text \<open>A manager's terminal conditions are all set.\<close>

definition initialized :: "condition_manager \<Rightarrow> api_status \<Rightarrow> bool" where
  "initialized m s \<longleftrightarrow> list_all (\<lambda>t. cond_view s t \<noteq> None) (cm_ready m # cm_dependents m)"

lemma initialized_iff: "initialized m s \<longleftrightarrow> (\<forall>t. isTerminal m t \<longrightarrow> cond_view s t \<noteq> None)"
  by (auto simp: initialized_def isTerminal_def list_all_iff)

lemma cond_step_wf: "cond_step m s s' \<Longrightarrow> wf_status s \<Longrightarrow> wf_status s'"
  by (auto elim!: cond_stepE)

lemma cond_reach_wf: "cond_reach m s \<Longrightarrow> wf_status s"
  by (induction rule: cond_reach.induct)
    (auto simp: wf_status_def wf_conditions_def dest: cond_step_wf)

lemma spec_MarkUnknown_dom: "v t \<noteq> None \<Longrightarrow> spec_MarkUnknown m t' r msg v t \<noteq> None"
  by (auto simp: spec_MarkUnknown_def Let_def)

lemma cond_step_initialized:
  assumes "cond_step m s s'" "wf_status s" "initialized m s" shows "initialized m s'"
  using assms(1)
proof (cases rule: cond_step.cases)
  case (step_unknown now t r msg)
  then show ?thesis
    using assms(2,3) spec_MarkUnknown_dom[of "cond_view s"]
    by (simp only: initialized_iff MarkUnknown_view) blast
next
  case (step_init now)
  then show ?thesis
    using assms(2,3) by (auto simp: initialized_iff InitializeConditions_view spec_Initialize_def Let_def)
next
  case (step_clear t)
  then show ?thesis
  proof (cases "isTerminal m t")
    case True then show ?thesis using step_clear assms(3) by (simp add: ClearCondition_def)
  next
    case False
    then show ?thesis using step_clear assms(2,3) by (auto simp: initialized_iff ClearCondition_view)
  qed
qed (use assms(2,3) in \<open>auto simp: initialized_iff\<close>)

lemma InitializeConditions_initialized:
  assumes "wf_status s" shows "initialized m (InitializeConditions now m s)"
  using assms
  by (auto simp: initialized_iff isTerminal_def InitializeConditions_view spec_Initialize_def Let_def)

subsection \<open>Repeated writes\<close>

lemma setCondition_noop:
  assumes "wf_status s" "cond_view s (cd_type c) = Some (payload c)"
  shows "setCondition now c s = s"
proof -
  obtain b where b: "find (\<lambda>x. cd_type x = cd_type c) (st_conditions s) = Some b" "payload b = payload c"
    using assms(2) by (auto simp: cond_view_def getCondition_def)
  have "cd_type b = cd_type c" using find_key_sound(2)[OF b(1)] .
  then have "c\<lparr>cd_lastUpdate := cd_lastUpdate b\<rparr> = b" using b(2) by (simp add: same_but_time)
  moreover have "distinct (map cd_type (st_conditions s))"
    using assms(1) by (simp add: wf_status_def wf_conditions_def)
  ultimately show ?thesis using b(1) by (simp add: setCondition_def set_scan_distinct)
qed

lemma setCondition_changes:
  assumes "wf_status s" "cond_view s (cd_type c) \<noteq> Some (payload c)"
  shows "getCondition (setCondition now c s) (cd_type c) = Some (c\<lparr>cd_lastUpdate := now\<rparr>)"
  using assms
  by (auto simp: getCondition_setCondition_same stamped_def same_but_time cond_view_def
      split: option.splits)

lemma initialized_noop:
  assumes "initialized m s" shows "InitializeConditions now m s = s"
proof -
  have "foldl (initializeTerminalCondition now st) s ds = s"
    if "\<forall>d\<in>set ds. getCondition s d \<noteq> None" for st ds
    using that by (induction ds) (auto simp: initializeTerminalCondition_def)
  then show ?thesis
    using assms
    by (auto simp: initialized_def list_all_iff InitializeConditions_def Let_def cond_view_def)
qed

subsection \<open>Properties\<close>

text \<open>C9: whatever operations a condition manager is asked to perform, in any order, the conditions
  of the status stay sorted by type with one condition for each type; and once the conditions have
  been initialised every terminal condition (the top-level one and its dependents) stays present.\<close>

theorem conditions_invariant:
  assumes "cond_reach m s" "cond_step m s s'"
  shows "wf_status s' \<and> (initialized m s \<longrightarrow> initialized m s')"
  using assms cond_reach_wf cond_step_wf cond_step_initialized by blast

text \<open>A workflow's manager and a status with a failed build, used by the witnesses.\<close>

definition ex_manager :: condition_manager where
  "ex_manager = NewConditionManager RunningConditionType [BuiltConditionType]"

definition ex_status0 :: api_status where
  "ex_status0 = \<lparr>st_conditions = [], st_observedGeneration = 0\<rparr>"

definition ex_status :: api_status where
  "ex_status = MarkFalse 7 BuiltConditionType BuildFailedReason ''boom''
     (InitializeConditions 5 ex_manager ex_status0)"

lemma ex_status_value: "ex_status =
  \<lparr>st_conditions =
    [\<lparr>cd_type = ''Built'', cd_status = CFalse, cd_lastUpdate = 7,
      cd_reason = ''BuildFailedReason'', cd_message = ''boom''\<rparr>,
     \<lparr>cd_type = ''Running'', cd_status = CUnknown, cd_lastUpdate = 5, cd_reason = '''', cd_message = ''''\<rparr>],
   st_observedGeneration = 0\<rparr>"
  by code_simp

lemma ex_status_reach: "cond_reach ex_manager ex_status"
  unfolding ex_status_def ex_status0_def
  by (rule reach_step[OF reach_step[OF reach_empty step_init] step_false]) simp

lemma ex_status_wf: "wf_status ex_status"
  by (rule cond_reach_wf[OF ex_status_reach])

lemma ex_status_initialized: "initialized ex_manager ex_status"
  by code_simp

theorem conditions_invariant_witness:
  "wf_status (MarkTrue 9 BuiltConditionType ex_status) \<and>
   initialized ex_manager (MarkTrue 9 BuiltConditionType ex_status)"
  using conditions_invariant[OF ex_status_reach step_true] ex_status_initialized by simp



text \<open>marking any type Unknown while one of the other dependents is False leaves the top-level
  condition False, even when the top-level condition is itself the type that was to be Unknown.\<close>

theorem false_dependent_trumps_unknown:
  assumes "wf_status s" "d \<in> set (cm_dependents m)" "d \<noteq> t" "IsFalse (getCondition s d)"
  shows "IsFalse (getCondition (MarkUnknown now m t r msg s) (cm_ready m))"
  using assms
  by (auto simp: IsFalse_view MarkUnknown_view spec_MarkUnknown_def Let_def)

theorem false_dependent_trumps_unknown_witness:
  "IsFalse (getCondition (MarkUnknown 9 ex_manager RunningConditionType ''Wait'' ''m'' ex_status)
     RunningConditionType)"
  using false_dependent_trumps_unknown[OF ex_status_wf, of BuiltConditionType ex_manager
      RunningConditionType 9 "''Wait''" "''m''"]
  by (simp add: ex_manager_def NewConditionManager_def) (simp add: ex_status_value IsFalse_def getCondition_def
      condition_type_defs)

text \<open>repeating a mark is a no-op, time included, and a mark that changes the status, reason or
  message stamps the current time: the time of a condition is that of its last real change.\<close>

theorem mark_stamps_only_changes:
  assumes "wf_status s"
  shows "(cond_view s t = Some (CFalse, r, msg) \<longrightarrow> MarkFalse now t r msg s = s) \<and>
    (cond_view s t = Some (CTrue, '''', '''') \<longrightarrow> MarkTrue now t s = s) \<and>
    (cond_view s t \<noteq> Some (CFalse, r, msg) \<longrightarrow>
      map_option cd_lastUpdate (getCondition (MarkFalse now t r msg s) t) = Some now) \<and>
    MarkFalse later t r msg (MarkFalse now t r msg s) = MarkFalse now t r msg s \<and>
    MarkTrue later t (MarkTrue now t s) = MarkTrue now t s"
proof (intro conjI impI)
  assume "cond_view s t \<noteq> Some (CFalse, r, msg)"
  then show "map_option cd_lastUpdate (getCondition (MarkFalse now t r msg s) t) = Some now"
    using setCondition_changes[OF assms, of "mk_condition t CFalse r msg" now]
    by (simp add: MarkFalse_def)
qed (use assms in \<open>auto simp: MarkFalse_def MarkTrue_def intro!: setCondition_noop\<close>)

theorem mark_stamps_only_changes_witness:
  "MarkFalse 20 BuiltConditionType BuildFailedReason ''boom'' ex_status = ex_status \<and>
   map_option cd_lastUpdate (getCondition (MarkFalse 20 BuiltConditionType ''x'' '''' ex_status)
     BuiltConditionType) = Some 20"
  using mark_stamps_only_changes[OF ex_status_wf, of BuiltConditionType BuildFailedReason "''boom''" 20 21]
    mark_stamps_only_changes[OF ex_status_wf, of BuiltConditionType "''x''" "''''" 20 21]
  by (simp add: ex_status_value cond_view_def getCondition_def payload_def condition_type_defs
      condition_reason_defs)

end
