(* ===== verification/Api_Types.thy ===== *)
theory Api_Types
  imports Conditions K8s_Types "HOL-Library.Word"
begin

text \<open>
  The operator's custom resources (\<open>api/v1alpha08\<close>) and the annotations that select a profile
  (\<open>api/metadata/annotations.go\<close>).  A struct is a record with its fields prefixed, a pointer an
  option, Go's named string types are strings, so that values outside the declared constants are
  possible as they are in the code.  The flow of a workflow is built from types of the serverless
  workflow SDK, which is not in the repository: it is its \<open>encoding/gob\<close> bytes (\<open>None\<close> when the
  encoder fails), the kinds of its events and the operations of its functions, which is all the
  modelled code looks at.
\<close>

subsection \<open>Annotations and profiles\<close>

definition Domain :: string where "Domain = ''sonataflow.org''"
definition Profile :: string where "Profile = Domain @ ''/profile''"
definition SecondaryPlatformAnnotation :: string where
  "SecondaryPlatformAnnotation = Domain @ ''/secondary.platform''"
definition OperatorIDAnnotation :: string where "OperatorIDAnnotation = Domain @ ''/operator.id''"
definition BuildRestartAnnotation :: string where "BuildRestartAnnotation = Domain @ ''/restartBuild''"
definition SpecVersion :: string where "SpecVersion = ''0.8''"

definition DevProfile :: string where "DevProfile = ''dev''"
definition ProdProfile :: string where "ProdProfile = ''prod''"
definition PreviewProfile :: string where "PreviewProfile = ''preview''"
definition GitOpsProfile :: string where "GitOpsProfile = ''gitops''"
definition DefaultProfile :: string where "DefaultProfile = PreviewProfile"

lemmas profile_defs = DevProfile_def ProdProfile_def PreviewProfile_def GitOpsProfile_def
  DefaultProfile_def

definition supportedProfiles :: "(string \<times> string) list" where
  "supportedProfiles =
    [(DevProfile, DevProfile), (PreviewProfile, PreviewProfile), (GitOpsProfile, GitOpsProfile)]"

definition GetProfileOrDefault :: "gomap option \<Rightarrow> string" where
  "GetProfileOrDefault anns =
    (case anns of
       None \<Rightarrow> DefaultProfile
     | Some m \<Rightarrow> (case map_of supportedProfiles (map_get m Profile) of
                   None \<Rightarrow> DefaultProfile
                 | Some p \<Rightarrow> p))"

definition isValidProfile :: "string \<Rightarrow> bool" where
  "isValidProfile p \<longleftrightarrow> map_of supportedProfiles p \<noteq> None"

definition IsDevProfile :: "gomap option \<Rightarrow> bool" where
  "IsDevProfile anns =
    (case anns of
       None \<Rightarrow> False
     | Some m \<Rightarrow> (if map_get m Profile = '''' then False else map_get m Profile = DevProfile))"

lemma GetProfileOrDefault_valid: "isValidProfile (GetProfileOrDefault anns)"
  by (auto simp: GetProfileOrDefault_def isValidProfile_def supportedProfiles_def DefaultProfile_def
      split: option.splits)

subsection \<open>Shared references\<close>

text \<open>\<open>duckv1.Destination\<close>: a reference to an object, a URI, or both.\<close>

record kreference =
  kr_kind :: string
  kr_namespace :: string
  kr_name :: string
  kr_apiVersion :: string

record destination =
  de_ref :: "kreference option"
  de_uri :: "string option"

text \<open>Knative eventing: a trigger with its broker, the type it filters on, and its subscriber with the
  path of the URI; a sink binding with its sink, its subject, and the status of its condition
  \<open>SinkProvided\<close> (\<open>None\<close> when there is none).\<close>

record trigger =
  tg_meta :: object_meta
  tg_broker :: string
  tg_filterType :: string
  tg_subscriber :: kreference
  tg_path :: string

record sink_binding =
  sn_meta :: object_meta
  sn_sink :: destination
  sn_subject :: kreference
  sn_sinkProvided :: "string option"

record name_ref =
  nr_name :: string
  nr_namespace :: string

record services_status =
  vs_dataIndex :: "string option"
  vs_jobService :: "string option"

record secret_options =
  so_name :: string
  so_userKey :: string
  so_passwordKey :: string

text \<open>\<open>SQLServiceOptions\<close>; the schema belongs to \<open>PostgreSQLServiceOptions\<close> and is empty in a
  platform's options, which have none.\<close>

record sql_service =
  ql_name :: string
  ql_namespace :: string
  ql_port :: "int option"
  ql_database :: string
  ql_schema :: string

record postgresql =
  pq_secret :: secret_options
  pq_service :: "sql_service option"
  pq_jdbcUrl :: string

record persistence_spec =
  pn_postgresql :: "postgresql option"
  pn_migrate :: bool

subsection \<open>SonataFlow\<close>

definition KubernetesDeploymentModel :: string where "KubernetesDeploymentModel = ''kubernetes''"
definition KnativeDeploymentModel :: string where "KnativeDeploymentModel = ''knative''"
definition DefaultContainerName :: string where "DefaultContainerName = ''workflow''"

text \<open>An event of the flow: its kind is \<open>consumed\<close> or \<open>produced\<close> (\<open>cncfmodel.EventKindProduced\<close>).\<close>

record flow_event =
  fe_name :: string
  fe_type :: string
  fe_kind :: string

definition EventKindProduced :: string where "EventKindProduced = ''produced''"

record flow_function =
  ff_operation :: string

text \<open>Of an action only the sleep (before, after) matters, of a state its type, its event timeout and its
  actions.\<close>

type_synonym flow_action = "(string \<times> string) option"

datatype flow_state =
    EventState "string option" "flow_action list list"
  | OperationState "flow_action list"
  | SwitchState "string option"
  | SleepState
  | ParallelState "flow_action list list"
  | ForEachState "flow_action list"
  | CallbackState "string option" flow_action
  | InjectState

text \<open>\<open>fl_timeouts\<close> is the event timeout and the duration of the execution timeout.\<close>

record flow =
  fl_gob :: "8 word list option"
  fl_timeouts :: "(string \<times> string option) option"
  fl_states :: "flow_state list"
  fl_events :: "flow_event list"
  fl_functions :: "flow_function list"

text \<open>A \<open>ContainerSpec\<close> has the fields of a container without the name and the working directory, which are
  ignored here; a \<open>PodSpec\<close> has those of the pod.\<close>

definition ToContainer :: "container \<Rightarrow> container" where
  "ToContainer c = c\<lparr>ct_name := DefaultContainerName, ct_workingDir := ''''\<rparr>"

definition ToPodSpec :: "pod_spec \<Rightarrow> pod_spec" where
  "ToPodSpec ps = \<lparr>ps_containers = ps_containers ps, ps_initContainers = ps_initContainers ps, ps_volumes = ps_volumes ps\<rparr>"

record pod_template =
  pt_container :: container
  pt_podSpec :: pod_spec
  pt_replicas :: "int option"
  pt_deploymentModel :: string

record cm_resource =
  cr_configMap :: string
  cr_workflowPath :: string

record source_spec =
  sc_eventType :: string
  sc_destination :: destination

record sonataflow_spec =
  sp_flow :: flow
  sp_resources :: "cm_resource list"
  sp_podTemplate :: pod_template
  sp_persistence :: "persistence_spec option"
  sp_sink :: "destination option"
  sp_sources :: "source_spec list"

record sonataflow_status =
  ss_status :: api_status
  ss_address :: "string option"
  ss_recoverAttempts :: int
  ss_lastRecoverAttempt :: int
  ss_endpoint :: "string option"
  ss_services :: "services_status option"
  ss_platform :: "name_ref option"
  ss_triggers :: "name_ref list"
  ss_flowCRC :: "32 word"

record sonataflow =
  sf_meta :: object_meta
  sf_spec :: sonataflow_spec
  sf_status :: sonataflow_status

definition sf_name :: "sonataflow \<Rightarrow> string" where "sf_name w = om_name (sf_meta w)"
definition sf_namespace :: "sonataflow \<Rightarrow> string" where "sf_namespace w = om_namespace (sf_meta w)"
definition sf_conds :: "sonataflow \<Rightarrow> api_status" where "sf_conds w = ss_status (sf_status w)"

definition workflow_manager :: condition_manager where
  "workflow_manager = NewConditionManager RunningConditionType [BuiltConditionType]"

text \<open>An operation of the manager on the workflow the pointer refers to.\<close>

definition upd_conds :: "(api_status \<Rightarrow> api_status) \<Rightarrow> sonataflow \<Rightarrow> sonataflow" where
  "upd_conds f w = w\<lparr>sf_status := (sf_status w)\<lparr>ss_status := f (ss_status (sf_status w))\<rparr>\<rparr>"

definition wf_cond :: "sonataflow \<Rightarrow> string \<Rightarrow> condition option" where
  "wf_cond w t = getCondition (sf_conds w) t"

definition GetTopLevelCondition :: "sonataflow \<Rightarrow> condition option" where
  "GetTopLevelCondition w = wf_cond w RunningConditionType"

definition IsReady :: "sonataflow \<Rightarrow> bool" where
  "IsReady w = IsTrue (GetTopLevelCondition w)"

definition IsWaitingForPlatform :: "sonataflow \<Rightarrow> bool" where
  "IsWaitingForPlatform w \<longleftrightarrow>
    (let c = wf_cond w BuiltConditionType in IsFalse c \<and> GetReason c = WaitingForPlatformReason)"

definition IsWaitingForDeployment :: "sonataflow \<Rightarrow> bool" where
  "IsWaitingForDeployment w \<longleftrightarrow>
    (let c = wf_cond w RunningConditionType in IsFalse c \<and> GetReason c = WaitingForDeploymentReason)"

definition IsChildObjectsProblem :: "sonataflow \<Rightarrow> bool" where
  "IsChildObjectsProblem w \<longleftrightarrow>
    (let c = wf_cond w RunningConditionType in IsFalse c \<and> GetReason c = ExternalResourcesNotFoundReason)"

definition IsWaitingForBuild :: "sonataflow \<Rightarrow> bool" where
  "IsWaitingForBuild w \<longleftrightarrow>
    (let c = wf_cond w RunningConditionType in IsFalse c \<and> GetReason c = WaitingForBuildReason)"

definition IsBuildRunningOrUnknown :: "sonataflow \<Rightarrow> bool" where
  "IsBuildRunningOrUnknown w \<longleftrightarrow>
    (let c = wf_cond w BuiltConditionType
     in IsUnknown c \<or> (IsFalse c \<and> GetReason c = BuildIsRunningReason))"

definition IsBuildRunning :: "sonataflow \<Rightarrow> bool" where
  "IsBuildRunning w \<longleftrightarrow>
    (let c = wf_cond w BuiltConditionType in IsFalse c \<and> GetReason c = BuildIsRunningReason)"

definition IsBuildFailed :: "sonataflow \<Rightarrow> bool" where
  "IsBuildFailed w \<longleftrightarrow>
    (let c = wf_cond w BuiltConditionType in IsFalse c \<and> GetReason c = BuildFailedReason)"

definition IsKnativeDeployment :: "sonataflow \<Rightarrow> bool" where
  "IsKnativeDeployment w \<longleftrightarrow> pt_deploymentModel (sp_podTemplate (sf_spec w)) = KnativeDeploymentModel"

definition HasContainerSpecImage :: "sonataflow \<Rightarrow> bool" where
  "HasContainerSpecImage w \<longleftrightarrow> ct_image (pt_container (sp_podTemplate (sf_spec w))) \<noteq> ''''"

lemmas workflow_predicate_defs = GetTopLevelCondition_def IsReady_def IsWaitingForPlatform_def
  IsWaitingForDeployment_def IsChildObjectsProblem_def IsWaitingForBuild_def
  IsBuildRunningOrUnknown_def IsBuildRunning_def IsBuildFailed_def

lemma sf_conds_upd [simp]: "sf_conds (upd_conds f w) = f (sf_conds w)"
  by (simp add: upd_conds_def sf_conds_def)

lemma upd_conds_frame [simp]:
  "sf_meta (upd_conds f w) = sf_meta w" "sf_spec (upd_conds f w) = sf_spec w"
  "sf_name (upd_conds f w) = sf_name w" "sf_namespace (upd_conds f w) = sf_namespace w"
  "ss_flowCRC (sf_status (upd_conds f w)) = ss_flowCRC (sf_status w)"
  "ss_triggers (sf_status (upd_conds f w)) = ss_triggers (sf_status w)"
  "IsKnativeDeployment (upd_conds f w) = IsKnativeDeployment w"
  by (simp_all add: upd_conds_def sf_name_def sf_namespace_def IsKnativeDeployment_def)

subsection \<open>SonataFlowBuild\<close>

datatype build_phase =
    PhaseNone | PhaseInitialization | PhaseScheduling | PhasePending | PhaseRunning
  | PhaseSucceeded | PhaseFailed | PhaseInterrupted | PhaseError

text \<open>The resource requirements are an opaque text.\<close>

record build_template =
  bt_timeout :: int
  bt_resources :: string
  bt_arguments :: "string list"
  bt_buildArgs :: "env_var list"
  bt_envs :: "env_var list"

text \<open>The inner build is kept as its JSON text.\<close>

record sonataflow_build =
  sb_meta :: object_meta
  sb_template :: build_template
  sb_imageTag :: string
  sb_phase :: build_phase
  sb_error :: string
  sb_innerBuild :: string

definition sb_name :: "sonataflow_build \<Rightarrow> string" where "sb_name b = om_name (sb_meta b)"
definition sb_namespace :: "sonataflow_build \<Rightarrow> string" where "sb_namespace b = om_namespace (sb_meta b)"

subsection \<open>SonataFlowPlatform\<close>

definition PlatformClusterOpenShift :: string where "PlatformClusterOpenShift = ''openshift''"
definition PlatformClusterKubernetes :: string where "PlatformClusterKubernetes = ''kubernetes''"
definition OperatorBuildStrategy :: string where "OperatorBuildStrategy = ''operator''"
definition PlatformBuildStrategy :: string where "PlatformBuildStrategy = ''platform''"
definition PlatformCreatingReason :: string where "PlatformCreatingReason = ''Creating''"
definition PlatformWarmingReason :: string where "PlatformWarmingReason = ''Warming''"
definition PlatformFailureReason :: string where "PlatformFailureReason = ''Failure''"
definition PlatformDuplicatedReason :: string where "PlatformDuplicatedReason = ''Duplicated''"
definition PlatformNotFoundReason :: string where "PlatformNotFoundReason = ''PlatformNotFound''"

lemmas platform_reason_defs = PlatformCreatingReason_def PlatformWarmingReason_def
  PlatformFailureReason_def PlatformDuplicatedReason_def PlatformNotFoundReason_def

record platform_registry =
  rg_insecure :: bool
  rg_address :: string
  rg_secret :: string
  rg_ca :: string
  rg_organization :: string

text \<open>The build configuration of a platform; the timeout is in nanoseconds.\<close>

record build_config =
  bc_baseImage :: string
  bc_timeout :: "int option"
  bc_strategy :: string
  bc_options :: "gomap option"
  bc_registry :: platform_registry

definition GetTimeout :: "build_config \<Rightarrow> int" where
  "GetTimeout b = (case bc_timeout b of None \<Rightarrow> 0 | Some t \<Rightarrow> t)"

definition IsStrategyOptionEnabled :: "build_config \<Rightarrow> string \<Rightarrow> bool" where
  "IsStrategyOptionEnabled b opt =
    (case bc_options b of
       None \<Rightarrow> False
     | Some m \<Rightarrow> (case map_of m opt of
                   None \<Rightarrow> False
                 | Some v \<Rightarrow> (case ParseBool v of None \<Rightarrow> False | Some r \<Rightarrow> r)))"

definition IsStrategyOptionEmpty :: "build_config \<Rightarrow> string \<Rightarrow> bool" where
  "IsStrategyOptionEmpty b opt =
    (case bc_options b of
       None \<Rightarrow> False
     | Some m \<Rightarrow> (case map_of m opt of None \<Rightarrow> False | Some v \<Rightarrow> v = ''''))"

text \<open>The specification of the data index and of the job service; the sink is the job service's and
  is nil for the data index.\<close>

record service_spec =
  vp_enabled :: "bool option"
  vp_persistence :: "persistence_spec option"
  vp_podTemplate :: pod_template
  vp_source :: "destination option"
  vp_sink :: "destination option"

record services_spec =
  vc_dataIndex :: "service_spec option"
  vc_jobService :: "service_spec option"

text \<open>A property with its value or the (name, key) of a secret and of a config map to read it from.\<close>

record property_source =
  px_secret :: "(string \<times> string) option"
  px_configMap :: "(string \<times> string) option"

record property_var =
  pr_name :: string
  pr_value :: string
  pr_valueFrom :: "property_source option"

text \<open>The reference a platform's status keeps of the active cluster platform.\<close>

record cluster_ref =
  cf_name :: string
  cf_platformRef :: name_ref
  cf_services :: "services_status option"

text \<open>\<open>pf_persistence\<close> is the pointer to the options, which hold a pointer themselves.\<close>

record sonataflow_platform =
  pf_meta :: object_meta
  pf_buildTemplate :: build_template
  pf_buildConfig :: build_config
  pf_devBaseImage :: string
  pf_services :: "services_spec option"
  pf_broker :: "destination option"
  pf_persistence :: "postgresql option option"
  pf_properties :: "property_var list"
  pf_monitoring :: "bool option"
  pf_status :: api_status
  pf_cluster :: string
  pf_version :: string
  pf_info :: gomap
  pf_clusterRef :: "cluster_ref option"
  pf_triggers :: "name_ref list"

definition pf_name :: "sonataflow_platform \<Rightarrow> string" where "pf_name p = om_name (pf_meta p)"
definition pf_namespace :: "sonataflow_platform \<Rightarrow> string" where
  "pf_namespace p = om_namespace (pf_meta p)"

definition platform_manager :: condition_manager where
  "platform_manager = NewConditionManager SucceedConditionType []"

definition pf_cond :: "sonataflow_platform \<Rightarrow> condition option" where
  "pf_cond p = getCondition (pf_status p) SucceedConditionType"

definition pf_upd_conds :: "(api_status \<Rightarrow> api_status) \<Rightarrow> sonataflow_platform \<Rightarrow> sonataflow_platform" where
  "pf_upd_conds f p = p\<lparr>pf_status := f (pf_status p)\<rparr>"

definition pf_IsReady :: "sonataflow_platform \<Rightarrow> bool" where
  "pf_IsReady p \<longleftrightarrow> IsTrue (pf_cond p)"

definition pf_IsCreating :: "sonataflow_platform \<Rightarrow> bool" where
  "pf_IsCreating p \<longleftrightarrow> IsFalse (pf_cond p) \<and> GetReason (pf_cond p) = PlatformCreatingReason"

definition pf_IsWarming :: "sonataflow_platform \<Rightarrow> bool" where
  "pf_IsWarming p \<longleftrightarrow> IsFalse (pf_cond p) \<and> GetReason (pf_cond p) = PlatformWarmingReason"

definition pf_IsDuplicated :: "sonataflow_platform \<Rightarrow> bool" where
  "pf_IsDuplicated p \<longleftrightarrow> IsFalse (pf_cond p) \<and> GetReason (pf_cond p) = PlatformDuplicatedReason"

definition pf_IsFailure :: "sonataflow_platform \<Rightarrow> bool" where
  "pf_IsFailure p \<longleftrightarrow> IsFalse (pf_cond p) \<and> GetReason (pf_cond p) = PlatformFailureReason"

lemmas platform_predicate_defs = pf_IsReady_def pf_IsCreating_def pf_IsWarming_def
  pf_IsDuplicated_def pf_IsFailure_def pf_cond_def

definition IsMonitoringEnabled :: "sonataflow_platform option \<Rightarrow> bool" where
  "IsMonitoringEnabled p \<longleftrightarrow>
    (case p of None \<Rightarrow> False | Some p \<Rightarrow> (case pf_monitoring p of None \<Rightarrow> False | Some b \<Rightarrow> b))"

text \<open>The zero value of a platform with a namespace and a name.\<close>

definition new_platform :: "string \<Rightarrow> string \<Rightarrow> sonataflow_platform" where
  "new_platform ns name =
    \<lparr>pf_meta = new_meta ns name,
     pf_buildTemplate = \<lparr>bt_timeout = 0, bt_resources = '''', bt_arguments = [], bt_buildArgs = [], bt_envs = []\<rparr>,
     pf_buildConfig = \<lparr>bc_baseImage = '''', bc_timeout = None, bc_strategy = '''', bc_options = None,
       bc_registry = \<lparr>rg_insecure = False, rg_address = '''', rg_secret = '''', rg_ca = '''', rg_organization = ''''\<rparr>\<rparr>,
     pf_devBaseImage = '''', pf_services = None, pf_broker = None, pf_persistence = None, pf_properties = [],
     pf_monitoring = None, pf_status = \<lparr>st_conditions = [], st_observedGeneration = 0\<rparr>,
     pf_cluster = '''', pf_version = '''', pf_info = [], pf_clusterRef = None, pf_triggers = []\<rparr>"

lemma new_platform_simps [simp]:
  "pf_name (new_platform ns name) = name" "pf_namespace (new_platform ns name) = ns"
  "pf_services (new_platform ns name) = None" "pf_clusterRef (new_platform ns name) = None"
  "pf_persistence (new_platform ns name) = None" "pf_broker (new_platform ns name) = None"
  by (simp_all add: new_platform_def pf_name_def pf_namespace_def new_meta_def)

subsection \<open>SonataFlowClusterPlatform\<close>

record sonataflow_cluster_platform =
  cl_meta :: object_meta
  cl_platformRef :: name_ref
  cl_capabilities :: "string list option"
  cl_status :: api_status
  cl_version :: string

definition cl_name :: "sonataflow_cluster_platform \<Rightarrow> string" where "cl_name p = om_name (cl_meta p)"

definition cl_cond :: "sonataflow_cluster_platform \<Rightarrow> condition option" where
  "cl_cond p = getCondition (cl_status p) SucceedConditionType"

definition cl_IsReady :: "sonataflow_cluster_platform \<Rightarrow> bool" where
  "cl_IsReady p \<longleftrightarrow> IsTrue (cl_cond p)"

definition cl_IsDuplicated :: "sonataflow_cluster_platform \<Rightarrow> bool" where
  "cl_IsDuplicated p \<longleftrightarrow> IsFalse (cl_cond p) \<and> GetReason (cl_cond p) = PlatformDuplicatedReason"

end
