(* ===== verification/Container_Build.thy ===== *)
theory Container_Build
  imports Kube_Client Api_Types
begin

text \<open>
  The container builder (\<open>container-builder/builder/kubernetes\<close>, \<open>container-builder/api\<close>): a build is
  a state machine over phases, driven by one action for each call of \<open>Reconcile\<close>: initialise,
  schedule, monitor the builder pod, recover from a failure.  The pods, config maps, secrets and
  services are reached through clients; the clock, the generator of volume names, the environment,
  the YAML decoder and the back-off (\<open>jpillora/backoff\<close>) are arguments.  A nil dereference is \<open>Panic\<close>.
  The lemmas show which phases follow which, that a build never panics once it has been scheduled,
  and that the number of recoveries is bounded.
\<close>

subsection \<open>Data\<close>

record registry_spec =
  rg_insecure :: bool
  rg_address :: string
  rg_secret :: string
  rg_ca :: string
  rg_organization :: string

record kaniko_task =
  kt_name :: string
  kt_resources :: string
  kt_buildArgs :: "env_var list"
  kt_envs :: "env_var list"
  kt_contextDir :: string
  kt_baseImage :: string
  kt_image :: string
  kt_registry :: registry_spec
  kt_verbose :: "bool option"
  kt_cacheEnabled :: "bool option"
  kt_cachePVC :: string
  kt_flags :: "string list"
  kt_executorImage :: string

record cb_failure =
  fa_reason :: string
  fa_time :: int
  fa_attempt :: int
  fa_attemptMax :: int
  fa_attemptTime :: int

text \<open>A resource volume: the reference's name and type and the destination directory.\<close>

record resource_volume =
  rw_name :: string
  rw_type :: string
  rw_dir :: string

record container_build =
  cb_namespace :: string
  cb_name :: string
  cb_tasks :: "kaniko_task option list"
  cb_strategy :: string
  cb_timeout :: int
  cb_phase :: build_phase
  cb_imageTag :: string
  cb_error :: string
  cb_failure :: "cb_failure option"
  cb_startedAt :: "int option"
  cb_duration :: "int option"
  cb_volumes :: "resource_volume list"

definition ContainerBuildStrategyPod :: string where "ContainerBuildStrategyPod = ''pod''"
definition PlatformBuildPublishStrategyKaniko :: string where
  "PlatformBuildPublishStrategyKaniko = ''Kaniko''"

definition GetRepositoryImageTag :: "kaniko_task \<Rightarrow> string" where
  "GetRepositoryImageTag t =
    (if rg_address (kt_registry t) \<noteq> '''' then rg_address (kt_registry t) @ ''/'' @ kt_image t
     else kt_image t)"

text \<open>The world a build runs in.\<close>

record 'w cb_env =
  ce_now :: "'w \<Rightarrow> int"
  ce_pods :: "('w, pod) client"
  ce_cms :: "('w, config_map) client"
  ce_secrets :: "('w, secret) client"
  ce_list_services :: "'w \<Rightarrow> string \<Rightarrow> gomap \<Rightarrow> kerror + service list"
  ce_uuid :: "'w \<Rightarrow> nat \<Rightarrow> string"
  ce_lookupEnv :: "string \<Rightarrow> string option"
  ce_yamlHost :: "string \<Rightarrow> kerror + string"
  ce_backoff :: "int \<Rightarrow> int"

subsection \<open>The registry address\<close>

definition cb_GetRegistryAddress :: "'w cb_env \<Rightarrow> 'w \<Rightarrow> kerror + string option" where
  "cb_GetRegistryAddress env w =
    (case c_get (ce_cms env) w ''kube-public'' ''local-registry-hosting'' of
       Inl e \<Rightarrow> if IsNotFound e then Inr None else Inl e
     | Inr cm \<Rightarrow>
        (case cm_data cm of
           None \<Rightarrow> Inr None
         | Some m \<Rightarrow>
            (case map_of m ''localRegistryHosting.v1'' of
               None \<Rightarrow> Inr None
             | Some data \<Rightarrow> (case ce_yamlHost env data of Inl e \<Rightarrow> Inl e | Inr h \<Rightarrow> Inr (Some h)))))"

definition FindRegistry :: "'w cb_env \<Rightarrow> 'w \<Rightarrow> kerror + string option" where
  "FindRegistry env w =
    (case ce_list_services env w ''kube-system'' [(''kubernetes.io/minikube-addons'', ''registry'')] of
       Inl e \<Rightarrow> Inl e
     | Inr [] \<Rightarrow> Inr None
     | Inr (svc # _) \<Rightarrow>
        (let portStr = (case sv_ports svc of
                          [] \<Rightarrow> ''''
                        | p # _ \<Rightarrow> (if sp_port p > 0 \<and> sp_port p \<noteq> 80
                                   then '':'' @ show_int (sp_port p) else ''''))
         in Inr (Some (sv_clusterIP svc @ portStr))))"

subsection \<open>The builder pod\<close>

definition buildPodName :: "container_build \<Rightarrow> string" where
  "buildPodName b = ''sonataflow-'' @ ToLower (cb_name b) @ ''-builder''"

definition getBuilderPod :: "'w cb_env \<Rightarrow> 'w \<Rightarrow> container_build \<Rightarrow> kerror + pod option" where
  "getBuilderPod env w b =
    (case c_get (ce_pods env) w (cb_namespace b) (buildPodName b) of
       Inl e \<Rightarrow> if IsNotFound e then Inr None else Inl e
     | Inr p \<Rightarrow> Inr (Some p))"

definition deleteBuilderPod :: "'w cb_env \<Rightarrow> 'w \<Rightarrow> container_build \<Rightarrow> kerror option \<times> 'w" where
  "deleteBuilderPod env w b =
    (case c_delete (ce_pods env) w (cb_namespace b) (buildPodName b) of
       (Some e, w) \<Rightarrow> if IsNotFound e then (None, w) else (Some e, w)
     | (None, w) \<Rightarrow> (None, w))"

text \<open>The registry secrets Kaniko understands, in the order they are tried.\<close>

record registry_secret =
  rs_fileName :: string
  rs_mountPath :: string
  rs_destination :: string
  rs_refEnv :: string

definition kanikoRegistrySecrets :: "registry_secret list" where
  "kanikoRegistrySecrets =
    [\<lparr>rs_fileName = ''kaniko-secret.json'', rs_mountPath = ''/secret'',
      rs_destination = ''kaniko-secret.json'', rs_refEnv = ''GOOGLE_APPLICATION_CREDENTIALS''\<rparr>,
     \<lparr>rs_fileName = ''config.json'', rs_mountPath = ''/kaniko/.docker'',
      rs_destination = ''config.json'', rs_refEnv = ''''\<rparr>,
     \<lparr>rs_fileName = ''.dockerconfigjson'', rs_mountPath = ''/kaniko/.docker'',
      rs_destination = ''config.json'', rs_refEnv = ''''\<rparr>]"

definition getRegistrySecret ::
  "'w cb_env \<Rightarrow> 'w \<Rightarrow> string \<Rightarrow> string \<Rightarrow> registry_secret list \<Rightarrow> kerror + registry_secret" where
  "getRegistrySecret env w ns name secrets =
    (case c_get (ce_secrets env) w ns name of
       Inl e \<Rightarrow> Inl e
     | Inr s \<Rightarrow>
        (case find (\<lambda>k. case se_data s of None \<Rightarrow> False | Some m \<Rightarrow> map_has m (rs_fileName k)) secrets of
           Some k \<Rightarrow> Inr k
         | None \<Rightarrow> Inl (OtherError ''unsupported secret type for registry authentication'')))"

definition addRegistrySecret ::
  "string \<Rightarrow> registry_secret \<Rightarrow> volume list \<times> volume_mount list \<times> env_var list \<Rightarrow>
    volume list \<times> volume_mount list \<times> env_var list" where
  "addRegistrySecret name s st =
    (case st of (vols, mounts, env) \<Rightarrow>
      (vols @ [\<lparr>vl_name = ''registry-secret'',
                vl_source = VsSecret name [(rs_fileName s, rs_destination s)]\<rparr>],
       mounts @ [\<lparr>vm_name = ''registry-secret'', vm_readOnly = True, vm_mountPath = rs_mountPath s,
                  vm_subPath = ''''\<rparr>],
       (if rs_refEnv s \<noteq> ''''
        then env @ [\<lparr>ev_name = rs_refEnv s, ev_value = path_join [rs_mountPath s, rs_destination s],
                     ev_valueFrom = None\<rparr>]
        else env)))"

definition proxyFromEnvironment :: "'w cb_env \<Rightarrow> env_var list" where
  "proxyFromEnvironment env =
    List.map_filter (\<lambda>k. map_option (\<lambda>v. \<lparr>ev_name = k, ev_value = v, ev_valueFrom = None\<rparr>)
                           (ce_lookupEnv env k))
      [''HTTP_PROXY'', ''HTTPS_PROXY'', ''NO_PROXY'']"

text \<open>\<open>FromEnvToArgs\<close>: the test of \<open>Optional\<close> compares two pointers, one of them fresh, so it is false
  for every variable, and a missing config map or secret is always an error.\<close>

definition same_pointer_as_fresh :: "bool option \<Rightarrow> bool" where
  "same_pointer_as_fresh p = False"

fun FromEnvToArgs :: "'w cb_env \<Rightarrow> 'w \<Rightarrow> string \<Rightarrow> env_var list \<Rightarrow> kerror + string list" where
  "FromEnvToArgs env w ns [] = Inr []"
| "FromEnvToArgs env w ns (e # es) =
    (case ev_valueFrom e of
       None \<Rightarrow> map_sum id ((#) (ev_name e @ ''='' @ ev_value e)) (FromEnvToArgs env w ns es)
     | Some (EsConfigMap name key optional) \<Rightarrow>
        (case c_get (ce_cms env) w ns name of
           Inl err \<Rightarrow> if IsNotFound err \<and> same_pointer_as_fresh optional
                      then FromEnvToArgs env w ns es else Inl err
         | Inr cm \<Rightarrow> map_sum id ((#) (ev_name e @ ''='' @ nil_map_get (cm_data cm) key))
                      (FromEnvToArgs env w ns es))
     | Some (EsSecret name key optional) \<Rightarrow>
        (case c_get (ce_secrets env) w ns name of
           Inl err \<Rightarrow> if IsNotFound err \<and> same_pointer_as_fresh optional
                      then FromEnvToArgs env w ns es else Inl err
         | Inr s \<Rightarrow> map_sum id ((#) (ev_name e @ ''='' @ nil_map_get (se_data s) key))
                     (FromEnvToArgs env w ns es))
     | Some (EsOther _) \<Rightarrow>
        Inl (OtherError (''can't convert to args the env var '' @ ev_name e @ '' on namespace '' @ ns @
                         ''. Only Secrets and ConfigMaps are supported'')))"

text \<open>The volumes of the build context: one projected volume for each destination directory, kept in
  the order of first use (the code ranges over a map, so the order of a run is one of the
  permutations), each with a mount for every file of its config maps.\<close>

type_synonym dir_mounts = "(string \<times> volume_mount list \<times> volume) list"

definition add_projection :: "string \<Rightarrow> volume \<Rightarrow> volume" where
  "add_projection cm v =
    (case vl_source v of
       VsProjected ps \<Rightarrow> v\<lparr>vl_source := VsProjected (ps @ [PjConfigMap cm []])\<rparr>
     | _ \<Rightarrow> v)"

fun context_mounts ::
  "'w cb_env \<Rightarrow> 'w \<Rightarrow> string \<Rightarrow> container_build \<Rightarrow> resource_volume list \<Rightarrow> dir_mounts \<Rightarrow> kerror + dir_mounts"
where
  "context_mounts env w ctxDir b [] ms = Inr ms"
| "context_mounts env w ctxDir b (r # rs) ms =
    (if rw_type r \<noteq> ''configMap''
     then Inl (OtherError (''unsupported resource mount type for build '' @ cb_name b @ '' on ns '' @ cb_namespace b))
     else case c_get (ce_cms env) w (cb_namespace b) (rw_name r) of
       Inl e \<Rightarrow> Inl e
     | Inr cm \<Rightarrow>
        (let (mounts, vol) =
               (case map_of ms (rw_dir r) of
                  Some entry \<Rightarrow> entry
                | None \<Rightarrow> ([], \<lparr>vl_name = ce_uuid env w (length ms), vl_source = VsProjected []\<rparr>));
             new = map (\<lambda>(f, _). \<lparr>vm_name = vl_name vol, vm_readOnly = True,
                                  vm_mountPath = path_join [ctxDir, rw_dir r, f], vm_subPath = f\<rparr>)
                       ((case cm_data cm of None \<Rightarrow> [] | Some m \<Rightarrow> m))
         in context_mounts env w ctxDir b rs
              (AList.update (rw_dir r) (mounts @ new, add_projection (om_name (cm_meta cm)) vol) ms)))"

definition addResourcesToBuilderContextVolume ::
  "'w cb_env \<Rightarrow> 'w \<Rightarrow> kaniko_task \<Rightarrow> container_build \<Rightarrow> volume list \<Rightarrow> volume_mount list \<Rightarrow>
    kerror + volume list \<times> volume_mount list" where
  "addResourcesToBuilderContextVolume env w t b vols mounts =
    (case context_mounts env w (kt_contextDir t) b (cb_volumes b) [] of
       Inl e \<Rightarrow> Inl e
     | Inr ms \<Rightarrow> Inr (vols @ map (\<lambda>(_, _, v). v) ms, mounts @ concat (map (\<lambda>(_, m, _). m) ms)))"

text \<open>\<open>addKanikoTaskToPod\<close> may set the registry address of the task it is given: it answers with the
  task and the pod.\<close>

definition kaniko_registry :: "'w cb_env \<Rightarrow> 'w \<Rightarrow> kaniko_task \<Rightarrow> kerror + kaniko_task" where
  "kaniko_registry env w t =
    (let set = (\<lambda>a. t\<lparr>kt_registry := (kt_registry t)\<lparr>rg_address := a\<rparr>\<rparr>)
     in if rg_address (kt_registry t) \<noteq> '''' then Inr t
        else case cb_GetRegistryAddress env w of
          Inl e \<Rightarrow> Inl e
        | Inr (Some a) \<Rightarrow> Inr (set a)
        | Inr None \<Rightarrow>
           (case FindRegistry env w of
              Inl e \<Rightarrow> Inl e
            | Inr (Some a) \<Rightarrow> Inr (set a)
            | Inr None \<Rightarrow> Inr t))"

definition kaniko_args :: "kaniko_task \<Rightarrow> string list" where
  "kaniko_args t =
    [''--dockerfile=Dockerfile'', ''--context=dir://'' @ kt_contextDir t,
     ''--destination='' @ GetRepositoryImageTag t, ''--ignore-path=/product_uuid''] @
    kt_flags t @ (if kt_verbose t = Some True then [''-v=debug''] else [])"

definition addKanikoTaskToPod ::
  "'w cb_env \<Rightarrow> 'w \<Rightarrow> container_build \<Rightarrow> kaniko_task \<Rightarrow> pod \<Rightarrow> kerror + kaniko_task \<times> pod" where
  "addKanikoTaskToPod env w b t p =
    (case kaniko_registry env w t of Inl e \<Rightarrow> Inl e | Inr t \<Rightarrow>
     (let secret = (if rg_secret (kt_registry t) \<noteq> ''''
                    then map_sum id Some (getRegistrySecret env w (om_namespace (pd_meta p))
                           (rg_secret (kt_registry t)) kanikoRegistrySecrets)
                    else Inr None)
      in case secret of Inl e \<Rightarrow> Inl e | Inr s \<Rightarrow>
       (let (vols, mounts, ev) =
              (case s of None \<Rightarrow> ([], [], kt_envs t)
               | Some s \<Rightarrow> addRegistrySecret (rg_secret (kt_registry t)) s ([], [], kt_envs t));
            args = kaniko_args t @
              (if rg_insecure (kt_registry t) then [''--insecure'', ''--insecure-pull''] else [])
        in case addResourcesToBuilderContextVolume env w t b vols mounts of
             Inl e \<Rightarrow> Inl e
           | Inr (vols, mounts) \<Rightarrow>
             (case FromEnvToArgs env w (om_namespace (pd_meta p)) (kt_buildArgs t) of
                Inl e \<Rightarrow> Inl e
              | Inr bargs \<Rightarrow>
                (let c = \<lparr>ct_name = ToLower (kt_name t), ct_image = kt_executorImage t,
                          ct_imagePullPolicy = ''IfNotPresent'',
                          ct_args = args @ map (\<lambda>a. ''--build-arg='' @ a) bargs,
                          ct_workingDir = kt_contextDir t,
                          ct_env = ev @ proxyFromEnvironment env,
                          ct_mounts = mounts, ct_ports = [], ct_extras = no_extras\<rparr>;
                     ps = pd_spec p
                 in Inr (t, p\<lparr>pd_spec := ps\<lparr>ps_containers := ps_containers ps @ [c],
                                            ps_volumes := ps_volumes ps @ vols\<rparr>\<rparr>))))))"

fun add_tasks ::
  "'w cb_env \<Rightarrow> 'w \<Rightarrow> container_build \<Rightarrow> kaniko_task option list \<Rightarrow> pod \<Rightarrow>
    kerror + kaniko_task option list \<times> pod" where
  "add_tasks env w b [] p = Inr ([], p)"
| "add_tasks env w b (None # ts) p =
    map_sum id (\<lambda>(ts', p'). (None # ts', p')) (add_tasks env w b ts p)"
| "add_tasks env w b (Some t # ts) p =
    (case addKanikoTaskToPod env w b t p of
       Inl e \<Rightarrow> Inl e
     | Inr (t', p') \<Rightarrow> map_sum id (\<lambda>(ts', p''). (Some t' # ts', p'')) (add_tasks env w b ts p'))"

definition empty_pod :: "string \<Rightarrow> string \<Rightarrow> pod" where
  "empty_pod ns name =
    \<lparr>pd_meta = new_meta ns name, pd_spec = \<lparr>ps_containers = [], ps_initContainers = [], ps_volumes = []\<rparr>, pd_phase = '''',
     pd_podIP = '''', pd_hostIP = '''', pd_owner = None, pd_conditions = [], pd_initStatuses = [],
     pd_statuses = []\<rparr>"

definition newBuildPod :: "'w cb_env \<Rightarrow> 'w \<Rightarrow> container_build \<Rightarrow> kerror + container_build \<times> pod" where
  "newBuildPod env w b =
    (let p = empty_pod (cb_namespace b) (buildPodName b);
         p = p\<lparr>pd_meta := (pd_meta p)\<lparr>om_labels :=
                 Some [(''sonataflow.org/containerBuildContext'', cb_name b),
                       (''sonataflow.org/component'', ''builder'')]\<rparr>\<rparr>
     in map_sum id (\<lambda>(ts, p). (b\<lparr>cb_tasks := ts\<rparr>, p)) (add_tasks env w b (cb_tasks b) p))"

subsection \<open>What the pod says\<close>

definition timeoutAnnotation :: string where "timeoutAnnotation = ''sonataflow.org/timeout''"

definition isPodScheduled :: "pod \<Rightarrow> bool" where
  "isPodScheduled p \<longleftrightarrow> (''PodScheduled'', ''True'') \<in> set (pd_conditions p)"

definition pod_annotations :: "pod \<Rightarrow> gomap" where
  "pod_annotations p = (case om_annotations (pd_meta p) of None \<Rightarrow> [] | Some m \<Rightarrow> m)"

definition set_annotations :: "gomap option \<Rightarrow> pod \<Rightarrow> pod" where
  "set_annotations a p = p\<lparr>pd_meta := (pd_meta p)\<lparr>om_annotations := a\<rparr>\<rparr>"

text \<open>The value of the annotation is the text of the instant; only its presence is ever read.\<close>

definition addTimeoutAnnotation :: "'w cb_env \<Rightarrow> 'w \<Rightarrow> pod \<Rightarrow> kerror option \<times> 'w" where
  "addTimeoutAnnotation env w p =
    (if map_has (pod_annotations p) timeoutAnnotation then (None, w)
     else c_patch (ce_pods env) w
            (set_annotations (Some (AList.update timeoutAnnotation (rfc3339 (ce_now env w))
                                      (pod_annotations p))) p))"

definition removeTimeoutAnnotation :: "'w cb_env \<Rightarrow> 'w \<Rightarrow> pod \<Rightarrow> kerror option \<times> 'w" where
  "removeTimeoutAnnotation env w p =
    (if \<not> map_has (pod_annotations p) timeoutAnnotation then (None, w)
     else c_patch (ce_pods env) w
            (set_annotations (Some (AList.delete timeoutAnnotation (pod_annotations p))) p))"

text \<open>The latest end of a container, the zero time when none has ended.\<close>

definition later_end :: "int \<Rightarrow> container_status \<Rightarrow> int" where
  "later_end t c =
    (case cs_terminated c of
       None \<Rightarrow> t
     | Some s \<Rightarrow> if t = 0 \<or> te_finishedAt s > t then te_finishedAt s else t)"

definition getTerminatedTime :: "pod \<Rightarrow> int" where
  "getTerminatedTime p = foldl later_end 0 (pd_initStatuses p @ pd_statuses p)"

definition termination_message :: "container_status \<Rightarrow> (string \<times> string) option" where
  "termination_message c =
    (case cs_terminated c of
       None \<Rightarrow> None
     | Some t \<Rightarrow> if te_exitCode t \<noteq> 0 \<and> te_message t \<noteq> '''' then Some (cs_name c, te_message t) else None)"

definition json_message :: "string \<times> string \<Rightarrow> string" where
  "json_message m =
    (case m of (c, t) \<Rightarrow>
      ''{'' @ (if c \<noteq> '''' then json_string ''container'' @ '':'' @ json_string c @ '','' else '''') @
      json_string ''message'' @ '':'' @ json_string t @ ''}'')"

definition getTerminationMessage :: "pod \<Rightarrow> string" where
  "getTerminationMessage p =
    (case List.map_filter termination_message (pd_initStatuses p @ pd_statuses p) of
       [] \<Rightarrow> ''''
     | [(_, m)] \<Rightarrow> m
     | ms \<Rightarrow> ''['' @ join_with '','' (map json_message ms) @ '']'')"

subsection \<open>The actions\<close>

type_synonym 'w cb_handler = "'w cb_env \<Rightarrow> 'w \<Rightarrow> container_build \<Rightarrow> container_build option outcome \<times> 'w"

definition initialize_CanHandle :: "container_build \<Rightarrow> bool" where
  "initialize_CanHandle b \<longleftrightarrow> cb_phase b = PhaseNone \<or> cb_phase b = PhaseInitialization"

definition initialize_Handle :: "'w cb_handler" where
  "initialize_Handle env w b =
    (case deleteBuilderPod env w b of
       (Some e, w) \<Rightarrow> (Fail (OtherError (''cannot delete build pod: '' @ error_text e)), w)
     | (None, w) \<Rightarrow>
        (case getBuilderPod env w b of
           Inl e \<Rightarrow> (Fail e, w)
         | Inr (Some _) \<Rightarrow> (Ret None, w)
         | Inr None \<Rightarrow> (Ret (Some (b\<lparr>cb_phase := PhaseScheduling\<rparr>)), w)))"

definition schedule_CanHandle :: "container_build \<Rightarrow> bool" where
  "schedule_CanHandle b \<longleftrightarrow> cb_phase b = PhaseScheduling"

definition schedule_Handle :: "'w cb_handler" where
  "schedule_Handle env w b =
    (Ret (Some (b\<lparr>cb_startedAt := Some (ce_now env w), cb_phase := PhasePending\<rparr>)), w)"

definition monitor_CanHandle :: "container_build \<Rightarrow> bool" where
  "monitor_CanHandle b \<longleftrightarrow> cb_phase b = PhasePending \<or> cb_phase b = PhaseRunning"

definition first_image_tag :: "container_build \<Rightarrow> string" where
  "first_image_tag b =
    (case List.map_filter id (cb_tasks b) of
       [] \<Rightarrow> cb_imageTag b | t # _ \<Rightarrow> GetRepositoryImageTag t)"

definition failed_phase :: "container_build \<Rightarrow> pod \<Rightarrow> build_phase \<times> string" where
  "failed_phase b p =
    (let msg = (if getTerminationMessage p \<noteq> '''' then getTerminationMessage p else ''Pod failed'');
         (ph, msg) = (if om_deletionTimestamp (pd_meta p) \<noteq> None then (PhaseInterrupted, ''Pod deleted'')
                      else if map_has (pod_annotations p) timeoutAnnotation
                           then (PhaseFailed, ''ContainerBuild timeout'')
                      else (PhaseFailed, msg))
     in (if cb_phase b = PhaseError then (PhaseError, msg) else (ph, msg)))"

definition follow_pod :: "'w cb_env \<Rightarrow> 'w \<Rightarrow> container_build \<Rightarrow> pod \<Rightarrow> container_build option outcome \<times> 'w" where
  "follow_pod env w b p =
    (if pd_phase p = ''Pending'' \<or> pd_phase p = ''Running'' then
       (let b = (if isPodScheduled p then b\<lparr>cb_phase := PhaseRunning\<rparr> else b)
        in case cb_startedAt b of
             None \<Rightarrow> (Panic, w)
           | Some s \<Rightarrow>
              (if ce_now env w - s > cb_timeout b
               then (case addTimeoutAnnotation env w p of
                       (Some e, w) \<Rightarrow> (Fail e, w)
                     | (None, w) \<Rightarrow> (Ret (Some b), w))
               else (Ret (Some b), w)))
     else if pd_phase p = ''Succeeded'' then
       (case removeTimeoutAnnotation env w p of
          (Some e, w) \<Rightarrow> (Fail e, w)
        | (None, w) \<Rightarrow>
           (case cb_startedAt b of
              None \<Rightarrow> (Panic, w)
            | Some s \<Rightarrow> (Ret (Some (b\<lparr>cb_phase := PhaseSucceeded,
                                     cb_duration := Some (getTerminatedTime p - s),
                                     cb_imageTag := first_image_tag b\<rparr>)), w)))
     else if pd_phase p = ''Failed'' then
       (case cb_startedAt b of
          None \<Rightarrow> (Panic, w)
        | Some s \<Rightarrow>
           (let (ph, msg) = failed_phase b p
            in (Ret (Some (b\<lparr>cb_phase := ph, cb_error := msg,
                            cb_duration := Some (getTerminatedTime p - s)\<rparr>)), w)))
     else (Ret (Some b), w))"

text \<open>After \<open>Create\<close> the object holds what the server stored.\<close>

definition created_pod :: "'w cb_env \<Rightarrow> 'w \<Rightarrow> pod \<Rightarrow> pod" where
  "created_pod env w p =
    (case c_get (ce_pods env) w (om_namespace (pd_meta p)) (om_name (pd_meta p)) of
       Inl _ \<Rightarrow> p | Inr p' \<Rightarrow> p')"

definition monitor_Handle :: "'w cb_handler" where
  "monitor_Handle env w b =
    (case getBuilderPod env w b of
       Inl e \<Rightarrow> (Fail e, w)
     | Inr (Some p) \<Rightarrow> follow_pod env w b p
     | Inr None \<Rightarrow>
        (if cb_phase b = PhasePending then
           (case newBuildPod env w b of
              Inl e \<Rightarrow> (Fail e, w)
            | Inr (b, p) \<Rightarrow>
               (case c_create (ce_pods env) w p of
                  (Some e, w) \<Rightarrow> (Fail (OtherError (''cannot create build pod: '' @ error_text e)), w)
                | (None, w) \<Rightarrow> follow_pod env w b (created_pod env w p)))
         else if cb_phase b = PhaseRunning then
           (Ret (Some (b\<lparr>cb_phase := PhaseInterrupted, cb_error := ''Pod deleted''\<rparr>)), w)
         else (Panic, w)))"

definition recovery_CanHandle :: "container_build \<Rightarrow> bool" where
  "recovery_CanHandle b \<longleftrightarrow> cb_phase b = PhaseFailed"

definition recovery_Handle :: "'w cb_handler" where
  "recovery_Handle env w b =
    (case cb_failure b of
       None \<Rightarrow>
         (Ret (Some (b\<lparr>cb_failure := Some \<lparr>fa_reason = cb_error b, fa_time = ce_now env w,
                                          fa_attempt = 0, fa_attemptMax = 5, fa_attemptTime = 0\<rparr>\<rparr>)), w)
     | Some f \<Rightarrow>
        (if fa_attempt f \<ge> fa_attemptMax f then (Ret (Some (b\<lparr>cb_phase := PhaseError\<rparr>)), w)
         else (let last = (if fa_attemptTime f = 0 then fa_time f else fa_attemptTime f)
               in if ce_now env w - last < ce_backoff env (fa_attempt f) then (Ret None, w)
                  else (Ret (Some (b\<lparr>cb_phase := PhaseInitialization,
                          cb_failure := Some (f\<lparr>fa_attempt := fa_attempt f + 1,
                                               fa_attemptTime := ce_now env w\<rparr>)\<rparr>)), w))))"

definition cb_actions :: "string \<Rightarrow> ((container_build \<Rightarrow> bool) \<times> 'w cb_handler) list" where
  "cb_actions strategy =
    (if strategy = ContainerBuildStrategyPod
     then [(initialize_CanHandle, initialize_Handle), (schedule_CanHandle, schedule_Handle),
           (monitor_CanHandle, monitor_Handle), (recovery_CanHandle, recovery_Handle)]
     else [])"

text \<open>\<open>Reconcile\<close>: the first action that can handle the build; an action that answers nil leaves the
  build as it was.\<close>

definition cb_Reconcile :: "'w cb_env \<Rightarrow> 'w \<Rightarrow> container_build \<Rightarrow> container_build outcome \<times> 'w" where
  "cb_Reconcile env w b =
    (case find (\<lambda>(can, _). can b) (cb_actions (cb_strategy b)) of
       None \<Rightarrow> (Ret b, w)
     | Some (_, handle) \<Rightarrow>
        (case handle env w b of
           (Ret None, w) \<Rightarrow> (Ret b, w)
         | (Ret (Some b'), w) \<Rightarrow> (Ret b', w)
         | (Fail e, w) \<Rightarrow> (Fail e, w)
         | (Panic, w) \<Rightarrow> (Panic, w)))"

subsection \<open>Scheduling a new build\<close>

record platform_build =
  pb_namespace :: string
  pb_name :: string
  pb_buildStrategy :: string
  pb_publishStrategy :: string
  pb_baseImage :: string
  pb_registry :: registry_spec
  pb_timeout :: "int option"

record builder_info =
  bi_image :: string
  bi_name :: string
  bi_platform :: platform_build
  bi_executorImage :: string

definition kaniko_CanHandle :: "builder_info \<Rightarrow> bool" where
  "kaniko_CanHandle i \<longleftrightarrow>
    pb_buildStrategy (bi_platform i) = ContainerBuildStrategyPod \<and>
    pb_publishStrategy (bi_platform i) = PlatformBuildPublishStrategyKaniko"

text \<open>The scheduler's task and build; a platform without timeout is the nil dereference, an
  unsupported strategy the panic of \<open>Scheduler\<close>.\<close>

definition CreateScheduler :: "builder_info \<Rightarrow> container_build outcome" where
  "CreateScheduler i =
    (if \<not> kaniko_CanHandle i then Panic
     else case pb_timeout (bi_platform i) of
       None \<Rightarrow> Panic
     | Some t \<Rightarrow>
        Ret \<lparr>cb_namespace = pb_namespace (bi_platform i), cb_name = bi_name i,
             cb_tasks = [Some \<lparr>kt_name = ''KanikoTask'', kt_resources = '''', kt_buildArgs = [], kt_envs = [],
               kt_contextDir = path_join [''/builder'', bi_name i, ''context''],
               kt_baseImage = pb_baseImage (bi_platform i), kt_image = bi_image i,
               kt_registry = pb_registry (bi_platform i), kt_verbose = None, kt_cacheEnabled = None,
               kt_cachePVC = '''', kt_flags = [], kt_executorImage = bi_executorImage i\<rparr>],
             cb_strategy = ContainerBuildStrategyPod, cb_timeout = t, cb_phase = PhaseNone,
             cb_imageTag = '''', cb_error = '''', cb_failure = None, cb_startedAt = None,
             cb_duration = None, cb_volumes = []\<rparr>)"

text \<open>\<open>WithAdditionalArgs\<close>, \<open>WithResourceRequirements\<close>, \<open>WithBuildArgs\<close> and \<open>WithEnvs\<close>, which write to
  the one task of the scheduler's build, and \<open>WithProperty\<close> for the cache.\<close>

definition on_task :: "(kaniko_task \<Rightarrow> kaniko_task) \<Rightarrow> container_build \<Rightarrow> container_build" where
  "on_task f b = b\<lparr>cb_tasks := map (map_option f) (cb_tasks b)\<rparr>"

definition with_options ::
  "string list \<Rightarrow> string \<Rightarrow> env_var list \<Rightarrow> env_var list \<Rightarrow> container_build \<Rightarrow> container_build" where
  "with_options flags res bargs envs b =
    on_task (\<lambda>t. t\<lparr>kt_flags := flags, kt_resources := res, kt_buildArgs := bargs, kt_envs := envs\<rparr>) b"

definition WithCache :: "bool option \<Rightarrow> string \<Rightarrow> container_build \<Rightarrow> container_build" where
  "WithCache enabled pvc b = on_task (\<lambda>t. t\<lparr>kt_cacheEnabled := enabled, kt_cachePVC := pvc\<rparr>) b"

definition resources_cm :: "container_build \<Rightarrow> (string \<times> string) list \<Rightarrow> config_map \<Rightarrow> config_map" where
  "resources_cm b res cm = cm\<lparr>cm_data := Some (foldl (\<lambda>m (k, v). AList.update k v m) [] res)\<rparr>"

text \<open>\<open>mountResourcesBinaryWithConfigMapToBuild\<close>: create or overwrite the build's config map with the
  resources (target, content) and mount it at the root of the context.\<close>

definition mountResourcesBinary ::
  "'w cb_env \<Rightarrow> 'w \<Rightarrow> (string \<times> string) list \<Rightarrow> container_build \<Rightarrow> (kerror + container_build) \<times> 'w" where
  "mountResourcesBinary env w res b =
    (if res = [] then (Inr b, w)
     else (let name = buildPodName b;
               mount = b\<lparr>cb_volumes := cb_volumes b @
                         [\<lparr>rw_name = name, rw_type = ''configMap'', rw_dir = ''''\<rparr>]\<rparr>
           in case c_get (ce_cms env) w (cb_namespace b) name of
                Inl e \<Rightarrow>
                  (if \<not> IsNotFound e then (Inl e, w)
                   else (case c_create (ce_cms env) w
                                (resources_cm b res \<lparr>cm_meta = new_meta (cb_namespace b) name, cm_data = None\<rparr>) of
                           (Some e, w) \<Rightarrow> (Inl e, w)
                         | (None, w) \<Rightarrow> (Inr mount, w)))
              | Inr cm \<Rightarrow>
                  (case c_update (ce_cms env) w (resources_cm b res cm) of
                     (Some e, w) \<Rightarrow> (Inl e, w)
                   | (None, w) \<Rightarrow> (Inr mount, w))))"

definition mountResourcesConfigMap :: "(string \<times> string) list \<Rightarrow> container_build \<Rightarrow> container_build" where
  "mountResourcesConfigMap cms b =
    b\<lparr>cb_volumes := cb_volumes b @
       map (\<lambda>(name, dir). \<lparr>rw_name = name, rw_type = ''configMap'', rw_dir = dir\<rparr>) cms\<rparr>"

definition newContainerBuild ::
  "'w cb_env \<Rightarrow> 'w \<Rightarrow> (string \<times> string) list \<Rightarrow> (string \<times> string) list \<Rightarrow> container_build \<Rightarrow>
    container_build outcome \<times> 'w" where
  "newContainerBuild env w res cms b =
    (case mountResourcesBinary env w res b of
       (Inl e, w) \<Rightarrow> (Fail e, w)
     | (Inr b, w) \<Rightarrow> cb_Reconcile env w (mountResourcesConfigMap cms b))"

subsection \<open>Which phase follows which\<close>

definition phase_next :: "build_phase \<Rightarrow> build_phase list" where
  "phase_next p =
    (case p of
       PhaseNone \<Rightarrow> [PhaseScheduling]
     | PhaseInitialization \<Rightarrow> [PhaseScheduling]
     | PhaseScheduling \<Rightarrow> [PhasePending]
     | PhasePending \<Rightarrow> [PhaseRunning, PhaseSucceeded, PhaseFailed, PhaseInterrupted]
     | PhaseRunning \<Rightarrow> [PhaseSucceeded, PhaseFailed, PhaseInterrupted]
     | PhaseFailed \<Rightarrow> [PhaseInitialization, PhaseError]
     | PhaseSucceeded \<Rightarrow> []
     | PhaseInterrupted \<Rightarrow> []
     | PhaseError \<Rightarrow> [])"

text \<open>The recoveries a build has left, and its measure: the recoveries left first, then the distance to
  an end of the current attempt.\<close>

definition recoveries_left :: "container_build \<Rightarrow> nat" where
  "recoveries_left b = (case cb_failure b of None \<Rightarrow> 6 | Some f \<Rightarrow> nat (fa_attemptMax f - fa_attempt f))"

definition phase_rank :: "build_phase \<Rightarrow> nat" where
  "phase_rank p =
    (case p of PhaseNone \<Rightarrow> 6 | PhaseInitialization \<Rightarrow> 6 | PhaseScheduling \<Rightarrow> 5 | PhasePending \<Rightarrow> 4
     | PhaseRunning \<Rightarrow> 3 | PhaseFailed \<Rightarrow> 2 | PhaseSucceeded \<Rightarrow> 0 | PhaseInterrupted \<Rightarrow> 0 | PhaseError \<Rightarrow> 0)"

definition cb_measure :: "container_build \<Rightarrow> nat" where
  "cb_measure b = 7 * recoveries_left b + phase_rank (cb_phase b)"

text \<open>A build that has been scheduled keeps its start time, and its failure record stays within its
  bounds.\<close>

definition cb_inv :: "container_build \<Rightarrow> bool" where
  "cb_inv b \<longleftrightarrow>
    (cb_phase b \<in> {PhasePending, PhaseRunning} \<longrightarrow> cb_startedAt b \<noteq> None) \<and>
    (case cb_failure b of None \<Rightarrow> True
     | Some f \<Rightarrow> fa_attemptMax f = 5 \<and> 0 \<le> fa_attempt f \<and> fa_attempt f \<le> 5)"

lemmas can_handle_defs = initialize_CanHandle_def schedule_CanHandle_def monitor_CanHandle_def
  recovery_CanHandle_def

text \<open>The parts of a build no action touches, and the part the builder pod leaves alone.\<close>

lemma newBuildPod_frame:
  "newBuildPod env w b = Inr (b', p) \<Longrightarrow> \<exists>ts. b' = b\<lparr>cb_tasks := ts\<rparr>"
  by (auto simp: newBuildPod_def Let_def map_sum_Inr_iff)

lemma follow_pod_Ret:
  assumes "follow_pod env w b p = (Ret r, w')" "cb_phase b \<in> {PhasePending, PhaseRunning}"
  shows "\<exists>b'. r = Some b' \<and> cb_failure b' = cb_failure b \<and> cb_startedAt b' = cb_startedAt b \<and>
    cb_strategy b' = cb_strategy b \<and>
    (cb_phase b' = cb_phase b \<or> cb_phase b' \<in> {PhaseRunning, PhaseSucceeded, PhaseFailed, PhaseInterrupted})"
  using assms
  by (auto simp: follow_pod_def failed_phase_def Let_def split: if_splits option.splits prod.splits)

lemma follow_pod_no_panic:
  "cb_startedAt b \<noteq> None \<Longrightarrow> follow_pod env w b p \<noteq> (Panic, w')"
  by (auto simp: follow_pod_def Let_def split: if_splits option.splits prod.splits)

lemma monitor_Ret:
  assumes "monitor_Handle env w b = (Ret r, w')" "cb_phase b \<in> {PhasePending, PhaseRunning}"
  shows "\<exists>b'. r = Some b' \<and> cb_failure b' = cb_failure b \<and> cb_startedAt b' = cb_startedAt b \<and>
    cb_strategy b' = cb_strategy b \<and>
    (cb_phase b' = cb_phase b \<or> cb_phase b' \<in> {PhaseRunning, PhaseSucceeded, PhaseFailed, PhaseInterrupted})"
proof -
  consider (pod) p where "getBuilderPod env w b = Inr (Some p)"
    | (none) "getBuilderPod env w b = Inr None"
    using assms(1) by (auto simp: monitor_Handle_def split: sum.splits option.splits)
  then show ?thesis
  proof cases
    case (pod p)
    then show ?thesis using assms follow_pod_Ret by (simp add: monitor_Handle_def)
  next
    case none
    show ?thesis
    proof (cases "cb_phase b = PhasePending")
      case True
      then obtain b1 p w1 where n: "newBuildPod env w b = Inr (b1, p)"
        and f: "follow_pod env w1 b1 (created_pod env w1 p) = (Ret r, w')"
        using none assms(1)
        by (auto simp: monitor_Handle_def split: sum.splits option.splits prod.splits)
      obtain ts where b1: "b1 = b\<lparr>cb_tasks := ts\<rparr>" using newBuildPod_frame[OF n] by blast
      show ?thesis using follow_pod_Ret[OF f] assms(2) by (simp add: b1)
    next
      case False
      then show ?thesis using none assms by (auto simp: monitor_Handle_def)
    qed
  qed
qed

lemma monitor_no_panic:
  assumes "cb_startedAt b \<noteq> None" "cb_phase b \<in> {PhasePending, PhaseRunning}"
  shows "monitor_Handle env w b \<noteq> (Panic, w')"
proof
  assume m: "monitor_Handle env w b = (Panic, w')"
  then consider (pod) p where "getBuilderPod env w b = Inr (Some p)"
    | (none) "getBuilderPod env w b = Inr None"
    by (auto simp: monitor_Handle_def split: sum.splits option.splits)
  then show False
  proof cases
    case (pod p)
    then show False using m follow_pod_no_panic[OF assms(1), of env w p w'] by (simp add: monitor_Handle_def)
  next
    case none
    then obtain b1 p w1 where n: "newBuildPod env w b = Inr (b1, p)"
      and f: "follow_pod env w1 b1 (created_pod env w1 p) = (Panic, w')"
      using m assms(2)
      by (auto simp: monitor_Handle_def split: sum.splits option.splits prod.splits if_splits)
    then show False using follow_pod_no_panic[of b1 env w1] newBuildPod_frame[OF n] assms(1) by auto
  qed
qed

text \<open>What one reconciliation does, by the phase the build is in.\<close>

lemma cb_Reconcile_other_strategy:
  "cb_strategy b \<noteq> ContainerBuildStrategyPod \<Longrightarrow> cb_Reconcile env w b = (Ret b, w)"
  by (simp add: cb_Reconcile_def cb_actions_def)

lemma cb_Reconcile_cases:
  assumes "cb_strategy b = ContainerBuildStrategyPod"
  shows "cb_Reconcile env w b =
    (let r = (case cb_phase b of
                PhaseNone \<Rightarrow> initialize_Handle env w b
              | PhaseInitialization \<Rightarrow> initialize_Handle env w b
              | PhaseScheduling \<Rightarrow> schedule_Handle env w b
              | PhasePending \<Rightarrow> monitor_Handle env w b
              | PhaseRunning \<Rightarrow> monitor_Handle env w b
              | PhaseFailed \<Rightarrow> recovery_Handle env w b
              | _ \<Rightarrow> (Ret None, w))
     in case r of (Ret None, w) \<Rightarrow> (Ret b, w) | (Ret (Some b'), w) \<Rightarrow> (Ret b', w)
        | (Fail e, w) \<Rightarrow> (Fail e, w) | (Panic, w) \<Rightarrow> (Panic, w))"
  using assms
  by (cases "cb_phase b") (simp_all add: cb_Reconcile_def cb_actions_def can_handle_defs)

text \<open>One step of a build: a reconciliation in any world, whatever happened in the cluster before.\<close>

inductive cb_step :: "'w cb_env \<Rightarrow> container_build \<Rightarrow> container_build \<Rightarrow> bool" for env where
  cb_stepI: "cb_Reconcile env w b = (Ret b', w') \<Longrightarrow> cb_step env b b'"

inductive cb_reach :: "'w cb_env \<Rightarrow> container_build \<Rightarrow> container_build \<Rightarrow> bool" for env b0 where
  cb_reach_refl: "cb_reach env b0 b0"
| cb_reach_step: "cb_reach env b0 b \<Longrightarrow> cb_step env b b' \<Longrightarrow> cb_reach env b0 b'"

inductive_cases cb_stepE: "cb_step env b b'"

lemma initialize_Ret:
  "initialize_Handle env w b = (Ret r, w') \<Longrightarrow> r = None \<or> r = Some (b\<lparr>cb_phase := PhaseScheduling\<rparr>)"
  by (auto simp: initialize_Handle_def split: prod.splits option.splits sum.splits)

lemma recovery_Ret:
  assumes "recovery_Handle env w b = (Ret (Some b'), w')" "cb_phase b = PhaseFailed" "cb_inv b"
  shows "cb_inv b' \<and> cb_measure b' < cb_measure b \<and>
    cb_phase b' \<in> {PhaseFailed, PhaseInitialization, PhaseError}"
  using assms
  by (auto simp: recovery_Handle_def cb_inv_def cb_measure_def recoveries_left_def phase_rank_def Let_def
      split: option.splits if_splits)

lemma recovery_total: "\<exists>r w'. recovery_Handle env w b = (Ret r, w')"
  by (auto simp: recovery_Handle_def Let_def split: option.splits)

lemma monitored_step:
  assumes "monitor_Handle env w b = (Ret (Some b'), w')" "cb_phase b \<in> {PhasePending, PhaseRunning}"
    "cb_inv b"
  shows "cb_inv b' \<and> (cb_phase b' = cb_phase b \<or> cb_phase b' \<in> set (phase_next (cb_phase b))) \<and>
    cb_failure b' = cb_failure b"
  using monitor_Ret[OF assms(1,2)] assms(2,3)
  by (cases "cb_phase b") (auto simp: cb_inv_def phase_next_def)

text \<open>The summary of a step: the invariant is kept, the phase stays or moves along \<open>phase_next\<close>, and a
  step that changes the phase or the failure record takes the measure down.\<close>

lemma phase_rank_next:
  "q \<in> set (phase_next p) \<Longrightarrow> p \<noteq> PhaseFailed \<Longrightarrow> phase_rank q < phase_rank p"
  by (cases p) (auto simp: phase_next_def phase_rank_def)

lemma cb_step_summary:
  assumes "cb_step env b b'" "cb_inv b"
  shows "cb_inv b' \<and>
    (cb_phase b' = cb_phase b \<or> cb_phase b' \<in> set (phase_next (cb_phase b))) \<and>
    ((cb_phase b' = cb_phase b \<and> cb_failure b' = cb_failure b) \<or> cb_measure b' < cb_measure b)"
proof -
  obtain w w' where r: "cb_Reconcile env w b = (Ret b', w')" using assms(1) by (auto elim: cb_stepE)
  show ?thesis
  proof (cases "b' = b \<or> cb_strategy b \<noteq> ContainerBuildStrategyPod")
    case True
    then show ?thesis using r assms(2) cb_Reconcile_other_strategy[of b env w] by auto
  next
    case False
    then have strat: "cb_strategy b = ContainerBuildStrategyPod" and ne: "b' \<noteq> b" by auto
    consider (init) "cb_phase b \<in> {PhaseNone, PhaseInitialization}"
        "initialize_Handle env w b = (Ret (Some b'), w')"
      | (sched) "cb_phase b = PhaseScheduling" "schedule_Handle env w b = (Ret (Some b'), w')"
      | (mon) "cb_phase b \<in> {PhasePending, PhaseRunning}" "monitor_Handle env w b = (Ret (Some b'), w')"
      | (rec) "cb_phase b = PhaseFailed" "recovery_Handle env w b = (Ret (Some b'), w')"
      using r ne
      by (cases "cb_phase b")
        (auto simp: cb_Reconcile_cases[OF strat] split: prod.splits outcome.splits option.splits)
    then show ?thesis
    proof cases
      case init
      then show ?thesis
        using initialize_Ret[OF init(2)] assms(2)
        by (auto simp: cb_inv_def cb_measure_def recoveries_left_def phase_rank_def phase_next_def)
    next
      case sched
      then show ?thesis
        using assms(2)
        by (auto simp: schedule_Handle_def cb_inv_def cb_measure_def recoveries_left_def
            phase_rank_def phase_next_def)
    next
      case mon
      then have "cb_phase b \<noteq> PhaseFailed" by auto
      then show ?thesis
        using monitored_step[OF mon(2,1) assms(2)] phase_rank_next[of "cb_phase b'" "cb_phase b"]
        by (auto simp: cb_measure_def recoveries_left_def)
    next
      case rec
      then show ?thesis using recovery_Ret[OF rec(2,1) assms(2)] by (auto simp: phase_next_def)
    qed
  qed
qed

lemma cb_reach_inv: "cb_reach env b0 b \<Longrightarrow> cb_inv b0 \<Longrightarrow> cb_inv b"
  by (induction rule: cb_reach.induct) (auto dest: cb_step_summary)

lemma cb_no_panic:
  assumes "cb_inv b" shows "cb_Reconcile env w b \<noteq> (Panic, w')"
proof (cases "cb_strategy b = ContainerBuildStrategyPod")
  case True
  show ?thesis
  proof (cases "cb_phase b \<in> {PhasePending, PhaseRunning}")
    case True': True
    then have "cb_startedAt b \<noteq> None" using assms by (auto simp: cb_inv_def)
    then show ?thesis
      using monitor_no_panic[OF _ True', of env w] True'
      by (auto simp: cb_Reconcile_cases[OF True] split: prod.splits outcome.splits option.splits)
  next
    case False
    then show ?thesis
      using recovery_total[of env w b]
      by (cases "cb_phase b")
        (auto simp: cb_Reconcile_cases[OF True] schedule_Handle_def initialize_Handle_def
          split: prod.splits outcome.splits option.splits sum.splits)
  qed
qed (simp add: cb_Reconcile_other_strategy)

text \<open>The changes of phase or failure record along a sequence of builds.\<close>

fun cb_changes :: "container_build list \<Rightarrow> nat" where
  "cb_changes (b # b' # bs) =
    (if cb_phase b' = cb_phase b \<and> cb_failure b' = cb_failure b then 0 else 1) + cb_changes (b' # bs)"
| "cb_changes _ = 0"

lemma cb_changes_bound:
  "successively (cb_step env) (b # bs) \<Longrightarrow> cb_inv b \<Longrightarrow> cb_changes (b # bs) \<le> cb_measure b"
proof (induction bs arbitrary: b)
  case (Cons b' bs)
  have s: "cb_step env b b'" using Cons.prems(1) by simp
  have ih: "cb_changes (b' # bs) \<le> cb_measure b'"
    using Cons cb_step_summary[OF s Cons.prems(2)] by simp
  have same: "cb_measure b' = cb_measure b"
    if "cb_phase b' = cb_phase b \<and> cb_failure b' = cb_failure b"
    using that by (simp add: cb_measure_def recoveries_left_def)
  show ?case using ih same cb_step_summary[OF s Cons.prems(2)] by auto
qed simp

definition fresh_build :: "container_build \<Rightarrow> bool" where
  "fresh_build b \<longleftrightarrow> cb_phase b = PhaseNone \<and> cb_failure b = None \<and> cb_startedAt b = None"

lemma fresh_build_inv: "fresh_build b \<Longrightarrow> cb_inv b"
  by (simp add: fresh_build_def cb_inv_def)

lemma scheduled_builds_are_fresh:
  "CreateScheduler i = Ret b \<Longrightarrow> fresh_build (mountResourcesConfigMap cms (with_options fl r ba en b))"
  by (auto simp: CreateScheduler_def fresh_build_def with_options_def on_task_def
      mountResourcesConfigMap_def split: if_splits option.splits)

subsection \<open>Properties\<close>

text \<open>A cluster with a clock and builder pods, for the witnesses.\<close>

type_synonym cb_world = "int \<times> pod list"

definition pods_client :: "(cb_world, pod) client" where
  "pods_client = mem_client (\<lambda>p. om_namespace (pd_meta p)) (\<lambda>p. om_name (pd_meta p)) snd (\<lambda>ps w. (fst w, ps))"

interpretation pod_store: object_store pods_client
  "\<lambda>p. om_namespace (pd_meta p)" "\<lambda>p. om_name (pd_meta p)"
  unfolding pods_client_def by (rule mem_client_store) simp

definition no_client :: "('o \<Rightarrow> string) \<Rightarrow> (cb_world, 'o) client" where
  "no_client f = mem_client f f (\<lambda>_. []) (\<lambda>_ w. w)"

definition ex_cb_env :: "cb_world cb_env" where
  "ex_cb_env = \<lparr>ce_now = fst, ce_pods = pods_client,
     ce_cms = no_client (\<lambda>c. om_name (cm_meta c)), ce_secrets = no_client (\<lambda>s. om_name (se_meta s)),
     ce_list_services = (\<lambda>_ _ _. Inr []), ce_uuid = (\<lambda>_ n. show_nat n), ce_lookupEnv = (\<lambda>_. None),
     ce_yamlHost = Inr, ce_backoff = (\<lambda>n. 5 * 2 ^ nat n)\<rparr>"

definition ex_cb :: container_build where
  "ex_cb = \<lparr>cb_namespace = ''ns'', cb_name = ''wf'', cb_tasks = [], cb_strategy = ''pod'',
     cb_timeout = 300, cb_phase = PhaseNone, cb_imageTag = '''', cb_error = '''', cb_failure = None,
     cb_startedAt = None, cb_duration = None, cb_volumes = []\<rparr>"

definition ex_builder_pod :: "string \<Rightarrow> pod" where
  "ex_builder_pod ph = (empty_pod ''ns'' ''sonataflow-wf-builder'')
     \<lparr>pd_phase := ph, pd_conditions := [(''PodScheduled'', ''True'')]\<rparr>"

text \<open>C3: a build only ever moves along the documented phases: from none or Initialization to
  Scheduling, to Pending, to Running, to an end; a Failed build goes back to Initialization or ends
  in Error; and each change of the phase or of the failure record uses up part of a fixed budget.\<close>

theorem build_phases:
  assumes "fresh_build b0" "cb_reach env b0 b" "cb_step env b b'"
  shows "(cb_phase b' = cb_phase b \<or> cb_phase b' \<in> set (phase_next (cb_phase b))) \<and>
    ((cb_phase b' = cb_phase b \<and> cb_failure b' = cb_failure b) \<or> cb_measure b' < cb_measure b)"
  using cb_step_summary[OF assms(3) cb_reach_inv[OF assms(2) fresh_build_inv[OF assms(1)]]] by simp

lemma ex_cb_step1: "cb_Reconcile ex_cb_env (0, []) ex_cb = (Ret (ex_cb\<lparr>cb_phase := PhaseScheduling\<rparr>), (0, []))"
  by code_simp

theorem build_phases_witness:
  "PhaseScheduling \<in> set (phase_next PhaseNone) \<and>
   cb_measure (ex_cb\<lparr>cb_phase := PhaseScheduling\<rparr>) < cb_measure ex_cb"
  using build_phases[of ex_cb ex_cb_env ex_cb "ex_cb\<lparr>cb_phase := PhaseScheduling\<rparr>",
      OF _ cb_reach_refl cb_stepI[OF ex_cb_step1]]
  by (simp add: ex_cb_def fresh_build_def)

text \<open>C14: no sequence of reconciliations dereferences the start time before it is set, or meets a
  phase an action does not expect: whatever the cluster answers, a build that started fresh never
  panics.\<close>

theorem build_never_panics:
  assumes "fresh_build b0" "cb_reach env b0 b"
  shows "cb_Reconcile env w b \<noteq> (Panic, w')"
  by (rule cb_no_panic[OF cb_reach_inv[OF assms(2) fresh_build_inv[OF assms(1)]]])

theorem build_never_panics_witness:
  "cb_Reconcile ex_cb_env (5, [ex_builder_pod ''Running'']) (ex_cb\<lparr>cb_phase := PhaseScheduling\<rparr>) \<noteq> (Panic, (5, []))"
  by (rule build_never_panics[OF _ cb_reach_step[OF cb_reach_refl cb_stepI[OF ex_cb_step1]]])
    (simp add: ex_cb_def fresh_build_def)

text \<open>C23: a build cannot change for ever: along any sequence of reconciliations, in any worlds, the
  phase or the failure record of a fresh build changes at most 48 times (six attempts, each of at
  most six phases, with the records of the five recoveries).\<close>

theorem build_changes_bounded:
  assumes "fresh_build b0" "successively (cb_step env) (b0 # bs)"
  shows "cb_changes (b0 # bs) \<le> 48"
  using cb_changes_bound[OF assms(2) fresh_build_inv[OF assms(1)]] assms(1)
  by (simp add: fresh_build_def cb_measure_def recoveries_left_def phase_rank_def)

theorem build_changes_bounded_witness:
  "cb_changes [ex_cb, ex_cb\<lparr>cb_phase := PhaseScheduling\<rparr>] \<le> 48 \<and>
   cb_changes [ex_cb, ex_cb\<lparr>cb_phase := PhaseScheduling\<rparr>] = 1"
  using build_changes_bounded[of ex_cb ex_cb_env "[ex_cb\<lparr>cb_phase := PhaseScheduling\<rparr>]"]
    cb_stepI[OF ex_cb_step1]
  by (simp add: ex_cb_def fresh_build_def)

text \<open>the end phases are ends: a build that is Succeeded, Interrupted or in Error is left as it is
  by every further reconciliation, and so is the cluster.\<close>

theorem build_ends_are_final:
  assumes "cb_phase b \<in> {PhaseSucceeded, PhaseInterrupted, PhaseError}"
  shows "cb_Reconcile env w b = (Ret b, w)"
  using assms by (auto simp: cb_Reconcile_def cb_actions_def can_handle_defs)

theorem build_ends_are_final_witness:
  "cb_Reconcile ex_cb_env (5, []) (ex_cb\<lparr>cb_phase := PhaseInterrupted\<rparr>) =
     (Ret (ex_cb\<lparr>cb_phase := PhaseInterrupted\<rparr>), (5, []))"
  by (rule build_ends_are_final) simp

text \<open>exceeding the timeout does not end a build: as long as its pod runs, a reconciliation past the
  deadline answers the build still Running (at most the pod is annotated), however late it is.\<close>

theorem timeout_does_not_end_build:
  assumes "cb_strategy b = ContainerBuildStrategyPod" "cb_phase b = PhaseRunning"
    "getBuilderPod env w b = Inr (Some p)" "pd_phase p = ''Running''" "cb_startedAt b = Some s"
    "ce_now env w - s > cb_timeout b"
  shows "\<exists>w'. cb_Reconcile env w b = (Ret b, w') \<or> (\<exists>e. cb_Reconcile env w b = (Fail e, w'))"
proof -
  have "b\<lparr>cb_phase := PhaseRunning\<rparr> = b" using assms(2) by simp
  then show ?thesis
    using assms
    by (auto simp: cb_Reconcile_cases monitor_Handle_def follow_pod_def Let_def
        split: prod.splits option.splits)
qed

theorem timeout_does_not_end_build_witness:
  "\<exists>w'. cb_Reconcile ex_cb_env (1000000, [ex_builder_pod ''Running''])
          (ex_cb\<lparr>cb_phase := PhaseRunning, cb_startedAt := Some 0\<rparr>) =
        (Ret (ex_cb\<lparr>cb_phase := PhaseRunning, cb_startedAt := Some 0\<rparr>), w') \<or>
      (\<exists>e. cb_Reconcile ex_cb_env (1000000, [ex_builder_pod ''Running''])
          (ex_cb\<lparr>cb_phase := PhaseRunning, cb_startedAt := Some 0\<rparr>) = (Fail e, w'))"
  by (rule timeout_does_not_end_build[where p = "ex_builder_pod ''Running''" and s = 0]) code_simp+

end
