(* ===== verification/Go_Regexp.thy ===== *)
theory Go_Regexp
  imports Prelude
begin

text \<open>
  The part of Go's \<open>regexp\<close> package the operator uses: a backtracking matcher in continuation passing
  style.  Alternatives are tried from left to right and a star takes one more iteration before it
  stops, so the first success is Go's leftmost-first match.  \<open>rx_after\<close> answers what is left after
  the match at the start of a string; the language of an expression is given separately, and the
  lemmas relate the two: a match is always a word of the language, and a greedy match of the
  expressions for labels and names reaches the end of a run of their characters.
\<close>

datatype rx =
    RSet "(nat \<times> nat) list"
  | RAny
  | REps
  | REnd
  | RSeq rx rx
  | RAlt rx rx
  | RStar rx

definition in_ranges :: "(nat \<times> nat) list \<Rightarrow> char \<Rightarrow> bool" where
  "in_ranges rs c \<longleftrightarrow> list_ex (\<lambda>(a, b). a \<le> of_char c \<and> of_char c \<le> b) rs"

text \<open>The loop of a star with a bound on its iterations: an iteration must consume something, so the
  length of the string is enough.\<close>

fun star_loop ::
  "(string \<Rightarrow> (string \<Rightarrow> 'r option) \<Rightarrow> 'r option) \<Rightarrow> nat \<Rightarrow> string \<Rightarrow> (string \<Rightarrow> 'r option) \<Rightarrow> 'r option"
where
  "star_loop f 0 s k = k s"
| "star_loop f (Suc n) s k =
    (case f s (\<lambda>t. if length t < length s then star_loop f n t k else None) of
       None \<Rightarrow> k s
     | Some r \<Rightarrow> Some r)"

primrec rx_match :: "rx \<Rightarrow> string \<Rightarrow> (string \<Rightarrow> 'r option) \<Rightarrow> 'r option" where
  "rx_match (RSet rs) = (\<lambda>s k. case s of [] \<Rightarrow> None | c # t \<Rightarrow> if in_ranges rs c then k t else None)"
| "rx_match RAny = (\<lambda>s k. case s of [] \<Rightarrow> None | c # t \<Rightarrow> if of_char c = (10::nat) then None else k t)"
| "rx_match REps = (\<lambda>s k. k s)"
| "rx_match REnd = (\<lambda>s k. if s = [] then k s else None)"
| "rx_match (RSeq a b) = (\<lambda>s k. rx_match a s (\<lambda>t. rx_match b t k))"
| "rx_match (RAlt a b) = (\<lambda>s k. case rx_match a s k of None \<Rightarrow> rx_match b s k | Some r \<Rightarrow> Some r)"
| "rx_match (RStar a) = (\<lambda>s k. star_loop (rx_match a) (length s) s k)"

definition ROpt :: "rx \<Rightarrow> rx" where "ROpt a = RAlt a REps"
definition RPlus :: "rx \<Rightarrow> rx" where "RPlus a = RSeq a (RStar a)"

definition rx_char :: "char \<Rightarrow> rx" where "rx_char c = RSet [(of_char c, of_char c)]"

text \<open>A literal piece of a pattern, in which a dot stands for any character.\<close>

fun rx_lit :: "string \<Rightarrow> rx" where
  "rx_lit [] = REps"
| "rx_lit (c # cs) = RSeq (if c = CHR ''.'' then RAny else rx_char c) (rx_lit cs)"

text \<open>What follows the match at the start of the string, the text it matched, and \<open>MatchString\<close>
  for an expression that may match anywhere.\<close>

definition rx_after :: "rx \<Rightarrow> string \<Rightarrow> string option" where
  "rx_after r s = rx_match r s Some"

definition rx_text :: "string \<Rightarrow> string \<Rightarrow> string" where
  "rx_text s rest = take (length s - length rest) s"

fun rx_anywhere :: "rx \<Rightarrow> string \<Rightarrow> bool" where
  "rx_anywhere r [] \<longleftrightarrow> rx_after r [] \<noteq> None"
| "rx_anywhere r (c # s) \<longleftrightarrow> rx_after r (c # s) \<noteq> None \<or> rx_anywhere r s"

subsection \<open>Languages\<close>

inductive_set star_lang :: "string set \<Rightarrow> string set" for A where
  star_Nil: "[] \<in> star_lang A"
| star_Cons: "u \<in> A \<Longrightarrow> v \<in> star_lang A \<Longrightarrow> u @ v \<in> star_lang A"

primrec lang :: "rx \<Rightarrow> string set" where
  "lang (RSet rs) = {[c] | c. in_ranges rs c}"
| "lang RAny = {[c] | c. True}"
| "lang REps = {[]}"
| "lang REnd = {[]}"
| "lang (RSeq a b) = {u @ v | u v. u \<in> lang a \<and> v \<in> lang b}"
| "lang (RAlt a b) = lang a \<union> lang b"
| "lang (RStar a) = star_lang (lang a)"

lemma star_loop_sound:
  assumes f: "\<And>s k x. f s k = Some x \<Longrightarrow> \<exists>p t. s = p @ t \<and> p \<in> A \<and> k t = Some x"
    and "star_loop f n s k = Some x"
  shows "\<exists>p t. s = p @ t \<and> p \<in> star_lang A \<and> k t = Some x"
  using assms(2)
proof (induction n arbitrary: s)
  case 0
  then show ?case using star_Nil by fastforce
next
  case (Suc n)
  show ?case
  proof (cases "f s (\<lambda>t. if length t < length s then star_loop f n t k else None)")
    case None
    then show ?thesis using Suc.prems star_Nil by fastforce
  next
    case (Some y)
    then obtain p t where p: "s = p @ t" "p \<in> A" and l0: "star_loop f n t k = Some y"
      by (force dest!: f split: if_splits)
    have l: "star_loop f n t k = Some x" using l0 Some Suc.prems by simp
    obtain p' t' where p': "t = p' @ t'" "p' \<in> star_lang A" "k t' = Some x"
      using Suc.IH[OF l] by blast
    then show ?thesis using p p' star_Cons[of p A p'] by (metis append.assoc)
  qed
qed

lemma rx_match_sound:
  "rx_match r s k = Some x \<Longrightarrow> \<exists>p t. s = p @ t \<and> p \<in> lang r \<and> k t = Some x"
proof (induction r arbitrary: s k x)
  case (RSet rs)
  then obtain c t where "s = [c] @ t" "in_ranges rs c" "k t = Some x"
    by (cases s) (auto split: if_splits)
  then show ?case by (metis (mono_tags, lifting) lang.simps(1) mem_Collect_eq)
next
  case RAny
  then obtain c t where "s = [c] @ t" "k t = Some x" by (cases s) (auto split: if_splits)
  then show ?case by (metis (mono_tags, lifting) lang.simps(2) mem_Collect_eq)
next
  case (RSeq a b)
  have m0: "rx_match a s (\<lambda>t. rx_match b t k) = Some x" using RSeq.prems by simp
  obtain p t where p: "s = p @ t" "p \<in> lang a" and m: "rx_match b t k = Some x"
    using RSeq.IH(1)[OF m0] by blast
  obtain p' t' where p': "t = p' @ t'" "p' \<in> lang b" "k t' = Some x" using RSeq.IH(2)[OF m] by blast
  have "s = (p @ p') @ t'" "p @ p' \<in> lang (RSeq a b)" using p p' by auto
  then show ?case using p'(3) by blast
next
  case (RAlt a b)
  show ?case
  proof (cases "rx_match a s k")
    case None
    then have "rx_match b s k = Some x" using RAlt.prems by simp
    then show ?thesis using RAlt.IH(2) by fastforce
  next
    case (Some y)
    then have "rx_match a s k = Some x" using RAlt.prems by simp
    then show ?thesis using RAlt.IH(1) by fastforce
  qed
next
  case (RStar a)
  then have "star_loop (rx_match a) (length s) s k = Some x" by simp
  then show ?case
    using star_loop_sound[of "rx_match a" "lang a" "length s" s k x] RStar.IH by fastforce
qed (auto split: if_splits)

lemma rx_after_sound:
  assumes "rx_after r s = Some t" shows "rx_text s t @ t = s \<and> rx_text s t \<in> lang r"
  using rx_match_sound[OF assms[unfolded rx_after_def]] by (auto simp: rx_text_def)

subsection \<open>Greedy matches\<close>

text \<open>A string does not go on with a character of the set.\<close>

definition stops :: "(char \<Rightarrow> bool) \<Rightarrow> string \<Rightarrow> bool" where
  "stops P t \<longleftrightarrow> t = [] \<or> \<not> P (hd t)"

lemma stops_dropWhile: "stops P t \<Longrightarrow> stops P (dropWhile P cs @ t)"
  by (induction cs) (auto simp: stops_def)

lemma stops_right: "stops (\<lambda>c. P c \<or> Q c) t \<Longrightarrow> stops Q t"
  by (auto simp: stops_def)

lemma rx_match_RSet_stop: "stops (in_ranges rs) t \<Longrightarrow> rx_match (RSet rs) t k = None"
  by (cases t) (auto simp: stops_def)

lemma rx_match_opt_Some: "rx_match a s k = Some r \<Longrightarrow> rx_match (ROpt a) s k = Some r"
  by (simp add: ROpt_def)

lemma rx_match_opt_None: "rx_match a s k = None \<Longrightarrow> rx_match (ROpt a) s k = k s"
  by (simp add: ROpt_def)

text \<open>A star over a set on a run of its characters: the continuation is tried at the end of the run
  first, then one character earlier, and so on.\<close>

fun back_off :: "(string \<Rightarrow> 'r option) \<Rightarrow> string \<Rightarrow> string \<Rightarrow> 'r option" where
  "back_off k [] t = k t"
| "back_off k (x # xs) t = (case back_off k xs t of None \<Rightarrow> k (x # xs @ t) | Some r \<Rightarrow> Some r)"

lemma star_set_run:
  assumes "list_all (in_ranges rs) xs" "stops (in_ranges rs) t" "length xs \<le> n"
  shows "star_loop (rx_match (RSet rs)) n (xs @ t) k = back_off k xs t"
  using assms
proof (induction xs arbitrary: n)
  case Nil
  then show ?case by (cases n) (simp_all add: rx_match_RSet_stop del: rx_match.simps)
next
  case (Cons x xs)
  then obtain m where "n = Suc m" by (cases n) auto
  then show ?case using Cons by (auto split: option.splits)
qed

lemma rx_match_star_set_run:
  assumes "list_all (in_ranges rs) xs" "stops (in_ranges rs) t"
  shows "rx_match (RStar (RSet rs)) (xs @ t) k = back_off k xs t"
  using star_set_run[OF assms, of "length (xs @ t)" k] by simp

lemma back_off_Some: "k t = Some r \<Longrightarrow> back_off k xs t = Some r"
  by (induction xs) auto

lemma back_off_snoc: "k t = None \<Longrightarrow> k (x # t) = Some r \<Longrightarrow> back_off k (xs @ [x]) t = Some r"
  by (induction xs) auto

lemma back_off_None: "(\<And>u. k u = None) \<Longrightarrow> back_off k xs t = None"
  by (induction xs) auto

lemma star_stop:
  fixes k :: "string \<Rightarrow> 'r option"
  assumes "\<And>k :: string \<Rightarrow> 'r option. rx_match a t k = None"
  shows "rx_match (RStar a) t k = k t"
proof -
  have "star_loop (rx_match a) n t k = k t" for n by (cases n) (simp_all add: assms)
  then show ?thesis by simp
qed

text \<open>The matcher never misses the first choice: when the continuation accepts what the greedy run
  leaves, that is the answer.\<close>

lemma rx_match_set_star_greedy:
  assumes "xs \<noteq> []" "in_ranges F (hd xs)" "list_all (in_ranges R) (tl xs)" "stops (in_ranges R) t"
    "k t = Some r"
  shows "rx_match (RSeq (RSet F) (RStar (RSet R))) (xs @ t) k = Some r"
proof -
  obtain c cs where xs: "xs = c # cs" using assms(1) by (cases xs) auto
  have "rx_match (RStar (RSet R)) (cs @ t) k = Some r"
    using rx_match_star_set_run[of R cs t k] assms(3-5) by (simp add: xs back_off_Some)
  then show ?thesis using assms(2) by (simp add: xs)
qed

text \<open>Names: one or more groups of a first character followed by any further ones.  Whatever way the
  run of characters is cut into groups, the greedy match ends where the run ends.\<close>

lemma list_all_takeWhile: "list_all P (takeWhile P xs)"
  by (induction xs) auto

lemma group_loop_greedy:
  assumes "list_all (\<lambda>c. in_ranges F c \<or> in_ranges R c) xs"
    "xs \<noteq> [] \<longrightarrow> in_ranges F (hd xs)" "stops (\<lambda>c. in_ranges F c \<or> in_ranges R c) t"
    "length xs \<le> n" "k t = Some r"
  shows "star_loop (rx_match (RSeq (RSet F) (RStar (RSet R)))) n (xs @ t) k = Some r"
  using assms
proof (induction n arbitrary: xs)
  case 0 then show ?case by simp
next
  case (Suc n)
  let ?a = "RSeq (RSet F) (RStar (RSet R))"
  show ?case
  proof (cases xs)
    case Nil
    then have "rx_match ?a (xs @ t) k' = None" for k' :: "string \<Rightarrow> 'a option"
      using Suc.prems(3) by (cases t) (auto simp: stops_def)
    then show ?thesis using Nil Suc.prems(5) by (auto split: option.splits)
  next
    case (Cons c cs)
    let ?u = "takeWhile (in_ranges R) cs" and ?v = "dropWhile (in_ranges R) cs"
    have v: "?v \<noteq> [] \<longrightarrow> in_ranges F (hd ?v)"
    proof
      assume "?v \<noteq> []"
      then have "\<not> in_ranges R (hd ?v)" "hd ?v \<in> set cs"
        using hd_dropWhile[of "in_ranges R" cs] set_dropWhileD[of "hd ?v" "in_ranges R" cs] by auto
      then show "in_ranges F (hd ?v)" using Suc.prems(1) by (auto simp: Cons list_all_iff)
    qed
    have "list_all (\<lambda>c. in_ranges F c \<or> in_ranges R c) ?v"
      using Suc.prems(1) by (auto simp: Cons list_all_iff dest: set_dropWhileD)
    moreover have "length ?v \<le> n"
      using Suc.prems(4) length_dropWhile_le[of "in_ranges R" cs] by (simp add: Cons)
    ultimately have ih: "star_loop (rx_match ?a) n (?v @ t) k = Some r"
      using Suc.IH[of ?v] v Suc.prems(3,5) by blast
    have stop: "stops (in_ranges R) (?v @ t)"
      using stops_dropWhile[OF stops_right[OF Suc.prems(3)]] .
    have split: "xs @ t = (c # ?u) @ (?v @ t)" by (simp add: Cons)
    have len: "length (?v @ t) < length (xs @ t)"
      using length_dropWhile_le[of "in_ranges R" cs] by (simp add: Cons)
    have "rx_match ?a ((c # ?u) @ (?v @ t))
        (\<lambda>t'. if length t' < length (xs @ t) then star_loop (rx_match ?a) n t' k else None) = Some r"
      by (rule rx_match_set_star_greedy[OF _ _ _ stop])
        (use Suc.prems(2) ih len in \<open>simp_all add: Cons list_all_takeWhile del: rx_match.simps\<close>)
    then show ?thesis by (simp only: star_loop.simps split option.case)
  qed
qed

lemma rx_match_groups_greedy:
  assumes "list_all (\<lambda>c. in_ranges F c \<or> in_ranges R c) xs"
    "xs \<noteq> []" "in_ranges F (hd xs)" "stops (\<lambda>c. in_ranges F c \<or> in_ranges R c) t" "k t = Some r"
  shows "rx_match (RPlus (RSeq (RSet F) (RStar (RSet R)))) (xs @ t) k = Some r"
proof -
  obtain c cs where xs: "xs = c # cs" using assms(2) by (cases xs) auto
  let ?u = "takeWhile (in_ranges R) cs" and ?v = "dropWhile (in_ranges R) cs"
  have v1: "list_all (\<lambda>c. in_ranges F c \<or> in_ranges R c) ?v"
    using assms(1) by (auto simp: xs list_all_iff dest: set_dropWhileD)
  have v2: "?v \<noteq> [] \<longrightarrow> in_ranges F (hd ?v)"
  proof
    assume "?v \<noteq> []"
    then have "\<not> in_ranges R (hd ?v)" "hd ?v \<in> set cs"
      using hd_dropWhile[of "in_ranges R" cs] set_dropWhileD[of "hd ?v" "in_ranges R" cs] by auto
    then show "in_ranges F (hd ?v)" using assms(1) by (auto simp: xs list_all_iff)
  qed
  have stop: "stops (in_ranges R) (?v @ t)"
    using stops_dropWhile[OF stops_right[OF assms(4)]] .
  have star: "rx_match (RStar (RSeq (RSet F) (RStar (RSet R)))) (?v @ t) k = Some r"
    unfolding rx_match.simps(7) by (rule group_loop_greedy) (use v1 v2 assms(4,5) in simp_all)
  have "rx_match (RSeq (RSet F) (RStar (RSet R))) ((c # ?u) @ (?v @ t))
      (\<lambda>t. rx_match (RStar (RSeq (RSet F) (RStar (RSet R)))) t k) = Some r"
    by (rule rx_match_set_star_greedy[OF _ _ _ stop])
      (use assms(3) star in \<open>simp_all add: xs list_all_takeWhile del: rx_match.simps\<close>)
  moreover have "(c # ?u) @ (?v @ t) = xs @ t" by (simp add: xs)
  ultimately show ?thesis by (simp only: RPlus_def rx_match.simps(5))
qed

end
