(* ===== verification/Discovery_Uri.thy ===== *)
theory Discovery_Uri
  imports Go_Regexp Kube_Client
begin

text \<open>
  The resource URIs of the service discovery (\<open>internal/controller/discovery/discovery.go\<close>,
  \<open>uri_parser.go\<close>): their structure, their text and their parser, with the regular expressions of the
  code as values of \<open>rx\<close>.  An index out of range is \<open>Panic\<close>.  The lemmas show that the parser never
  panics, that parsing the text of a well-formed URI gives it back, and what the expressions let
  through.
\<close>

subsection \<open>Data\<close>

record gvk =
  gv_group :: string
  gv_version :: string
  gv_kind :: string

record resource_uri =
  ru_scheme :: string
  ru_gvk :: gvk
  ru_namespace :: string
  ru_name :: string
  ru_query :: gomap

definition KnativeScheme :: string where "KnativeScheme = ''knative''"
definition KubernetesScheme :: string where "KubernetesScheme = ''kubernetes''"
definition OpenshiftScheme :: string where "OpenshiftScheme = ''openshift''"
definition PortQueryParam :: string where "PortQueryParam = ''port''"

definition kubernetesServices :: string where "kubernetesServices = ''kubernetes:services.v1''"
definition kubernetesPods :: string where "kubernetesPods = ''kubernetes:pods.v1''"
definition kubernetesDeployments :: string where
  "kubernetesDeployments = ''kubernetes:deployments.v1.apps''"
definition kubernetesStatefulSets :: string where
  "kubernetesStatefulSets = ''kubernetes:statefulsets.v1.apps''"
definition kubernetesIngresses :: string where
  "kubernetesIngresses = ''kubernetes:ingresses.v1.networking.k8s.io''"
definition knativeServices :: string where
  "knativeServices = ''knative:services.v1.serving.knative.dev''"
definition knativeBrokers :: string where
  "knativeBrokers = ''knative:brokers.v1.eventing.knative.dev''"
definition openshiftRoutes :: string where
  "openshiftRoutes = ''openshift:routes.v1.route.openshift.io''"
definition openshiftDeploymentConfigs :: string where
  "openshiftDeploymentConfigs = ''openshift:deploymentconfigs.v1.apps.openshift.io''"

lemmas group_defs = kubernetesServices_def kubernetesPods_def kubernetesDeployments_def
  kubernetesStatefulSets_def kubernetesIngresses_def knativeServices_def knativeBrokers_def
  openshiftRoutes_def openshiftDeploymentConfigs_def

lemmas scheme_defs = KnativeScheme_def KubernetesScheme_def OpenshiftScheme_def

subsection \<open>Building and printing\<close>

definition NewResourceUri :: "string \<Rightarrow> resource_uri" where
  "NewResourceUri scheme =
    \<lparr>ru_scheme = scheme, ru_gvk = \<lparr>gv_group = '''', gv_version = '''', gv_kind = ''''\<rparr>,
     ru_namespace = '''', ru_name = '''', ru_query = []\<rparr>"

definition AddQueryParam :: "string \<Rightarrow> string \<Rightarrow> resource_uri \<Rightarrow> resource_uri" where
  "AddQueryParam name v u = (if v \<noteq> '''' then u\<lparr>ru_query := AList.update name v (ru_query u)\<rparr> else u)"

definition GetQueryParam :: "string \<Rightarrow> resource_uri \<Rightarrow> string" where
  "GetQueryParam name u = (if name \<noteq> '''' then map_get (ru_query u) name else '''')"

definition SetPort :: "string \<Rightarrow> resource_uri \<Rightarrow> resource_uri" where
  "SetPort v u = AddQueryParam PortQueryParam v u"

definition GetPort :: "resource_uri \<Rightarrow> string" where
  "GetPort u = GetQueryParam PortQueryParam u"

definition GetCustomLabels :: "resource_uri \<Rightarrow> gomap" where
  "GetCustomLabels u = filter (\<lambda>(k, v). k \<noteq> PortQueryParam \<and> v \<noteq> '''') (ru_query u)"

definition appendWithDelimiter :: "string \<Rightarrow> string \<Rightarrow> string \<Rightarrow> string" where
  "appendWithDelimiter v a d = (if a \<noteq> '''' then (if v \<noteq> '''' then v @ d @ a else v @ a) else v)"

definition buildParam :: "string \<Rightarrow> string \<Rightarrow> string" where
  "buildParam name v = name @ ''='' @ v"

definition buildLabelsString :: "gomap \<Rightarrow> string \<Rightarrow> string" where
  "buildLabelsString m d = foldl (\<lambda>s (k, v). appendWithDelimiter s (buildParam k v) d) '''' m"

definition uri_String :: "resource_uri \<Rightarrow> string" where
  "uri_String r =
    (let g = appendWithDelimiter '''' (gv_kind (ru_gvk r)) ''.'';
         g = appendWithDelimiter g (gv_version (ru_gvk r)) ''.'';
         g = appendWithDelimiter g (gv_group (ru_gvk r)) ''.'';
         u = ru_scheme r @ '':'' @ g;
         u = appendWithDelimiter u (ru_namespace r) ''/'';
         u = appendWithDelimiter u (ru_name r) ''/''
     in appendWithDelimiter u (buildLabelsString (ru_query r) ''&'') ''?'')"

subsection \<open>The regular expressions\<close>

definition lower_alnum :: "(nat \<times> nat) list" where "lower_alnum = [(97, 122), (48, 57)]"
definition label_chars :: "(nat \<times> nat) list" where "label_chars = [(45, 45), (97, 122), (48, 57)]"
definition name_first :: "(nat \<times> nat) list" where "name_first = [(97, 122), (65, 90), (48, 57)]"

text \<open>\<open>[-a-zAz0-9]\<close>: the class as written has the single letters A and z.\<close>

definition name_rest :: "(nat \<times> nat) list" where
  "name_rest = [(45, 45), (97, 122), (65, 65), (122, 122), (48, 57)]"

definition value_first :: "(nat \<times> nat) list" where
  "value_first = [(47, 47), (97, 122), (65, 90), (48, 57)]"

text \<open>\<open>[/-a-zAz0-9]\<close>: the class as written is the range from the slash to the letter a, which has the
  equals sign and the question mark in it, then a dash, z, A and the digits.\<close>

definition value_rest :: "(nat \<times> nat) list" where
  "value_rest = [(47, 97), (45, 45), (122, 122), (65, 65), (48, 57)]"

definition dns1123Label :: rx where
  "dns1123Label = RSeq (RSet lower_alnum) (ROpt (RSeq (RStar (RSet label_chars)) (RSet lower_alnum)))"

definition queryParamName :: rx where
  "queryParamName = RPlus (RSeq (RSet name_first) (RStar (RSet name_rest)))"

definition queryParamValue :: rx where
  "queryParamValue = RPlus (RSeq (RSet value_first) (RStar (RSet value_rest)))"

definition namespaceAndNameExpr :: rx where
  "namespaceAndNameExpr =
    RSeq (rx_char CHR ''/'') (RSeq (RPlus dns1123Label)
      (ROpt (RSeq (rx_char CHR ''/'') (RPlus dns1123Label))))"

definition query_term :: rx where
  "query_term = RSeq queryParamName (RSeq (rx_char CHR ''='') queryParamValue)"

definition queryStringExpr :: rx where
  "queryStringExpr =
    RSeq (ROpt (RSeq (rx_char CHR ''?'') (RSeq query_term (RStar (RSeq (rx_char CHR ''&'') query_term)))))
      REnd"

definition kubernetesGroupsExpr :: rx where
  "kubernetesGroupsExpr =
    RAlt (rx_lit kubernetesServices) (RAlt (rx_lit kubernetesPods) (RAlt (rx_lit kubernetesDeployments)
      (RAlt (rx_lit kubernetesStatefulSets) (rx_lit kubernetesIngresses))))"

definition knativeGroupsExpr :: rx where
  "knativeGroupsExpr = RAlt (rx_lit knativeServices) (rx_lit knativeBrokers)"

definition knativeSimplifiedServiceExpr :: rx where
  "knativeSimplifiedServiceExpr =
    RSeq (rx_lit ''knative:'') (RSeq dns1123Label (ROpt (RSeq (rx_char CHR ''/'') (RPlus dns1123Label))))"

definition openshiftGroupsExpr :: rx where
  "openshiftGroupsExpr = RAlt (rx_lit openshiftDeploymentConfigs) (rx_lit openshiftRoutes)"

subsection \<open>The parser\<close>

text \<open>\<open>Split\<close> on an expression anchored at the start has two parts exactly when it matches there.\<close>

definition parseGVK :: "string \<Rightarrow> kerror + gvk" where
  "parseGVK s =
    (let mk = (\<lambda>g k. Inr \<lparr>gv_group = g, gv_version = ''v1'', gv_kind = k\<rparr>)
     in if s = kubernetesServices then mk '''' ''services''
        else if s = kubernetesPods then mk '''' ''pods''
        else if s = kubernetesDeployments then mk ''apps'' ''deployments''
        else if s = kubernetesStatefulSets then mk ''apps'' ''statefulsets''
        else if s = kubernetesIngresses then mk ''networking.k8s.io'' ''ingresses''
        else if s = knativeServices then mk ''serving.knative.dev'' ''services''
        else if s = knativeBrokers then mk ''eventing.knative.dev'' ''brokers''
        else if s = openshiftRoutes then mk ''route.openshift.io'' ''routes''
        else if s = openshiftDeploymentConfigs then mk ''apps.openshift.io'' ''deploymentconfigs''
        else Inl (OtherError (''unknown schema and gvk: '' @ s)))"

fun parse_terms :: "string list \<Rightarrow> gomap \<Rightarrow> gomap outcome" where
  "parse_terms [] m = Ret m"
| "parse_terms (t # ts) m =
    (case split_on CHR ''='' t of
       k # v # _ \<Rightarrow> parse_terms ts (AList.update k v m)
     | _ \<Rightarrow> Panic)"

definition parseQueryParams :: "string \<Rightarrow> string \<Rightarrow> gomap outcome" where
  "parseQueryParams uri q =
    (if q = '''' then Ret []
     else if rx_after queryStringExpr q = None
     then Fail (OtherError (''invalid uri: '' @ uri @ '', provided query string: '' @ q @
            '' not correspond to the expeced format: ?label-name=label-value&another-label=another-value''))
     else parse_terms (split_on CHR ''&'' (tl q)) [])"

definition parse_rest :: "string \<Rightarrow> string \<Rightarrow> string \<Rightarrow> string \<Rightarrow> resource_uri outcome" where
  "parse_rest scheme uri grp after =
    (case rx_after namespaceAndNameExpr after of
       None \<Rightarrow> Fail (OtherError (''invalid '' @ grp @ '' service uri: '' @ uri @
         '', provided namespace, name, or query parameters '' @ after @ '' not correspond '' @
         ''to the expected formats: /my-namespace/my-service?label-name=label-value&another-label=another-value''))
     | Some rest \<Rightarrow>
        (let parts = split_on CHR ''/'' (rx_text after rest);
             (ns, name) = (case parts of
                             [_, a, b] \<Rightarrow> (a, b)
                           | _ # a # _ \<Rightarrow> ('''', a)
                           | _ \<Rightarrow> ('''', ''''))
         in if length parts < 2 then Panic
            else case parseQueryParams uri rest of
              Panic \<Rightarrow> Panic
            | Fail e \<Rightarrow> Fail e
            | Ret q \<Rightarrow>
               (case parseGVK grp of
                  Inl e \<Rightarrow> Fail e
                | Inr g \<Rightarrow> Ret \<lparr>ru_scheme = scheme, ru_gvk = g, ru_namespace = ns, ru_name = name,
                               ru_query = q\<rparr>)))"

definition parseKnativeSimplifiedServiceUri :: "string \<Rightarrow> resource_uri outcome" where
  "parseKnativeSimplifiedServiceUri uri =
    (if take 8 uri \<noteq> ''knative:'' then Fail (OtherError (''invalid knative simplified service uri: '' @ uri))
     else (let (ns, name) = (case split_on CHR ''/'' (drop 8 uri) of
                               [a, b] \<Rightarrow> (a, b)
                             | a # _ \<Rightarrow> ('''', a)
                             | [] \<Rightarrow> ('''', ''''))
           in Ret \<lparr>ru_scheme = KnativeScheme,
                   ru_gvk = \<lparr>gv_group = ''serving.knative.dev'', gv_version = ''v1'', gv_kind = ''services''\<rparr>,
                   ru_namespace = ns, ru_name = name, ru_query = []\<rparr>))"

definition ParseUri :: "string \<Rightarrow> resource_uri outcome" where
  "ParseUri uri =
    (case rx_after kubernetesGroupsExpr uri of
       Some after \<Rightarrow> parse_rest KubernetesScheme uri (rx_text uri after) after
     | None \<Rightarrow>
    (case rx_after knativeGroupsExpr uri of
       Some after \<Rightarrow> parse_rest KnativeScheme uri (rx_text uri after) after
     | None \<Rightarrow>
    (if rx_anywhere knativeSimplifiedServiceExpr uri then parseKnativeSimplifiedServiceUri uri
     else
    (case rx_after openshiftGroupsExpr uri of
       Some after \<Rightarrow> parse_rest OpenshiftScheme uri (rx_text uri after) after
     | None \<Rightarrow> Fail (OtherError (''invalid uri: '' @ uri @
         '', not correspond to any of the available schemes format: kubernetes, knative, openshift''))))))"

subsection \<open>Well-formed URIs\<close>

definition label_ok :: "string \<Rightarrow> bool" where
  "label_ok s \<longleftrightarrow> s \<noteq> '''' \<and> in_ranges lower_alnum (hd s) \<and> in_ranges lower_alnum (last s) \<and>
     list_all (in_ranges label_chars) s"

definition param_name_ok :: "string \<Rightarrow> bool" where
  "param_name_ok s \<longleftrightarrow> s \<noteq> '''' \<and> in_ranges name_first (hd s) \<and>
     list_all (\<lambda>c. in_ranges name_first c \<or> in_ranges name_rest c) s"

definition param_value_ok :: "string \<Rightarrow> bool" where
  "param_value_ok s \<longleftrightarrow> s \<noteq> '''' \<and> in_ranges value_first (hd s) \<and>
     list_all (\<lambda>c. in_ranges value_first c \<or> in_ranges value_rest c) s \<and> CHR ''='' \<notin> set s"

definition known_groups :: "(string \<times> string) list" where
  "known_groups =
    map (\<lambda>g. (KubernetesScheme, g)) [kubernetesServices, kubernetesPods, kubernetesDeployments,
      kubernetesStatefulSets, kubernetesIngresses] @
    map (\<lambda>g. (KnativeScheme, g)) [knativeServices, knativeBrokers] @
    map (\<lambda>g. (OpenshiftScheme, g)) [openshiftRoutes, openshiftDeploymentConfigs]"

definition uri_ok :: "resource_uri \<Rightarrow> bool" where
  "uri_ok u \<longleftrightarrow>
    list_ex (\<lambda>(s, g). s = ru_scheme u \<and> parseGVK g = Inr (ru_gvk u)) known_groups \<and>
    (ru_namespace u = '''' \<or> label_ok (ru_namespace u)) \<and> label_ok (ru_name u) \<and>
    distinct (map fst (ru_query u)) \<and>
    list_all (\<lambda>(k, v). param_name_ok k \<and> param_value_ok v \<and>
      (ru_scheme u = OpenshiftScheme \<longrightarrow> CHR '':'' \<notin> set v)) (ru_query u)"

subsection \<open>Labels\<close>

lemma in_ranges_eval:
  "in_ranges lower_alnum c \<longleftrightarrow> of_char c \<in> {97..122} \<union> {48..57::nat}"
  "in_ranges label_chars c \<longleftrightarrow> of_char c \<in> {97..122} \<union> {48..57} \<union> {45::nat}"
  "in_ranges name_first c \<longleftrightarrow> of_char c \<in> {97..122} \<union> {65..90} \<union> {48..57::nat}"
  "in_ranges name_rest c \<longleftrightarrow> of_char c \<in> {97..122} \<union> {65} \<union> {48..57} \<union> {45::nat}"
  "in_ranges value_first c \<longleftrightarrow> of_char c \<in> {97..122} \<union> {65..90} \<union> {47..57::nat}"
  "in_ranges value_rest c \<longleftrightarrow> of_char c \<in> {47..97} \<union> {122} \<union> {45::nat}"
  by (auto simp: in_ranges_def lower_alnum_def label_chars_def name_first_def name_rest_def
      value_first_def value_rest_def)

lemma lower_alnum_label: "in_ranges lower_alnum c \<Longrightarrow> in_ranges label_chars c"
  by (auto simp: in_ranges_eval)

lemma stops_lower: "stops (in_ranges label_chars) t \<Longrightarrow> stops (in_ranges lower_alnum) t"
  by (auto simp: stops_def lower_alnum_label)

lemma rx_match_label:
  assumes "label_ok s" "stops (in_ranges label_chars) t" "k t = Some r"
  shows "rx_match dns1123Label (s @ t) k = Some r"
proof -
  obtain c cs where s: "s = c # cs" using assms(1) by (cases s) (auto simp: label_ok_def)
  have c: "in_ranges lower_alnum c" using assms(1) by (simp add: label_ok_def s)
  let ?k = "\<lambda>t. rx_match (RSet lower_alnum) t k"
  have fail: "?k t = None"
    by (rule rx_match_RSet_stop) (rule stops_lower[OF assms(2)])
  have "rx_match (ROpt (RSeq (RStar (RSet label_chars)) (RSet lower_alnum))) (cs @ t) k = Some r"
  proof (cases "cs = []")
    case True
    have "rx_match (RStar (RSet label_chars)) ([] @ t) ?k = back_off ?k [] t"
      by (rule rx_match_star_set_run) (use assms(2) in simp_all)
    then have "rx_match (RSeq (RStar (RSet label_chars)) (RSet lower_alnum)) t k = None"
      using fail by (simp only: rx_match.simps(5) append_Nil back_off.simps)
    then show ?thesis using assms(3) True by (simp add: rx_match_opt_None)
  next
    case False
    then have l: "in_ranges lower_alnum (last cs)" and all: "list_all (in_ranges label_chars) cs"
      using assms(1) by (simp_all add: label_ok_def s)
    have "rx_match (RStar (RSet label_chars)) (cs @ t) ?k = back_off ?k cs t"
      by (rule rx_match_star_set_run) (use assms(2) all in simp_all)
    also have "\<dots> = back_off ?k (butlast cs @ [last cs]) t" using False by simp
    also have "\<dots> = Some r"
      by (rule back_off_snoc) (use fail l assms(3) in simp_all)
    finally show ?thesis by (intro rx_match_opt_Some) simp
  qed
  then show ?thesis using c by (simp add: dns1123Label_def s)
qed

lemma rx_match_label_stop: "stops (in_ranges label_chars) t \<Longrightarrow> rx_match dns1123Label t k = None"
  using rx_match_RSet_stop[OF stops_lower] by (simp add: dns1123Label_def del: rx_match.simps(1))

lemma rx_match_char: "rx_match (rx_char c) (d # t) k = (if d = c then k t else None)"
  by (simp add: rx_char_def in_ranges_def) (metis of_char_eq_iff order_antisym)

lemma rx_match_labels:
  assumes "label_ok s" "stops (in_ranges label_chars) t" "k t = Some r"
  shows "rx_match (RPlus dns1123Label) (s @ t) k = Some r"
proof -
  have "rx_match (RStar dns1123Label) t k = Some r"
    by (rule trans[OF star_stop]) (rule rx_match_label_stop[OF assms(2)], rule assms(3))
  then show ?thesis
    unfolding RPlus_def rx_match.simps(5) by (rule rx_match_label[OF assms(1,2)])
qed

lemma after_namespace_name:
  assumes "label_ok n" "q = '''' \<or> hd q = CHR ''?''"
  shows "rx_after namespaceAndNameExpr (''/'' @ n @ q) = Some q"
    and "label_ok m \<Longrightarrow> rx_after namespaceAndNameExpr (''/'' @ m @ ''/'' @ n @ q) = Some q"
proof -
  have st: "stops (in_ranges label_chars) q" using assms(2) by (auto simp: stops_def in_ranges_eval)
  have one: "rx_match (RSeq (rx_char CHR ''/'') (RPlus dns1123Label)) q k = None" for k :: "string \<Rightarrow> string option"
    using assms(2) by (cases q) (auto simp: rx_char_def in_ranges_def)
  show "rx_after namespaceAndNameExpr (''/'' @ n @ q) = Some q"
    by (simp add: rx_after_def namespaceAndNameExpr_def rx_match_char
        rx_match_labels[OF assms(1) st] rx_match_opt_None[OF one] del: rx_match.simps(7))
  assume m: "label_ok m"
  have st2: "stops (in_ranges label_chars) (''/'' @ n @ q)" by (simp add: stops_def in_ranges_eval)
  have two: "rx_match (RSeq (rx_char CHR ''/'') (RPlus dns1123Label)) (''/'' @ n @ q) Some = Some q"
    using rx_match_labels[OF assms(1) st, where k=Some] by (simp add: rx_char_def in_ranges_def)
  show "rx_after namespaceAndNameExpr (''/'' @ m @ ''/'' @ n @ q) = Some q"
    using rx_match_labels[OF m st2, where k="\<lambda>t. rx_match (ROpt (RSeq (rx_char CHR ''/'') (RPlus dns1123Label))) t Some"]
     rx_match_opt_Some[OF two]
    by (simp add: rx_after_def namespaceAndNameExpr_def rx_match_char del: rx_match.simps(7))
qed

subsection \<open>Query strings\<close>

lemma rx_match_term:
  assumes "param_name_ok n" "param_value_ok v"
    "stops (\<lambda>c. in_ranges value_first c \<or> in_ranges value_rest c) t" "k t = Some r"
  shows "rx_match query_term (buildParam n v @ t) k = Some r"
proof -
  have val: "rx_match queryParamValue (v @ t) k = Some r"
    unfolding queryParamValue_def
    by (rule rx_match_groups_greedy) (use assms in \<open>auto simp: param_value_ok_def\<close>)
  have st: "stops (\<lambda>c. in_ranges name_first c \<or> in_ranges name_rest c) (CHR ''='' # v @ t)"
    by (auto simp: stops_def in_ranges_eval)
  have "rx_match (RSeq (rx_char CHR ''='') queryParamValue) (CHR ''='' # v @ t) k = Some r"
    by (simp add: rx_match_char val)
  then have "rx_match queryParamName (n @ CHR ''='' # v @ t)
      (\<lambda>t. rx_match (RSeq (rx_char CHR ''='') queryParamValue) t k) = Some r"
    unfolding queryParamName_def
    by (intro rx_match_groups_greedy) (use assms(1) st in \<open>auto simp: param_name_ok_def\<close>)
  then show ?thesis by (simp add: query_term_def buildParam_def)
qed

definition amp_terms :: "gomap \<Rightarrow> string" where
  "amp_terms qs = concat (map (\<lambda>(k, v). CHR ''&'' # buildParam k v) qs)"

lemma amp_terms_simps [simp]:
  "amp_terms [] = ''''" "amp_terms ((k, v) # qs) = CHR ''&'' # buildParam k v @ amp_terms qs"
  by (simp_all add: amp_terms_def)

lemma stops_amp_terms: "stops (\<lambda>c. in_ranges value_first c \<or> in_ranges value_rest c) (amp_terms qs)"
  by (cases qs) (auto simp: stops_def in_ranges_eval)

lemma rx_match_amp_terms:
  assumes "list_all (\<lambda>(k, v). param_name_ok k \<and> param_value_ok v) qs" "length (amp_terms qs) \<le> n"
    "k '''' = Some r"
  shows "star_loop (rx_match (RSeq (rx_char CHR ''&'') query_term)) n (amp_terms qs) k = Some r"
  using assms
proof (induction qs arbitrary: n)
  case Nil
  have "rx_match (RSeq (rx_char CHR ''&'') query_term) [] k' = None" for k' :: "string \<Rightarrow> 'a option"
    by (simp add: rx_char_def)
  then show ?case using Nil by (cases n) simp_all
next
  case (Cons q qs)
  obtain a v where q: "q = (a, v)" by (cases q)
  obtain m where n: "n = Suc m" using Cons.prems(2) by (cases n) (auto simp: q)
  have ih: "star_loop (rx_match (RSeq (rx_char CHR ''&'') query_term)) m (amp_terms qs) k = Some r"
    using Cons by (simp add: q n)
  let ?k = "\<lambda>t. if length t < length (amp_terms (q # qs))
    then star_loop (rx_match (RSeq (rx_char CHR ''&'') query_term)) m t k else None"
  have "?k (amp_terms qs) = Some r" using ih by (simp add: q)
  then have "rx_match query_term (buildParam a v @ amp_terms qs) ?k = Some r"
    using Cons.prems(1) by (intro rx_match_term stops_amp_terms) (simp_all add: q)
  then have "rx_match (RSeq (rx_char CHR ''&'') query_term) (amp_terms (q # qs)) ?k = Some r"
    by (simp add: q rx_match_char)
  then show ?case by (simp only: n star_loop.simps option.case)
qed

lemma buildLabelsString_Cons:
  "buildLabelsString ((k, v) # qs) ''&'' = buildParam k v @ amp_terms qs"
proof -
  have "s \<noteq> [] \<Longrightarrow> foldl (\<lambda>s (k, v). appendWithDelimiter s (buildParam k v) ''&'') s qs = s @ amp_terms qs"
    for s by (induction qs arbitrary: s) (auto simp: appendWithDelimiter_def buildParam_def)
  then show ?thesis
    by (simp add: buildLabelsString_def appendWithDelimiter_def buildParam_def)
qed

lemma queryStringExpr_match:
  assumes "list_all (\<lambda>(k, v). param_name_ok k \<and> param_value_ok v) ((a, v) # qs)"
  shows "rx_after queryStringExpr (CHR ''?'' # buildParam a v @ amp_terms qs) = Some ''''"
proof -
  let ?k = "\<lambda>t. rx_match REnd t Some"
  have "rx_match (RStar (RSeq (rx_char CHR ''&'') query_term)) (amp_terms qs) ?k = Some ''''"
    using assms rx_match_amp_terms[of qs "length (amp_terms qs)" ?k "''''"] by simp
  then have "rx_match query_term (buildParam a v @ amp_terms qs)
      (\<lambda>t. rx_match (RStar (RSeq (rx_char CHR ''&'') query_term)) t ?k) = Some ''''"
    using assms by (intro rx_match_term stops_amp_terms) simp_all
  then have "rx_match (RSeq (rx_char CHR ''?'') (RSeq query_term (RStar (RSeq (rx_char CHR ''&'') query_term))))
      (CHR ''?'' # buildParam a v @ amp_terms qs) ?k = Some ''''"
    by (simp add: rx_match_char del: rx_match.simps(7))
  then have "rx_match (ROpt (RSeq (rx_char CHR ''?'') (RSeq query_term (RStar (RSeq (rx_char CHR ''&'') query_term)))))
      (CHR ''?'' # buildParam a v @ amp_terms qs) ?k = Some ''''"
    by (rule rx_match_opt_Some)
  then show ?thesis by (simp only: rx_after_def queryStringExpr_def rx_match.simps(5))
qed

lemma split_on_none: "c \<notin> set s \<Longrightarrow> split_on c s = [s]"
  by (induction s) auto

lemma split_on_append: "c \<notin> set s \<Longrightarrow> split_on c (s @ c # t) = s # split_on c t"
  by (induction s) auto

lemma param_name_no: assumes "param_name_ok k" shows "CHR ''='' \<notin> set k" "CHR ''&'' \<notin> set k"
  using assms by (auto simp: param_name_ok_def list_all_iff in_ranges_eval dest: bspec)

lemma param_value_no: assumes "param_value_ok v" shows "CHR ''='' \<notin> set v" "CHR ''&'' \<notin> set v"
  using assms by (auto simp: param_value_ok_def list_all_iff in_ranges_eval dest: bspec)

lemma split_amp_terms:
  assumes "list_all (\<lambda>(k, v). param_name_ok k \<and> param_value_ok v) ((a, v) # qs)"
  shows "split_on CHR ''&'' (buildParam a v @ amp_terms qs) = map (\<lambda>(k, v). buildParam k v) ((a, v) # qs)"
  using assms
proof (induction qs arbitrary: a v)
  case Nil
  then show ?case by (auto simp: buildParam_def param_name_no param_value_no intro!: split_on_none)
next
  case (Cons q qs)
  obtain b w where q: "q = (b, w)" by (cases q)
  have "CHR ''&'' \<notin> set (buildParam a v)"
    using Cons.prems by (auto simp: buildParam_def param_name_no param_value_no)
  then have "split_on CHR ''&'' (buildParam a v @ amp_terms (q # qs)) =
      buildParam a v # split_on CHR ''&'' (buildParam b w @ amp_terms qs)"
    by (simp add: q split_on_append)
  then show ?case using Cons by (simp add: q)
qed

lemma parse_terms_build:
  assumes "list_all (\<lambda>(k, v). param_name_ok k \<and> param_value_ok v) qs" "distinct (map fst (m @ qs))"
  shows "parse_terms (map (\<lambda>(k, v). buildParam k v) qs) m = Ret (m @ qs)"
  using assms
proof (induction qs arbitrary: m)
  case (Cons q qs)
  obtain a v where q: "q = (a, v)" by (cases q)
  have "split_on CHR ''='' (buildParam a v) = [a, v]"
    using Cons.prems(1) by (simp add: q buildParam_def split_on_append split_on_none param_name_no param_value_no)
  moreover have "AList.update a v m = m @ [(a, v)]"
    using Cons.prems(2) by (induction m) (auto simp: q)
  ultimately show ?case using Cons.IH[of "m @ [(a, v)]"] Cons.prems by (simp add: q)
qed simp

lemma parseQueryParams_build:
  assumes "list_all (\<lambda>(k, v). param_name_ok k \<and> param_value_ok v) qs" "distinct (map fst qs)"
  shows "parseQueryParams uri (if qs = [] then '''' else CHR ''?'' # buildLabelsString qs ''&'') = Ret qs"
proof (cases qs)
  case (Cons q qs')
  obtain a v where q: "q = (a, v)" by (cases q)
  show ?thesis
    using assms parse_terms_build[of qs "[]"] queryStringExpr_match[of a v qs'] split_amp_terms[of a v qs']
    by (simp add: Cons q parseQueryParams_def buildLabelsString_Cons)
qed (simp add: parseQueryParams_def)

subsection \<open>Dispatch on the group\<close>

lemma lang_rx_char [simp]: "lang (rx_char c) = {[c]}"
  by (auto simp: rx_char_def in_ranges_def)

lemma rx_anywhere_colon: "rx_anywhere knativeSimplifiedServiceExpr s \<Longrightarrow> CHR '':'' \<in> set s"
proof (induction s)
  case Nil
  then show ?case
    by (simp add: rx_after_def knativeSimplifiedServiceExpr_def rx_char_def)
next
  case (Cons c s)
  show ?case
  proof (cases "rx_after knativeSimplifiedServiceExpr (c # s)")
    case None
    then show ?thesis using Cons by simp
  next
    case (Some t)
    let ?w = "rx_text (c # s) t"
    have w: "?w @ t = c # s" "?w \<in> lang knativeSimplifiedServiceExpr"
      using rx_after_sound[OF Some] by simp_all
    have "u \<in> lang (rx_lit p) \<Longrightarrow> CHR '':'' \<in> set p \<Longrightarrow> CHR '':'' \<in> set u" for u p
      by (induction p arbitrary: u) (auto split: if_splits)
    then have "CHR '':'' \<in> set ?w"
      using w(2) by (force simp: knativeSimplifiedServiceExpr_def)
    then show ?thesis using w(1) by (metis Un_iff set_append)
  qed
qed

lemma group_matches:
  "rx_after kubernetesGroupsExpr (kubernetesServices @ t) = Some t"
  "rx_after kubernetesGroupsExpr (kubernetesPods @ t) = Some t"
  "rx_after kubernetesGroupsExpr (kubernetesDeployments @ t) = Some t"
  "rx_after kubernetesGroupsExpr (kubernetesStatefulSets @ t) = Some t"
  "rx_after kubernetesGroupsExpr (kubernetesIngresses @ t) = Some t"
  "rx_after knativeGroupsExpr (knativeServices @ t) = Some t"
  "rx_after knativeGroupsExpr (knativeBrokers @ t) = Some t"
  "rx_after openshiftGroupsExpr (openshiftRoutes @ t) = Some t"
  "rx_after openshiftGroupsExpr (openshiftDeploymentConfigs @ t) = Some t"
  by (simp_all add: group_defs rx_after_def kubernetesGroupsExpr_def knativeGroupsExpr_def
      openshiftGroupsExpr_def rx_match_char)

lemma group_mismatches:
  "rx_after kubernetesGroupsExpr (knativeServices @ t) = None"
  "rx_after kubernetesGroupsExpr (knativeBrokers @ t) = None"
  "rx_after kubernetesGroupsExpr (openshiftRoutes @ t) = None"
  "rx_after kubernetesGroupsExpr (openshiftDeploymentConfigs @ t) = None"
  "rx_after knativeGroupsExpr (openshiftRoutes @ t) = None"
  "rx_after knativeGroupsExpr (openshiftDeploymentConfigs @ t) = None"
  by (simp_all add: group_defs rx_after_def kubernetesGroupsExpr_def knativeGroupsExpr_def
      openshiftGroupsExpr_def rx_match_char)

lemma simplified_not_openshift:
  assumes "CHR '':'' \<notin> set t"
  shows "\<not> rx_anywhere knativeSimplifiedServiceExpr (openshiftRoutes @ t)"
    and "\<not> rx_anywhere knativeSimplifiedServiceExpr (openshiftDeploymentConfigs @ t)"
proof -
  have n: "\<not> rx_anywhere knativeSimplifiedServiceExpr (''routes.v1.route.openshift.io'' @ t)"
    "\<not> rx_anywhere knativeSimplifiedServiceExpr (''deploymentconfigs.v1.apps.openshift.io'' @ t)"
    using assms rx_anywhere_colon[of "''routes.v1.route.openshift.io'' @ t"]
      rx_anywhere_colon[of "''deploymentconfigs.v1.apps.openshift.io'' @ t"]
    by (auto simp del: rx_anywhere.simps)
  have f: "rx_anywhere knativeSimplifiedServiceExpr (c # s) =
      rx_anywhere knativeSimplifiedServiceExpr s" if "c \<noteq> CHR ''k''" for c s
    using that by (simp add: rx_after_def knativeSimplifiedServiceExpr_def rx_match_char)
  show "\<not> rx_anywhere knativeSimplifiedServiceExpr (openshiftRoutes @ t)"
    using n(1) by (simp add: openshiftRoutes_def f del: rx_anywhere.simps)
  show "\<not> rx_anywhere knativeSimplifiedServiceExpr (openshiftDeploymentConfigs @ t)"
    using n(2) by (simp add: openshiftDeploymentConfigs_def f del: rx_anywhere.simps)
qed

lemma rx_text_append [simp]: "rx_text (p @ t) t = p"
  by (simp add: rx_text_def)

lemma ParseUri_group:
  assumes "(s, g) \<in> set known_groups" "s = OpenshiftScheme \<longrightarrow> CHR '':'' \<notin> set t"
  shows "ParseUri (g @ t) = parse_rest s (g @ t) g t"
proof -
  consider (k8s) "s = KubernetesScheme" "g \<in> {kubernetesServices, kubernetesPods, kubernetesDeployments,
      kubernetesStatefulSets, kubernetesIngresses}"
    | (kn) "s = KnativeScheme" "g \<in> {knativeServices, knativeBrokers}"
    | (os) "s = OpenshiftScheme" "g \<in> {openshiftRoutes, openshiftDeploymentConfigs}"
    using assms(1) by (auto simp: known_groups_def)
  then show ?thesis
  proof cases
    case k8s
    then have "rx_after kubernetesGroupsExpr (g @ t) = Some t" using group_matches by auto
    then show ?thesis by (simp add: ParseUri_def k8s(1))
  next
    case kn
    then have "rx_after kubernetesGroupsExpr (g @ t) = None" "rx_after knativeGroupsExpr (g @ t) = Some t"
      using group_matches group_mismatches by auto
    then show ?thesis by (simp add: ParseUri_def kn(1))
  next
    case os
    then have "rx_after kubernetesGroupsExpr (g @ t) = None" "rx_after knativeGroupsExpr (g @ t) = None"
      "rx_after openshiftGroupsExpr (g @ t) = Some t"
      using group_matches group_mismatches by auto
    moreover have "\<not> rx_anywhere knativeSimplifiedServiceExpr (g @ t)"
      using os assms(2) simplified_not_openshift by auto
    ultimately show ?thesis by (simp add: ParseUri_def os(1))
  qed
qed

lemma known_groups_text:
  "list_all (\<lambda>(s, g). case parseGVK g of Inl _ \<Rightarrow> False
    | Inr v \<Rightarrow> g = s @ '':'' @ appendWithDelimiter (appendWithDelimiter (appendWithDelimiter ''''
        (gv_kind v) ''.'') (gv_version v) ''.'') (gv_group v) ''.'') known_groups"
  by code_simp

lemma uri_String_group:
  assumes "(s, g) \<in> set known_groups" "parseGVK g = Inr v"
  shows "uri_String \<lparr>ru_scheme = s, ru_gvk = v, ru_namespace = ns, ru_name = nm, ru_query = q\<rparr> =
    g @ (if ns = '''' then '''' else CHR ''/'' # ns) @ (if nm = '''' then '''' else CHR ''/'' # nm) @
    (if buildLabelsString q ''&'' = '''' then '''' else CHR ''?'' # buildLabelsString q ''&'')"
proof -
  let ?g = "appendWithDelimiter (appendWithDelimiter (appendWithDelimiter ''''
        (gv_kind v) ''.'') (gv_version v) ''.'') (gv_group v) ''.''"
  have g: "g = s @ '':'' @ ?g" using known_groups_text assms by (fastforce simp: list_all_iff)
  have app: "appendWithDelimiter (s @ '':'' @ x) a [d] = s @ '':'' @ x @ (if a = '''' then '''' else d # a)"
    for x a d by (simp add: appendWithDelimiter_def)
  show ?thesis unfolding uri_String_def Let_def resource_uri.select_convs by (simp only: app append_assoc g)
qed

subsection \<open>Properties\<close>

lemma label_no_slash: "label_ok s \<Longrightarrow> CHR ''/'' \<notin> set s"
  by (auto simp: label_ok_def list_all_iff in_ranges_eval dest: bspec)

lemma parse_rest_path:
  assumes "parseGVK g = Inr v" "ns = '''' \<or> label_ok ns" "label_ok nm"
    "q = '''' \<or> hd q = CHR ''?''" "parseQueryParams uri q = Ret qs"
  shows "parse_rest s uri g ((if ns = '''' then '''' else CHR ''/'' # ns) @ (CHR ''/'' # nm) @ q) =
    Ret \<lparr>ru_scheme = s, ru_gvk = v, ru_namespace = ns, ru_name = nm, ru_query = qs\<rparr>"
proof -
  have nm: "split_on CHR ''/'' nm = [nm]" by (rule split_on_none[OF label_no_slash[OF assms(3)]])
  show ?thesis
  proof (cases "ns = ''''")
    case True
    have "rx_after namespaceAndNameExpr ((CHR ''/'' # nm) @ q) = Some q"
      using after_namespace_name(1)[OF assms(3,4)] by simp
    then show ?thesis
      unfolding parse_rest_def using True nm assms(1,5) by (simp add: Let_def del: append_Cons)
  next
    case False
    then have m: "label_ok ns" using assms(2) by simp
    have ns: "split_on CHR ''/'' (ns @ CHR ''/'' # nm) = [ns, nm]"
      using split_on_append[OF label_no_slash[OF m]] nm by simp
    have "rx_after namespaceAndNameExpr ((CHR ''/'' # ns @ CHR ''/'' # nm) @ q) = Some q"
      using after_namespace_name(2)[OF assms(3,4) m] by simp
    then have "parse_rest s uri g ((CHR ''/'' # ns @ CHR ''/'' # nm) @ q) =
        Ret \<lparr>ru_scheme = s, ru_gvk = v, ru_namespace = ns, ru_name = nm, ru_query = qs\<rparr>"
      unfolding parse_rest_def using ns assms(1,5)
      by (simp add: Let_def del: append_Cons append_assoc)
    moreover have "(if ns = '''' then '''' else CHR ''/'' # ns) @ (CHR ''/'' # nm) @ q =
        (CHR ''/'' # ns @ CHR ''/'' # nm) @ q"
      using False by simp
    ultimately show ?thesis by (simp only:)
  qed
qed

lemma buildLabelsString_empty: "buildLabelsString qs ''&'' = '''' \<longleftrightarrow> qs = []"
proof (cases qs)
  case (Cons q qs')
  then show ?thesis by (cases q) (simp add: buildLabelsString_Cons buildParam_def)
qed (simp add: buildLabelsString_def)

lemma amp_terms_no_colon:
  assumes "list_all (\<lambda>(k, v). CHR '':'' \<notin> set k \<and> CHR '':'' \<notin> set v) qs"
  shows "CHR '':'' \<notin> set (amp_terms qs)" "CHR '':'' \<notin> set (buildLabelsString qs ''&'')"
proof -
  show a: "CHR '':'' \<notin> set (amp_terms qs)"
    using assms by (auto simp: amp_terms_def buildParam_def list_all_iff split: prod.splits)
  show "CHR '':'' \<notin> set (buildLabelsString qs ''&'')"
  proof (cases qs)
    case (Cons q qs')
    then show ?thesis using assms a
      by (cases q) (auto simp: buildLabelsString_Cons buildParam_def)
  qed (simp add: buildLabelsString_def)
qed

lemma labels_no_colon:
  assumes "uri_ok u" "ru_scheme u = OpenshiftScheme"
  shows "CHR '':'' \<notin> set (ru_namespace u)" "CHR '':'' \<notin> set (ru_name u)"
    "CHR '':'' \<notin> set (buildLabelsString (ru_query u) ''&'')"
proof -
  have lab: "label_ok s \<Longrightarrow> CHR '':'' \<notin> set s" for s
    by (auto simp: label_ok_def list_all_iff in_ranges_eval dest: bspec)
  show "CHR '':'' \<notin> set (ru_namespace u)" "CHR '':'' \<notin> set (ru_name u)"
    using assms lab by (auto simp: uri_ok_def)
  have "param_name_ok k \<Longrightarrow> CHR '':'' \<notin> set k" for k
    by (auto simp: param_name_ok_def list_all_iff in_ranges_eval dest: bspec)
  then show "CHR '':'' \<notin> set (buildLabelsString (ru_query u) ''&'')"
    using assms by (intro amp_terms_no_colon) (auto simp: uri_ok_def list_all_iff)
qed

text \<open>C25: Parsing the text of a well-formed resource URI gives the URI back, labels in their
  order, for every scheme and group the discovery knows.\<close>

theorem uri_roundtrip:
  assumes "uri_ok u"
  shows "ParseUri (uri_String u) = Ret u"
proof -
  obtain s v ns nm qs where u: "u = \<lparr>ru_scheme = s, ru_gvk = v, ru_namespace = ns, ru_name = nm, ru_query = qs\<rparr>"
    by (cases u)
  obtain g where g: "(s, g) \<in> set known_groups" "parseGVK g = Inr v"
    using assms by (auto simp: uri_ok_def u list_ex_iff)
  have ok: "ns = '''' \<or> label_ok ns" "label_ok nm" "distinct (map fst qs)"
    "list_all (\<lambda>(k, v). param_name_ok k \<and> param_value_ok v) qs"
    using assms by (auto simp: uri_ok_def u list_all_iff)
  have nm: "nm \<noteq> ''''" using ok(2) by (simp add: label_ok_def)
  let ?t = "(if ns = '''' then '''' else CHR ''/'' # ns) @ (CHR ''/'' # nm) @
      (if qs = [] then '''' else CHR ''?'' # buildLabelsString qs ''&'')"
  have str: "uri_String u = g @ ?t"
    using uri_String_group[OF g, of ns nm qs] nm by (simp add: u buildLabelsString_empty)
  have colon: "s = OpenshiftScheme \<longrightarrow> CHR '':'' \<notin> set ?t"
    using labels_no_colon[OF assms] by (auto simp: u)
  have "ParseUri (g @ ?t) = parse_rest s (g @ ?t) g ?t" by (rule ParseUri_group[OF g(1) colon])
  also have "\<dots> = Ret u" unfolding u
    by (rule parse_rest_path[OF g(2) ok(1,2)]) (simp, rule parseQueryParams_build[OF ok(4,3)])
  finally show ?thesis by (simp only: str)
qed

theorem uri_roundtrip_witness:
  "let u = \<lparr>ru_scheme = ''openshift'', ru_gvk = \<lparr>gv_group = ''route.openshift.io'', gv_version = ''v1'',
      gv_kind = ''routes''\<rparr>, ru_namespace = ''my-ns'', ru_name = ''r1'',
      ru_query = [(''port'', ''http''), (''app'', ''a/b'')]\<rparr>
   in uri_ok u \<and> ParseUri (uri_String u) = Ret u"
proof -
  have "uri_ok \<lparr>ru_scheme = ''openshift'', ru_gvk = \<lparr>gv_group = ''route.openshift.io'', gv_version = ''v1'',
      gv_kind = ''routes''\<rparr>, ru_namespace = ''my-ns'', ru_name = ''r1'',
      ru_query = [(''port'', ''http''), (''app'', ''a/b'')]\<rparr>" by code_simp
  then show ?thesis using uri_roundtrip by (simp add: Let_def)
qed

lemma query_term_lang: "u \<in> lang query_term \<Longrightarrow> CHR ''='' \<in> set u"
  by (auto simp: query_term_def)

lemma star_lang_sub: "u \<in> star_lang A \<Longrightarrow> (\<And>a. a \<in> A \<Longrightarrow> set a \<subseteq> B) \<Longrightarrow> set u \<subseteq> B"
  by (induction rule: star_lang.induct) auto

lemma set_lang: "u \<in> lang (RPlus (RSeq (RSet F) (RStar (RSet R)))) \<Longrightarrow>
  set u \<subseteq> {c. in_ranges F c \<or> in_ranges R c}"
proof -
  have R: "v \<in> star_lang {[c] |c. in_ranges R c} \<Longrightarrow> set v \<subseteq> {c. in_ranges F c \<or> in_ranges R c}" for v
    by (erule star_lang_sub) auto
  have g: "w \<in> lang (RSeq (RSet F) (RStar (RSet R))) \<Longrightarrow> set w \<subseteq> {c. in_ranges F c \<or> in_ranges R c}" for w
    using R by fastforce
  have "w \<in> star_lang (lang (RSeq (RSet F) (RStar (RSet R)))) \<Longrightarrow> set w \<subseteq> {c. in_ranges F c \<or> in_ranges R c}" for w
    by (erule star_lang_sub) (rule g)
  moreover assume "u \<in> lang (RPlus (RSeq (RSet F) (RStar (RSet R))))"
  then obtain a b where "u = a @ b" "a \<in> lang (RSeq (RSet F) (RStar (RSet R)))"
    "b \<in> star_lang (lang (RSeq (RSet F) (RStar (RSet R))))"
    unfolding RPlus_def lang.simps(5,7) by blast
  ultimately show ?thesis using g by (metis Un_least set_append)
qed

lemma query_term_no_amp: "u \<in> lang query_term \<Longrightarrow> CHR ''&'' \<notin> set u"
  using set_lang[of _ name_first name_rest] set_lang[of _ value_first value_rest]
  by (fastforce simp: query_term_def queryParamName_def queryParamValue_def in_ranges_eval)

lemma split_terms:
  assumes "u \<in> lang query_term" "w \<in> star_lang (lang (RSeq (rx_char CHR ''&'') query_term))"
  shows "list_all (\<lambda>t. CHR ''='' \<in> set t) (split_on CHR ''&'' (u @ w))"
  using assms(2,1)
proof (induction arbitrary: u rule: star_lang.induct)
  case star_Nil
  then show ?case by (simp add: split_on_none[OF query_term_no_amp] query_term_lang)
next
  case (star_Cons a v)
  obtain a' where a: "a = CHR ''&'' # a'" "a' \<in> lang query_term" using star_Cons.hyps by auto
  show ?case
    using star_Cons.IH[OF a(2)] star_Cons.prems
    by (simp add: a(1) split_on_append[OF query_term_no_amp] query_term_lang)
qed

lemma parse_terms_no_panic:
  "list_all (\<lambda>t. CHR ''='' \<in> set t) ts \<Longrightarrow> parse_terms ts m \<noteq> Panic"
proof (induction ts arbitrary: m)
  case (Cons t ts)
  then obtain a b where "t = a @ CHR ''='' # b" "CHR ''='' \<notin> set a"
    using split_list_first[of "CHR ''=''" t] by auto
  then have "split_on CHR ''='' t = a # split_on CHR ''='' b" by (simp add: split_on_append)
  then show ?case using Cons by (auto split: list.splits)
qed simp

lemma parseQueryParams_no_panic: "parseQueryParams uri q \<noteq> Panic"
proof (cases "q = '''' \<or> rx_after queryStringExpr q = None")
  case False
  then obtain x where "rx_after queryStringExpr q = Some x" by auto
  then have "rx_match (ROpt (RSeq (rx_char CHR ''?'') (RSeq query_term
      (RStar (RSeq (rx_char CHR ''&'') query_term))))) q (\<lambda>t. rx_match REnd t Some) = Some x"
    by (simp only: rx_after_def queryStringExpr_def rx_match.simps(5))
  from rx_match_sound[OF this] obtain p where p: "q = p" "p \<in> lang (ROpt (RSeq (rx_char CHR ''?'')
      (RSeq query_term (RStar (RSeq (rx_char CHR ''&'') query_term)))))"
    by (auto split: if_splits simp del: lang.simps)
  then obtain u w where "q = CHR ''?'' # u @ w" "u \<in> lang query_term"
    "w \<in> star_lang (lang (RSeq (rx_char CHR ''&'') query_term))"
    using False by (auto simp: ROpt_def)
  then show ?thesis
    using False parse_terms_no_panic[OF split_terms] by (auto simp: parseQueryParams_def)
qed (auto simp: parseQueryParams_def)

text \<open>The parser indexes slices without checking their length; whatever the string, no index is
  out of range: it answers a URI or an error.\<close>

theorem ParseUri_no_panic: "ParseUri s \<noteq> Panic"
proof -
  have "parse_rest sc uri g after \<noteq> Panic" for sc uri g after
  proof (cases "rx_after namespaceAndNameExpr after")
    case (Some t)
    have "rx_text after t \<in> lang namespaceAndNameExpr" using rx_after_sound[OF Some] by simp
    then obtain w where "rx_text after t = CHR ''/'' # w" by (auto simp: namespaceAndNameExpr_def)
    then have "length (split_on CHR ''/'' (rx_text after t)) \<ge> 2"
      by (cases "split_on CHR ''/'' w") auto
    then show ?thesis using parseQueryParams_no_panic
      by (auto simp: parse_rest_def Some Let_def split: outcome.splits sum.splits prod.splits)
  qed (simp add: parse_rest_def)
  then show ?thesis
    by (auto simp: ParseUri_def parseKnativeSimplifiedServiceUri_def Let_def split: option.splits prod.splits)
qed

lemma star_loop_total:
  assumes "\<And>t. k t \<noteq> None" shows "star_loop f n s k \<noteq> None"
  using assms by (cases n) (auto split: option.splits)

lemma rx_match_opt_total: "(\<And>t. k t \<noteq> None) \<Longrightarrow> rx_match (ROpt a) s k \<noteq> None"
  by (auto simp: ROpt_def split: option.splits)

lemma simplified_anywhere:
  assumes "in_ranges lower_alnum c"
  shows "rx_anywhere knativeSimplifiedServiceExpr (a @ ''knative:'' @ c # b)"
proof (induction a)
  case Nil
  have "rx_match dns1123Label (c # b) k \<noteq> None" if "\<And>t. k t \<noteq> None" for k :: "string \<Rightarrow> string option"
    using assms rx_match_opt_total[OF that] by (simp add: dns1123Label_def)
  then have "rx_after knativeSimplifiedServiceExpr (''knative:'' @ c # b) \<noteq> None"
    using rx_match_opt_total[of Some] by (simp add: rx_after_def knativeSimplifiedServiceExpr_def rx_match_char)
  then show ?case by simp
qed simp

text \<open>The pattern for the short Knative form is not anchored: an OpenShift URI with
  \<open>knative:\<close> and a label character anywhere in its labels is taken for it and refused.\<close>

theorem openshift_uri_misread:
  assumes "in_ranges lower_alnum c" and "g \<in> {openshiftRoutes, openshiftDeploymentConfigs}"
  shows "ParseUri (g @ a @ ''knative:'' @ c # b) =
    Fail (OtherError (''invalid knative simplified service uri: '' @ g @ a @ ''knative:'' @ c # b))"
proof -
  let ?s = "g @ a @ ''knative:'' @ c # b"
  have "rx_after kubernetesGroupsExpr ?s = None" "rx_after knativeGroupsExpr ?s = None"
    using assms(2) group_mismatches by auto
  moreover have "rx_anywhere knativeSimplifiedServiceExpr ?s"
    using simplified_anywhere[OF assms(1), of "g @ a" b] by simp
  moreover have "take 8 ?s \<noteq> ''knative:''" using assms(2) by (auto simp: group_defs)
  ultimately show ?thesis by (simp add: ParseUri_def parseKnativeSimplifiedServiceUri_def)
qed

theorem openshift_uri_misread_witness:
  "ParseUri (openshiftRoutes @ ''/ns/r?app='' @ ''knative:'' @ CHR ''x'' # '''') =
    Fail (OtherError (''invalid knative simplified service uri: '' @ openshiftRoutes @
      ''/ns/r?app='' @ ''knative:'' @ CHR ''x'' # ''''))"
  by (rule openshift_uri_misread) (simp_all add: in_ranges_eval)

end
