(* ===== verification/Discovery.thy ===== *)
theory Discovery
  imports Discovery_Uri Kube_Utils
begin

text \<open>
  The service discovery (\<open>internal/controller/discovery\<close>): the ports of services and containers, the
  searches over the objects of a namespace, and the three catalogs behind \<open>Query\<close>.  The clients of
  the API server are functions of the record \<open>catalog_clients\<close>; an index out of range or the
  dereference of a nil pointer is \<open>Panic\<close>.
\<close>

definition httpProtocol :: string where "httpProtocol = ''http''"
definition httpsProtocol :: string where "httpsProtocol = ''https''"
definition webProtocol :: string where "webProtocol = ''web''"
definition defaultHttpPort :: int where "defaultHttpPort = 80"
definition defaultHttpsPort :: int where "defaultHttpsPort = 443"
definition defaultAppSecurePort :: int where "defaultAppSecurePort = 8443"
definition KubernetesDNSAddress :: string where "KubernetesDNSAddress = ''KubernetesDNSAddress''"
definition KubernetesIPAddress :: string where "KubernetesIPAddress = ''KubernetesIPAddress''"

lemmas protocol_defs = httpProtocol_def httpsProtocol_def webProtocol_def

subsection \<open>Ports\<close>

definition isSecurePort :: "int \<Rightarrow> bool" where
  "isSecurePort p \<longleftrightarrow> p = defaultHttpsPort \<or> p = defaultAppSecurePort"

definition findBestSuitedServicePort :: "service \<Rightarrow> string \<Rightarrow> service_port outcome" where
  "findBestSuitedServicePort s customPort =
    (case (if customPort \<noteq> '''' then fst (GetServicePortByName customPort (Some s)) else None) of
       Some p \<Rightarrow> Ret p
     | None \<Rightarrow>
    (case fst (GetServicePortByName httpsProtocol (Some s)) of Some p \<Rightarrow> Ret p | None \<Rightarrow>
    (case fst (GetServicePortByName httpProtocol (Some s)) of Some p \<Rightarrow> Ret p | None \<Rightarrow>
    (case fst (GetServicePortByName webProtocol (Some s)) of Some p \<Rightarrow> Ret p | None \<Rightarrow>
    (case sv_ports s of p # _ \<Rightarrow> Ret p | [] \<Rightarrow> Panic)))))"

definition isSecureServicePort :: "service_port \<Rightarrow> bool" where
  "isSecureServicePort p \<longleftrightarrow> sp_name p = httpsProtocol \<or> isSecurePort (sp_port p)"

definition findBestSuitedContainerPort :: "container \<Rightarrow> string \<Rightarrow> container_port option" where
  "findBestSuitedContainerPort c customPort =
    (case ct_ports c of
       [] \<Rightarrow> None
     | p0 # _ \<Rightarrow>
    (case (if customPort \<noteq> '''' then fst (GetContainerPortByName customPort (Some c)) else None) of
       Some p \<Rightarrow> Some p
     | None \<Rightarrow>
    (case fst (GetContainerPortByName httpsProtocol (Some c)) of Some p \<Rightarrow> Some p | None \<Rightarrow>
    (case fst (GetContainerPortByName httpProtocol (Some c)) of Some p \<Rightarrow> Some p | None \<Rightarrow>
    (case fst (GetContainerPortByName webProtocol (Some c)) of Some p \<Rightarrow> Some p | None \<Rightarrow>
    Some p0)))))"

definition isSecureContainerPort :: "container_port \<Rightarrow> bool" where
  "isSecureContainerPort p \<longleftrightarrow> cp_name p = httpsProtocol \<or> isSecurePort (cp_containerPort p)"

subsection \<open>Addresses\<close>

definition buildURI :: "string \<Rightarrow> string \<Rightarrow> int \<Rightarrow> string" where
  "buildURI scheme host port = scheme @ ''://'' @ host @ '':'' @ show_int port"

definition buildKubernetesServiceDNSUri :: "string \<Rightarrow> string \<Rightarrow> string \<Rightarrow> int \<Rightarrow> string" where
  "buildKubernetesServiceDNSUri scheme ns name port =
    scheme @ ''://'' @ name @ ''.'' @ ns @ ''.svc:'' @ show_int port"

definition buildKubernetesPodDNSUri :: "string \<Rightarrow> string \<Rightarrow> string \<Rightarrow> int \<Rightarrow> string" where
  "buildKubernetesPodDNSUri scheme ns podIP port =
    scheme @ ''://'' @ map (\<lambda>c. if c = CHR ''.'' then CHR ''-'' else c) podIP @ ''.'' @ ns @ ''.pod:'' @
    show_int port"

definition resolveClusterIPOrTypeNodeServiceUriParams ::
  "service \<Rightarrow> string \<Rightarrow> (string \<times> string \<times> int) outcome" where
  "resolveClusterIPOrTypeNodeServiceUriParams s customPort =
    (case findBestSuitedServicePort s customPort of
       Panic \<Rightarrow> Panic
     | Fail e \<Rightarrow> Fail e
     | Ret p \<Rightarrow> Ret (if isSecureServicePort p then httpsProtocol else httpProtocol, sv_clusterIP s, sp_port p))"

definition resolveServiceUri :: "service \<Rightarrow> string \<Rightarrow> string \<Rightarrow> string outcome" where
  "resolveServiceUri s customPort fmt =
    (case (if sv_type s = ''ExternalName'' then Ret (httpProtocol, sv_externalName s, 80)
           else if sv_type s = ''ClusterIP'' \<or> sv_type s = ''NodePort''
           then resolveClusterIPOrTypeNodeServiceUriParams s customPort
           else Fail (OtherError (''Service type '' @ sv_type s @ '' is not yet supported''))) of
       Panic \<Rightarrow> Panic
     | Fail e \<Rightarrow> Fail e
     | Ret (protocol, host, port) \<Rightarrow>
         Ret (if sv_type s = ''ExternalName'' \<or> fmt = KubernetesIPAddress then buildURI protocol host port
              else buildKubernetesServiceDNSUri protocol (om_namespace (sv_meta s)) (om_name (sv_meta s)) port))"

definition resolvePodUri :: "pod \<Rightarrow> string \<Rightarrow> string \<Rightarrow> string \<Rightarrow> string outcome" where
  "resolvePodUri p customContainer customPort fmt =
    (if pd_podIP p = ''''
     then Fail (OtherError (''pod: '' @ om_name (pd_meta p) @ '' in namespace: '' @ om_namespace (pd_meta p) @
            '', has no allocated address''))
     else
      (case (case (if customContainer \<noteq> '''' then fst (GetContainerByName customContainer (Some (pd_spec p)))
                   else None) of
               Some c \<Rightarrow> Some c
             | None \<Rightarrow> (case ps_containers (pd_spec p) of c # _ \<Rightarrow> Some c | [] \<Rightarrow> None)) of
         None \<Rightarrow> Panic
       | Some c \<Rightarrow>
          (case findBestSuitedContainerPort c customPort of
             None \<Rightarrow> Fail (OtherError (''no container port was found for pod: '' @ om_name (pd_meta p) @
                       '' in namespace: '' @ om_namespace (pd_meta p)))
           | Some cp \<Rightarrow>
              (let protocol = (if isSecureContainerPort cp then httpsProtocol else httpProtocol)
               in Ret (if fmt = KubernetesDNSAddress
                       then buildKubernetesPodDNSUri protocol (om_namespace (pd_meta p)) (pd_podIP p)
                              (cp_containerPort cp)
                       else buildURI protocol (pd_podIP p) (cp_containerPort cp))))))"

subsection \<open>Searches\<close>

definition containsSubset :: "gomap option \<Rightarrow> gomap option \<Rightarrow> bool" where
  "containsSubset cont sub =
    (case cont of
       None \<Rightarrow> sub = None
     | Some c \<Rightarrow>
        (case sub of
           None \<Rightarrow> True
         | Some s \<Rightarrow> list_all (\<lambda>(k, v). map_get c k = v) s))"

definition filterServiceListByLabelsSubset :: "service list \<Rightarrow> gomap \<Rightarrow> service list" where
  "filterServiceListByLabelsSubset ss labels =
    filter (\<lambda>s. containsSubset (om_labels (sv_meta s)) (Some labels)) ss"

text \<open>\<open>None\<close> is the nil pointer.  A list of one is not filtered.\<close>

definition selectBestSuitedServiceByCustomLabels :: "service list \<Rightarrow> gomap \<Rightarrow> service option" where
  "selectBestSuitedServiceByCustomLabels ss labels =
    (case ss of
       [] \<Rightarrow> None
     | s # rest \<Rightarrow>
        if rest = [] then Some s
        else if labels \<noteq> [] then
          (case filterServiceListByLabelsSubset ss labels of
             t # _ \<Rightarrow> Some t
           | [] \<Rightarrow> Some s)
        else Some s)"

text \<open>The clients: the typed getters and the list of services, and for Knative and OpenShift the
  discovery clients that may be missing.  The address of a Knative object is a pointer to a struct
  with a pointer to a URL.\<close>

record knative_discovery =
  kd_serving :: "(string \<Rightarrow> string \<Rightarrow> kerror + string option option) option"
  kd_eventing :: "(string \<Rightarrow> string \<Rightarrow> kerror + string option option) option"

record openshift_discovery =
  od_route :: "string \<Rightarrow> string \<Rightarrow> kerror + route"
  od_deploymentConfig :: "string \<Rightarrow> string \<Rightarrow> kerror + deployment_config"

record catalog_clients =
  cc_service :: "string \<Rightarrow> string \<Rightarrow> kerror + service"
  cc_services :: "string \<Rightarrow> kerror + service list"
  cc_pod :: "string \<Rightarrow> string \<Rightarrow> kerror + pod"
  cc_deployment :: "string \<Rightarrow> string \<Rightarrow> kerror + deployment"
  cc_statefulSet :: "string \<Rightarrow> string \<Rightarrow> kerror + stateful_set"
  cc_ingress :: "string \<Rightarrow> string \<Rightarrow> kerror + ingress"
  cc_knative :: "knative_discovery option"
  cc_openshift :: "openshift_discovery option"

definition findServicesBySelectorTarget ::
  "catalog_clients \<Rightarrow> string \<Rightarrow> gomap option \<Rightarrow> kerror + service list" where
  "findServicesBySelectorTarget cc ns target =
    (case cc_services cc ns of
       Inl e \<Rightarrow> Inl e
     | Inr ss \<Rightarrow> Inr (filter (\<lambda>s. sv_selector s \<noteq> [] \<and> containsSubset target (Some (sv_selector s))) ss))"

text \<open>A nil map and an empty one both select nothing here, since a selector has at least one entry.\<close>

definition match_labels :: "gomap \<Rightarrow> gomap option" where
  "match_labels m = (if m = [] then None else Some m)"

definition findPodAndReferenceServices ::
  "catalog_clients \<Rightarrow> string \<Rightarrow> string \<Rightarrow> kerror + pod \<times> service list" where
  "findPodAndReferenceServices cc ns name =
    (case cc_pod cc ns name of
       Inl e \<Rightarrow> Inl e
     | Inr p \<Rightarrow>
        (case om_labels (pd_meta p) of
           None \<Rightarrow> Inr (p, [])
         | Some [] \<Rightarrow> Inr (p, [])
         | Some ls \<Rightarrow> map_sum id (Pair p) (findServicesBySelectorTarget cc ns (Some ls))))"

subsection \<open>Queries\<close>

text \<open>The service that stands for a set of services, and its address.\<close>

definition resolve_reference :: "resource_uri \<Rightarrow> string \<Rightarrow> service list \<Rightarrow> string outcome" where
  "resolve_reference uri fmt ss =
    (case selectBestSuitedServiceByCustomLabels ss (GetCustomLabels uri) of
       None \<Rightarrow> Panic
     | Some s \<Rightarrow> resolveServiceUri s (GetPort uri) fmt)"

definition resolve_by_selector ::
  "catalog_clients \<Rightarrow> string \<Rightarrow> gomap option \<Rightarrow> resource_uri \<Rightarrow> string \<Rightarrow> string outcome" where
  "resolve_by_selector cc what target uri fmt =
    (case findServicesBySelectorTarget cc (ru_namespace uri) target of
       Inl e \<Rightarrow> Fail e
     | Inr ss \<Rightarrow>
        if ss = [] then Fail (OtherError (''no service was found for the '' @ what @ '': '' @ ru_name uri @
                               '' in namespace: '' @ ru_namespace uri))
        else resolve_reference uri fmt ss)"

definition resolveServiceQuery :: "catalog_clients \<Rightarrow> resource_uri \<Rightarrow> string \<Rightarrow> string outcome" where
  "resolveServiceQuery cc uri fmt =
    (case cc_service cc (ru_namespace uri) (ru_name uri) of
       Inl e \<Rightarrow> Fail e
     | Inr s \<Rightarrow> resolveServiceUri s (GetPort uri) fmt)"

definition resolvePodQuery :: "catalog_clients \<Rightarrow> resource_uri \<Rightarrow> string \<Rightarrow> string outcome" where
  "resolvePodQuery cc uri fmt =
    (case findPodAndReferenceServices cc (ru_namespace uri) (ru_name uri) of
       Inl e \<Rightarrow> Fail e
     | Inr (p, ss) \<Rightarrow>
        if ss \<noteq> [] then resolve_reference uri fmt ss
        else resolvePodUri p '''' (GetPort uri) fmt)"

definition resolveDeploymentQuery :: "catalog_clients \<Rightarrow> resource_uri \<Rightarrow> string \<Rightarrow> string outcome" where
  "resolveDeploymentQuery cc uri fmt =
    (case cc_deployment cc (ru_namespace uri) (ru_name uri) of
       Inl e \<Rightarrow> Fail e
     | Inr d \<Rightarrow> resolve_by_selector cc ''deployment'' (match_labels (dp_selector d)) uri fmt)"

definition resolveStatefulSetQuery :: "catalog_clients \<Rightarrow> resource_uri \<Rightarrow> string \<Rightarrow> string outcome" where
  "resolveStatefulSetQuery cc uri fmt =
    (case cc_statefulSet cc (ru_namespace uri) (ru_name uri) of
       Inl e \<Rightarrow> Fail e
     | Inr d \<Rightarrow> resolve_by_selector cc ''statefulset'' (match_labels (ss_matchLabels d)) uri fmt)"

definition resolveIngressQuery :: "catalog_clients \<Rightarrow> resource_uri \<Rightarrow> string outcome" where
  "resolveIngressQuery cc uri =
    (case cc_ingress cc (ru_namespace uri) (ru_name uri) of
       Inl e \<Rightarrow> Fail e
     | Inr i \<Rightarrow>
        (case in_addresses i of
           [] \<Rightarrow> Panic
         | (hostname, ip) # _ \<Rightarrow>
            (let host = (if hostname \<noteq> '''' then hostname else ip)
             in Ret (if in_tls i \<ge> 1 then buildURI httpsProtocol host defaultHttpsPort
                     else buildURI httpProtocol host defaultHttpPort))))"

definition k8s_Query :: "catalog_clients \<Rightarrow> resource_uri \<Rightarrow> string \<Rightarrow> string outcome" where
  "k8s_Query cc uri fmt =
    (let kind = gv_kind (ru_gvk uri)
     in if kind = ''services'' then resolveServiceQuery cc uri fmt
        else if kind = ''pods'' then resolvePodQuery cc uri fmt
        else if kind = ''deployments'' then resolveDeploymentQuery cc uri fmt
        else if kind = ''statefulsets'' then resolveStatefulSetQuery cc uri fmt
        else if kind = ''ingresses'' then resolveIngressQuery cc uri
        else Fail (OtherError (''resolution of kubernetes kind: '' @ kind @ '' is not implemented'')))"

text \<open>\<open>Status.Address.URL.String()\<close>: a nil address is dereferenced, a nil URL prints as empty.\<close>

definition address_url :: "string option option \<Rightarrow> string outcome" where
  "address_url a = (case a of None \<Rightarrow> Panic | Some None \<Rightarrow> Ret '''' | Some (Some u) \<Rightarrow> Ret u)"

definition kn_Query :: "catalog_clients \<Rightarrow> resource_uri \<Rightarrow> string \<Rightarrow> string outcome" where
  "kn_Query cc uri fmt =
    (case cc_knative cc of
       None \<Rightarrow> Fail (OtherError ''knative KnDiscoveryClient was not provided, maybe knative is not installed in current cluster'')
     | Some dc \<Rightarrow>
        (let kind = gv_kind (ru_gvk uri)
         in if kind = ''services'' then
              (case kd_serving dc of
                 None \<Rightarrow> Fail (OtherError ''knative ServingClient was not provided, maybe the serving.knative.dev api is not installed in current cluster'')
               | Some get \<Rightarrow> (case get (ru_namespace uri) (ru_name uri) of
                                Inl e \<Rightarrow> Fail e | Inr a \<Rightarrow> address_url a))
            else if kind = ''brokers'' then
              (case kd_eventing dc of
                 None \<Rightarrow> Fail (OtherError ''knative EventingClient was not provided, maybe the eventing.knative.dev api is not installed in current cluster'')
               | Some get \<Rightarrow> (case get (ru_namespace uri) (ru_name uri) of
                                Inl e \<Rightarrow> Fail e | Inr a \<Rightarrow> address_url a))
            else Fail (OtherError (''resolution of knative kind: '' @ kind @ '' is not implemented''))))"

definition os_Query :: "catalog_clients \<Rightarrow> resource_uri \<Rightarrow> string \<Rightarrow> string outcome" where
  "os_Query cc uri fmt =
    (case cc_openshift cc of
       None \<Rightarrow> Fail (OtherError ''OpenShiftDiscoveryClient was not provided, maybe current operator is not running in OpenShift'')
     | Some dc \<Rightarrow>
        (let kind = gv_kind (ru_gvk uri)
         in if kind = ''routes'' then
              (case od_route dc (ru_namespace uri) (ru_name uri) of
                 Inl e \<Rightarrow> Fail e
               | Inr r \<Rightarrow> Ret ((if ro_tls r then httpsProtocol else httpProtocol) @ ''://'' @ ro_host r))
            else if kind = ''deploymentconfigs'' then
              (case od_deploymentConfig dc (ru_namespace uri) (ru_name uri) of
                 Inl e \<Rightarrow> Fail e
               | Inr d \<Rightarrow> resolve_by_selector cc ''deploymentConfig'' (match_labels (dg_selector d)) uri fmt)
            else Fail (OtherError (''resolution of openshift kind: '' @ kind @ '' is not implemented''))))"

definition catalog_Query :: "catalog_clients \<Rightarrow> resource_uri \<Rightarrow> string \<Rightarrow> string outcome" where
  "catalog_Query cc uri fmt =
    (if ru_scheme uri = KubernetesScheme then k8s_Query cc uri fmt
     else if ru_scheme uri = KnativeScheme then kn_Query cc uri fmt
     else if ru_scheme uri = OpenshiftScheme then os_Query cc uri fmt
     else Fail (OtherError (''unknown scheme was provided for service discovery: '' @ ru_scheme uri)))"

subsection \<open>The choice of a port\<close>

text \<open>The rank of a port name: the requested one, then https, http, web, then any other.  The choice
  is the first port of least rank.\<close>

definition port_rank :: "string \<Rightarrow> string \<Rightarrow> nat" where
  "port_rank custom n =
    (if custom \<noteq> '''' \<and> n = custom then 0 else if n = httpsProtocol then 1
     else if n = httpProtocol then 2 else if n = webProtocol then 3 else 4)"

definition least_ranked :: "('a \<Rightarrow> nat) \<Rightarrow> 'a \<Rightarrow> 'a list \<Rightarrow> bool" where
  "least_ranked r p ps \<longleftrightarrow> find (\<lambda>q. r q = r p) ps = Some p \<and> (\<forall>q\<in>set ps. r p \<le> r q)"

lemma index_by_fst: "fst (index_by f n i xs) = find (\<lambda>x. f x = n) xs"
  by (induction xs arbitrary: i) auto

definition choose_port :: "('a \<Rightarrow> string) \<Rightarrow> string \<Rightarrow> 'a list \<Rightarrow> 'a option" where
  "choose_port f custom ps =
    (case (if custom \<noteq> '''' then find (\<lambda>p. f p = custom) ps else None) of Some p \<Rightarrow> Some p | None \<Rightarrow>
    (case find (\<lambda>p. f p = httpsProtocol) ps of Some p \<Rightarrow> Some p | None \<Rightarrow>
    (case find (\<lambda>p. f p = httpProtocol) ps of Some p \<Rightarrow> Some p | None \<Rightarrow>
    (case find (\<lambda>p. f p = webProtocol) ps of Some p \<Rightarrow> Some p | None \<Rightarrow>
    (case ps of p # _ \<Rightarrow> Some p | [] \<Rightarrow> None)))))"

lemma find_Some_cong:
  assumes "find P xs = Some p" "\<And>x. x \<in> set xs \<Longrightarrow> P x = Q x" shows "find Q xs = Some p"
  using assms by (metis find_cong)

lemma choose_port_least:
  assumes "choose_port f custom ps = Some p"
  shows "least_ranked (\<lambda>q. port_rank custom (f q)) p ps"
proof -
  note sound = find_key_sound(1)[of f _ ps p] find_key_sound(2)[of f _ ps p]
  have case_of: "least_ranked (\<lambda>q. port_rank custom (f q)) p ps"
    if "find P ps = Some p" "\<forall>q\<in>set ps. P q \<longleftrightarrow> port_rank custom (f q) = n"
      "\<forall>q\<in>set ps. n \<le> port_rank custom (f q)" for P n
  proof -
    have p: "p \<in> set ps" "P p" using that(1) by (auto simp: find_Some_iff)
    then have "port_rank custom (f p) = n" using that(2) by blast
    then show ?thesis using that find_Some_cong[OF that(1), of "\<lambda>q. port_rank custom (f q) = n"]
      by (simp add: least_ranked_def)
  qed
  let ?f = "\<lambda>n. find (\<lambda>p. f p = n) ps"
  have none: "?f n = None \<Longrightarrow> q \<in> set ps \<Longrightarrow> f q \<noteq> n" for n q by (auto simp: find_None_iff)
  consider (0) "custom \<noteq> ''''" "?f custom = Some p"
    | (1) "custom = '''' \<or> ?f custom = None" "?f httpsProtocol = Some p"
    | (2) "custom = '''' \<or> ?f custom = None" "?f httpsProtocol = None" "?f httpProtocol = Some p"
    | (3) "custom = '''' \<or> ?f custom = None" "?f httpsProtocol = None" "?f httpProtocol = None"
        "?f webProtocol = Some p"
    | (4) "custom = '''' \<or> ?f custom = None" "?f httpsProtocol = None" "?f httpProtocol = None"
        "?f webProtocol = None" "\<exists>rest. ps = p # rest"
    using assms unfolding choose_port_def by (auto split: option.splits if_splits list.splits)
  then show ?thesis
  proof cases
    case 0 then show ?thesis by (intro case_of[of _ 0]) (auto simp: port_rank_def)
  next
    case 1 then show ?thesis by (intro case_of[of _ 1]) (auto simp: port_rank_def dest: none)
  next
    case 2 then show ?thesis
      by (intro case_of[of _ 2]) (auto simp: port_rank_def protocol_defs dest: none)
  next
    case 3 then show ?thesis
      by (intro case_of[of _ 3]) (auto simp: port_rank_def protocol_defs dest: none)
  next
    case 4
    then have "\<forall>q\<in>set ps. port_rank custom (f q) = 4"
      using none by (auto simp: port_rank_def)
    then show ?thesis using 4(5) by (auto simp: least_ranked_def)
  qed
qed

lemma service_port_choose:
  "findBestSuitedServicePort s custom =
    (case choose_port sp_name custom (sv_ports s) of Some p \<Rightarrow> Ret p | None \<Rightarrow> Panic)"
  by (simp add: findBestSuitedServicePort_def choose_port_def GetServicePortByName_def index_by_fst
      split: option.split list.split)

lemma container_port_choose:
  "findBestSuitedContainerPort c custom = choose_port cp_name custom (ct_ports c)"
  by (simp add: findBestSuitedContainerPort_def choose_port_def GetContainerPortByName_def index_by_fst
      split: option.split list.split)

lemma choose_port_None: "choose_port f custom ps = None \<longleftrightarrow> ps = []"
  by (auto simp: choose_port_def split: option.splits list.splits if_splits)

text \<open>A service with ports is reached on its first port of least rank (the requested name, then
  https, http, web, then any), with the scheme https when that port is named https or is 443 or
  8443; the address has the service's DNS name, or its cluster IP when that format is asked for.\<close>

theorem service_address:
  assumes "sv_type s \<in> {''ClusterIP'', ''NodePort''}" and "sv_ports s \<noteq> []"
  shows "\<exists>p\<in>set (sv_ports s). least_ranked (\<lambda>q. port_rank custom (sp_name q)) p (sv_ports s) \<and>
    (let scheme = (if sp_name p = ''https'' \<or> sp_port p \<in> {443, 8443} then ''https'' else ''http'')
     in resolveServiceUri s custom fmt =
       Ret (if fmt = KubernetesIPAddress then scheme @ ''://'' @ sv_clusterIP s @ '':'' @ show_int (sp_port p)
            else scheme @ ''://'' @ om_name (sv_meta s) @ ''.'' @ om_namespace (sv_meta s) @ ''.svc:'' @
              show_int (sp_port p)))"
proof -
  obtain p where p: "choose_port sp_name custom (sv_ports s) = Some p"
    using assms(2) choose_port_None[of sp_name custom "sv_ports s"] by auto
  have l: "least_ranked (\<lambda>q. port_rank custom (sp_name q)) p (sv_ports s)"
    by (rule choose_port_least[OF p])
  then have "p \<in> set (sv_ports s)" by (auto simp: least_ranked_def find_Some_iff)
  moreover have "isSecureServicePort p \<longleftrightarrow> sp_name p = ''https'' \<or> sp_port p \<in> {443, 8443}"
    by (simp add: isSecureServicePort_def isSecurePort_def defaultHttpsPort_def defaultAppSecurePort_def
        httpsProtocol_def)
  moreover have "sv_type s \<noteq> ''ExternalName''" using assms(1) by auto
  ultimately show ?thesis using l assms(1)
    by (intro bexI[of _ p]) (auto simp: resolveServiceUri_def service_port_choose p
        resolveClusterIPOrTypeNodeServiceUriParams_def buildURI_def buildKubernetesServiceDNSUri_def
        protocol_defs Let_def)
qed

definition ex_service :: service where
  "ex_service =
    \<lparr>sv_meta = (new_meta ''ns'' ''svc'')\<lparr>om_labels := Some [(''tier'', ''db'')]\<rparr>, sv_type = ''ClusterIP'',
     sv_clusterIP = ''10.0.0.1'', sv_externalName = '''', sv_selector = [(''app'', ''a'')],
     sv_ports = [\<lparr>sp_name = ''web'', sp_protocol = ''TCP'', sp_port = 8080, sp_targetPort = 0, sp_nodePort = 0\<rparr>,
       \<lparr>sp_name = ''secure'', sp_protocol = ''TCP'', sp_port = 8443, sp_targetPort = 0, sp_nodePort = 0\<rparr>]\<rparr>"

lemma ex_service_simps [simp]:
  "sv_type ex_service = ''ClusterIP''" "sv_ports ex_service \<noteq> []" "sv_selector ex_service = [(''app'', ''a'')]"
  by (simp_all add: ex_service_def)

theorem service_address_witness:
  "sv_ports ex_service \<noteq> [] \<and> (\<exists>p\<in>set (sv_ports ex_service).
    least_ranked (\<lambda>q. port_rank ''secure'' (sp_name q)) p (sv_ports ex_service) \<and>
    (let scheme = (if sp_name p = ''https'' \<or> sp_port p \<in> {443, 8443} then ''https'' else ''http'')
     in resolveServiceUri ex_service ''secure'' KubernetesDNSAddress =
       Ret (if KubernetesDNSAddress = KubernetesIPAddress
            then scheme @ ''://'' @ sv_clusterIP ex_service @ '':'' @ show_int (sp_port p)
            else scheme @ ''://'' @ om_name (sv_meta ex_service) @ ''.'' @ om_namespace (sv_meta ex_service) @
              ''.svc:'' @ show_int (sp_port p))))"
  using service_address[of ex_service "''secure''" KubernetesDNSAddress] by simp

lemma service_port_in: "findBestSuitedServicePort s custom = Ret p \<Longrightarrow> p \<in> set (sv_ports s)"
  by (auto simp: service_port_choose least_ranked_def find_Some_iff split: option.splits
      dest!: choose_port_least)

subsection \<open>Selectors\<close>

text \<open>A map contains a subset when every entry of the subset is in it, except that an entry
  with an empty value is also taken to be there when its key is missing.\<close>

theorem containsSubset_iff:
  assumes "distinct (map fst s)"
  shows "containsSubset (Some c) (Some s) \<longleftrightarrow>
    (\<forall>k v. map_of s k = Some v \<longrightarrow> map_of c k = Some v \<or> v = '''' \<and> map_of c k = None)"
proof -
  have "containsSubset (Some c) (Some s) \<longleftrightarrow> (\<forall>k v. map_of s k = Some v \<longrightarrow> map_get c k = v)"
    using assms by (auto simp: containsSubset_def list_all_iff)
  moreover have "map_get c k = v \<longleftrightarrow> map_of c k = Some v \<or> v = '''' \<and> map_of c k = None" for k v
    by (auto simp: map_get_def split: option.splits)
  ultimately show ?thesis by simp
qed

theorem containsSubset_iff_witness:
  "containsSubset (Some [(''app'', ''a'')]) (Some [(''app'', ''a''), (''role'', '''')]) \<and>
   map_of [(''app'', ''a'')] ''role'' = None"
  using containsSubset_iff[of "[(''app'', ''a''), (''role'', '''')]" "[(''app'', ''a'')]"] by simp

lemma selectBest_member:
  assumes "selectBestSuitedServiceByCustomLabels ss labels = Some s"
  shows "s \<in> set ss"
  using assms
  by (auto simp: selectBestSuitedServiceByCustomLabels_def filterServiceListByLabelsSubset_def
      filter_eq_Cons_iff split: list.splits if_splits)

lemma selectBest_None: "selectBestSuitedServiceByCustomLabels ss labels = None \<longleftrightarrow> ss = []"
  by (auto simp: selectBestSuitedServiceByCustomLabels_def split: list.splits if_splits)

lemma selectBest_labels:
  assumes "selectBestSuitedServiceByCustomLabels ss labels = Some s" "labels \<noteq> []" "t \<in> set ss"
    "containsSubset (om_labels (sv_meta t)) (Some labels)" "length ss > 1"
  shows "containsSubset (om_labels (sv_meta s)) (Some labels)"
proof -
  obtain t' rest where f: "filterServiceListByLabelsSubset ss labels = t' # rest"
    using assms(3,4) by (cases "filterServiceListByLabelsSubset ss labels")
      (auto simp: filterServiceListByLabelsSubset_def filter_empty_conv)
  then have "t' \<in> set (filterServiceListByLabelsSubset ss labels)" by simp
  then have "containsSubset (om_labels (sv_meta t')) (Some labels)"
    by (simp add: filterServiceListByLabelsSubset_def)
  moreover have "s = t'"
    using assms f by (auto simp: selectBestSuitedServiceByCustomLabels_def split: list.splits if_splits)
  ultimately show ?thesis by simp
qed

lemma findServices_sound:
  assumes "findServicesBySelectorTarget cc ns target = Inr ss" "s \<in> set ss"
  shows "\<exists>all. cc_services cc ns = Inr all \<and> s \<in> set all" "sv_selector s \<noteq> []"
    "containsSubset target (Some (sv_selector s))"
  using assms by (auto simp: findServicesBySelectorTarget_def split: sum.splits)

text \<open>The address of a deployment is the address of a service of its namespace with a selector
  that picks the deployment's pods; when there is no such service the query is an error.\<close>

theorem deployment_query:
  assumes "cc_deployment cc (ru_namespace u) (ru_name u) = Inr d"
    and "cc_services cc (ru_namespace u) = Inr ss"
    and "ru_scheme u = KubernetesScheme" and "gv_kind (ru_gvk u) = ''deployments''"
  shows "case catalog_Query cc u fmt of
      Ret a \<Rightarrow> (\<exists>s\<in>set ss. sv_selector s \<noteq> [] \<and>
        containsSubset (match_labels (dp_selector d)) (Some (sv_selector s)) \<and>
        resolveServiceUri s (GetPort u) fmt = Ret a)
    | Fail e \<Rightarrow> (\<forall>s\<in>set ss. sv_selector s = [] \<or>
          \<not> containsSubset (match_labels (dp_selector d)) (Some (sv_selector s))) \<or>
        (\<exists>s\<in>set ss. resolveServiceUri s (GetPort u) fmt = Fail e)
    | Panic \<Rightarrow> (\<exists>s\<in>set ss. resolveServiceUri s (GetPort u) fmt = Panic)"
proof -
  let ?P = "\<lambda>s. sv_selector s \<noteq> [] \<and> containsSubset (match_labels (dp_selector d)) (Some (sv_selector s))"
  have q: "catalog_Query cc u fmt = (if filter ?P ss = []
      then Fail (OtherError (''no service was found for the deployment: '' @ ru_name u @
        '' in namespace: '' @ ru_namespace u))
      else resolve_reference u fmt (filter ?P ss))"
    by (simp add: catalog_Query_def k8s_Query_def assms resolveDeploymentQuery_def resolve_by_selector_def
        findServicesBySelectorTarget_def)
  show ?thesis
  proof (cases "filter ?P ss = []")
    case True
    then show ?thesis unfolding q by (auto simp: filter_empty_conv)
  next
    case False
    then obtain s where s: "selectBestSuitedServiceByCustomLabels (filter ?P ss) (GetCustomLabels u) = Some s"
      using selectBest_None[of "filter ?P ss" "GetCustomLabels u"] by blast
    then have "s \<in> set ss" "?P s" using selectBest_member[OF s] by auto
    then show ?thesis unfolding q using False
      by (auto simp: resolve_reference_def s split: outcome.splits)
  qed
qed

definition ex_workload :: deployment where
  "ex_workload =
    \<lparr>dp_meta = new_meta ''ns'' ''d'', dp_paused = False, dp_selector = [(''app'', ''a''), (''x'', ''y'')],
     dp_replicas = None, dp_strategy = '''', dp_templateLabels = [], dp_templateAnnotations = None,
     dp_pod = \<lparr>ps_containers = [], ps_initContainers = [], ps_volumes = []\<rparr>, dp_conditions = []\<rparr>"

definition ex_clients :: catalog_clients where
  "ex_clients =
    \<lparr>cc_service = (\<lambda>_ _. Inr ex_service), cc_services = (\<lambda>_. Inr [ex_service]),
     cc_pod = (\<lambda>_ _. Inl (NotFound ''pod'')), cc_deployment = (\<lambda>_ _. Inr ex_workload),
     cc_statefulSet = (\<lambda>_ _. Inl (NotFound ''ss'')),
     cc_ingress = (\<lambda>_ _. Inr \<lparr>in_meta = new_meta ''ns'' ''i'', in_tls = 0, in_addresses = []\<rparr>),
     cc_knative = None, cc_openshift = None\<rparr>"

definition ex_uri :: "string \<Rightarrow> resource_uri" where
  "ex_uri kind = \<lparr>ru_scheme = ''kubernetes'', ru_gvk = \<lparr>gv_group = ''apps'', gv_version = ''v1'', gv_kind = kind\<rparr>,
     ru_namespace = ''ns'', ru_name = ''d'', ru_query = []\<rparr>"

lemma ex_service_address:
  "resolveServiceUri ex_service (GetPort \<lparr>ru_scheme = s, ru_gvk = g, ru_namespace = n, ru_name = m, ru_query = []\<rparr>)
     KubernetesDNSAddress = Ret ''http://svc.ns.svc:8080''"
  by (simp add: resolveServiceUri_def ex_service_def new_meta_def service_port_choose choose_port_def
      resolveClusterIPOrTypeNodeServiceUriParams_def GetPort_def GetQueryParam_def protocol_defs
      isSecureServicePort_def isSecurePort_def defaultHttpsPort_def defaultAppSecurePort_def
      buildKubernetesServiceDNSUri_def KubernetesIPAddress_def KubernetesDNSAddress_def show_int_eval)

theorem deployment_query_witness:
  "catalog_Query ex_clients (ex_uri ''deployments'') KubernetesDNSAddress = Ret ''http://svc.ns.svc:8080'' \<and>
   (\<exists>s\<in>set [ex_service]. sv_selector s \<noteq> [] \<and>
     containsSubset (match_labels (dp_selector ex_workload)) (Some (sv_selector s)) \<and>
     resolveServiceUri s (GetPort (ex_uri ''deployments'')) KubernetesDNSAddress = Ret ''http://svc.ns.svc:8080'')"
proof -
  let ?u = "ex_uri ''deployments''"
  have q: "catalog_Query ex_clients ?u KubernetesDNSAddress = Ret ''http://svc.ns.svc:8080''"
    by (simp add: catalog_Query_def ex_uri_def scheme_defs k8s_Query_def resolveDeploymentQuery_def
        ex_clients_def resolve_by_selector_def findServicesBySelectorTarget_def ex_workload_def
        match_labels_def containsSubset_def map_get_def resolve_reference_def
        selectBestSuitedServiceByCustomLabels_def ex_service_address)
  have h: "cc_deployment ex_clients (ru_namespace ?u) (ru_name ?u) = Inr ex_workload"
    "cc_services ex_clients (ru_namespace ?u) = Inr [ex_service]" "ru_scheme ?u = KubernetesScheme"
    "gv_kind (ru_gvk ?u) = ''deployments''"
    by (simp_all add: ex_clients_def ex_uri_def KubernetesScheme_def)
  show ?thesis
    using deployment_query[OF h, where fmt=KubernetesDNSAddress] unfolding q outcome.case by blast
qed

subsection \<open>Panics\<close>

definition service_ok :: "service \<Rightarrow> bool" where
  "service_ok s \<longleftrightarrow> (sv_type s \<in> {''ClusterIP'', ''NodePort''} \<longrightarrow> sv_ports s \<noteq> [])"

definition clients_ok :: "catalog_clients \<Rightarrow> bool" where
  "clients_ok cc \<longleftrightarrow>
    (\<forall>n m s. cc_service cc n m = Inr s \<longrightarrow> service_ok s) \<and>
    (\<forall>n ss. cc_services cc n = Inr ss \<longrightarrow> list_all service_ok ss) \<and>
    (\<forall>n m p. cc_pod cc n m = Inr p \<longrightarrow> ps_containers (pd_spec p) \<noteq> []) \<and>
    (\<forall>n m i. cc_ingress cc n m = Inr i \<longrightarrow> in_addresses i \<noteq> []) \<and>
    (\<forall>dc. cc_knative cc = Some dc \<longrightarrow>
      (\<forall>g n m a. (kd_serving dc = Some g \<or> kd_eventing dc = Some g) \<and> g n m = Inr a \<longrightarrow> a \<noteq> None))"

lemma choose_port_Nil [simp]: "choose_port f custom [] = None"
  by (simp add: choose_port_None)

lemma resolveServiceUri_Panic: "resolveServiceUri s custom fmt = Panic \<longleftrightarrow> \<not> service_ok s"
  by (auto simp: resolveServiceUri_def resolveClusterIPOrTypeNodeServiceUriParams_def service_ok_def
      service_port_choose choose_port_None split: option.splits)

lemma resolve_reference_Panic:
  assumes "ss \<noteq> []" "list_all service_ok ss" shows "resolve_reference u fmt ss \<noteq> Panic"
  using assms selectBest_None[of ss] selectBest_member[of ss]
  by (auto simp: resolve_reference_def resolveServiceUri_Panic list_all_iff split: option.splits)

lemma findServices_ok:
  assumes "clients_ok cc" "findServicesBySelectorTarget cc ns target = Inr ss"
  shows "list_all service_ok ss"
  using assms by (auto simp: clients_ok_def findServicesBySelectorTarget_def list_all_iff split: sum.splits)

lemma resolve_by_selector_Panic: "clients_ok cc \<Longrightarrow> resolve_by_selector cc what target u fmt \<noteq> Panic"
  using resolve_reference_Panic[OF _ findServices_ok]
  by (auto simp: resolve_by_selector_def split: sum.splits)

lemma resolvePodUri_Panic:
  "ps_containers (pd_spec p) \<noteq> [] \<Longrightarrow> resolvePodUri p '''' port fmt \<noteq> Panic"
  by (auto simp: resolvePodUri_def Let_def split: option.splits list.splits)

text \<open>A query panics only on objects that break what the code takes for granted: a service
  without ports, a pod without containers, an ingress without an address, a Knative object without
  an address.\<close>

theorem query_no_panic:
  assumes "clients_ok cc"
  shows "catalog_Query cc u fmt \<noteq> Panic"
proof -
  note ok = assms[unfolded clients_ok_def]
  have svc: "resolveServiceQuery cc u fmt \<noteq> Panic"
    using ok by (auto simp: resolveServiceQuery_def resolveServiceUri_Panic split: sum.splits)
  have pod: "resolvePodQuery cc u fmt \<noteq> Panic"
    using ok findServices_ok[OF assms]
    by (auto simp: resolvePodQuery_def findPodAndReferenceServices_def resolvePodUri_Panic map_sum_Inr_iff
        resolve_reference_Panic split: sum.splits option.splits list.splits prod.splits)
  have "k8s_Query cc u fmt \<noteq> Panic"
    using svc pod ok resolve_by_selector_Panic[OF assms]
    by (auto simp: k8s_Query_def Let_def resolveDeploymentQuery_def resolveStatefulSetQuery_def
        resolveIngressQuery_def split: sum.splits list.splits)
  moreover have "kn_Query cc u fmt \<noteq> Panic"
    using ok by (auto simp: kn_Query_def Let_def address_url_def split: option.splits sum.splits; blast)
  moreover have "os_Query cc u fmt \<noteq> Panic"
    using resolve_by_selector_Panic[OF assms]
    by (auto simp: os_Query_def Let_def split: option.splits sum.splits)
  ultimately show ?thesis by (simp add: catalog_Query_def)
qed

theorem query_no_panic_witness:
  "catalog_Query (ex_clients\<lparr>cc_ingress := \<lambda>_ _. Inl (NotFound ''i'')\<rparr>) (ex_uri ''ingresses'') KubernetesIPAddress
     \<noteq> Panic"
  by (rule query_no_panic) (auto simp: clients_ok_def ex_clients_def service_ok_def)

text \<open>An ingress whose load balancer has no address yet, which is how every ingress starts,
  makes the query index an empty list.\<close>

theorem ingress_without_address:
  assumes "cc_ingress cc (ru_namespace u) (ru_name u) = Inr i" and "in_addresses i = []"
    and "ru_scheme u = KubernetesScheme" and "gv_kind (ru_gvk u) = ''ingresses''"
  shows "catalog_Query cc u fmt = Panic"
  using assms by (simp add: catalog_Query_def k8s_Query_def resolveIngressQuery_def)

theorem ingress_without_address_witness:
  "catalog_Query ex_clients (ex_uri ''ingresses'') KubernetesDNSAddress = Panic"
  by (rule ingress_without_address) (auto simp: ex_clients_def ex_uri_def KubernetesScheme_def)

end
