(* ===== verification/Cluster.thy ===== *)
theory Cluster
  imports Api_Types Kube_Client
begin

text \<open>
  What the controllers see of a cluster: a client for each kind of object they read or write, the
  answers of the discovery API, the recorder of events and the operator's own configuration.  The
  components take this record as an argument; nothing is assumed of it here.  Instants are passed
  where the code calls \<open>metav1.Now\<close>.
\<close>

record knative_availability =
  ka_serving :: bool
  ka_eventing :: bool

text \<open>The operator's configuration file (\<open>internal/controller/cfg\<close>): the entries the models read.\<close>

record gav =
  ga_groupId :: string
  ga_artifactId :: string
  ga_version :: string

definition GroupAndArtifact :: "gav \<Rightarrow> string" where
  "GroupAndArtifact g = ga_groupId g @ '':'' @ ga_artifactId g"

definition gav_String :: "gav \<Rightarrow> string" where
  "gav_String g = ga_groupId g @ '':'' @ ga_artifactId g @ '':'' @ ga_version g"

record controllers_cfg =
  cg_defaultPvcKanikoSize :: string
  cg_healthFailureThresholdDevMode :: int
  cg_kanikoWarmerImageTag :: string
  cg_kanikoExecutorImageTag :: string
  cg_jobsServicePostgreSQLImageTag :: string
  cg_jobsServiceEphemeralImageTag :: string
  cg_dataIndexPostgreSQLImageTag :: string
  cg_dataIndexEphemeralImageTag :: string
  cg_baseBuilderImageTag :: string
  cg_devModeImageTag :: string
  cg_builderConfigMapName :: string
  cg_postgreSQLExtensions :: "gav list"
  cg_eventsGrouping :: bool
  cg_eventsGroupingBinary :: bool
  cg_eventsGroupingCompress :: bool

definition defaultControllersCfg :: controllers_cfg where
  "defaultControllersCfg =
    \<lparr>cg_defaultPvcKanikoSize = ''1Gi'', cg_healthFailureThresholdDevMode = 50,
     cg_kanikoWarmerImageTag = ''gcr.io/kaniko-project/warmer:v1.9.0'',
     cg_kanikoExecutorImageTag = ''gcr.io/kaniko-project/executor:v1.9.0'',
     cg_jobsServicePostgreSQLImageTag = '''', cg_jobsServiceEphemeralImageTag = '''',
     cg_dataIndexPostgreSQLImageTag = '''', cg_dataIndexEphemeralImageTag = '''',
     cg_baseBuilderImageTag = '''', cg_devModeImageTag = '''',
     cg_builderConfigMapName = ''sonataflow-operator-builder-config'',
     cg_postgreSQLExtensions = [], cg_eventsGrouping = False, cg_eventsGroupingBinary = False,
     cg_eventsGroupingCompress = False\<rparr>"

definition tagVersion :: string where "tagVersion = ''main''"
definition serviceTagVersion :: string where "serviceTagVersion = ''main''"

definition GetDefaultImageTag :: "string \<Rightarrow> string" where
  "GetDefaultImageTag img = img @ '':'' @ tagVersion"

definition GetWorkflowAppImageNameTag :: "sonataflow \<Rightarrow> string" where
  "GetWorkflowAppImageNameTag w = sf_name w @ '':'' @ ''latest''"

definition GetDefaultWorkflowDevModeImageTag :: "controllers_cfg \<Rightarrow> string" where
  "GetDefaultWorkflowDevModeImageTag c =
    (if cg_devModeImageTag c \<noteq> '''' then cg_devModeImageTag c
     else GetDefaultImageTag ''docker.io/apache/incubator-kie-sonataflow-devmode'')"

definition GetDefaultWorkflowBuilderImageTag :: "controllers_cfg \<Rightarrow> string" where
  "GetDefaultWorkflowBuilderImageTag c =
    (if cg_baseBuilderImageTag c \<noteq> '''' then cg_baseBuilderImageTag c
     else GetDefaultImageTag ''docker.io/apache/incubator-kie-sonataflow-builder'')"

subsection \<open>The cluster\<close>

text \<open>\<open>k_brokerReady\<close> is the status of the ready condition of the broker of a namespace and name.
  \<open>k_registryHost\<close> reads the field \<open>hostFromClusterNetwork\<close> from the YAML of the local registry's
  config map; \<open>k_quantity\<close> is the error of \<open>resource.ParseQuantity\<close>, if any.\<close>

record 'w cluster =
  k_workflows :: "('w, sonataflow) client"
  k_platforms :: "('w, sonataflow_platform) client"
  k_clusterPlatforms :: "('w, sonataflow_cluster_platform) client"
  k_builds :: "('w, sonataflow_build) client"
  k_deployments :: "('w, deployment) client"
  k_kservices :: "('w, kservice) client"
  k_services :: "('w, service) client"
  k_routes :: "('w, route) client"
  k_revisions :: "('w, revision) client"
  k_configMaps :: "('w, config_map) client"
  k_secrets :: "('w, secret) client"
  k_pods :: "('w, pod) client"
  k_leases :: "('w, object_meta) client"
  k_pvcs :: "('w, object_meta) client"
  k_triggers :: "('w, trigger) client"
  k_sinkBindings :: "('w, sink_binding) client"
  k_brokerReady :: "'w \<Rightarrow> string \<Rightarrow> string \<Rightarrow> kerror + string option"
  k_openShift :: bool
  k_watchNamespace :: "string option"
  k_operatorNamespace :: "string option"
  k_operatorID :: string
  k_goVersion :: string
  k_goOS :: string
  k_registryHost :: "string \<Rightarrow> kerror + string"
  k_quantity :: "string \<Rightarrow> kerror option"
  k_cfg :: controllers_cfg
  k_knative :: "'w \<Rightarrow> kerror + knative_availability"
  k_prometheus :: "'w \<Rightarrow> kerror + bool"
  k_event :: "string \<Rightarrow> string \<Rightarrow> string \<Rightarrow> 'w \<Rightarrow> 'w"

text \<open>\<open>ctrl.Result\<close>: the explicit request and the delay in seconds (0 when there is none).\<close>

record ctrl_result =
  rs_requeue :: bool
  rs_after :: int

definition no_result :: ctrl_result where "no_result = \<lparr>rs_requeue = False, rs_after = 0\<rparr>"
definition after_seconds :: "int \<Rightarrow> ctrl_result" where "after_seconds s = \<lparr>rs_requeue = False, rs_after = s\<rparr>"
definition requeue_now :: ctrl_result where "requeue_now = \<lparr>rs_requeue = True, rs_after = 0\<rparr>"

text \<open>The controller comes back by itself when a result asks for it or when there is an error.\<close>

definition comes_back :: "ctrl_result \<Rightarrow> kerror option \<Rightarrow> bool" where
  "comes_back r e \<longleftrightarrow> rs_requeue r \<or> rs_after r > 0 \<or> e \<noteq> None"

lemmas result_defs = no_result_def after_seconds_def requeue_now_def comes_back_def

definition normal_event :: string where "normal_event = ''Normal''"
definition warning_event :: string where "warning_event = ''Warning''"

subsection \<open>A cluster in memory\<close>

text \<open>Every kind of object in a list, events in a log.  The witnesses run the controllers on it.\<close>

record mem_world =
  mw_workflows :: "sonataflow list"
  mw_platforms :: "sonataflow_platform list"
  mw_clusterPlatforms :: "sonataflow_cluster_platform list"
  mw_builds :: "sonataflow_build list"
  mw_deployments :: "deployment list"
  mw_kservices :: "kservice list"
  mw_services :: "service list"
  mw_routes :: "route list"
  mw_revisions :: "revision list"
  mw_configMaps :: "config_map list"
  mw_secrets :: "secret list"
  mw_pods :: "pod list"
  mw_leases :: "object_meta list"
  mw_pvcs :: "object_meta list"
  mw_triggers :: "trigger list"
  mw_sinkBindings :: "sink_binding list"
  mw_events :: "(string \<times> string \<times> string) list"

definition empty_world :: mem_world where
  "empty_world =
    \<lparr>mw_workflows = [], mw_platforms = [], mw_clusterPlatforms = [], mw_builds = [], mw_deployments = [],
     mw_kservices = [], mw_services = [], mw_routes = [], mw_revisions = [], mw_configMaps = [], mw_secrets = [], mw_pods = [], mw_leases = [], mw_pvcs = [],
     mw_triggers = [], mw_sinkBindings = [], mw_events = []\<rparr>"

definition mem_of ::
  "('o \<Rightarrow> object_meta) \<Rightarrow> (mem_world \<Rightarrow> 'o list) \<Rightarrow> ('o list \<Rightarrow> mem_world \<Rightarrow> mem_world) \<Rightarrow> (mem_world, 'o) client"
where
  "mem_of meta get upd = mem_client (\<lambda>x. om_namespace (meta x)) (\<lambda>x. om_name (meta x)) get upd"

definition mem_cluster :: "mem_world cluster" where
  "mem_cluster =
    \<lparr>k_workflows = mem_of sf_meta mw_workflows (\<lambda>v w. w\<lparr>mw_workflows := v\<rparr>),
     k_platforms = mem_of pf_meta mw_platforms (\<lambda>v w. w\<lparr>mw_platforms := v\<rparr>),
     k_clusterPlatforms = mem_of cl_meta mw_clusterPlatforms (\<lambda>v w. w\<lparr>mw_clusterPlatforms := v\<rparr>),
     k_builds = mem_of sb_meta mw_builds (\<lambda>v w. w\<lparr>mw_builds := v\<rparr>),
     k_deployments = mem_of dp_meta mw_deployments (\<lambda>v w. w\<lparr>mw_deployments := v\<rparr>),
     k_kservices = mem_of ks_meta mw_kservices (\<lambda>v w. w\<lparr>mw_kservices := v\<rparr>),
     k_services = mem_of sv_meta mw_services (\<lambda>v w. w\<lparr>mw_services := v\<rparr>),
     k_routes = mem_of ro_meta mw_routes (\<lambda>v w. w\<lparr>mw_routes := v\<rparr>),
     k_revisions = mem_of rv_meta mw_revisions (\<lambda>v w. w\<lparr>mw_revisions := v\<rparr>),
     k_configMaps = mem_of cm_meta mw_configMaps (\<lambda>v w. w\<lparr>mw_configMaps := v\<rparr>),
     k_secrets = mem_of se_meta mw_secrets (\<lambda>v w. w\<lparr>mw_secrets := v\<rparr>),
     k_pods = mem_of pd_meta mw_pods (\<lambda>v w. w\<lparr>mw_pods := v\<rparr>),
     k_leases = mem_of (\<lambda>m. m) mw_leases (\<lambda>v w. w\<lparr>mw_leases := v\<rparr>),
     k_pvcs = mem_of (\<lambda>m. m) mw_pvcs (\<lambda>v w. w\<lparr>mw_pvcs := v\<rparr>),
     k_triggers = mem_of tg_meta mw_triggers (\<lambda>v w. w\<lparr>mw_triggers := v\<rparr>),
     k_sinkBindings = mem_of sn_meta mw_sinkBindings (\<lambda>v w. w\<lparr>mw_sinkBindings := v\<rparr>),
     k_brokerReady = (\<lambda>_ _ _. Inr (Some ''True'')),
     k_openShift = False, k_watchNamespace = None, k_operatorNamespace = Some ''operators'',
     k_operatorID = '''', k_goVersion = ''go1.21'', k_goOS = ''linux'',
     k_registryHost = (\<lambda>_. Inr ''registry:5000''), k_quantity = (\<lambda>_. None), k_cfg = defaultControllersCfg,
     k_knative = (\<lambda>_. Inr \<lparr>ka_serving = True, ka_eventing = True\<rparr>),
     k_prometheus = (\<lambda>_. Inr False),
     k_event = (\<lambda>ty r m w. w\<lparr>mw_events := mw_events w @ [(ty, r, m)]\<rparr>)\<rparr>"

lemma mem_of_store:
  assumes "\<And>v w. get (upd v w) = v"
  shows "object_store (mem_of meta get upd) (\<lambda>x. om_namespace (meta x)) (\<lambda>x. om_name (meta x))"
  unfolding mem_of_def by (rule mem_client_store) (rule assms)

text \<open>What the operations of the clients in memory answer, for the witnesses.\<close>

lemma mem_of_ops:
  "c_get (mem_of meta get upd) w n m =
    (case find (\<lambda>x. om_namespace (meta x) = n \<and> om_name (meta x) = m) (get w) of
       None \<Rightarrow> Inl (NotFound ''not found'') | Some x \<Rightarrow> Inr x)"
  "c_list (mem_of meta get upd) w n = Inr (filter (\<lambda>x. n = '''' \<or> om_namespace (meta x) = n) (get w))"
  "c_create (mem_of meta get upd) w x =
    (case find (\<lambda>y. om_namespace (meta y) = om_namespace (meta x) \<and> om_name (meta y) = om_name (meta x)) (get w) of
       None \<Rightarrow> (None, upd (get w @ [x]) w) | Some _ \<Rightarrow> (Some (AlreadyExists ''already exists''), w))"
  "c_update (mem_of meta get upd) w x =
    (case find (\<lambda>y. om_namespace (meta y) = om_namespace (meta x) \<and> om_name (meta y) = om_name (meta x)) (get w) of
       None \<Rightarrow> (Some (NotFound ''not found''), w)
     | Some _ \<Rightarrow> (None, upd (store_set (\<lambda>x. om_namespace (meta x)) (\<lambda>x. om_name (meta x)) x (get w)) w))"
  "c_status (mem_of meta get upd) = c_update (mem_of meta get upd)"
  "c_patch (mem_of meta get upd) = c_update (mem_of meta get upd)"
  "c_delete (mem_of meta get upd) w n m =
    (case find (\<lambda>x. om_namespace (meta x) = n \<and> om_name (meta x) = m) (get w) of
       None \<Rightarrow> (Some (NotFound ''not found''), w)
     | Some _ \<Rightarrow> (None, upd (filter (\<lambda>x. \<not> (om_namespace (meta x) = n \<and> om_name (meta x) = m)) (get w)) w))"
  by (simp_all add: mem_of_def mem_client_def store_find_def Let_def fun_eq_iff)

lemma mem_cluster_fields:
  "k_workflows mem_cluster = mem_of sf_meta mw_workflows (\<lambda>v w. w\<lparr>mw_workflows := v\<rparr>)"
  "k_platforms mem_cluster = mem_of pf_meta mw_platforms (\<lambda>v w. w\<lparr>mw_platforms := v\<rparr>)"
  "k_clusterPlatforms mem_cluster = mem_of cl_meta mw_clusterPlatforms (\<lambda>v w. w\<lparr>mw_clusterPlatforms := v\<rparr>)"
  "k_builds mem_cluster = mem_of sb_meta mw_builds (\<lambda>v w. w\<lparr>mw_builds := v\<rparr>)"
  "k_deployments mem_cluster = mem_of dp_meta mw_deployments (\<lambda>v w. w\<lparr>mw_deployments := v\<rparr>)"
  "k_kservices mem_cluster = mem_of ks_meta mw_kservices (\<lambda>v w. w\<lparr>mw_kservices := v\<rparr>)"
  "k_services mem_cluster = mem_of sv_meta mw_services (\<lambda>v w. w\<lparr>mw_services := v\<rparr>)"
  "k_routes mem_cluster = mem_of ro_meta mw_routes (\<lambda>v w. w\<lparr>mw_routes := v\<rparr>)"
  "k_revisions mem_cluster = mem_of rv_meta mw_revisions (\<lambda>v w. w\<lparr>mw_revisions := v\<rparr>)"
  "k_secrets mem_cluster = mem_of se_meta mw_secrets (\<lambda>v w. w\<lparr>mw_secrets := v\<rparr>)"
  "k_configMaps mem_cluster = mem_of cm_meta mw_configMaps (\<lambda>v w. w\<lparr>mw_configMaps := v\<rparr>)"
  "k_pods mem_cluster = mem_of pd_meta mw_pods (\<lambda>v w. w\<lparr>mw_pods := v\<rparr>)"
  "k_leases mem_cluster = mem_of (\<lambda>m. m) mw_leases (\<lambda>v w. w\<lparr>mw_leases := v\<rparr>)"
  "k_pvcs mem_cluster = mem_of (\<lambda>m. m) mw_pvcs (\<lambda>v w. w\<lparr>mw_pvcs := v\<rparr>)"
  "k_triggers mem_cluster = mem_of tg_meta mw_triggers (\<lambda>v w. w\<lparr>mw_triggers := v\<rparr>)"
  "k_sinkBindings mem_cluster = mem_of sn_meta mw_sinkBindings (\<lambda>v w. w\<lparr>mw_sinkBindings := v\<rparr>)"
  "k_openShift mem_cluster = False" "k_watchNamespace mem_cluster = None" "k_operatorID mem_cluster = ''''"
  "k_cfg mem_cluster = defaultControllersCfg" "k_quantity mem_cluster = (\<lambda>_. None)"
  "k_event mem_cluster = (\<lambda>ty r m w. w\<lparr>mw_events := mw_events w @ [(ty, r, m)]\<rparr>)"
  "k_knative mem_cluster = (\<lambda>_. Inr \<lparr>ka_serving = True, ka_eventing = True\<rparr>)"
  by (simp_all add: mem_cluster_def)

lemma empty_world_fields:
  "mw_workflows empty_world = []" "mw_platforms empty_world = []" "mw_clusterPlatforms empty_world = []"
  "mw_builds empty_world = []" "mw_deployments empty_world = []" "mw_kservices empty_world = []"
  "mw_services empty_world = []" "mw_routes empty_world = []"
  "mw_revisions empty_world = []" "mw_configMaps empty_world = []" "mw_pods empty_world = []"
  "mw_secrets empty_world = []" "mw_leases empty_world = []" "mw_pvcs empty_world = []" "mw_triggers empty_world = []"
  "mw_sinkBindings empty_world = []" "mw_events empty_world = []"
  by (simp_all add: empty_world_def)

lemmas mem_eval = mem_of_ops mem_cluster_fields empty_world_fields

end
