(* ===== verification/Knative.thy ===== *)
theory Knative
  imports Cluster Kube_Utils
begin

text \<open>
  The Knative helpers (\<open>internal/controller/knative/knative.go\<close>): where a workflow sends its events,
  the checks on brokers and sink bindings, and the volumes that a sink binding injects in a pod,
  which are carried over to the desired pod and kept last so that pods are not restarted.
\<close>

definition kSink :: string where "kSink = ''K_SINK''"
definition kCeOverRides :: string where "kCeOverRides = ''K_CE_OVERRIDES''"
definition knativeBundleVolume :: string where "knativeBundleVolume = ''kne-bundle-volume''"
definition knativeServingGroup :: string where "knativeServingGroup = ''serving.knative.dev''"
definition knativeEventingGroup :: string where "knativeEventingGroup = ''eventing.knative.dev''"
definition knativeEventingAPIVersion :: string where
  "knativeEventingAPIVersion = ''eventing.knative.dev/v1''"
definition knativeBrokerKind :: string where "knativeBrokerKind = ''Broker''"
definition LabelApp :: string where "LabelApp = ''app''"
definition LabelAppNamespace :: string where "LabelAppNamespace = ''app-namespace''"

text \<open>From the names of the API groups the server lists.\<close>

definition availability_of :: "string list \<Rightarrow> knative_availability" where
  "availability_of groups =
    \<lparr>ka_serving = list_ex (\<lambda>g. g = knativeServingGroup) groups,
     ka_eventing = list_ex (\<lambda>g. g = knativeEventingGroup) groups\<rparr>"

subsection \<open>Sinks and brokers\<close>

definition getRemotePlatform ::
  "'w cluster \<Rightarrow> sonataflow_platform option \<Rightarrow> 'w \<Rightarrow> sonataflow_platform option outcome" where
  "getRemotePlatform k pl w =
    (case pl of
       None \<Rightarrow> Panic
     | Some p \<Rightarrow>
        (case pf_clusterRef p of
           None \<Rightarrow> Ret None
         | Some r \<Rightarrow>
            (case c_get (k_platforms k) w (nr_namespace (cf_platformRef r)) (nr_name (cf_platformRef r)) of
               Inl _ \<Rightarrow> Fail (OtherError ''error reading the platform referred by the cluster platform'')
             | Inr q \<Rightarrow> Ret (Some q))))"

definition getDestinationWithNamespace :: "destination \<Rightarrow> string \<Rightarrow> destination" where
  "getDestinationWithNamespace d ns =
    (case de_ref d of
       None \<Rightarrow> d
     | Some r \<Rightarrow> if kr_namespace r = '''' then d\<lparr>de_ref := Some (r\<lparr>kr_namespace := ns\<rparr>)\<rparr> else d)"

definition ValidateBroker :: "'w cluster \<Rightarrow> string \<Rightarrow> string \<Rightarrow> 'w \<Rightarrow> kerror option" where
  "ValidateBroker k name ns w =
    (case k_brokerReady k w ns name of
       Inl e \<Rightarrow> if IsNotFound e
         then Some (OtherError (''broker '' @ name @ '' in namespace '' @ ns @ '' does not exist''))
         else Some e
     | Inr st \<Rightarrow> if st = Some ''True'' then None
         else Some (OtherError (''broker '' @ name @ '' in namespace '' @ ns @ '' is not ready'')))"

text \<open>The destination is filled in through its pointer: the answer comes with the workflow and the
  platform as the call leaves them.\<close>

definition GetWorkflowSink ::
  "'w cluster \<Rightarrow> sonataflow option \<Rightarrow> sonataflow_platform option \<Rightarrow> 'w \<Rightarrow>
   destination option outcome \<times> sonataflow option \<times> sonataflow_platform option" where
  "GetWorkflowSink k wo pl w =
    (case wo of
       None \<Rightarrow> (Ret None, wo, pl)
     | Some f \<Rightarrow>
        (case sp_sink (sf_spec f) of
           Some d \<Rightarrow>
             (let d' = getDestinationWithNamespace d (sf_namespace f)
              in (Ret (Some d'), Some (f\<lparr>sf_spec := (sf_spec f)\<lparr>sp_sink := Some d'\<rparr>\<rparr>), pl))
         | None \<Rightarrow>
            (case pl of
               Some p \<Rightarrow>
                 (case pf_broker p of
                    Some b \<Rightarrow>
                      (let b' = getDestinationWithNamespace b (pf_namespace p)
                       in (Ret (Some b'), wo, Some (p\<lparr>pf_broker := Some b'\<rparr>)))
                  | None \<Rightarrow>
                     (case getRemotePlatform k pl w of
                        Ret (Some q) \<Rightarrow>
                          (case pf_broker q of
                             Some b \<Rightarrow> (Ret (Some (getDestinationWithNamespace b (pf_namespace q))), wo, pl)
                           | None \<Rightarrow> (Ret None, wo, pl))
                      | Ret None \<Rightarrow> (Ret None, wo, pl)
                      | Fail e \<Rightarrow> (Fail e, wo, pl)
                      | Panic \<Rightarrow> (Panic, wo, pl)))
             | None \<Rightarrow> (Panic, wo, pl))))"

definition IsKnativeBroker :: "kreference \<Rightarrow> bool" where
  "IsKnativeBroker r \<longleftrightarrow> kr_apiVersion r = knativeEventingAPIVersion \<and> kr_kind r = knativeBrokerKind"

definition CheckKSinkInjected :: "'w cluster \<Rightarrow> string \<Rightarrow> string \<Rightarrow> 'w \<Rightarrow> kerror + bool" where
  "CheckKSinkInjected k name ns w =
    (case c_get (k_sinkBindings k) w ns (name @ ''-sb'') of
       Inl e \<Rightarrow> if IsNotFound e then Inr False else Inl e
     | Inr sb \<Rightarrow> Inr (sn_sinkProvided sb = Some ''True''))"

definition MapTriggerToPlatformRequests :: "trigger \<Rightarrow> (string \<times> string) list" where
  "MapTriggerToPlatformRequests t =
    (let nm = nil_map_get (om_labels (tg_meta t)) LabelApp;
         ns = nil_map_get (om_labels (tg_meta t)) LabelAppNamespace
     in if nm \<noteq> '''' \<and> ns \<noteq> '''' \<and> ns \<noteq> om_namespace (tg_meta t) then [(ns, nm)] else [])"

subsection \<open>Injected volumes\<close>

text \<open>Init containers come before containers; ephemeral containers are not in the model of a pod.\<close>

definition visitContainers :: "(container \<Rightarrow> container) \<Rightarrow> pod_spec \<Rightarrow> pod_spec" where
  "visitContainers f ps =
    ps\<lparr>ps_initContainers := map f (ps_initContainers ps), ps_containers := map f (ps_containers ps)\<rparr>"

definition save_container :: "container \<Rightarrow> container \<Rightarrow> container" where
  "save_container c dest =
    (let dest = (case find (\<lambda>m. vm_name m = knativeBundleVolume) (ct_mounts c) of
                   None \<Rightarrow> dest
                 | Some m \<Rightarrow> AddOrReplaceVolumeMount dest [m])
     in foldl (\<lambda>d e. if ev_name e = kSink \<or> ev_name e = kCeOverRides then AddOrReplaceEnvVar d [e] else d)
          dest (ct_env c))"

text \<open>Every container of the source is saved to every container of the destination.\<close>

definition SaveKnativeData :: "pod_spec \<Rightarrow> pod_spec \<Rightarrow> pod_spec" where
  "SaveKnativeData dest src =
    (let dest = (case find (\<lambda>v. vl_name v = knativeBundleVolume) (ps_volumes src) of
                   None \<Rightarrow> dest
                 | Some v \<Rightarrow> AddOrReplaceVolume dest [v])
     in foldl (\<lambda>d c. visitContainers (save_container c) d) dest (ps_initContainers src @ ps_containers src))"

text \<open>One pass of swaps: an entry with the name is carried to the right.\<close>

fun carry_right :: "('a \<Rightarrow> bool) \<Rightarrow> 'a list \<Rightarrow> 'a list" where
  "carry_right P (x # y # xs) = (if P x then y # carry_right P (x # xs) else x # carry_right P (y # xs))"
| "carry_right P xs = xs"

definition moveKnativeVolumeToEnd :: "volume list \<Rightarrow> volume list" where
  "moveKnativeVolumeToEnd vs = carry_right (\<lambda>v. vl_name v = knativeBundleVolume) vs"

definition moveKnativeVolumeMountToEnd :: "volume_mount list \<Rightarrow> volume_mount list" where
  "moveKnativeVolumeMountToEnd ms = carry_right (\<lambda>m. vm_name m = knativeBundleVolume) ms"

definition RestoreKnativeVolumeAndVolumeMount :: "pod_spec \<Rightarrow> pod_spec" where
  "RestoreKnativeVolumeAndVolumeMount ps =
    visitContainers (\<lambda>c. c\<lparr>ct_mounts := moveKnativeVolumeMountToEnd (ct_mounts c)\<rparr>)
      (ps\<lparr>ps_volumes := moveKnativeVolumeToEnd (ps_volumes ps)\<rparr>)"

subsection \<open>Properties\<close>

lemma carry_right_none: "\<forall>x\<in>set xs. \<not> P x \<Longrightarrow> carry_right P xs = xs"
  by (induction P xs rule: carry_right.induct) auto

lemma carry_right_split:
  assumes "\<forall>y\<in>set xs. \<not> P y" "P x" "\<forall>y\<in>set ys. \<not> P y"
  shows "carry_right P (xs @ x # ys) = xs @ ys @ [x]"
proof -
  have one: "carry_right P (x # zs) = zs @ [x]" if "\<forall>y\<in>set zs. \<not> P y" for zs
    using that assms(2) by (induction zs) auto
  show ?thesis
    using assms(1)
  proof (induction xs)
    case Nil then show ?case using one[OF assms(3)] by simp
  next
    case (Cons a as)
    obtain b bs where "as @ x # ys = b # bs" by (cases "as @ x # ys") auto
    then show ?case using Cons by auto
  qed
qed

lemma carry_right_filter:
  assumes "length (filter P xs) \<le> 1"
  shows "carry_right P xs = filter (\<lambda>x. \<not> P x) xs @ filter P xs"
proof (cases "filter P xs")
  case Nil
  then have "\<forall>x\<in>set xs. \<not> P x" by (auto simp: filter_empty_conv)
  then show ?thesis using Nil by (simp add: carry_right_none)
next
  case (Cons x rest)
  then have "filter P xs = [x]" using assms by (cases rest) auto
  then obtain us vs where s: "xs = us @ x # vs" "\<forall>u\<in>set us. \<not> P u" "P x" "filter P vs = []"
    by (auto simp: filter_eq_Cons_iff)
  then have "\<forall>v\<in>set vs. \<not> P v" by (auto simp: filter_empty_conv)
  then show ?thesis using s carry_right_split[of us P x vs] by simp
qed

lemma carry_right_idem:
  assumes "length (filter P xs) \<le> 1"
  shows "carry_right P (carry_right P xs) = carry_right P xs"
proof -
  have "filter P (filter (\<lambda>x. \<not> P x) xs @ filter P xs) = filter P xs" by simp
  then show ?thesis
    using assms carry_right_filter[of P "filter (\<lambda>x. \<not> P x) xs @ filter P xs"]
    by (simp add: carry_right_filter)
qed

definition bundle_once :: "pod_spec \<Rightarrow> bool" where
  "bundle_once ps \<longleftrightarrow>
    length (filter (\<lambda>v. vl_name v = knativeBundleVolume) (ps_volumes ps)) \<le> 1 \<and>
    list_all (\<lambda>c. length (filter (\<lambda>m. vm_name m = knativeBundleVolume) (ct_mounts c)) \<le> 1)
      (ps_initContainers ps @ ps_containers ps)"

definition bundle_last :: "('a \<Rightarrow> string) \<Rightarrow> 'a list \<Rightarrow> 'a list" where
  "bundle_last nm xs =
    filter (\<lambda>x. nm x \<noteq> knativeBundleVolume) xs @ filter (\<lambda>x. nm x = knativeBundleVolume) xs"

text \<open>When a pod has at most one bundle volume and each container mounts it at most once, the
  restored pod has it last in every list, keeps the order of everything else, and restoring again
  changes nothing, so that a reconciliation does not restart the pod.\<close>

theorem bundle_is_last:
  assumes "bundle_once ps"
  shows "ps_volumes (RestoreKnativeVolumeAndVolumeMount ps) = bundle_last vl_name (ps_volumes ps) \<and>
    map ct_mounts (ps_containers (RestoreKnativeVolumeAndVolumeMount ps)) =
      map (\<lambda>c. bundle_last vm_name (ct_mounts c)) (ps_containers ps) \<and>
    RestoreKnativeVolumeAndVolumeMount (RestoreKnativeVolumeAndVolumeMount ps) =
      RestoreKnativeVolumeAndVolumeMount ps"
  using assms
  by (auto simp: RestoreKnativeVolumeAndVolumeMount_def visitContainers_def bundle_once_def bundle_last_def
      moveKnativeVolumeToEnd_def moveKnativeVolumeMountToEnd_def carry_right_filter carry_right_idem
      list_all_iff)

definition ex_bundle_pod_spec :: pod_spec where
  "ex_bundle_pod_spec =
    \<lparr>ps_containers = [], ps_initContainers = [],
     ps_volumes = [\<lparr>vl_name = ''kne-bundle-volume'', vl_source = VsOther ''b''\<rparr>,
       \<lparr>vl_name = ''props'', vl_source = VsOther ''p''\<rparr>]\<rparr>"

theorem bundle_is_last_witness:
  "bundle_once ex_bundle_pod_spec \<and>
   map vl_name (ps_volumes (RestoreKnativeVolumeAndVolumeMount ex_bundle_pod_spec)) = [''props'', ''kne-bundle-volume'']"
proof -
  have "bundle_once ex_bundle_pod_spec" by code_simp
  then show ?thesis using bundle_is_last[of ex_bundle_pod_spec]
    by (simp add: bundle_last_def ex_bundle_pod_spec_def knativeBundleVolume_def)
qed

lemma workflow_sink_choice:
  "fst (GetWorkflowSink k (Some f) (Some p) w) =
    (case (sp_sink (sf_spec f), pf_broker p, pf_clusterRef p) of
       (Some d, _, _) \<Rightarrow> Ret (Some (getDestinationWithNamespace d (sf_namespace f)))
     | (None, Some b, _) \<Rightarrow> Ret (Some (getDestinationWithNamespace b (pf_namespace p)))
     | (None, None, None) \<Rightarrow> Ret None
     | (None, None, Some r) \<Rightarrow>
         (case c_get (k_platforms k) w (nr_namespace (cf_platformRef r)) (nr_name (cf_platformRef r)) of
            Inl _ \<Rightarrow> Fail (OtherError ''error reading the platform referred by the cluster platform'')
          | Inr q \<Rightarrow> Ret (map_option (\<lambda>b. getDestinationWithNamespace b (pf_namespace q)) (pf_broker q))))"
  by (simp add: GetWorkflowSink_def getRemotePlatform_def Let_def split: option.split sum.split)

end
