(* ===== verification/Platform_Services.thy ===== *)
theory Platform_Services
  imports Knative
begin

text \<open>
  The supporting services of a platform (\<open>internal/controller/platform/services/services.go\<close>): the data
  index and the job service.  The two handlers of the code are two groups of functions, \<open>di_...\<close>
  and \<open>js_...\<close>, on the platform they point to.  Which services are on and where they are is decided
  here, both for a platform of its own and through the active cluster platform; so are the triggers
  and the sink binding that connect the services to a broker.  A nil pointer dereferenced is
  \<open>Panic\<close>.
\<close>

definition DataIndexServiceName :: string where "DataIndexServiceName = ''data-index-service''"
definition JobServiceName :: string where "JobServiceName = ''jobs-service''"
definition ImageNamePrefix :: string where "ImageNamePrefix = ''docker.io/apache/incubator-kie-kogito''"
definition DefaultHTTPProtocol :: string where "DefaultHTTPProtocol = ''http''"
definition PersistenceTypePostgreSQL :: string where "PersistenceTypePostgreSQL = ''postgresql''"
definition PersistenceTypeEphemeral :: string where "PersistenceTypeEphemeral = ''ephemeral''"
definition WaitingKnativeEventing :: string where "WaitingKnativeEventing = ''WaitingKnativeEventing''"
definition DefaultPostgreSQLPort :: int where "DefaultPostgreSQLPort = 5432"
definition KogitoProcessInstancesEventsPath :: string where "KogitoProcessInstancesEventsPath = ''/processes''"
definition KogitoProcessDefinitionsEventsPath :: string where
  "KogitoProcessDefinitionsEventsPath = ''/definitions''"
definition KogitoJobsPath :: string where "KogitoJobsPath = ''/jobs''"
definition JobServiceJobEventsPath :: string where "JobServiceJobEventsPath = ''/v2/jobs/events''"

subsection \<open>What is set and enabled\<close>

definition isServicesSet :: "sonataflow_platform option \<Rightarrow> bool" where
  "isServicesSet p \<longleftrightarrow> (case p of None \<Rightarrow> False | Some p \<Rightarrow> pf_services p \<noteq> None)"

text \<open>The specification of a service when it is set.\<close>

definition di_spec :: "sonataflow_platform option \<Rightarrow> service_spec option" where
  "di_spec p = Option.bind p (\<lambda>p. Option.bind (pf_services p) vc_dataIndex)"

definition js_spec :: "sonataflow_platform option \<Rightarrow> service_spec option" where
  "js_spec p = Option.bind p (\<lambda>p. Option.bind (pf_services p) vc_jobService)"

definition isDataIndexSet :: "sonataflow_platform option \<Rightarrow> bool" where
  "isDataIndexSet p \<longleftrightarrow> isServicesSet p \<and> di_spec p \<noteq> None"

definition isJobServiceSet :: "sonataflow_platform option \<Rightarrow> bool" where
  "isJobServiceSet p \<longleftrightarrow> isServicesSet p \<and> js_spec p \<noteq> None"

definition isDataIndexEnabled :: "sonataflow_platform option \<Rightarrow> bool" where
  "isDataIndexEnabled p \<longleftrightarrow> isDataIndexSet p \<and> (\<exists>s\<in>set_option (di_spec p). vp_enabled s = Some True)"

definition isJobServiceEnabled :: "sonataflow_platform option \<Rightarrow> bool" where
  "isJobServiceEnabled p \<longleftrightarrow> isJobServiceSet p \<and> (\<exists>s\<in>set_option (js_spec p). vp_enabled s = Some True)"

definition GenerateServiceURL :: "string \<Rightarrow> string \<Rightarrow> string \<Rightarrow> string" where
  "GenerateServiceURL protocol ns name =
    (if ns \<noteq> '''' then protocol @ ''://'' @ name @ ''.'' @ ns else protocol @ ''://'' @ name)"

definition status_service :: "(services_status \<Rightarrow> string option) \<Rightarrow> sonataflow_platform option \<Rightarrow> string option" where
  "status_service f p =
    Option.bind p (\<lambda>p. Option.bind (pf_clusterRef p) (\<lambda>r. Option.bind (cf_services r) f))"

subsection \<open>The data index\<close>

definition di_GetServiceName :: "sonataflow_platform \<Rightarrow> string" where
  "di_GetServiceName p = pf_name p @ ''-'' @ DataIndexServiceName"

definition di_GetServiceCmName :: "sonataflow_platform \<Rightarrow> string" where
  "di_GetServiceCmName p = di_GetServiceName p @ ''-props''"

definition di_GetServiceImageName :: "controllers_cfg \<Rightarrow> string \<Rightarrow> string" where
  "di_GetServiceImageName c t =
    (if t = PersistenceTypePostgreSQL \<and> cg_dataIndexPostgreSQLImageTag c \<noteq> ''''
     then cg_dataIndexPostgreSQLImageTag c
     else if t = PersistenceTypeEphemeral \<and> cg_dataIndexEphemeralImageTag c \<noteq> ''''
     then cg_dataIndexEphemeralImageTag c
     else ImageNamePrefix @ ''-'' @ ''data-index'' @ ''-'' @ t @ '':'' @ serviceTagVersion)"

definition di_IsServiceSetInSpec :: "sonataflow_platform option \<Rightarrow> bool" where
  "di_IsServiceSetInSpec p \<longleftrightarrow> isDataIndexSet p"

definition di_IsServiceEnabledInSpec :: "sonataflow_platform option \<Rightarrow> bool" where
  "di_IsServiceEnabledInSpec p \<longleftrightarrow> isDataIndexEnabled p"

definition di_isServiceEnabledInStatus :: "sonataflow_platform option \<Rightarrow> bool" where
  "di_isServiceEnabledInStatus p \<longleftrightarrow> status_service vs_dataIndex p \<noteq> None \<and> \<not> isServicesSet p"

definition di_IsServiceEnabled :: "sonataflow_platform option \<Rightarrow> bool" where
  "di_IsServiceEnabled p \<longleftrightarrow> di_IsServiceEnabledInSpec p \<or> di_isServiceEnabledInStatus p"

definition di_GetLocalServiceBaseUrl :: "sonataflow_platform \<Rightarrow> string" where
  "di_GetLocalServiceBaseUrl p =
    GenerateServiceURL DefaultHTTPProtocol (pf_namespace p) (di_GetServiceName p)"

definition di_GetServiceBaseUrl :: "sonataflow_platform option \<Rightarrow> string" where
  "di_GetServiceBaseUrl p =
    (if di_IsServiceEnabledInSpec p
     then (case p of None \<Rightarrow> '''' | Some q \<Rightarrow> di_GetLocalServiceBaseUrl q)
     else if di_isServiceEnabledInStatus p
     then (case status_service vs_dataIndex p of None \<Rightarrow> '''' | Some u \<Rightarrow> u)
     else '''')"

definition di_SetServiceUrlInPlatformStatus ::
  "sonataflow_platform \<Rightarrow> sonataflow_platform \<Rightarrow> sonataflow_platform" where
  "di_SetServiceUrlInPlatformStatus ref p =
    (if \<not> isServicesSet (Some p) \<and> di_IsServiceEnabledInSpec (Some ref) then
       (case pf_clusterRef p of
          None \<Rightarrow> p
        | Some r \<Rightarrow>
           (let s = (case cf_services r of
                       None \<Rightarrow> \<lparr>vs_dataIndex = None, vs_jobService = None\<rparr>
                     | Some s \<Rightarrow> s)
            in p\<lparr>pf_clusterRef := Some (r\<lparr>cf_services :=
                 Some (s\<lparr>vs_dataIndex := Some (di_GetLocalServiceBaseUrl ref)\<rparr>)\<rparr>)\<rparr>))
     else p)"

definition di_SetServiceUrlInWorkflowStatus ::
  "sonataflow_platform option \<Rightarrow> sonataflow \<Rightarrow> sonataflow" where
  "di_SetServiceUrlInWorkflowStatus p wo =
    (if \<not> IsDevProfile (om_annotations (sf_meta wo)) \<and> di_IsServiceEnabled p then
       (let s = (case ss_services (sf_status wo) of
                   None \<Rightarrow> \<lparr>vs_dataIndex = None, vs_jobService = None\<rparr>
                 | Some s \<Rightarrow> s)
        in wo\<lparr>sf_status := (sf_status wo)\<lparr>ss_services :=
             Some (s\<lparr>vs_dataIndex := Some (di_GetServiceBaseUrl p)\<rparr>)\<rparr>\<rparr>)
     else wo)"

subsection \<open>The job service\<close>

definition js_GetServiceName :: "sonataflow_platform \<Rightarrow> string" where
  "js_GetServiceName p = pf_name p @ ''-'' @ JobServiceName"

definition js_GetServiceCmName :: "sonataflow_platform \<Rightarrow> string" where
  "js_GetServiceCmName p = js_GetServiceName p @ ''-props''"

definition js_GetServiceImageName :: "controllers_cfg \<Rightarrow> string \<Rightarrow> string" where
  "js_GetServiceImageName c t =
    (if t = PersistenceTypePostgreSQL \<and> cg_jobsServicePostgreSQLImageTag c \<noteq> ''''
     then cg_jobsServicePostgreSQLImageTag c
     else if t = PersistenceTypeEphemeral \<and> cg_jobsServiceEphemeralImageTag c \<noteq> ''''
     then cg_jobsServiceEphemeralImageTag c
     else ImageNamePrefix @ ''-'' @ JobServiceName @ ''-'' @ t @ '':'' @ serviceTagVersion)"

definition js_IsServiceSetInSpec :: "sonataflow_platform option \<Rightarrow> bool" where
  "js_IsServiceSetInSpec p \<longleftrightarrow> isJobServiceSet p"

definition js_IsServiceEnabledInSpec :: "sonataflow_platform option \<Rightarrow> bool" where
  "js_IsServiceEnabledInSpec p \<longleftrightarrow> isJobServiceEnabled p"

definition js_isServiceEnabledInStatus :: "sonataflow_platform option \<Rightarrow> bool" where
  "js_isServiceEnabledInStatus p \<longleftrightarrow> status_service vs_jobService p \<noteq> None \<and> \<not> isServicesSet p"

definition js_IsServiceEnabled :: "sonataflow_platform option \<Rightarrow> bool" where
  "js_IsServiceEnabled p \<longleftrightarrow> js_IsServiceEnabledInSpec p \<or> js_isServiceEnabledInStatus p"

definition js_GetLocalServiceBaseUrl :: "sonataflow_platform \<Rightarrow> string" where
  "js_GetLocalServiceBaseUrl p =
    GenerateServiceURL DefaultHTTPProtocol (pf_namespace p) (js_GetServiceName p)"

definition js_GetServiceBaseUrl :: "sonataflow_platform option \<Rightarrow> string" where
  "js_GetServiceBaseUrl p =
    (if js_IsServiceEnabledInSpec p
     then (case p of None \<Rightarrow> '''' | Some q \<Rightarrow> js_GetLocalServiceBaseUrl q)
     else if js_isServiceEnabledInStatus p
     then (case status_service vs_jobService p of None \<Rightarrow> '''' | Some u \<Rightarrow> u)
     else '''')"

definition js_SetServiceUrlInPlatformStatus ::
  "sonataflow_platform \<Rightarrow> sonataflow_platform \<Rightarrow> sonataflow_platform" where
  "js_SetServiceUrlInPlatformStatus ref p =
    (if \<not> isServicesSet (Some p) \<and> js_IsServiceEnabledInSpec (Some ref) then
       (case pf_clusterRef p of
          None \<Rightarrow> p
        | Some r \<Rightarrow>
           (let s = (case cf_services r of
                       None \<Rightarrow> \<lparr>vs_dataIndex = None, vs_jobService = None\<rparr>
                     | Some s \<Rightarrow> s)
            in p\<lparr>pf_clusterRef := Some (r\<lparr>cf_services :=
                 Some (s\<lparr>vs_jobService := Some (js_GetLocalServiceBaseUrl ref)\<rparr>)\<rparr>)\<rparr>))
     else p)"

definition js_SetServiceUrlInWorkflowStatus ::
  "sonataflow_platform option \<Rightarrow> sonataflow \<Rightarrow> sonataflow" where
  "js_SetServiceUrlInWorkflowStatus p wo =
    (if \<not> IsDevProfile (om_annotations (sf_meta wo)) \<and> js_IsServiceEnabled p then
       (let s = (case ss_services (sf_status wo) of
                   None \<Rightarrow> \<lparr>vs_dataIndex = None, vs_jobService = None\<rparr>
                 | Some s \<Rightarrow> s)
        in wo\<lparr>sf_status := (sf_status wo)\<lparr>ss_services :=
             Some (s\<lparr>vs_jobService := Some (js_GetServiceBaseUrl p)\<rparr>)\<rparr>\<rparr>)
     else wo)"

definition SetServiceUrlsInWorkflowStatus :: "sonataflow_platform option \<Rightarrow> sonataflow \<Rightarrow> sonataflow" where
  "SetServiceUrlsInWorkflowStatus p wo =
    js_SetServiceUrlInWorkflowStatus p
      (di_SetServiceUrlInWorkflowStatus p (wo\<lparr>sf_status := (sf_status wo)\<lparr>ss_services := None\<rparr>\<rparr>))"

definition IsDataIndexEnabled :: "sonataflow_platform \<Rightarrow> bool" where
  "IsDataIndexEnabled p \<longleftrightarrow>
    (case pf_services p of
       Some s \<Rightarrow> (case vc_dataIndex s of None \<Rightarrow> False | Some d \<Rightarrow> vp_enabled d = Some True)
     | None \<Rightarrow> (case status_service vs_dataIndex (Some p) of None \<Rightarrow> False | Some u \<Rightarrow> u \<noteq> ''''))"

definition IsJobServiceEnabled :: "sonataflow_platform \<Rightarrow> bool" where
  "IsJobServiceEnabled p \<longleftrightarrow>
    (case pf_services p of
       Some s \<Rightarrow> (case vc_jobService s of None \<Rightarrow> False | Some d \<Rightarrow> vp_enabled d = Some True)
     | None \<Rightarrow> (case status_service vs_jobService (Some p) of None \<Rightarrow> False | Some u \<Rightarrow> u \<noteq> ''''))"

subsection \<open>Persistence\<close>

definition ConfigurePostgreSQLEnv :: "postgresql \<Rightarrow> string \<Rightarrow> string \<Rightarrow> env_var list" where
  "ConfigurePostgreSQLEnv q schema ns =
    (let url = (case pq_service q of
                  None \<Rightarrow> pq_jdbcUrl q
                | Some s \<Rightarrow>
                   ''jdbc:postgresql://'' @ ql_name s @ ''.'' @
                   (if ql_namespace s \<noteq> '''' then ql_namespace s else ns) @ '':'' @
                   show_int (case ql_port s of None \<Rightarrow> DefaultPostgreSQLPort | Some i \<Rightarrow> i) @ ''/'' @
                   (if ql_database s \<noteq> '''' then ql_database s else ''sonataflow'') @ ''?currentSchema='' @
                   (if ql_schema s \<noteq> '''' then ql_schema s else schema));
         sec = pq_secret q;
         user = (if so_userKey sec \<noteq> '''' then so_userKey sec else ''POSTGRESQL_USER'');
         pass = (if so_passwordKey sec \<noteq> '''' then so_passwordKey sec else ''POSTGRESQL_PASSWORD'');
         var = (\<lambda>n v. \<lparr>ev_name = n, ev_value = v, ev_valueFrom = None\<rparr>);
         ref = (\<lambda>n key. \<lparr>ev_name = n, ev_value = '''', ev_valueFrom = Some (EsSecret (so_name sec) key None)\<rparr>)
     in [ref ''QUARKUS_DATASOURCE_USERNAME'' user, ref ''QUARKUS_DATASOURCE_PASSWORD'' pass,
         var ''QUARKUS_DATASOURCE_DB_KIND'' PersistenceTypePostgreSQL,
         var ''QUARKUS_DATASOURCE_JDBC_URL'' url, var ''KOGITO_PERSISTENCE_TYPE'' ''jdbc''])"

text \<open>The argument is the pointer to the platform's options, which is dereferenced.\<close>

definition buildPersistenceOptionsSpec :: "postgresql option option \<Rightarrow> string \<Rightarrow> persistence_spec outcome" where
  "buildPersistenceOptionsSpec pp schema =
    (case pp of
       None \<Rightarrow> Panic
     | Some None \<Rightarrow> Ret \<lparr>pn_postgresql = None, pn_migrate = False\<rparr>
     | Some (Some q) \<Rightarrow>
        Ret \<lparr>pn_postgresql =
               Some (case pq_service q of
                       Some s \<Rightarrow> \<lparr>pq_secret = pq_secret q, pq_service = Some (s\<lparr>ql_schema := schema\<rparr>),
                                  pq_jdbcUrl = ''''\<rparr>
                     | None \<Rightarrow> \<lparr>pq_secret = pq_secret q, pq_service = None, pq_jdbcUrl = pq_jdbcUrl q\<rparr>),
             pn_migrate = False\<rparr>)"

definition RetrieveConfiguration ::
  "persistence_spec option \<Rightarrow> postgresql option option \<Rightarrow> string \<Rightarrow> persistence_spec option outcome" where
  "RetrieveConfiguration primary pp schema =
    (case primary of
       Some c \<Rightarrow> Ret (Some c)
     | None \<Rightarrow>
        (case pp of
           None \<Rightarrow> Ret None
         | Some _ \<Rightarrow> (case buildPersistenceOptionsSpec pp schema of
                       Ret c \<Rightarrow> Ret (Some c) | Fail e \<Rightarrow> Fail e | Panic \<Rightarrow> Panic)))"

definition RetrievePostgreSQLConfiguration ::
  "persistence_spec option \<Rightarrow> postgresql option option \<Rightarrow> string \<Rightarrow> persistence_spec outcome" where
  "RetrievePostgreSQLConfiguration primary pp schema =
    (case primary of
       Some c \<Rightarrow> if pn_postgresql c \<noteq> None then Ret c else buildPersistenceOptionsSpec pp schema
     | None \<Rightarrow> buildPersistenceOptionsSpec pp schema)"

definition UsesPostgreSQLPersistence :: "sonataflow \<Rightarrow> sonataflow_platform \<Rightarrow> bool" where
  "UsesPostgreSQLPersistence wo p \<longleftrightarrow>
    (case sp_persistence (sf_spec wo) of
       Some c \<Rightarrow> pn_postgresql c \<noteq> None
     | None \<Rightarrow> (case pf_persistence p of None \<Rightarrow> False | Some q \<Rightarrow> q \<noteq> None))"

definition has_postgresql :: "service_spec option \<Rightarrow> sonataflow_platform \<Rightarrow> bool" where
  "has_postgresql spec p \<longleftrightarrow>
    (case spec of
       None \<Rightarrow> False
     | Some s \<Rightarrow>
        (case vp_persistence s of None \<Rightarrow> False | Some c \<Rightarrow> pn_postgresql c \<noteq> None) \<or>
        (case pf_persistence p of None \<Rightarrow> False | Some q \<Rightarrow> q \<noteq> None))"

definition di_ConfigurePersistence :: "controllers_cfg \<Rightarrow> sonataflow_platform \<Rightarrow> container \<Rightarrow> container outcome" where
  "di_ConfigurePersistence cfg p c =
    (if di_IsServiceSetInSpec (Some p) \<and> has_postgresql (di_spec (Some p)) p then
       (case RetrievePostgreSQLConfiguration (Option.bind (di_spec (Some p)) vp_persistence) (pf_persistence p)
               (di_GetServiceName p) of
          Panic \<Rightarrow> Panic
        | Fail e \<Rightarrow> Fail e
        | Ret ps \<Rightarrow>
           (case pn_postgresql ps of
              None \<Rightarrow> Panic
            | Some q \<Rightarrow>
               Ret (c\<lparr>ct_image := di_GetServiceImageName cfg PersistenceTypePostgreSQL,
                      ct_env := ct_env c @ ConfigurePostgreSQLEnv q (di_GetServiceName p) (pf_namespace p) @
                        [\<lparr>ev_name = ''QUARKUS_HIBERNATE_ORM_DATABASE_GENERATION'', ev_value = ''update'',
                          ev_valueFrom = None\<rparr>,
                         \<lparr>ev_name = ''QUARKUS_FLYWAY_MIGRATE_AT_START'', ev_value = ''true'',
                          ev_valueFrom = None\<rparr>]\<rparr>)))
     else Ret c)"

definition js_ConfigurePersistence :: "controllers_cfg \<Rightarrow> sonataflow_platform \<Rightarrow> container \<Rightarrow> container outcome" where
  "js_ConfigurePersistence cfg p c =
    (if js_IsServiceSetInSpec (Some p) \<and> has_postgresql (js_spec (Some p)) p then
       (case RetrievePostgreSQLConfiguration (Option.bind (js_spec (Some p)) vp_persistence) (pf_persistence p)
               (js_GetServiceName p) of
          Panic \<Rightarrow> Panic
        | Fail e \<Rightarrow> Fail e
        | Ret ps \<Rightarrow>
           (case pn_postgresql ps of
              None \<Rightarrow> Panic
            | Some q \<Rightarrow>
               Ret (c\<lparr>ct_image := js_GetServiceImageName cfg PersistenceTypePostgreSQL,
                      ct_env := ct_env c @ ConfigurePostgreSQLEnv q (js_GetServiceName p) (pf_namespace p) @
                        [\<lparr>ev_name = ''QUARKUS_FLYWAY_MIGRATE_AT_START'', ev_value = ''true'',
                          ev_valueFrom = None\<rparr>,
                         \<lparr>ev_name = ''KOGITO_JOBS_SERVICE_LOADJOBERRORSTRATEGY'', ev_value = ''FAIL_SERVICE'',
                          ev_valueFrom = None\<rparr>]\<rparr>)))
     else Ret c)"

subsection \<open>Eventing\<close>

definition GetPlatformBroker :: "sonataflow_platform option \<Rightarrow> destination option" where
  "GetPlatformBroker p = Option.bind p pf_broker"

text \<open>A source without a reference does not count.\<close>

definition source_broker :: "service_spec \<Rightarrow> sonataflow_platform \<Rightarrow> destination option" where
  "source_broker s p =
    (case vp_source s of
       None \<Rightarrow> GetPlatformBroker (Some p)
     | Some d \<Rightarrow> if de_ref d \<noteq> None then Some d else GetPlatformBroker (Some p))"

definition di_newTrigger ::
  "(string \<Rightarrow> string \<Rightarrow> string) \<Rightarrow> gomap \<Rightarrow> string \<Rightarrow> string \<Rightarrow> string \<Rightarrow> string \<Rightarrow> string \<Rightarrow> string \<Rightarrow>
   sonataflow_platform \<Rightarrow> trigger" where
  "di_newTrigger child lbl broker ns svc tag eventType path p =
    \<lparr>tg_meta = (new_meta ns (child (''data-index-'' @ tag @ ''-'') (om_uid (pf_meta p))))\<lparr>om_labels := Some lbl\<rparr>,
     tg_broker = broker, tg_filterType = eventType,
     tg_subscriber = \<lparr>kr_kind = ''Service'', kr_namespace = pf_namespace p, kr_name = svc, kr_apiVersion = ''v1''\<rparr>,
     tg_path = path\<rparr>"

text \<open>\<open>kmeta.ChildName\<close> is the parameter \<open>child\<close>.  The answer is the objects, or an error with the
  event to record.\<close>

definition di_GenerateKnativeResources ::
  "'w cluster \<Rightarrow> (string \<Rightarrow> string \<Rightarrow> string) \<Rightarrow> sonataflow_platform \<Rightarrow> gomap \<Rightarrow> 'w \<Rightarrow>
   ((string \<times> kerror) + trigger list) outcome" where
  "di_GenerateKnativeResources k child p lbl w =
    (case di_spec (Some p) of
       None \<Rightarrow> Panic
     | Some s \<Rightarrow>
        (case source_broker s p of
           None \<Rightarrow> Ret (Inr [])
         | Some b \<Rightarrow>
            (case de_ref b of
               None \<Rightarrow> Panic
             | Some r \<Rightarrow>
                if kr_name r = '''' then Ret (Inr [])
                else
                 (let ns = (if kr_namespace r = '''' then pf_namespace p else kr_namespace r);
                      svc = di_GetServiceName p;
                      mk = (\<lambda>tag ty path. di_newTrigger child lbl (kr_name r) ns svc tag ty path p)
                  in case ValidateBroker k (kr_name r) ns w of
                       Some e \<Rightarrow> Ret (Inl (error_text e @ '' for service: '' @ svc, e))
                     | None \<Rightarrow> Ret (Inr
                        [mk ''process-error'' ''ProcessInstanceErrorDataEvent'' KogitoProcessInstancesEventsPath,
                         mk ''process-node'' ''ProcessInstanceNodeDataEvent'' KogitoProcessInstancesEventsPath,
                         mk ''process-sla'' ''ProcessInstanceSLADataEvent'' KogitoProcessInstancesEventsPath,
                         mk ''process-state'' ''ProcessInstanceStateDataEvent'' KogitoProcessInstancesEventsPath,
                         mk ''process-variable'' ''ProcessInstanceVariableDataEvent'' KogitoProcessInstancesEventsPath,
                         mk ''process-definition'' ''ProcessDefinitionEvent'' KogitoProcessDefinitionsEventsPath,
                         mk ''process-instance-multiple'' ''MultipleProcessInstanceDataEvent'' KogitoProcessInstancesEventsPath,
                         mk ''jobs'' ''JobEvent'' KogitoJobsPath])))))"

definition js_GetSink :: "sonataflow_platform \<Rightarrow> destination option outcome" where
  "js_GetSink p =
    (case js_spec (Some p) of
       None \<Rightarrow> Panic
     | Some s \<Rightarrow> Ret (case vp_sink s of Some d \<Rightarrow> Some d | None \<Rightarrow> GetPlatformBroker (Some p)))"

definition js_trigger ::
  "(string \<Rightarrow> string \<Rightarrow> string) \<Rightarrow> gomap \<Rightarrow> string \<Rightarrow> string \<Rightarrow> string \<Rightarrow> string \<Rightarrow> sonataflow_platform \<Rightarrow> trigger" where
  "js_trigger child lbl broker ns parent eventType p =
    \<lparr>tg_meta = (new_meta ns (child parent (om_uid (pf_meta p))))\<lparr>om_labels := Some lbl\<rparr>,
     tg_broker = broker, tg_filterType = eventType,
     tg_subscriber = \<lparr>kr_kind = ''Service'', kr_namespace = pf_namespace p, kr_name = js_GetServiceName p,
       kr_apiVersion = ''v1''\<rparr>,
     tg_path = JobServiceJobEventsPath\<rparr>"

definition js_sink_binding :: "gomap \<Rightarrow> destination \<Rightarrow> sonataflow_platform \<Rightarrow> sink_binding" where
  "js_sink_binding lbl d p =
    \<lparr>sn_meta = (new_meta (pf_namespace p) (pf_name p @ ''-jobs-service-sb''))\<lparr>om_labels := Some lbl\<rparr>,
     sn_sink = d,
     sn_subject = \<lparr>kr_kind = ''Deployment'', kr_namespace = pf_namespace p, kr_name = js_GetServiceName p,
       kr_apiVersion = ''apps/v1''\<rparr>,
     sn_sinkProvided = None\<rparr>"

definition js_GenerateKnativeResources ::
  "'w cluster \<Rightarrow> (string \<Rightarrow> string \<Rightarrow> string) \<Rightarrow> sonataflow_platform \<Rightarrow> gomap \<Rightarrow> 'w \<Rightarrow>
   ((string \<times> kerror) + trigger list \<times> sink_binding option) outcome" where
  "js_GenerateKnativeResources k child p lbl w =
    (case (js_spec (Some p), js_GetSink p) of
       (Some s, Ret sink) \<Rightarrow>
         (let sb = map_option (\<lambda>d. js_sink_binding lbl d p) sink
          in case source_broker s p of
               None \<Rightarrow> Ret (Inr ([], sb))
             | Some b \<Rightarrow>
                (case de_ref b of
                   None \<Rightarrow> Panic
                 | Some r \<Rightarrow>
                    if kr_name r = '''' then Ret (Inr ([], sb))
                    else
                     (let ns = (if kr_namespace r = '''' then pf_namespace p else kr_namespace r)
                      in case ValidateBroker k (kr_name r) ns w of
                           Some e \<Rightarrow> Ret (Inl (error_text e @ '' for service: '' @ js_GetServiceName p, e))
                         | None \<Rightarrow> Ret (Inr
                            ([js_trigger child lbl (kr_name r) ns ''jobs-service-create-job-'' ''job.create'' p,
                              js_trigger child lbl (kr_name r) ns ''jobs-service-delete-job-'' ''job.delete'' p],
                             sb)))))
     | _ \<Rightarrow> Panic)"

definition js_CheckKSinkInjected :: "'w cluster \<Rightarrow> sonataflow_platform \<Rightarrow> 'w \<Rightarrow> bool outcome" where
  "js_CheckKSinkInjected k p w =
    (case js_GetSink p of
       Ret (Some _) \<Rightarrow> (case CheckKSinkInjected k (js_GetServiceName p) (pf_namespace p) w of
                          Inl e \<Rightarrow> Fail e | Inr b \<Rightarrow> Ret b)
     | Ret None \<Rightarrow> Ret True
     | Fail e \<Rightarrow> Fail e
     | Panic \<Rightarrow> Panic)"

subsection \<open>Properties\<close>

lemmas di_enabled_defs = di_IsServiceEnabled_def di_IsServiceEnabledInSpec_def di_isServiceEnabledInStatus_def
  isDataIndexEnabled_def isDataIndexSet_def di_spec_def isServicesSet_def

lemmas js_enabled_defs = js_IsServiceEnabled_def js_IsServiceEnabledInSpec_def js_isServiceEnabledInStatus_def
  isJobServiceEnabled_def isJobServiceSet_def js_spec_def

text \<open>The services in a workflow's status are recomputed from the platform: there are none in the
  dev profile or when no service is enabled, else exactly the enabled ones, with the platform's own
  address when its specification enables them and the cluster platform's otherwise.\<close>

theorem workflow_services:
  "ss_services (sf_status (SetServiceUrlsInWorkflowStatus p wo)) =
    (if IsDevProfile (om_annotations (sf_meta wo)) \<or> \<not> di_IsServiceEnabled p \<and> \<not> js_IsServiceEnabled p then None
     else Some \<lparr>vs_dataIndex = if di_IsServiceEnabled p then Some (di_GetServiceBaseUrl p) else None,
                vs_jobService = if js_IsServiceEnabled p then Some (js_GetServiceBaseUrl p) else None\<rparr>)"
  by (simp add: SetServiceUrlsInWorkflowStatus_def di_SetServiceUrlInWorkflowStatus_def
      js_SetServiceUrlInWorkflowStatus_def Let_def)

text \<open>A platform that has a services section of its own never uses the services of the cluster
  platform: a service is enabled just when that section enables it, and its address is local.\<close>

theorem own_services_win:
  assumes "pf_services p = Some s"
  shows "(di_IsServiceEnabled (Some p) \<longleftrightarrow> (\<exists>d. vc_dataIndex s = Some d \<and> vp_enabled d = Some True)) \<and>
    (js_IsServiceEnabled (Some p) \<longleftrightarrow> (\<exists>d. vc_jobService s = Some d \<and> vp_enabled d = Some True)) \<and>
    di_SetServiceUrlInPlatformStatus ref p = p \<and> js_SetServiceUrlInPlatformStatus ref p = p \<and>
    (di_IsServiceEnabled (Some p) \<longrightarrow> di_GetServiceBaseUrl (Some p) = di_GetLocalServiceBaseUrl p) \<and>
    (js_IsServiceEnabled (Some p) \<longrightarrow> js_GetServiceBaseUrl (Some p) = js_GetLocalServiceBaseUrl p)"
  using assms
  by (auto simp: di_enabled_defs js_enabled_defs di_SetServiceUrlInPlatformStatus_def
      js_SetServiceUrlInPlatformStatus_def di_GetServiceBaseUrl_def js_GetServiceBaseUrl_def)

definition ex_pod_template :: pod_template where
  "ex_pod_template =
    \<lparr>pt_container = \<lparr>ct_name = '''', ct_image = '''', ct_imagePullPolicy = '''', ct_args = [], ct_workingDir = '''',
       ct_env = [], ct_mounts = [], ct_ports = [], ct_extras = no_extras\<rparr>,
     pt_podSpec = \<lparr>ps_containers = [], ps_initContainers = [], ps_volumes = []\<rparr>, pt_replicas = None,
     pt_deploymentModel = ''''\<rparr>"

definition ex_service_spec :: service_spec where
  "ex_service_spec = \<lparr>vp_enabled = Some True, vp_persistence = None, vp_podTemplate = ex_pod_template,
     vp_source = None, vp_sink = None\<rparr>"

theorem own_services_win_witness:
  "let p = (new_platform ''ns'' ''p'')\<lparr>pf_services := Some \<lparr>vc_dataIndex = Some ex_service_spec, vc_jobService = None\<rparr>\<rparr>
   in di_IsServiceEnabled (Some p) \<and> \<not> js_IsServiceEnabled (Some p) \<and>
      di_GetServiceBaseUrl (Some p) = di_GetLocalServiceBaseUrl p"
  using own_services_win[of "(new_platform ''ns'' ''p'')\<lparr>pf_services :=
      Some \<lparr>vc_dataIndex = Some ex_service_spec, vc_jobService = None\<rparr>\<rparr>"]
  by (simp add: Let_def ex_service_spec_def)

text \<open>Adding the database to a service's container never dereferences a nil pointer, whatever
  mixture of the service's and the platform's persistence is set.\<close>

theorem persistence_no_panic:
  "di_ConfigurePersistence cfg p c \<noteq> Panic \<and> js_ConfigurePersistence cfg p c \<noteq> Panic"
proof -
  have r: "\<exists>ps. RetrievePostgreSQLConfiguration (Option.bind spec vp_persistence) (pf_persistence p) n = Ret ps \<and>
      pn_postgresql ps \<noteq> None" if "has_postgresql spec p" for spec n
    using that by (cases spec)
      (auto simp: has_postgresql_def RetrievePostgreSQLConfiguration_def buildPersistenceOptionsSpec_def
        split: option.splits)
  show ?thesis
    unfolding di_ConfigurePersistence_def js_ConfigurePersistence_def
    using r[of "di_spec (Some p)" "di_GetServiceName p"] r[of "js_spec (Some p)" "js_GetServiceName p"]
    by auto
qed

text \<open>A platform broker that is given by a URI and has no reference makes the generation of the
  data index's triggers dereference a nil pointer.\<close>

theorem broker_without_reference:
  assumes "di_spec (Some p) = Some s" and "vp_source s = None" and "pf_broker p = Some b" and "de_ref b = None"
  shows "di_GenerateKnativeResources k child p lbl w = Panic"
  using assms by (simp add: di_GenerateKnativeResources_def source_broker_def GetPlatformBroker_def)

theorem broker_without_reference_witness:
  "\<forall>(k :: unit cluster) w. di_GenerateKnativeResources k (@) ((new_platform ''ns'' ''p'')\<lparr>pf_services := Some \<lparr>vc_dataIndex = Some ex_service_spec,
      vc_jobService = None\<rparr>, pf_broker := Some \<lparr>de_ref = None, de_uri = Some ''http://broker''\<rparr>\<rparr>) [] w = Panic"
  by (intro allI broker_without_reference[where s = ex_service_spec and
        b = "\<lparr>de_ref = None, de_uri = Some ''http://broker''\<rparr>"])
    (simp_all add: di_spec_def ex_service_spec_def)

text \<open>The two tests of the code for an enabled service agree, for a service of the cluster platform
  as long as its address is not empty.\<close>

theorem enabled_tests_agree:
  assumes "status_service vs_dataIndex (Some p) \<noteq> Some ''''" and "status_service vs_jobService (Some p) \<noteq> Some ''''"
  shows "(IsDataIndexEnabled p \<longleftrightarrow> di_IsServiceEnabled (Some p)) \<and> (IsJobServiceEnabled p \<longleftrightarrow> js_IsServiceEnabled (Some p))"
  using assms
  by (auto simp: IsDataIndexEnabled_def IsJobServiceEnabled_def di_enabled_defs js_enabled_defs
      split: option.splits)

theorem enabled_tests_agree_witness:
  "IsDataIndexEnabled (new_platform ''ns'' ''p'') \<longleftrightarrow> di_IsServiceEnabled (Some (new_platform ''ns'' ''p''))"
  using enabled_tests_agree[of "new_platform ''ns'' ''p''"] by (simp add: status_service_def)

end
