(* ===== verification/Platform.thy ===== *)
theory Platform
  imports Platform_Services
begin

text \<open>
  The platforms of a namespace (\<open>internal/controller/platform\<close>): who may act on a namespace, the active
  platform and its creation with defaults, the actions of the platform's state machine, and the
  active cluster platform (\<open>internal/controller/clusterplatform\<close>) they take into account.
\<close>

definition DefaultPlatformName :: string where "DefaultPlatformName = ''kogito-serverless-platform''"
definition OperatorLockName :: string where "OperatorLockName = ''kogito-serverless-lock''"
definition defaultSonataFlowPlatformName :: string where
  "defaultSonataFlowPlatformName = ''sonataflow-platform''"
definition kanikoCacheDir :: string where "kanikoCacheDir = ''/kaniko/cache''"
definition kanikoPVCName :: string where "kanikoPVCName = ''KanikoPersistentVolumeClaim''"
definition kanikoWarmerImage :: string where "kanikoWarmerImage = ''KanikoWarmerImage''"
definition kanikoBuildCacheEnabled :: string where "kanikoBuildCacheEnabled = ''KanikoBuildCacheEnabled''"
definition defaultKanikoCachePVCName :: string where "defaultKanikoCachePVCName = ''kogito-kaniko-cache-pv''"

lemmas kaniko_option_defs = kanikoPVCName_def kanikoWarmerImage_def kanikoBuildCacheEnabled_def

subsection \<open>The operator and its namespace\<close>

definition is_space :: "char \<Rightarrow> bool" where
  "is_space c \<longleftrightarrow> (let n = (of_char c :: nat) in n = 32 \<or> 9 \<le> n \<and> n \<le> 13)"

definition IsCurrentOperatorGlobal :: "'w cluster \<Rightarrow> bool" where
  "IsCurrentOperatorGlobal k \<longleftrightarrow>
    (case k_watchNamespace k of None \<Rightarrow> True | Some ns \<Rightarrow> list_all is_space ns)"

definition GetOperatorNamespace :: "'w cluster \<Rightarrow> string" where
  "GetOperatorNamespace k = (case k_operatorNamespace k of None \<Rightarrow> '''' | Some ns \<Rightarrow> ns)"

definition GetOperatorLockName :: "string \<Rightarrow> string" where
  "GetOperatorLockName operatorID = operatorID @ ''-lock''"

definition GetOperatorIDAnnotation :: "object_meta \<Rightarrow> string" where
  "GetOperatorIDAnnotation m = nil_map_get (om_annotations m) OperatorIDAnnotation"

definition pf_IsActive :: "sonataflow_platform \<Rightarrow> bool" where
  "pf_IsActive p \<longleftrightarrow> \<not> pf_IsDuplicated p"

definition pf_IsSecondary :: "sonataflow_platform \<Rightarrow> bool" where
  "pf_IsSecondary p \<longleftrightarrow> nil_map_get (om_annotations (pf_meta p)) SecondaryPlatformAnnotation = ''true''"

definition listAllPlatforms :: "'w cluster \<Rightarrow> string \<Rightarrow> 'w \<Rightarrow> kerror + sonataflow_platform list" where
  "listAllPlatforms k ns w = c_list (k_platforms k) w ns"

definition listPrimaryPlatforms :: "'w cluster \<Rightarrow> string \<Rightarrow> 'w \<Rightarrow> kerror + sonataflow_platform list" where
  "listPrimaryPlatforms k ns w = map_sum id (filter (\<lambda>p. \<not> pf_IsSecondary p)) (listAllPlatforms k ns w)"

text \<open>The loop over the platforms: the first lease that exists, or that cannot be read, decides.\<close>

fun locked_by :: "'w cluster \<Rightarrow> string \<Rightarrow> sonataflow_platform list \<Rightarrow> 'w \<Rightarrow> bool \<times> kerror option" where
  "locked_by k ns [] w = (False, None)"
| "locked_by k ns (p # ps) w =
    (let lock = (if pf_name p \<noteq> '''' then GetOperatorLockName (pf_name p) else OperatorLockName)
     in case c_get (k_leases k) w ns lock of
          Inr _ \<Rightarrow> (True, None)
        | Inl e \<Rightarrow> if \<not> IsNotFound e then (True, Some e) else locked_by k ns ps w)"

definition IsNamespaceLocked :: "'w cluster \<Rightarrow> string \<Rightarrow> 'w \<Rightarrow> bool \<times> kerror option" where
  "IsNamespaceLocked k ns w =
    (if ns = '''' then (False, None)
     else case listPrimaryPlatforms k ns w of
            Inl e \<Rightarrow> (True, Some e)
          | Inr ps \<Rightarrow> locked_by k ns ps w)"

definition IsOperatorAllowedOnNamespace :: "'w cluster \<Rightarrow> string \<Rightarrow> 'w \<Rightarrow> kerror + bool" where
  "IsOperatorAllowedOnNamespace k ns w =
    (if \<not> IsCurrentOperatorGlobal k then Inr True
     else if k_operatorID k \<noteq> '''' then Inr True
     else if GetOperatorNamespace k = ns then Inr True
     else case IsNamespaceLocked k ns w of
            (_, Some e) \<Rightarrow> Inl e
          | (owned, None) \<Rightarrow> Inr (\<not> owned))"

definition IsOperatorHandler :: "'w cluster \<Rightarrow> object_meta \<Rightarrow> bool" where
  "IsOperatorHandler k m \<longleftrightarrow>
    (let resourceID = GetOperatorIDAnnotation m
     in if resourceID = k_operatorID k then True
        else if resourceID = '''' then k_operatorID k = DefaultPlatformName \<or> \<not> IsCurrentOperatorGlobal k
        else False)"

definition IsOperatorHandlerConsideringLock :: "'w cluster \<Rightarrow> string \<Rightarrow> object_meta \<Rightarrow> 'w \<Rightarrow> bool" where
  "IsOperatorHandlerConsideringLock k ns m w =
    (if \<not> IsOperatorHandler k m then False
     else if GetOperatorIDAnnotation m = '''' then
       (if GetOperatorNamespace k = ns then True
        else case IsNamespaceLocked k ns w of
               (locked, err) \<Rightarrow> if err \<noteq> None \<or> locked then \<not> IsCurrentOperatorGlobal k else True)
     else True)"

subsection \<open>Writing a platform\<close>

definition copy_spec :: "sonataflow_platform \<Rightarrow> sonataflow_platform \<Rightarrow> sonataflow_platform" where
  "copy_spec t p =
    p\<lparr>pf_buildTemplate := pf_buildTemplate t, pf_buildConfig := pf_buildConfig t,
      pf_devBaseImage := pf_devBaseImage t, pf_services := pf_services t, pf_broker := pf_broker t,
      pf_persistence := pf_persistence t, pf_properties := pf_properties t, pf_monitoring := pf_monitoring t\<rparr>"

definition copy_status :: "sonataflow_platform \<Rightarrow> sonataflow_platform \<Rightarrow> sonataflow_platform" where
  "copy_status t p =
    p\<lparr>pf_status := pf_status t, pf_cluster := pf_cluster t, pf_version := pf_version t, pf_info := pf_info t,
      pf_clusterRef := pf_clusterRef t, pf_triggers := pf_triggers t\<rparr>"

definition SafeUpdatePlatform :: "'w cluster \<Rightarrow> sonataflow_platform \<Rightarrow> 'w \<Rightarrow> kerror option \<times> 'w" where
  "SafeUpdatePlatform k t w =
    RetryOnConflict (\<lambda>w. case c_get (k_platforms k) w (pf_namespace t) (pf_name t) of
                           Inl e \<Rightarrow> (Some e, w)
                         | Inr p \<Rightarrow> c_update (k_platforms k) w (copy_spec t p)) w"

definition SafeUpdatePlatformStatus :: "'w cluster \<Rightarrow> sonataflow_platform \<Rightarrow> 'w \<Rightarrow> kerror option \<times> 'w" where
  "SafeUpdatePlatformStatus k t w =
    RetryOnConflict (\<lambda>w. case c_get (k_platforms k) w (pf_namespace t) (pf_name t) of
                           Inl e \<Rightarrow> (Some e, w)
                         | Inr p \<Rightarrow> c_status (k_platforms k) w (copy_status t p)) w"

subsection \<open>Defaults\<close>

text \<open>\<open>Duration.Truncate(time.Second)\<close> rounds towards zero.\<close>

definition truncate_second :: "int \<Rightarrow> int" where
  "truncate_second d =
    (if d \<ge> 0 then d - d mod 1000000000 else d + (- d) mod 1000000000)"

definition upd_config :: "(build_config \<Rightarrow> build_config) \<Rightarrow> sonataflow_platform \<Rightarrow> sonataflow_platform" where
  "upd_config f p = p\<lparr>pf_buildConfig := f (pf_buildConfig p)\<rparr>"

definition set_option_value :: "string \<Rightarrow> string \<Rightarrow> build_config \<Rightarrow> build_config" where
  "set_option_value key v b =
    b\<lparr>bc_options := Some (AList.update key v (case bc_options b of None \<Rightarrow> [] | Some m \<Rightarrow> m))\<rparr>"

definition enable_default :: "service_spec option \<Rightarrow> service_spec option" where
  "enable_default s =
    map_option (\<lambda>s. if vp_enabled s = None then s\<lparr>vp_enabled := Some True\<rparr> else s) s"

definition setStatusAdditionalInfo :: "'w cluster \<Rightarrow> sonataflow_platform \<Rightarrow> sonataflow_platform" where
  "setStatusAdditionalInfo k p = p\<lparr>pf_info := [(''goVersion'', k_goVersion k), (''goOS'', k_goOS k)]\<rparr>"

definition IsKanikoCacheEnabled :: "sonataflow_platform \<Rightarrow> bool" where
  "IsKanikoCacheEnabled p \<longleftrightarrow> IsStrategyOptionEnabled (pf_buildConfig p) kanikoBuildCacheEnabled"

definition default_timeout :: "build_config \<Rightarrow> build_config" where
  "default_timeout b =
    b\<lparr>bc_timeout := Some (if GetTimeout b \<noteq> 0 then truncate_second (GetTimeout b) else 5 * 60 * 1000000000)\<rparr>"

text \<open>The steps of \<open>setPlatformDefaults\<close>, in order.\<close>

definition default_options :: "build_config \<Rightarrow> build_config" where
  "default_options b = (if bc_options b = None then b\<lparr>bc_options := Some []\<rparr> else b)"

definition default_cache :: "'w cluster \<Rightarrow> sonataflow_platform \<Rightarrow> sonataflow_platform" where
  "default_cache k p =
    (if IsKanikoCacheEnabled p
     then upd_config (\<lambda>b. let b = set_option_value kanikoPVCName (pf_name p) b
                          in if bc_baseImage b = ''''
                             then b\<lparr>bc_baseImage := GetDefaultWorkflowBuilderImageTag (k_cfg k)\<rparr>
                             else b) p
     else p)"

definition default_no_cache :: "sonataflow_platform \<Rightarrow> sonataflow_platform" where
  "default_no_cache p =
    (if bc_strategy (pf_buildConfig p) = OperatorBuildStrategy \<and> \<not> IsKanikoCacheEnabled p
     then upd_config (set_option_value kanikoBuildCacheEnabled ''false'') p
     else p)"

definition default_services :: "sonataflow_platform \<Rightarrow> sonataflow_platform" where
  "default_services p =
    p\<lparr>pf_services := map_option (\<lambda>s. s\<lparr>vc_dataIndex := enable_default (vc_dataIndex s),
                                    vc_jobService := enable_default (vc_jobService s)\<rparr>) (pf_services p)\<rparr>"

definition setPlatformDefaults :: "'w cluster \<Rightarrow> sonataflow_platform \<Rightarrow> sonataflow_platform" where
  "setPlatformDefaults k p =
    setStatusAdditionalInfo k (default_services (default_no_cache (default_cache k
      (upd_config default_timeout (upd_config default_options p)))))"

definition getRegistryAddress :: "'w cluster \<Rightarrow> 'w \<Rightarrow> kerror + string option" where
  "getRegistryAddress k w =
    (case c_get (k_configMaps k) w ''kube-public'' ''local-registry-hosting'' of
       Inl e \<Rightarrow> if IsNotFound e then Inr None else Inl e
     | Inr cm \<Rightarrow>
        (case Option.bind (cm_data cm) (\<lambda>m. map_of m ''localRegistryHosting.v1'') of
           None \<Rightarrow> Inr None
         | Some data \<Rightarrow> map_sum id Some (k_registryHost k data)))"

definition configureRegistry :: "'w cluster \<Rightarrow> sonataflow_platform \<Rightarrow> 'w \<Rightarrow> sonataflow_platform" where
  "configureRegistry k p w =
    (if bc_strategy (pf_buildConfig p) = PlatformBuildStrategy \<and> pf_cluster p = PlatformClusterOpenShift
     then upd_config (\<lambda>b. b\<lparr>bc_registry := \<lparr>rg_insecure = False, rg_address = '''', rg_secret = '''', rg_ca = '''',
                                          rg_organization = ''''\<rparr>\<rparr>) p
     else if rg_address (bc_registry (pf_buildConfig p)) = '''' \<and> pf_cluster p = PlatformClusterKubernetes
     then (case getRegistryAddress k w of
             Inr (Some a) \<Rightarrow> upd_config (\<lambda>b. b\<lparr>bc_registry := (bc_registry b)\<lparr>rg_address := a\<rparr>\<rparr>) p
           | _ \<Rightarrow> p)
     else p)"

definition createPlatformIfNotExists :: "'w cluster \<Rightarrow> sonataflow_platform \<Rightarrow> 'w \<Rightarrow> kerror option \<times> 'w" where
  "createPlatformIfNotExists k p w =
    (let update = (case SafeUpdatePlatformStatus k p w of
                     (Some e, w) \<Rightarrow> (Some e, w)
                   | (None, w) \<Rightarrow> SafeUpdatePlatform k p w)
     in case c_get (k_platforms k) w (pf_namespace p) (pf_name p) of
          Inl e \<Rightarrow> if IsNotFound e then c_create (k_platforms k) w p else update
        | Inr _ \<Rightarrow> update)"

text \<open>The platform as the call leaves it, and the error and the world after it.\<close>

definition set_openshift :: "'w cluster \<Rightarrow> sonataflow_platform \<Rightarrow> sonataflow_platform" where
  "set_openshift k p =
    (if pf_cluster p = '''' \<or> k_openShift k
     then upd_config (\<lambda>b. b\<lparr>bc_strategy := PlatformBuildStrategy\<rparr>) (p\<lparr>pf_cluster := PlatformClusterOpenShift\<rparr>)
     else p)"

definition set_kubernetes :: "'w cluster \<Rightarrow> sonataflow_platform \<Rightarrow> sonataflow_platform" where
  "set_kubernetes k p =
    (if pf_cluster p = '''' \<or> \<not> k_openShift k
     then upd_config (\<lambda>b. b\<lparr>bc_strategy := OperatorBuildStrategy\<rparr>) (p\<lparr>pf_cluster := PlatformClusterKubernetes\<rparr>)
     else p)"

definition platform_with_defaults :: "'w cluster \<Rightarrow> sonataflow_platform \<Rightarrow> 'w \<Rightarrow> sonataflow_platform" where
  "platform_with_defaults k p w =
    configureRegistry k (setPlatformDefaults k (set_kubernetes k (set_openshift k p))) w"

definition CreateOrUpdateWithDefaults ::
  "'w cluster \<Rightarrow> sonataflow_platform \<Rightarrow> 'w \<Rightarrow> kerror option \<times> sonataflow_platform \<times> 'w" where
  "CreateOrUpdateWithDefaults k p w =
    (let p = platform_with_defaults k p w;
         (e, w) = createPlatformIfNotExists k p w
     in (e, p, w))"

lemmas defaults_step_defs = set_openshift_def set_kubernetes_def default_cache_def default_no_cache_def
  default_services_def setStatusAdditionalInfo_def upd_config_def

lemma pf_status_frame [simp]:
  "pf_status (upd_config f p) = pf_status p" "pf_status (setPlatformDefaults k p) = pf_status p"
  "pf_status (configureRegistry k p w) = pf_status p" "pf_status (platform_with_defaults k p w) = pf_status p"
proof -
  show "pf_status (upd_config f p) = pf_status p" for f p by (simp add: upd_config_def)
  note u = this
  have steps: "pf_status (set_openshift k p) = pf_status p" "pf_status (set_kubernetes k p) = pf_status p"
    "pf_status (default_cache k p) = pf_status p" "pf_status (default_no_cache p) = pf_status p"
    "pf_status (default_services p) = pf_status p" "pf_status (setStatusAdditionalInfo k p) = pf_status p" for p
    by (simp_all add: set_openshift_def set_kubernetes_def default_cache_def default_no_cache_def
        default_services_def setStatusAdditionalInfo_def u)
  show d: "pf_status (setPlatformDefaults k p) = pf_status p" for p
    by (simp add: setPlatformDefaults_def steps u)
  show c: "pf_status (configureRegistry k p w) = pf_status p" for p
    by (simp add: configureRegistry_def u split: sum.split option.split)
  show "pf_status (platform_with_defaults k p w) = pf_status p"
    by (simp add: platform_with_defaults_def steps d c)
qed

lemma pf_meta_frame [simp]:
  "pf_meta (upd_config f p) = pf_meta p" "pf_meta (setPlatformDefaults k p) = pf_meta p"
  "pf_meta (configureRegistry k p w) = pf_meta p" "pf_meta (platform_with_defaults k p w) = pf_meta p"
proof -
  show "pf_meta (upd_config f p) = pf_meta p" for f p by (simp add: upd_config_def)
  note u = this
  have steps: "pf_meta (set_openshift k p) = pf_meta p" "pf_meta (set_kubernetes k p) = pf_meta p"
    "pf_meta (default_cache k p) = pf_meta p" "pf_meta (default_no_cache p) = pf_meta p"
    "pf_meta (default_services p) = pf_meta p" "pf_meta (setStatusAdditionalInfo k p) = pf_meta p" for p
    by (simp_all add: set_openshift_def set_kubernetes_def default_cache_def default_no_cache_def
        default_services_def setStatusAdditionalInfo_def u)
  show d: "pf_meta (setPlatformDefaults k p) = pf_meta p" for p
    by (simp add: setPlatformDefaults_def steps u)
  show c: "pf_meta (configureRegistry k p w) = pf_meta p" for p
    by (simp add: configureRegistry_def u split: sum.split option.split)
  show "pf_meta (platform_with_defaults k p w) = pf_meta p"
    by (simp add: platform_with_defaults_def steps d c)
qed

subsection \<open>The active platform\<close>

definition newEmptySonataFlowPlatform :: "'w cluster \<Rightarrow> string \<Rightarrow> sonataflow_platform" where
  "newEmptySonataFlowPlatform k ns =
    (let b = pf_buildConfig (new_platform ns defaultSonataFlowPlatformName);
         p = new_platform ns defaultSonataFlowPlatformName
     in if k_openShift k then p\<lparr>pf_buildConfig := b\<lparr>bc_strategy := PlatformBuildStrategy\<rparr>\<rparr>
        else p\<lparr>pf_buildConfig := b\<lparr>bc_options := Some [(kanikoBuildCacheEnabled, ''true'')]\<rparr>\<rparr>)"

definition getLocalPlatform ::
  "'w cluster \<Rightarrow> string \<Rightarrow> bool \<Rightarrow> 'w \<Rightarrow> (kerror + sonataflow_platform) \<times> 'w" where
  "getLocalPlatform k ns active w =
    (case listPrimaryPlatforms k ns w of
       Inl e \<Rightarrow> (Inl e, w)
     | Inr ps \<Rightarrow>
        (case find pf_IsActive ps of
           Some p \<Rightarrow> (Inr p, w)
         | None \<Rightarrow>
            if \<not> active \<and> ps \<noteq> [] then (Inr (hd ps), w)
            else (case CreateOrUpdateWithDefaults k (newEmptySonataFlowPlatform k ns) w of
                    (Some e, _, w) \<Rightarrow> (Inl e, w)
                  | (None, p, w) \<Rightarrow> (Inr p, w))))"

definition GetActivePlatform :: "'w cluster \<Rightarrow> string \<Rightarrow> 'w \<Rightarrow> (kerror + sonataflow_platform) \<times> 'w" where
  "GetActivePlatform k ns w = getLocalPlatform k ns True w"

subsection \<open>The cluster platform\<close>

definition PlatformServices :: string where "PlatformServices = ''services''"

definition cl_IsActive :: "sonataflow_cluster_platform \<Rightarrow> bool" where
  "cl_IsActive p \<longleftrightarrow> cl_IsReady p \<and> \<not> cl_IsDuplicated p"

definition cl_IsSecondary :: "sonataflow_cluster_platform \<Rightarrow> bool" where
  "cl_IsSecondary p \<longleftrightarrow> nil_map_get (om_annotations (cl_meta p)) SecondaryPlatformAnnotation = ''true''"

definition listAllClusterPlatforms :: "'w cluster \<Rightarrow> 'w \<Rightarrow> kerror + sonataflow_cluster_platform list" where
  "listAllClusterPlatforms k w = c_list (k_clusterPlatforms k) w ''''"

definition listPrimaryClusterPlatforms :: "'w cluster \<Rightarrow> 'w \<Rightarrow> kerror + sonataflow_cluster_platform list" where
  "listPrimaryClusterPlatforms k w = map_sum id (filter (\<lambda>p. \<not> cl_IsSecondary p)) (listAllClusterPlatforms k w)"

definition allDuplicatedClusterPlatforms :: "'w cluster \<Rightarrow> 'w \<Rightarrow> bool" where
  "allDuplicatedClusterPlatforms k w =
    (case listAllClusterPlatforms k w of Inl _ \<Rightarrow> False | Inr ps \<Rightarrow> list_all cl_IsDuplicated ps)"

definition getClusterPlatform :: "'w cluster \<Rightarrow> bool \<Rightarrow> 'w \<Rightarrow> kerror + sonataflow_cluster_platform" where
  "getClusterPlatform k active w =
    (case listPrimaryClusterPlatforms k w of
       Inl e \<Rightarrow> Inl e
     | Inr ps \<Rightarrow>
        (case find cl_IsActive ps of
           Some p \<Rightarrow> Inr p
         | None \<Rightarrow> if \<not> active \<and> ps \<noteq> [] then Inr (hd ps)
                   else Inl (NotFound ''SonataFlowClusterPlatform not found'')))"

definition GetActiveClusterPlatform :: "'w cluster \<Rightarrow> 'w \<Rightarrow> kerror + sonataflow_cluster_platform" where
  "GetActiveClusterPlatform k w = getClusterPlatform k True w"

subsection \<open>Actions\<close>

text \<open>What \<open>Handle\<close> leaves: the platform it answers (\<open>None\<close> is nil), whether that is the object it was
  given, the object it was given, the error and the world.\<close>

record 'w handled =
  hd_target :: "sonataflow_platform option"
  hd_same :: bool
  hd_given :: sonataflow_platform
  hd_event :: "(string \<times> string \<times> string) option"
  hd_error :: "kerror option"
  hd_world :: 'w

definition failed :: "sonataflow_platform \<Rightarrow> kerror \<Rightarrow> 'w \<Rightarrow> 'w handled" where
  "failed p e w =
    \<lparr>hd_target = None, hd_same = False, hd_given = p, hd_event = None, hd_error = Some e, hd_world = w\<rparr>"

definition nothing_done :: "sonataflow_platform \<Rightarrow> 'w \<Rightarrow> 'w handled" where
  "nothing_done p w =
    \<lparr>hd_target = None, hd_same = False, hd_given = p, hd_event = None, hd_error = None, hd_world = w\<rparr>"

definition done_with :: "sonataflow_platform \<Rightarrow> 'w \<Rightarrow> 'w handled" where
  "done_with p w =
    \<lparr>hd_target = Some p, hd_same = True, hd_given = p, hd_event = None, hd_error = None, hd_world = w\<rparr>"

definition mark_platform :: "int \<Rightarrow> string \<Rightarrow> sonataflow_platform \<Rightarrow> sonataflow_platform" where
  "mark_platform now reason p = pf_upd_conds (MarkFalse now SucceedConditionType reason '''') p"

definition cache_pvc_name :: "sonataflow_platform \<Rightarrow> string" where
  "cache_pvc_name p =
    (case Option.bind (bc_options (pf_buildConfig p)) (\<lambda>m. map_of m kanikoPVCName) of
       None \<Rightarrow> defaultKanikoCachePVCName
     | Some n \<Rightarrow> n)"

definition createPersistentVolumeClaim :: "'w cluster \<Rightarrow> sonataflow_platform \<Rightarrow> 'w \<Rightarrow> kerror option \<times> 'w" where
  "createPersistentVolumeClaim k p w =
    (case k_quantity k (cg_defaultPvcKanikoSize (k_cfg k)) of
       Some e \<Rightarrow> (Some e, w)
     | None \<Rightarrow>
        (case c_create (k_pvcs k) w ((new_meta (pf_namespace p) (cache_pvc_name p))
                \<lparr>om_labels := Some [(''app'', ''kogito-serverless-operator'')]\<rparr>) of
           (Some e, w) \<Rightarrow> if IsAlreadyExists e then (None, w) else (Some e, w)
         | (None, w) \<Rightarrow> (None, w)))"

definition warmer_container :: "string \<Rightarrow> string \<Rightarrow> string \<Rightarrow> string list \<Rightarrow> container" where
  "warmer_container name img policy args =
    \<lparr>ct_name = name, ct_image = img, ct_imagePullPolicy = policy, ct_args = args, ct_workingDir = '''',
     ct_env = [], ct_mounts = [\<lparr>vm_name = ''kaniko-cache'', vm_readOnly = False, vm_mountPath = kanikoCacheDir,
       vm_subPath = ''''\<rparr>], ct_ports = [], ct_extras = no_extras\<rparr>"

definition warmer_pod :: "'w cluster \<Rightarrow> sonataflow_platform \<Rightarrow> pod" where
  "warmer_pod k p =
    (let img = (case Option.bind (bc_options (pf_buildConfig p)) (\<lambda>m. map_of m kanikoWarmerImage) of
                    None \<Rightarrow> cg_kanikoWarmerImageTag (k_cfg k) | Some i \<Rightarrow> i)
     in \<lparr>pd_meta = (new_meta (pf_namespace p) (pf_name p @ ''-cache''))
           \<lparr>om_labels := Some [(''sonataflow.org/component'', ''kaniko-warmer'')]\<rparr>,
         pd_spec = \<lparr>ps_containers = [warmer_container ''warm-kaniko-cache'' img ''''
               [''--force'', ''--cache-dir='' @ kanikoCacheDir, ''--image='' @ bc_baseImage (pf_buildConfig p)]],
             ps_initContainers = [warmer_container ''create-kaniko-cache'' ''busybox'' ''IfNotPresent''
               [''mkdir -p '' @ kanikoCacheDir @ ''&& chmod -R a+rwx '' @ kanikoCacheDir]],
             ps_volumes = [\<lparr>vl_name = ''kaniko-cache'', vl_source = VsOther (cache_pvc_name p)\<rparr>]\<rparr>,
         pd_phase = '''', pd_podIP = '''', pd_hostIP = '''', pd_owner = None, pd_conditions = [],
         pd_initStatuses = [], pd_statuses = []\<rparr>)"

definition createKanikoCacheWarmerPod :: "'w cluster \<Rightarrow> sonataflow_platform \<Rightarrow> 'w \<Rightarrow> kerror option \<times> 'w" where
  "createKanikoCacheWarmerPod k p w =
    (let pd = warmer_pod k p;
         create = (\<lambda>w. case c_create (k_pods k) w pd of
                        (Some e, w) \<Rightarrow> (Some (OtherError (''cannot create Kaniko warmer pod: '' @ error_text e)), w)
                      | (None, w) \<Rightarrow> (None, w))
     in case c_delete (k_pods k) w (pf_namespace p) (pf_name p @ ''-cache'') of
          (Some e, w) \<Rightarrow> if IsNotFound e then create w
            else (Some (OtherError (''cannot delete Kaniko warmer pod: '' @ error_text e)), w)
        | (None, w) \<Rightarrow> create w)"

definition isPrimaryDuplicate :: "'w cluster \<Rightarrow> sonataflow_platform \<Rightarrow> 'w \<Rightarrow> kerror + bool" where
  "isPrimaryDuplicate k this w =
    (if pf_IsSecondary this then Inr False
     else map_sum id (list_ex (\<lambda>p. pf_name p \<noteq> pf_name this \<and> pf_IsActive p))
            (listPrimaryPlatforms k (pf_namespace this) w))"

definition pf_initialize_CanHandle :: "sonataflow_platform \<Rightarrow> bool" where
  "pf_initialize_CanHandle p \<longleftrightarrow> IsUnknown (pf_cond p) \<or> pf_IsDuplicated p"

definition pf_initialize_Handle :: "int \<Rightarrow> 'w cluster \<Rightarrow> sonataflow_platform \<Rightarrow> 'w \<Rightarrow> 'w handled" where
  "pf_initialize_Handle now k p w =
    (case isPrimaryDuplicate k p w of
       Inl e \<Rightarrow> failed p e w
     | Inr True \<Rightarrow>
        if \<not> pf_IsDuplicated p
        then (nothing_done p w)\<lparr>hd_target := Some (mark_platform now PlatformDuplicatedReason p)\<rparr>
        else nothing_done p w
     | Inr False \<Rightarrow>
        (case CreateOrUpdateWithDefaults k p w of
           (Some e, p, w) \<Rightarrow> failed p e w
         | (None, p, w) \<Rightarrow>
            (let finish = (\<lambda>reason w. done_with ((mark_platform now reason p)\<lparr>pf_version := SpecVersion\<rparr>) w)
             in if bc_strategy (pf_buildConfig p) = OperatorBuildStrategy \<and> IsKanikoCacheEnabled p then
                  (case createPersistentVolumeClaim k p w of
                     (Some e, w) \<Rightarrow> failed p e w
                   | (None, w) \<Rightarrow>
                      (case createKanikoCacheWarmerPod k p w of
                         (Some e, w) \<Rightarrow> failed p e w
                       | (None, w) \<Rightarrow> finish PlatformWarmingReason w))
                else finish PlatformCreatingReason w)))"

definition warm_CanHandle :: "sonataflow_platform \<Rightarrow> bool" where
  "warm_CanHandle p \<longleftrightarrow> pf_IsWarming p"

definition warm_Handle :: "int \<Rightarrow> 'w cluster \<Rightarrow> sonataflow_platform \<Rightarrow> 'w \<Rightarrow> 'w handled" where
  "warm_Handle now k p w =
    (case c_get (k_pods k) w (pf_namespace p) (pf_name p @ ''-cache'') of
       Inl e \<Rightarrow> failed p e w
     | Inr pd \<Rightarrow>
        if pd_phase pd = ''Succeeded'' then
          done_with (pf_upd_conds (MarkTrueWithReason now SucceedConditionType PlatformWarmingReason
            ''Kaniko cache successfully warmed up'') p) w
        else if pd_phase pd = ''Failed'' then failed p (OtherError ''failed to warm up Kaniko cache'') w
        else nothing_done p w)"

definition create_CanHandle :: "sonataflow_platform \<Rightarrow> bool" where
  "create_CanHandle p \<longleftrightarrow> pf_IsCreating p"

definition create_Handle :: "int \<Rightarrow> 'w cluster \<Rightarrow> sonataflow_platform \<Rightarrow> 'w \<Rightarrow> 'w handled" where
  "create_Handle now k p w = done_with (pf_upd_conds (MarkTrue now SucceedConditionType) p) w"

definition pf_monitor_CanHandle :: "sonataflow_platform \<Rightarrow> bool" where
  "pf_monitor_CanHandle p \<longleftrightarrow> pf_IsReady p"

definition pf_monitor_Handle :: "int \<Rightarrow> 'w cluster \<Rightarrow> sonataflow_platform \<Rightarrow> 'w \<Rightarrow> 'w handled" where
  "pf_monitor_Handle now k p w =
    (case CreateOrUpdateWithDefaults k (p\<lparr>pf_version := SpecVersion\<rparr>) w of
       (Some e, p, w) \<Rightarrow> failed p e w
     | (None, p, w) \<Rightarrow> done_with p w)"

definition service_CanHandle :: "sonataflow_platform \<Rightarrow> bool" where
  "service_CanHandle p \<longleftrightarrow> pf_IsReady p"

text \<open>The two calls of \<open>createOrUpdateServiceComponents\<close> are arguments: they answer an event, an error,
  the platform (whose trigger list and finalizers they may extend) and the world; \<open>None\<close> is a panic.\<close>

type_synonym 'w components =
  "sonataflow_platform \<Rightarrow> 'w \<Rightarrow> ((string \<times> string \<times> string) option \<times> kerror option \<times> sonataflow_platform \<times> 'w) option"

definition service_Handle ::
  "'w components \<Rightarrow> 'w components \<Rightarrow> int \<Rightarrow> 'w cluster \<Rightarrow> sonataflow_platform \<Rightarrow> 'w \<Rightarrow> 'w handled option" where
  "service_Handle dataIndex jobService now k p w =
    (let run = (\<lambda>on f next p w.
           if on p then (case f p w of
                           None \<Rightarrow> None
                         | Some (ev, Some e, p, w) \<Rightarrow> Some ((failed p e w)\<lparr>hd_event := ev\<rparr>)
                         | Some (_, None, p, w) \<Rightarrow> next p w)
           else next p w)
     in case CreateOrUpdateWithDefaults k p w of
          (Some e, p, w) \<Rightarrow> Some (failed p e w)
        | (None, p, w) \<Rightarrow>
           run (\<lambda>p. di_IsServiceSetInSpec (Some p)) dataIndex
             (run (\<lambda>p. js_IsServiceSetInSpec (Some p)) jobService (\<lambda>p w. Some (done_with p w))) p w)"

end
