(* ===== verification/Platform_Controller.thy ===== *)
theory Platform_Controller
  imports Platform
begin

text \<open>
  The reconciliation of a platform (\<open>internal/controller/sonataflowplatform_controller.go\<close>): the guards
  on the namespace and the operator, the reference to the active cluster platform, the choice of one
  action and the writes that follow it.  The lemmas describe the state machine of a platform: which
  action runs in which condition, that errors are never recorded in the condition, that defaults
  settle, and what the search for an active platform does to platforms that are not.
\<close>

definition TriggerFinalizer :: string where "TriggerFinalizer = ''trigger-deletion''"

type_synonym request = "string \<times> string"

subsection \<open>Clean-up and the cluster platform\<close>

fun delete_triggers :: "'w cluster \<Rightarrow> name_ref list \<Rightarrow> 'w \<Rightarrow> kerror option \<times> 'w" where
  "delete_triggers k [] w = (None, w)"
| "delete_triggers k (r # rs) w =
    (case c_delete (k_triggers k) w (nr_namespace r) (nr_name r) of
       (Some e, w) \<Rightarrow> if IsNotFound e then delete_triggers k rs w else (Some e, w)
     | (None, w) \<Rightarrow> delete_triggers k rs w)"

definition RemoveFinalizer :: "string \<Rightarrow> object_meta \<Rightarrow> object_meta" where
  "RemoveFinalizer f m = m\<lparr>om_finalizers := filter (\<lambda>g. g \<noteq> f) (om_finalizers m)\<rparr>"

definition ContainsFinalizer :: "object_meta \<Rightarrow> string \<Rightarrow> bool" where
  "ContainsFinalizer m f \<longleftrightarrow> list_ex (\<lambda>g. g = f) (om_finalizers m)"

definition pf_cleanupTriggers :: "'w cluster \<Rightarrow> sonataflow_platform \<Rightarrow> 'w \<Rightarrow> kerror option \<times> 'w" where
  "pf_cleanupTriggers k p w =
    (case delete_triggers k (pf_triggers p) w of
       (Some e, w) \<Rightarrow> (Some e, w)
     | (None, w) \<Rightarrow> c_update (k_platforms k) w (p\<lparr>pf_meta := RemoveFinalizer TriggerFinalizer (pf_meta p)\<rparr>))"

text \<open>The referenced platform is the target itself when the request is for it; one that is not found
  is the empty platform.\<close>

definition updateIfActiveClusterPlatformExists ::
  "'w cluster \<Rightarrow> request \<Rightarrow> sonataflow_platform \<Rightarrow> 'w \<Rightarrow> kerror + sonataflow_platform" where
  "updateIfActiveClusterPlatformExists k req t w =
    (case GetActiveClusterPlatform k w of
       Inl e \<Rightarrow> if IsNotFound e then Inr (t\<lparr>pf_clusterRef := None\<rparr>) else Inl e
     | Inr cp \<Rightarrow>
        (let ref = cl_platformRef cp;
             sf = (if req = (nr_namespace ref, nr_name ref) then Inr t
                   else case c_get (k_platforms k) w (nr_namespace ref) (nr_name ref) of
                          Inr p \<Rightarrow> Inr p
                        | Inl e \<Rightarrow> if IsNotFound e then Inr (new_platform '''' '''') else Inl e);
             t = t\<lparr>pf_clusterRef := Some \<lparr>cf_name = cl_name cp, cf_platformRef = ref, cf_services = None\<rparr>\<rparr>
         in case sf of
              Inl e \<Rightarrow> Inl e
            | Inr sf \<Rightarrow>
                Inr (case cl_capabilities cp of
                       Some ws \<Rightarrow>
                         if list_ex (\<lambda>c. c = PlatformServices) ws
                         then js_SetServiceUrlInPlatformStatus sf (di_SetServiceUrlInPlatformStatus sf t)
                         else t
                     | None \<Rightarrow> t)))"

subsection \<open>Reconcile\<close>

datatype action = Initialize | ServiceDeploy | Warm | CreateResources | Monitor

definition actions :: "action list" where
  "actions = [Initialize, ServiceDeploy, Warm, CreateResources, Monitor]"

primrec CanHandle :: "action \<Rightarrow> sonataflow_platform \<Rightarrow> bool" where
  "CanHandle Initialize p = pf_initialize_CanHandle p"
| "CanHandle ServiceDeploy p = service_CanHandle p"
| "CanHandle Warm p = warm_CanHandle p"
| "CanHandle CreateResources p = create_CanHandle p"
| "CanHandle Monitor p = pf_monitor_CanHandle p"

text \<open>\<open>None\<close> is a panic.\<close>

primrec Handle ::
  "action \<Rightarrow> 'w components \<Rightarrow> 'w components \<Rightarrow> int \<Rightarrow> 'w cluster \<Rightarrow> sonataflow_platform \<Rightarrow> 'w \<Rightarrow> 'w handled option"
where
  "Handle Initialize di js now k p w = Some (pf_initialize_Handle now k p w)"
| "Handle ServiceDeploy di js now k p w = service_Handle di js now k p w"
| "Handle Warm di js now k p w = Some (warm_Handle now k p w)"
| "Handle CreateResources di js now k p w = Some (create_Handle now k p w)"
| "Handle Monitor di js now k p w = Some (pf_monitor_Handle now k p w)"

definition chosen_action :: "sonataflow_platform \<Rightarrow> action option" where
  "chosen_action p = find (\<lambda>a. CanHandle a p) actions"

text \<open>What follows a handled action: \<open>Inl\<close> is an early return with its error, \<open>Inr\<close> the platform the
  variable \<open>target\<close> of the function points to afterwards.  An error with a target is recorded as the
  platform's condition, and the error of that write replaces it.\<close>

definition after_action ::
  "int \<Rightarrow> 'w cluster \<Rightarrow> int \<Rightarrow> 'w handled \<Rightarrow> (kerror option + sonataflow_platform) \<times> 'w" where
  "after_action now k generation h =
    (let w = (case hd_event h of None \<Rightarrow> hd_world h | Some (ty, r, m) \<Rightarrow> k_event k ty r m (hd_world h))
     in case hd_error h of
          Some e \<Rightarrow>
            (case hd_target h of
               None \<Rightarrow> (Inl (Some e),
                        k_event k warning_event ''Failed'' (''Failed to update SonataFlowPlaform: '' @ error_text e) w)
             | Some t \<Rightarrow>
                (case SafeUpdatePlatformStatus k
                        (pf_upd_conds (MarkFalse now SucceedConditionType PlatformFailureReason (error_text e)) t) w of
                   (Some e', w) \<Rightarrow> (Inl (Some e'), w)
                 | (None, w) \<Rightarrow> (Inl None, k_event k warning_event ''Failed'' ''Failed to update SonataFlowPlaform'' w)))
        | None \<Rightarrow>
            (let finish = (\<lambda>p w. (Inr p, k_event k normal_event ''Updated'' ''Updated platform condition'' w))
             in case hd_target h of
                  None \<Rightarrow> finish (hd_given h) w
                | Some t \<Rightarrow>
                   (let t = pf_upd_conds (\<lambda>s. s\<lparr>st_observedGeneration := generation\<rparr>) t
                    in case SafeUpdatePlatform k t w of
                         (Some e, w) \<Rightarrow> (Inl (Some e), w)
                       | (None, w) \<Rightarrow>
                          (case SafeUpdatePlatformStatus k t w of
                             (Some e, w) \<Rightarrow> (Inl (Some e), w)
                           | (None, w) \<Rightarrow> finish (if hd_same h then t else hd_given h) w))))"

definition run_action ::
  "'w components \<Rightarrow> 'w components \<Rightarrow> int \<Rightarrow> 'w cluster \<Rightarrow> int \<Rightarrow> sonataflow_platform \<Rightarrow> 'w \<Rightarrow>
   ((kerror option + sonataflow_platform) \<times> 'w) option" where
  "run_action di js now k generation t w =
    (case chosen_action t of
       None \<Rightarrow> Some (Inr t, w)
     | Some a \<Rightarrow> map_option (after_action now k generation) (Handle a di js now k t w))"

definition check_monitoring :: "'w cluster \<Rightarrow> sonataflow_platform \<Rightarrow> 'w \<Rightarrow> kerror option \<times> 'w" where
  "check_monitoring k p w =
    (if IsMonitoringEnabled (Some p) then
       (case k_prometheus k w of
          Inl e \<Rightarrow> (Some e, w)
        | Inr True \<Rightarrow> (None, w)
        | Inr False \<Rightarrow> (None, k_event k warning_event ''PrometheusNotAvailable''
            (''Monitoring is enabled in platform '' @ pf_name p @ '', but Prometheus is not installed'') w))
     else (None, w))"

definition Platform_Reconcile ::
  "'w components \<Rightarrow> 'w components \<Rightarrow> int \<Rightarrow> 'w cluster \<Rightarrow> request \<Rightarrow> 'w \<Rightarrow> ((ctrl_result \<times> kerror option) \<times> 'w) option" where
  "Platform_Reconcile di js now k req w =
    (case IsOperatorAllowedOnNamespace k (fst req) w of
       Inl e \<Rightarrow> Some ((no_result, Some e), w)
     | Inr False \<Rightarrow> Some ((no_result, None), w)
     | Inr True \<Rightarrow>
    (case c_get (k_platforms k) w (fst req) (snd req) of
       Inl e \<Rightarrow> Some ((no_result, if IsNotFound e then None else Some e), w)
     | Inr p0 \<Rightarrow>
        (let inst = pf_upd_conds (InitializeConditions now platform_manager) p0
         in if \<not> IsOperatorHandlerConsideringLock k (fst req) (pf_meta inst) w then Some ((no_result, None), w)
            else
             (case updateIfActiveClusterPlatformExists k req inst w of
                Inl e \<Rightarrow> Some ((no_result, Some e), w)
              | Inr t \<Rightarrow>
                 if om_deletionTimestamp (pf_meta inst) \<noteq> None \<and> ContainsFinalizer (pf_meta inst) TriggerFinalizer
                 then (case pf_cleanupTriggers k inst w of (e, w) \<Rightarrow> Some ((no_result, e), w))
                 else
                  (case check_monitoring k inst w of
                     (Some e, w) \<Rightarrow> Some ((no_result, Some e), w)
                   | (None, w) \<Rightarrow>
                      (case run_action di js now k (om_generation (pf_meta inst)) t w of
                         None \<Rightarrow> None
                       | Some (Inl e, w) \<Rightarrow> Some ((no_result, e), w)
                       | Some (Inr t, w) \<Rightarrow> Some ((if pf_IsReady t then no_result else after_seconds 5, None), w)))))))"

text \<open>The watches: a change of the active cluster platform wakes every platform, one of the platform it
  refers to wakes the others.\<close>

definition pf_key :: "sonataflow_platform \<Rightarrow> request" where
  "pf_key p = (pf_namespace p, pf_name p)"

definition platformRequests :: "'w cluster \<Rightarrow> sonataflow_cluster_platform \<Rightarrow> bool \<Rightarrow> 'w \<Rightarrow> request list" where
  "platformRequests k cp allPlatforms w =
    (case c_list (k_platforms k) w '''' of
       Inl _ \<Rightarrow> []
     | Inr ps \<Rightarrow>
        filter (\<lambda>r. r \<noteq> (nr_namespace (cl_platformRef cp), nr_name (cl_platformRef cp)) \<or> allPlatforms)
          (map pf_key ps))"

definition mapClusterPlatformToPlatformRequests ::
  "'w cluster \<Rightarrow> sonataflow_cluster_platform \<Rightarrow> 'w \<Rightarrow> request list" where
  "mapClusterPlatformToPlatformRequests k cp w =
    (if cl_IsActive cp then platformRequests k cp True w else [])"

definition mapPlatformToPlatformRequests :: "'w cluster \<Rightarrow> sonataflow_platform \<Rightarrow> 'w \<Rightarrow> request list" where
  "mapPlatformToPlatformRequests k p w =
    (case GetActiveClusterPlatform k w of
       Inl _ \<Rightarrow> []
     | Inr cp \<Rightarrow>
        if pf_key p = (nr_namespace (cl_platformRef cp), nr_name (cl_platformRef cp))
        then platformRequests k cp False w else [])"

subsection \<open>The state machine of a platform\<close>

lemma handle_error_no_target:
  assumes "Handle a di js now k p w = Some h" "hd_error h \<noteq> None"
  shows "hd_target h = None"
  using assms
  by (cases a)
    (auto simp: pf_initialize_Handle_def service_Handle_def warm_Handle_def create_Handle_def pf_monitor_Handle_def
      failed_def nothing_done_def done_with_def Let_def
      split: sum.splits bool.splits prod.splits option.splits if_splits)

text \<open>Which action handles a platform is decided by its condition alone: an unknown or duplicated one
  is initialized, a ready one has its services deployed, a warming one is polled, a creating one is
  finished, and any other is handled by nobody.  The monitor action is never chosen.\<close>

theorem action_of_condition:
  "chosen_action p =
    (case pf_cond p of
       None \<Rightarrow> Some Initialize
     | Some c \<Rightarrow>
        (case cd_status c of
           CUnknown \<Rightarrow> Some Initialize
         | CTrue \<Rightarrow> Some ServiceDeploy
         | CFalse \<Rightarrow>
            if cd_reason c = PlatformDuplicatedReason then Some Initialize
            else if cd_reason c = PlatformWarmingReason then Some Warm
            else if cd_reason c = PlatformCreatingReason then Some CreateResources
            else None))"
  by (simp add: chosen_action_def actions_def pf_initialize_CanHandle_def service_CanHandle_def
      warm_CanHandle_def create_CanHandle_def pf_monitor_CanHandle_def platform_predicate_defs
      IsTrue_def IsFalse_def IsUnknown_def GetReason_def platform_reason_defs
      split: option.split cond_status.split)

text \<open>An action that fails answers no platform, so the failure is never recorded in the platform's
  condition: the condition after a failed reconciliation is the one before it.\<close>

theorem failure_not_recorded:
  assumes "Handle a di js now k p w = Some h" "hd_error h = Some e"
  shows "\<exists>w'. after_action now k g h = (Inl (Some e), w')"
  using assms handle_error_no_target[of a di js now k p w h] by (auto simp: after_action_def Let_def)

theorem failure_not_recorded_witness:
  "\<exists>w'. after_action 1 mem_cluster 1 (warm_Handle 1 mem_cluster (new_platform ''ns'' ''p'') empty_world) =
     (Inl (Some (NotFound ''not found'')), w')"
  using failure_not_recorded[of Warm "\<lambda>p w. Some (None, None, p, w)" "\<lambda>p w. Some (None, None, p, w)" 1 mem_cluster
      "new_platform ''ns'' ''p''" empty_world _ "NotFound ''not found''" 1]
  by (simp add: warm_Handle_def failed_def mem_eval)


subsection \<open>Defaults\<close>

lemma update_update_same [simp]: "AList.update a v (AList.update a v m) = AList.update a v m"
  by (induction m) auto

lemma GetTimeout_default: "GetTimeout (default_timeout b) = (if GetTimeout b \<noteq> 0 then truncate_second (GetTimeout b) else 300000000000)"
  by (simp add: default_timeout_def GetTimeout_def)

lemma truncate_second_idem: "truncate_second (truncate_second d) = truncate_second d"
proof -
  let ?m = "1000000000 :: int"
  have t: "truncate_second x = (if x \<ge> 0 then ?m * (x div ?m) else - (?m * ((- x) div ?m)))" for x
    using minus_mod_eq_mult_div[of "x" ?m] minus_mod_eq_mult_div[of "- x" ?m]
    by (auto simp: truncate_second_def)
  show ?thesis by (simp add: t zero_le_mult_iff pos_imp_zdiv_nonneg_iff)
qed

lemma update_same: "map_of m a = Some v \<Longrightarrow> distinct (map fst m) \<Longrightarrow> AList.update a v m = m"
  by (induction m) (auto split: if_splits)

lemma option_enabled_set:
  "IsStrategyOptionEnabled (set_option_value key v b) opt =
    (if opt = key then ParseBool v = Some True else IsStrategyOptionEnabled b opt)"
  by (auto simp: IsStrategyOptionEnabled_def set_option_value_def update_conv' split: option.splits)

text \<open>The steps on the build configuration alone.\<close>

definition cache_on :: "build_config \<Rightarrow> bool" where
  "cache_on b \<longleftrightarrow> IsStrategyOptionEnabled b kanikoBuildCacheEnabled"

definition config_defaults :: "'w cluster \<Rightarrow> string \<Rightarrow> build_config \<Rightarrow> build_config" where
  "config_defaults k nm b =
    (if cache_on b then
       (let b = set_option_value kanikoPVCName nm b
        in if bc_baseImage b = '''' then b\<lparr>bc_baseImage := GetDefaultWorkflowBuilderImageTag (k_cfg k)\<rparr> else b)
     else if bc_strategy b = OperatorBuildStrategy then set_option_value kanikoBuildCacheEnabled ''false'' b
     else b)"

lemma cache_on_simps [simp]:
  "cache_on (b\<lparr>bc_baseImage := i\<rparr>) = cache_on b" "cache_on (default_timeout b) = cache_on b"
  "cache_on (default_options b) = cache_on b"
  "cache_on (set_option_value kanikoPVCName v b) = cache_on b"
  "\<not> cache_on (set_option_value kanikoBuildCacheEnabled ''false'' b)"
  by (auto simp: cache_on_def option_enabled_set kaniko_option_defs ParseBool_def)
    (auto simp: IsStrategyOptionEnabled_def default_timeout_def default_options_def split: option.splits if_splits)

lemma setPlatformDefaults_config:
  "setPlatformDefaults k p = (default_services p)
    \<lparr>pf_buildConfig := config_defaults k (pf_name p) (default_timeout (default_options (pf_buildConfig p))),
     pf_info := [(''goVersion'', k_goVersion k), (''goOS'', k_goOS k)]\<rparr>"
proof -
  let ?q = "upd_config default_timeout (upd_config default_options p)"
  have c: "default_no_cache (default_cache k q) = upd_config (config_defaults k (pf_name q)) q" for q
    by (auto simp: default_cache_def default_no_cache_def config_defaults_def upd_config_def
        IsKanikoCacheEnabled_def cache_on_def[symmetric] Let_def)
  show ?thesis
    by (simp only: setPlatformDefaults_def c)
      (simp add: upd_config_def default_services_def setStatusAdditionalInfo_def pf_name_def)
qed

lemma config_defaults_idem:
  assumes "bc_options b = Some m" "distinct (map fst m)"
  shows "config_defaults k nm (config_defaults k nm b) = config_defaults k nm b"
proof (cases "cache_on b")
  case True
  have i: "GetDefaultWorkflowBuilderImageTag (k_cfg k) \<noteq> ''''"
    by (simp add: GetDefaultWorkflowBuilderImageTag_def GetDefaultImageTag_def)
  have s: "set_option_value kanikoPVCName nm (set_option_value kanikoPVCName nm c) = set_option_value kanikoPVCName nm c"
    for c by (simp add: set_option_value_def)
  have c: "set_option_value kanikoPVCName nm (c\<lparr>bc_baseImage := x\<rparr>) = (set_option_value kanikoPVCName nm c)\<lparr>bc_baseImage := x\<rparr>"
    for c x by (simp add: set_option_value_def)
  show ?thesis using True i by (simp add: config_defaults_def Let_def s c)
next
  case False
  have "bc_strategy (set_option_value kanikoBuildCacheEnabled ''false'' b) = bc_strategy b"
    by (simp add: set_option_value_def)
  then show ?thesis using False by (simp add: config_defaults_def) (simp add: set_option_value_def)
qed

lemma default_steps_idem:
  assumes "GetTimeout b \<noteq> 0 \<Longrightarrow> truncate_second (GetTimeout b) \<noteq> 0"
  shows "default_timeout (default_options (config_defaults k nm (default_timeout (default_options b)))) =
    config_defaults k nm (default_timeout (default_options b))"
proof -
  let ?c = "config_defaults k nm (default_timeout (default_options b))"
  have o: "bc_options ?c \<noteq> None"
    by (auto simp: config_defaults_def Let_def set_option_value_def default_timeout_def default_options_def)
  have t: "bc_timeout ?c = bc_timeout (default_timeout b)"
    by (simp add: config_defaults_def Let_def set_option_value_def default_timeout_def default_options_def
        GetTimeout_def)
  have "truncate_second 300000000000 = 300000000000" by (simp add: truncate_second_def)
  then have "default_timeout ?c = ?c"
    using assms t by (cases ?c) (auto simp: default_timeout_def GetTimeout_def truncate_second_idem
        split: option.splits if_splits)
  moreover have "default_options ?c = ?c" using o by (simp add: default_options_def[of ?c])
  ultimately show ?thesis by simp
qed

lemma default_services_idem: "default_services (default_services p) = default_services p"
proof -
  have "enable_default (enable_default x) = enable_default x" for x
    by (cases x) (auto simp: enable_default_def)
  then show ?thesis by (cases "pf_services p") (simp_all add: default_services_def)
qed

text \<open>Setting the defaults of a platform again changes nothing, so that a platform settles, unless
  its timeout is shorter than a second: that is truncated to zero first, and the next reconciliation
  takes it for unset and makes it five minutes.\<close>

theorem defaults_idempotent:
  fixes k :: "'w cluster"
  assumes "GetTimeout (pf_buildConfig p) \<noteq> 0 \<Longrightarrow> truncate_second (GetTimeout (pf_buildConfig p)) \<noteq> 0"
    and "\<And>m. bc_options (pf_buildConfig p) = Some m \<Longrightarrow> distinct (map fst m)"
  shows "setPlatformDefaults k (setPlatformDefaults k p) = setPlatformDefaults k p"
proof -
  let ?b = "default_timeout (default_options (pf_buildConfig p))"
  obtain m where m: "bc_options ?b = Some m" "distinct (map fst m)"
    using assms(2) by (cases "bc_options (pf_buildConfig p)") (auto simp: default_options_def default_timeout_def)
  have f: "pf_name (default_services p) = pf_name p" "pf_buildConfig (default_services p) = pf_buildConfig p" for p
    by (simp_all add: default_services_def pf_name_def)
  have g: "default_services (p\<lparr>pf_buildConfig := x, pf_info := y\<rparr>) = (default_services p)\<lparr>pf_buildConfig := x, pf_info := y\<rparr>"
    for p x y by (simp add: default_services_def)
  have n: "pf_name (p\<lparr>pf_buildConfig := x, pf_info := y\<rparr>) = pf_name p" for p :: sonataflow_platform and x y
    by (simp add: pf_name_def)
  show ?thesis
    by (simp add: setPlatformDefaults_config f g n default_services_idem default_steps_idem[OF assms(1)]
        config_defaults_idem[OF m])
qed

theorem defaults_idempotent_witness:
  "let p = upd_config (\<lambda>b. b\<lparr>bc_timeout := Some 90500000000\<rparr>) (newEmptySonataFlowPlatform mem_cluster ''ns'');
       q = setPlatformDefaults mem_cluster p
   in setPlatformDefaults mem_cluster q = q \<and> bc_timeout (pf_buildConfig q) = Some 90000000000"
proof -
  let ?p = "upd_config (\<lambda>b. b\<lparr>bc_timeout := Some 90500000000\<rparr>) (newEmptySonataFlowPlatform mem_cluster ''ns'')"
  have "setPlatformDefaults mem_cluster (setPlatformDefaults mem_cluster ?p) = setPlatformDefaults mem_cluster ?p"
    by (rule defaults_idempotent)
      (auto simp: upd_config_def newEmptySonataFlowPlatform_def mem_cluster_def new_platform_def Let_def
        GetTimeout_def truncate_second_def)
  moreover have "bc_timeout (pf_buildConfig (setPlatformDefaults mem_cluster ?p)) = Some 90000000000"
    by (simp add: setPlatformDefaults_config upd_config_def config_defaults_def Let_def set_option_value_def
        default_timeout_def default_options_def GetTimeout_def truncate_second_def)
  ultimately show ?thesis by (simp add: Let_def)
qed

text \<open>A build timeout shorter than a second becomes zero at the first reconciliation and five
  minutes at the second.\<close>

theorem short_timeout_unstable:
  assumes "bc_timeout (pf_buildConfig p) = Some t" and "0 < t" and "t < 1000000000"
  shows "bc_timeout (pf_buildConfig (setPlatformDefaults k p)) = Some 0 \<and>
    bc_timeout (pf_buildConfig (setPlatformDefaults k (setPlatformDefaults k p))) = Some 300000000000"
proof -
  have c: "bc_timeout (config_defaults k nm b) = bc_timeout b" for nm b
    by (simp add: config_defaults_def Let_def set_option_value_def)
  have o: "GetTimeout (default_options b) = GetTimeout b" for b
    by (simp add: GetTimeout_def default_options_def)
  have d: "bc_timeout (default_timeout b) = Some (if GetTimeout b \<noteq> 0 then truncate_second (GetTimeout b) else 300000000000)"
    for b by (simp add: default_timeout_def)
  have s: "bc_timeout (pf_buildConfig (setPlatformDefaults k q)) =
      Some (if GetTimeout (pf_buildConfig q) \<noteq> 0 then truncate_second (GetTimeout (pf_buildConfig q)) else 300000000000)"
    for q by (simp add: setPlatformDefaults_config c d o)
  show ?thesis using assms by (simp add: s GetTimeout_def truncate_second_def)
qed

theorem short_timeout_unstable_witness:
  "bc_timeout (pf_buildConfig (setPlatformDefaults mem_cluster (upd_config (\<lambda>b. b\<lparr>bc_timeout := Some 500000000\<rparr>)
     (new_platform ''ns'' ''p'')))) = Some 0"
  using short_timeout_unstable[of "upd_config (\<lambda>b. b\<lparr>bc_timeout := Some 500000000\<rparr>) (new_platform ''ns'' ''p'')"
      500000000 mem_cluster]
  by (simp add: upd_config_def)

text \<open>Without the Kaniko cache a platform that is not a duplicate is ready after two actions: the
  first leaves it creating, the second ready, whatever its condition was before.\<close>

theorem two_steps_to_ready:
  assumes "wf_status (pf_status p)" and "isPrimaryDuplicate k p w = Inr False"
    and "createPlatformIfNotExists k (platform_with_defaults k p w) w = (None, w1)"
    and "\<not> IsKanikoCacheEnabled (platform_with_defaults k p w)"
  shows "let h1 = pf_initialize_Handle now k p w
    in (\<exists>p1. hd_target h1 = Some p1 \<and> pf_IsCreating p1 \<and> pf_version p1 = SpecVersion \<and>
         chosen_action p1 = Some CreateResources \<and>
         (\<exists>p2. hd_target (create_Handle now' k p1 w2) = Some p2 \<and> pf_IsReady p2 \<and>
            chosen_action p2 = Some ServiceDeploy))"
proof -
  let ?q = "platform_with_defaults k p w"
  let ?p1 = "(mark_platform now PlatformCreatingReason ?q)\<lparr>pf_version := SpecVersion\<rparr>"
  have h1: "pf_initialize_Handle now k p w = done_with ?p1 w1"
    using assms by (simp add: pf_initialize_Handle_def CreateOrUpdateWithDefaults_def Let_def)
  have c1: "pf_cond ?p1 = getCondition (MarkFalse now SucceedConditionType PlatformCreatingReason ''''
      (pf_status ?q)) SucceedConditionType"
    by (simp add: pf_cond_def mark_platform_def pf_upd_conds_def)
  have creating: "pf_IsCreating ?p1"
    unfolding pf_IsCreating_def c1 using assms(1) by (simp add: cond_readers_view)
  then have a1: "chosen_action ?p1 = Some CreateResources"
    by (auto simp: action_of_condition pf_IsCreating_def IsFalse_def GetReason_def platform_reason_defs
        split: option.splits cond_status.splits)
  have ready: "pf_IsReady (pf_upd_conds (MarkTrue now' SucceedConditionType) ?p1)"
    using assms(1) Mark_wf by (simp add: pf_IsReady_def pf_cond_def pf_upd_conds_def mark_platform_def cond_readers_view)
  then have a2: "chosen_action (pf_upd_conds (MarkTrue now' SucceedConditionType) ?p1) = Some ServiceDeploy"
    by (auto simp: action_of_condition pf_IsReady_def IsTrue_def split: option.splits cond_status.splits)
  show ?thesis
    using h1 creating a1 ready a2 by (simp add: Let_def done_with_def create_Handle_def)
qed

theorem two_steps_to_ready_witness:
  "\<exists>p1. hd_target (pf_initialize_Handle 1 mem_cluster (new_platform ''ns'' ''p'') empty_world) = Some p1 \<and>
     (\<exists>p2. hd_target (create_Handle 2 mem_cluster p1 empty_world) = Some p2 \<and> pf_IsReady p2)"
proof -
  let ?p = "new_platform ''ns'' ''p''"
  let ?q = "platform_with_defaults mem_cluster ?p empty_world"
  obtain w1 where w1: "createPlatformIfNotExists mem_cluster ?q empty_world = (None, w1)"
    by (simp add: createPlatformIfNotExists_def mem_eval Let_def)
  have s: "wf_status (pf_status ?p)" by (simp add: new_platform_def wf_status_def wf_conditions_def)
  have d: "isPrimaryDuplicate mem_cluster ?p empty_world = Inr False"
    by (simp add: isPrimaryDuplicate_def listPrimaryPlatforms_def listAllPlatforms_def mem_eval)
  have c: "\<not> IsKanikoCacheEnabled ?q"
    by (simp add: platform_with_defaults_def configureRegistry_def getRegistryAddress_def mem_eval
        setPlatformDefaults_config set_openshift_def set_kubernetes_def upd_config_def IsKanikoCacheEnabled_def
        default_options_def default_timeout_def config_defaults_def cache_on_def set_option_value_def
        IsStrategyOptionEnabled_def new_platform_def default_services_def PlatformClusterKubernetes_def
        PlatformClusterOpenShift_def OperatorBuildStrategy_def PlatformBuildStrategy_def ParseBool_def Let_def)
  show ?thesis
    using two_steps_to_ready[OF s d w1 c, of 1 2 empty_world] by (auto simp: Let_def)
qed

subsection \<open>Locks and the active platform\<close>

text \<open>C32: For a resource without an operator id in a namespace that is not the global operator's own,
  the local operator always takes part; the default global operator stays out exactly when the
  namespace is locked.  Without a lock both of them handle the resource.\<close>

theorem lock_decides:
  assumes "GetOperatorIDAnnotation m = ''''"
    and "k_operatorID g = DefaultPlatformName" and "IsCurrentOperatorGlobal g" and "GetOperatorNamespace g \<noteq> ns"
    and "\<not> IsCurrentOperatorGlobal l" and "IsNamespaceLocked l ns w = IsNamespaceLocked g ns w"
  shows "IsOperatorHandlerConsideringLock l ns m w \<and>
    (IsOperatorHandlerConsideringLock g ns m w \<longleftrightarrow> IsNamespaceLocked g ns w = (False, None))"
  using assms
  by (auto simp: IsOperatorHandlerConsideringLock_def IsOperatorHandler_def Let_def split: prod.splits)

theorem lock_decides_witness:
  "let g = mem_cluster\<lparr>k_operatorID := DefaultPlatformName\<rparr>;
       l = mem_cluster\<lparr>k_watchNamespace := Some ''ns''\<rparr>
   in IsOperatorHandlerConsideringLock l ''ns'' (new_meta ''ns'' ''wf'') empty_world \<and>
      (IsOperatorHandlerConsideringLock g ''ns'' (new_meta ''ns'' ''wf'') empty_world \<longleftrightarrow>
        IsNamespaceLocked g ''ns'' empty_world = (False, None))"
  unfolding Let_def
  by (rule lock_decides)
    (auto simp: GetOperatorIDAnnotation_def new_meta_def nil_map_get_def mem_cluster_def
      IsCurrentOperatorGlobal_def GetOperatorNamespace_def is_space_def IsNamespaceLocked_def
      listPrimaryPlatforms_def listAllPlatforms_def mem_of_def mem_client_def empty_world_def Let_def)

text \<open>C24: When a namespace has an active primary platform the search answers the first one and writes
  nothing.\<close>

theorem active_platform_found:
  assumes "c_list (k_platforms k) w ns = Inr ps" and "p \<in> set ps" and "\<not> pf_IsSecondary p" and "pf_IsActive p"
  shows "\<exists>q\<in>set ps. GetActivePlatform k ns w = (Inr q, w) \<and> \<not> pf_IsSecondary q \<and> pf_IsActive q"
proof -
  have "find pf_IsActive (filter (\<lambda>p. \<not> pf_IsSecondary p) ps) \<noteq> None"
    using assms(2-4) by (auto simp: find_None_iff)
  then obtain q where q: "find pf_IsActive (filter (\<lambda>p. \<not> pf_IsSecondary p) ps) = Some q" by blast
  then have "q \<in> set ps \<and> \<not> pf_IsSecondary q \<and> pf_IsActive q"
    by (auto simp: find_Some_iff dest: nth_mem)
  then show ?thesis using q assms(1)
    by (auto simp: GetActivePlatform_def getLocalPlatform_def listPrimaryPlatforms_def listAllPlatforms_def)
qed

definition ex_active :: sonataflow_platform where
  "ex_active = pf_upd_conds (MarkTrue 1 SucceedConditionType) (new_platform ''ns'' ''mine'')"

theorem active_platform_found_witness:
  "GetActivePlatform mem_cluster ''ns'' (empty_world\<lparr>mw_platforms := [ex_active]\<rparr>) =
     (Inr ex_active, empty_world\<lparr>mw_platforms := [ex_active]\<rparr>)"
proof -
  let ?w = "empty_world\<lparr>mw_platforms := [ex_active]\<rparr>"
  have a: "om_namespace (pf_meta ex_active) = ''ns''" "\<not> pf_IsSecondary ex_active"
    by (simp_all add: ex_active_def pf_upd_conds_def new_platform_def new_meta_def pf_IsSecondary_def nil_map_get_def)
  have "pf_IsActive ex_active" by code_simp
  then show ?thesis
    using active_platform_found[of mem_cluster ?w "''ns''" "[ex_active]" ex_active] a by (simp add: mem_eval)
qed

lemma mem_platforms_get:
  "c_get (k_platforms mem_cluster) w ns nm =
    (case find (\<lambda>p. pf_namespace p = ns \<and> pf_name p = nm) (mw_platforms w) of
       None \<Rightarrow> Inl (NotFound ''not found'') | Some p \<Rightarrow> Inr p)"
  by (simp add: mem_eval pf_namespace_def pf_name_def)

lemma mem_platforms_write:
  assumes "c_get (k_platforms mem_cluster) w (pf_namespace p) (pf_name p) = Inr q"
  shows "\<exists>w'. c_update (k_platforms mem_cluster) w p = (None, w') \<and> c_status (k_platforms mem_cluster) w p = (None, w') \<and>
    c_get (k_platforms mem_cluster) w' (pf_namespace p) (pf_name p) = Inr p"
proof -
  have f: "store_find (\<lambda>x. om_namespace (pf_meta x)) (\<lambda>x. om_name (pf_meta x)) (pf_namespace p) (pf_name p)
      (mw_platforms w) = Some q"
    using assms by (simp add: mem_cluster_def mem_of_def mem_client_def Let_def split: option.splits)
  then show ?thesis
    by (simp add: mem_cluster_def mem_of_def mem_client_def Let_def store_find_set pf_namespace_def pf_name_def)
qed

lemma copy_meta [simp]: "pf_meta (copy_spec t p) = pf_meta p" "pf_meta (copy_status t p) = pf_meta p"
  by (simp_all add: copy_spec_def copy_status_def)

lemma mem_safe_updates:
  assumes "c_get (k_platforms mem_cluster) w (pf_namespace t) (pf_name t) = Inr q"
  shows "\<exists>w1 w2. SafeUpdatePlatformStatus mem_cluster t w = (None, w1) \<and> SafeUpdatePlatform mem_cluster t w1 = (None, w2) \<and>
    c_get (k_platforms mem_cluster) w2 (pf_namespace t) (pf_name t) = Inr (copy_spec t (copy_status t q))"
proof -
  have q: "pf_namespace q = pf_namespace t" "pf_name q = pf_name t"
    using assms by (auto simp: mem_platforms_get find_Some_iff split: option.splits)
  have r: "retry_conflict n f w = f w" if "fst (f w) = None" for n f and w :: mem_world
    using that by (cases n; cases "f w") auto
  let ?q1 = "copy_status t q"
  have n: "pf_namespace (copy_spec t x) = pf_namespace x" "pf_name (copy_spec t x) = pf_name x"
    "pf_namespace (copy_status t x) = pf_namespace x" "pf_name (copy_status t x) = pf_name x" for x
    by (simp_all add: pf_namespace_def pf_name_def)
  obtain w1 where w1: "c_status (k_platforms mem_cluster) w ?q1 = (None, w1)"
    "c_get (k_platforms mem_cluster) w1 (pf_namespace t) (pf_name t) = Inr ?q1"
    using mem_platforms_write[of w ?q1 q] assms by (auto simp: n q)
  obtain w2 where w2: "c_update (k_platforms mem_cluster) w1 (copy_spec t ?q1) = (None, w2)"
    "c_get (k_platforms mem_cluster) w2 (pf_namespace t) (pf_name t) = Inr (copy_spec t ?q1)"
    using mem_platforms_write[of w1 "copy_spec t ?q1" ?q1] w1(2) by (auto simp: n q)
  have "SafeUpdatePlatformStatus mem_cluster t w = (None, w1)"
    unfolding SafeUpdatePlatformStatus_def RetryOnConflict_def by (subst r) (simp_all add: assms w1)
  moreover have "SafeUpdatePlatform mem_cluster t w1 = (None, w2)"
    unfolding SafeUpdatePlatform_def RetryOnConflict_def by (subst r) (simp_all add: w1 w2)
  ultimately show ?thesis using w2 by blast
qed

text \<open>When a namespace has platforms but none of them is active and primary, for instance only
  secondary ones, and one of them has the default name, the search replaces its specification and its
  status by the defaults.\<close>

theorem inactive_platform_overwritten:
  assumes "\<And>p. p \<in> set (mw_platforms w) \<Longrightarrow> pf_namespace p = ns \<Longrightarrow> pf_IsSecondary p \<or> \<not> pf_IsActive p"
    and "find (\<lambda>p. pf_namespace p = ns \<and> pf_name p = defaultSonataFlowPlatformName) (mw_platforms w) = Some q"
    and "ns \<noteq> ''''"
  shows "\<exists>t w'. GetActivePlatform mem_cluster ns w = (Inr t, w') \<and>
    t = platform_with_defaults mem_cluster (newEmptySonataFlowPlatform mem_cluster ns) w \<and>
    c_get (k_platforms mem_cluster) w' ns defaultSonataFlowPlatformName = Inr (copy_spec t (copy_status t q))"
proof -
  let ?t = "platform_with_defaults mem_cluster (newEmptySonataFlowPlatform mem_cluster ns) w"
  have t: "pf_namespace ?t = ns" "pf_name ?t = defaultSonataFlowPlatformName"
    by (simp_all add: pf_namespace_def pf_name_def newEmptySonataFlowPlatform_def new_platform_def new_meta_def Let_def)
  have l: "c_list (k_platforms mem_cluster) w ns = Inr (filter (\<lambda>p. ns = '''' \<or> pf_namespace p = ns) (mw_platforms w))"
    by (simp add: mem_cluster_def mem_of_def mem_client_def Let_def pf_namespace_def)
  have none: "find pf_IsActive (filter (\<lambda>p. \<not> pf_IsSecondary p) (filter (\<lambda>p. ns = '''' \<or> pf_namespace p = ns)
      (mw_platforms w))) = None"
    using assms(1,3) by (auto simp: find_None_iff)
  have g: "c_get (k_platforms mem_cluster) w (pf_namespace ?t) (pf_name ?t) = Inr q"
    by (simp add: t mem_platforms_get assms(2))
  obtain w1 w2 where s: "SafeUpdatePlatformStatus mem_cluster ?t w = (None, w1)"
    "SafeUpdatePlatform mem_cluster ?t w1 = (None, w2)"
    "c_get (k_platforms mem_cluster) w2 (pf_namespace ?t) (pf_name ?t) = Inr (copy_spec ?t (copy_status ?t q))"
    using mem_safe_updates[OF g] by blast
  have "CreateOrUpdateWithDefaults mem_cluster (newEmptySonataFlowPlatform mem_cluster ns) w = (None, ?t, w2)"
    using g s by (simp add: CreateOrUpdateWithDefaults_def createPlatformIfNotExists_def Let_def)
  then have "GetActivePlatform mem_cluster ns w = (Inr ?t, w2)"
    by (simp add: GetActivePlatform_def getLocalPlatform_def listPrimaryPlatforms_def listAllPlatforms_def l none del: filter_filter)
  then show ?thesis using s(3) t by auto
qed

definition ex_secondary :: sonataflow_platform where
  "ex_secondary = (new_platform ''ns'' ''sonataflow-platform'')
     \<lparr>pf_meta := (new_meta ''ns'' ''sonataflow-platform'')\<lparr>om_annotations :=
        Some [(SecondaryPlatformAnnotation, ''true'')]\<rparr>, pf_monitoring := Some True\<rparr>"

theorem inactive_platform_overwritten_witness:
  "pf_monitoring ex_secondary = Some True \<and>
   (\<exists>q w'. GetActivePlatform mem_cluster ''ns'' (empty_world\<lparr>mw_platforms := [ex_secondary]\<rparr>) = (Inr q, w') \<and>
      (\<exists>p. c_get (k_platforms mem_cluster) w' ''ns'' ''sonataflow-platform'' = Inr p \<and>
         pf_buildConfig p = pf_buildConfig q \<and> pf_monitoring p = pf_monitoring q))"
proof -
  have "\<exists>t w'. GetActivePlatform mem_cluster ''ns'' (empty_world\<lparr>mw_platforms := [ex_secondary]\<rparr>) = (Inr t, w') \<and>
    t = platform_with_defaults mem_cluster (newEmptySonataFlowPlatform mem_cluster ''ns'')
      (empty_world\<lparr>mw_platforms := [ex_secondary]\<rparr>) \<and>
    c_get (k_platforms mem_cluster) w' ''ns'' defaultSonataFlowPlatformName =
      Inr (copy_spec t (copy_status t ex_secondary))"
    by (rule inactive_platform_overwritten)
      (simp_all add: ex_secondary_def pf_namespace_def pf_name_def new_meta_def new_platform_def
        pf_IsSecondary_def nil_map_get_def map_get_def defaultSonataFlowPlatformName_def)
  then show ?thesis
    by (force simp: defaultSonataFlowPlatformName_def copy_spec_def copy_status_def ex_secondary_def)
qed

end
