(* ===== verification/Workflow_Objects.thy ===== *)
theory Workflow_Objects
  imports Platform_Controller
begin

text \<open>
  The objects the operator creates for a workflow: labels and names (\<open>workflowproj/operator.go\<close>) and the
  creators of \<open>internal/controller/profiles/common/object_creators.go\<close>.  \<open>mergo.Merge\<close>, \<open>kmeta.ChildName\<close>
  and \<open>SetControllerReference\<close> are not in the repository; they come in the record \<open>libs\<close>.
\<close>

text \<open>\<open>lb_mergeContainer\<close> and \<open>lb_mergePod\<close> merge their second argument into the first, overriding it;
  \<open>lb_mergeLabels\<close> adds without overriding.  \<open>lb_setOwner\<close> is the error of setting the first object as
  the controller of the second.  \<open>lb_errorType\<close> is what \<open>reflect.TypeOf(err).String()\<close> prints, which the
  model of an error does not keep.\<close>

record libs =
  lb_mergeContainer :: "container \<Rightarrow> container \<Rightarrow> kerror + container"
  lb_mergePod :: "pod_spec \<Rightarrow> pod_spec \<Rightarrow> kerror + pod_spec"
  lb_mergeLabels :: "gomap \<Rightarrow> gomap \<Rightarrow> gomap"
  lb_childName :: "string \<Rightarrow> string \<Rightarrow> string"
  lb_setOwner :: "object_meta \<Rightarrow> object_meta \<Rightarrow> kerror option"
  lb_errorType :: "kerror \<Rightarrow> string"

subsection \<open>Names and labels\<close>

definition ApplicationPropertiesFileName :: string where
  "ApplicationPropertiesFileName = ''application.properties''"
definition LabelService :: string where "LabelService = Domain @ ''/service''"
definition LabelWorkflow :: string where "LabelWorkflow = Domain @ ''/workflow-app''"
definition LabelK8SName :: string where "LabelK8SName = ''app.kubernetes.io/name''"
definition LabelK8SComponent :: string where "LabelK8SComponent = ''app.kubernetes.io/component''"
definition LabelK8SPartOF :: string where "LabelK8SPartOF = ''app.kubernetes.io/part-of''"
definition LabelK8SManagedBy :: string where "LabelK8SManagedBy = ''app.kubernetes.io/managed-by''"
definition LabelWorkflowNamespace :: string where "LabelWorkflowNamespace = Domain @ ''/workflow-namespace''"
definition DefaultServicePortName :: string where "DefaultServicePortName = ''h2c''"
definition DefaultHTTPWorkflowPortInt :: int where "DefaultHTTPWorkflowPortInt = 8080"
definition QuarkusHealthPathReady :: string where "QuarkusHealthPathReady = ''/q/health/ready''"
definition QuarkusHealthPathLive :: string where "QuarkusHealthPathLive = ''/q/health/live''"
definition QuarkusHealthPathStarted :: string where "QuarkusHealthPathStarted = ''/q/health/started''"

lemmas label_defs = LabelService_def LabelWorkflow_def LabelK8SName_def LabelK8SComponent_def
  LabelK8SPartOF_def LabelK8SManagedBy_def LabelWorkflowNamespace_def LabelApp_def LabelAppNamespace_def Domain_def

definition GetWorkflowUserPropertiesConfigMapName :: "sonataflow \<Rightarrow> string" where
  "GetWorkflowUserPropertiesConfigMapName wo = sf_name wo @ ''-props''"

definition GetWorkflowManagedPropertiesConfigMapName :: "sonataflow \<Rightarrow> string" where
  "GetWorkflowManagedPropertiesConfigMapName wo = sf_name wo @ ''-managed-props''"

definition GetManagedPropertiesFileName :: "sonataflow \<Rightarrow> string" where
  "GetManagedPropertiesFileName wo =
    ''application-'' @ (if IsDevProfile (om_annotations (sf_meta wo)) then ''dev'' else ''prod'') @ ''.properties''"

definition GetDefaultLabels :: "sonataflow \<Rightarrow> gomap" where
  "GetDefaultLabels wo =
    (let m = [(LabelWorkflow, sf_name wo), (LabelK8SName, sf_name wo), (LabelK8SComponent, ''serverless-workflow''),
              (LabelK8SManagedBy, ''sonataflow-operator''), (LabelApp, sf_name wo),
              (LabelWorkflowNamespace, sf_namespace wo)]
     in case ss_platform (sf_status wo) of None \<Rightarrow> m | Some p \<Rightarrow> AList.update LabelK8SPartOF (nr_name p) m)"

definition GetSelectorLabels :: "sonataflow \<Rightarrow> gomap" where
  "GetSelectorLabels wo = AList.delete LabelK8SPartOF (GetDefaultLabels wo)"

definition GetMergedLabels :: "sonataflow \<Rightarrow> gomap" where
  "GetMergedLabels wo = AList.merge (map_init (om_labels (sf_meta wo))) (GetDefaultLabels wo)"

definition SetMergedLabels :: "sonataflow \<Rightarrow> object_meta \<Rightarrow> object_meta" where
  "SetMergedLabels wo m = m\<lparr>om_labels := Some (GetMergedLabels wo)\<rparr>"

definition labelled_meta :: "sonataflow \<Rightarrow> string \<Rightarrow> object_meta" where
  "labelled_meta wo name = (new_meta (sf_namespace wo) name)\<lparr>om_labels := Some (GetMergedLabels wo)\<rparr>"

definition CreateNewUserPropsConfigMap :: "sonataflow \<Rightarrow> config_map" where
  "CreateNewUserPropsConfigMap wo =
    \<lparr>cm_meta = labelled_meta wo (GetWorkflowUserPropertiesConfigMapName wo),
     cm_data = Some [(ApplicationPropertiesFileName, '''')]\<rparr>"

definition CreateNewManagedPropsConfigMap :: "sonataflow \<Rightarrow> string \<Rightarrow> config_map" where
  "CreateNewManagedPropsConfigMap wo props =
    \<lparr>cm_meta = labelled_meta wo (GetWorkflowManagedPropertiesConfigMapName wo),
     cm_data = Some [(GetManagedPropertiesFileName wo, props)]\<rparr>"

subsection \<open>The workflow's container\<close>

definition health_probe :: "string \<Rightarrow> http_probe" where
  "health_probe path =
    \<lparr>hp_path = path, hp_port = DefaultHTTPWorkflowPortInt, hp_initialDelay = 0, hp_timeout = 3, hp_period = 15,
     hp_failureThreshold = 0\<rparr>"

definition defaultContainerPort :: container_port where
  "defaultContainerPort =
    \<lparr>cp_name = DefaultServicePortName, cp_containerPort = DefaultHTTPWorkflowPortInt, cp_protocol = ''TCP''\<rparr>"

definition defaultFlowContainer :: container where
  "defaultFlowContainer =
    \<lparr>ct_name = DefaultContainerName, ct_image = '''', ct_imagePullPolicy = '''', ct_args = [], ct_workingDir = '''',
     ct_env = [], ct_mounts = [], ct_ports = [defaultContainerPort],
     ct_extras = no_extras\<lparr>ce_liveness := Some (health_probe QuarkusHealthPathLive),
       ce_readiness := Some (health_probe QuarkusHealthPathReady),
       ce_startup := Some ((health_probe QuarkusHealthPathStarted)\<lparr>hp_initialDelay := 10, hp_failureThreshold := 5\<rparr>),
       ce_secured := True\<rparr>\<rparr>"

definition ConfigurePersistence :: "container \<Rightarrow> persistence_spec \<Rightarrow> string \<Rightarrow> string \<Rightarrow> container" where
  "ConfigurePersistence c cfg schema ns =
    (case pn_postgresql cfg of
       None \<Rightarrow> c
     | Some q \<Rightarrow> c\<lparr>ct_env := ct_env c @ ConfigurePostgreSQLEnv q schema ns\<rparr>)"

definition default_port :: "container_port \<Rightarrow> bool" where
  "default_port p \<longleftrightarrow> cp_name p = DefaultServicePortName \<or> cp_containerPort p = DefaultHTTPWorkflowPortInt"

text \<open>The loop over the ports: the first port that looks like the default one is replaced by it.\<close>

fun fix_port :: "container_port list \<Rightarrow> container_port list" where
  "fix_port [] = [defaultContainerPort]"
| "fix_port (p # ps) = (if default_port p then defaultContainerPort # ps else p # fix_port ps)"

definition defaultContainer ::
  "libs \<Rightarrow> sonataflow \<Rightarrow> sonataflow_platform option \<Rightarrow> container outcome" where
  "defaultContainer lb wo pl =
    (case lb_mergeContainer lb defaultFlowContainer (ToContainer (pt_container (sp_podTemplate (sf_spec wo)))) of
       Inl e \<Rightarrow> Fail e
     | Inr c \<Rightarrow>
        (let finish = (\<lambda>c. Ret (c\<lparr>ct_name := DefaultContainerName, ct_ports := fix_port (ct_ports c)\<rparr>))
         in if IsDevProfile (om_annotations (sf_meta wo)) then finish c
            else (case RetrieveConfiguration (sp_persistence (sf_spec wo))
                         (Option.bind pl pf_persistence) (sf_name wo) of
                    Panic \<Rightarrow> Panic
                  | Fail e \<Rightarrow> Fail e
                  | Ret None \<Rightarrow> finish c
                  | Ret (Some p) \<Rightarrow> finish (ConfigurePersistence c p (sf_name wo) (sf_namespace wo)))))"

subsection \<open>Deployments\<close>

definition getReplicasOrDefault :: "sonataflow \<Rightarrow> int" where
  "getReplicasOrDefault wo =
    (case pt_replicas (sp_podTemplate (sf_spec wo)) of None \<Rightarrow> 1 | Some n \<Rightarrow> n)"

definition empty_pod_spec :: pod_spec where
  "empty_pod_spec = \<lparr>ps_containers = [], ps_initContainers = [], ps_volumes = []\<rparr>"

text \<open>What the two creators of deployments share: the user's pod with the workflow's container.\<close>

definition workflow_pod :: "libs \<Rightarrow> sonataflow \<Rightarrow> sonataflow_platform option \<Rightarrow> pod_spec outcome" where
  "workflow_pod lb wo pl =
    (case lb_mergePod lb empty_pod_spec (ToPodSpec (pt_podSpec (sp_podTemplate (sf_spec wo)))) of
       Inl e \<Rightarrow> Fail e
     | Inr ps \<Rightarrow>
        (case defaultContainer lb wo pl of
           Ret c \<Rightarrow> Ret (AddOrReplaceContainer DefaultContainerName c ps)
         | Fail e \<Rightarrow> Fail e
         | Panic \<Rightarrow> Panic))"

definition DeploymentCreator :: "libs \<Rightarrow> sonataflow \<Rightarrow> sonataflow_platform option \<Rightarrow> deployment outcome" where
  "DeploymentCreator lb wo pl =
    (case workflow_pod lb wo pl of
       Ret ps \<Rightarrow>
         Ret \<lparr>dp_meta = labelled_meta wo (sf_name wo), dp_paused = False, dp_selector = GetSelectorLabels wo,
              dp_replicas = Some (getReplicasOrDefault wo), dp_strategy = '''',
              dp_templateLabels = GetMergedLabels wo, dp_templateAnnotations = None, dp_pod = ps,
              dp_conditions = []\<rparr>
     | Fail e \<Rightarrow> Fail e
     | Panic \<Rightarrow> Panic)"

definition KServiceCreator :: "libs \<Rightarrow> sonataflow \<Rightarrow> sonataflow_platform option \<Rightarrow> kservice outcome" where
  "KServiceCreator lb wo pl =
    (case workflow_pod lb wo pl of
       Ret ps \<Rightarrow>
         Ret \<lparr>ks_meta = labelled_meta wo (sf_name wo), ks_templateLabels = GetMergedLabels wo, ks_pod = ps,
              ks_url = None, ks_latestCreatedRevisionName = ''''\<rparr>
     | Fail e \<Rightarrow> Fail e
     | Panic \<Rightarrow> Panic)"

definition ServiceCreator :: "sonataflow \<Rightarrow> service" where
  "ServiceCreator wo =
    \<lparr>sv_meta = labelled_meta wo (sf_name wo), sv_type = '''', sv_clusterIP = '''', sv_externalName = '''',
     sv_selector = GetMergedLabels wo,
     sv_ports = [\<lparr>sp_name = ''web'', sp_protocol = ''TCP'', sp_port = 80,
                  sp_targetPort = DefaultHTTPWorkflowPortInt, sp_nodePort = 0\<rparr>]\<rparr>"

definition ServiceMonitorCreator :: "sonataflow \<Rightarrow> service_monitor" where
  "ServiceMonitorCreator wo =
    \<lparr>sm_meta = labelled_meta wo (sf_name wo),
     sm_matchLabels = [(LabelWorkflow, sf_name wo), (LabelWorkflowNamespace, sf_namespace wo)],
     sm_port = ''web'', sm_path = ''/q/metrics''\<rparr>"

subsection \<open>Eventing\<close>

definition knativeServingAPIVersion :: string where "knativeServingAPIVersion = ''serving.knative.dev/v1''"

text \<open>The subject of a sink binding is a deployment or a Knative service, the subscriber of a trigger a
  service of either kind.\<close>

definition sink_subject :: "sonataflow \<Rightarrow> kreference" where
  "sink_subject wo =
    (if IsKnativeDeployment wo
     then \<lparr>kr_kind = ''Service'', kr_namespace = sf_namespace wo, kr_name = sf_name wo,
           kr_apiVersion = knativeServingAPIVersion\<rparr>
     else \<lparr>kr_kind = ''Deployment'', kr_namespace = sf_namespace wo, kr_name = sf_name wo,
           kr_apiVersion = ''apps/v1''\<rparr>)"

definition trigger_subscriber :: "sonataflow \<Rightarrow> kreference" where
  "trigger_subscriber wo =
    \<lparr>kr_kind = ''Service'', kr_namespace = sf_namespace wo, kr_name = sf_name wo,
     kr_apiVersion = (if IsKnativeDeployment wo then knativeServingAPIVersion else ''v1'')\<rparr>"

text \<open>The workflow and the platform are returned as \<open>GetWorkflowSink\<close> leaves them.\<close>

definition SinkBindingCreator ::
  "'w cluster \<Rightarrow> sonataflow \<Rightarrow> sonataflow_platform option \<Rightarrow> 'w \<Rightarrow>
   sink_binding option outcome \<times> sonataflow \<times> sonataflow_platform option" where
  "SinkBindingCreator k wo pl w =
    (case GetWorkflowSink k (Some wo) pl w of
       (sink, wo', pl') \<Rightarrow>
         ((case sink of
             Panic \<Rightarrow> Panic
           | Fail e \<Rightarrow> Fail e
           | Ret None \<Rightarrow> Ret None
           | Ret (Some d) \<Rightarrow>
              Ret (Some \<lparr>sn_meta = labelled_meta wo (ToLower (sf_name wo @ ''-sb'')), sn_sink = d,
                         sn_subject = sink_subject wo, sn_sinkProvided = None\<rparr>)),
          (case wo' of None \<Rightarrow> wo | Some v \<Rightarrow> v), pl'))"

text \<open>The broker of a platform, or of the platform its cluster platform refers to, and so on: the answer
  is \<open>None\<close> when the search does not end.\<close>

partial_function (option) getBrokerRefFromPlatform ::
  "'w cluster \<Rightarrow> 'w \<Rightarrow> sonataflow_platform \<Rightarrow> (kerror + kreference option) option" where
  "getBrokerRefFromPlatform k w p =
    (case Option.bind (pf_broker p) de_ref of
       Some r \<Rightarrow> Some (Inr (Some (if kr_namespace r = '''' then r\<lparr>kr_namespace := pf_namespace p\<rparr> else r)))
     | None \<Rightarrow>
        (case pf_clusterRef p of
           None \<Rightarrow> Some (Inr None)
         | Some c \<Rightarrow>
            if nr_name (cf_platformRef c) = '''' then Some (Inr None)
            else (case c_get (k_platforms k) w (nr_namespace (cf_platformRef c)) (nr_name (cf_platformRef c)) of
                    Inl e \<Rightarrow> Some (if IsNotFound e then Inr None else Inl e)
                  | Inr q \<Rightarrow> getBrokerRefFromPlatform k w q)))"

text \<open>A source of the workflow for the type of the event goes first; one without a reference is
  dereferenced, as a nil platform is.\<close>

definition getBrokerRefForEventType ::
  "'w cluster \<Rightarrow> 'w \<Rightarrow> string \<Rightarrow> sonataflow \<Rightarrow> sonataflow_platform option \<Rightarrow> kreference option outcome option" where
  "getBrokerRefForEventType k w ty wo pl =
    (case find (\<lambda>s. sc_eventType s = ty) (sp_sources (sf_spec wo)) of
       Some s \<Rightarrow>
         Some (case de_ref (sc_destination s) of
                 None \<Rightarrow> Panic
               | Some r \<Rightarrow> Ret (Some (if kr_namespace r = '''' then r\<lparr>kr_namespace := sf_namespace wo\<rparr> else r)))
     | None \<Rightarrow>
        (case pl of
           None \<Rightarrow> Some Panic
         | Some p \<Rightarrow> map_option (case_sum Fail Ret) (getBrokerRefFromPlatform k w p)))"

definition workflow_trigger :: "libs \<Rightarrow> sonataflow \<Rightarrow> flow_event \<Rightarrow> kreference \<Rightarrow> trigger" where
  "workflow_trigger lb wo ev r =
    \<lparr>tg_meta = (new_meta (kr_namespace r)
        (lb_childName lb (ToLower (sf_name wo @ ''-'' @ fe_name ev @ ''-'')) (om_uid (sf_meta wo))))
        \<lparr>om_labels := Some (GetMergedLabels wo)\<rparr>,
     tg_broker = kr_name r, tg_filterType = fe_type ev, tg_subscriber = trigger_subscriber wo, tg_path = ''''\<rparr>"

fun triggers_for ::
  "'w cluster \<Rightarrow> libs \<Rightarrow> sonataflow \<Rightarrow> sonataflow_platform option \<Rightarrow> 'w \<Rightarrow> flow_event list \<Rightarrow>
   trigger list outcome option" where
  "triggers_for k lb wo pl w [] = Some (Ret [])"
| "triggers_for k lb wo pl w (ev # evs) =
    (if fe_kind ev = EventKindProduced then triggers_for k lb wo pl w evs
     else
      (case getBrokerRefForEventType k w (fe_type ev) wo pl of
         None \<Rightarrow> None
       | Some Panic \<Rightarrow> Some Panic
       | Some (Fail e) \<Rightarrow> Some (Fail e)
       | Some (Ret None) \<Rightarrow> triggers_for k lb wo pl w evs
       | Some (Ret (Some r)) \<Rightarrow>
          if \<not> IsKnativeBroker r then triggers_for k lb wo pl w evs
          else (case ValidateBroker k (kr_name r) (kr_namespace r) w of
                  Some e \<Rightarrow> Some (Fail e)
                | None \<Rightarrow>
                   (case triggers_for k lb wo pl w evs of
                      Some (Ret ts) \<Rightarrow> Some (Ret (workflow_trigger lb wo ev r # ts))
                    | x \<Rightarrow> x))))"

definition TriggersCreator ::
  "'w cluster \<Rightarrow> libs \<Rightarrow> sonataflow \<Rightarrow> sonataflow_platform option \<Rightarrow> 'w \<Rightarrow> trigger list outcome option" where
  "TriggersCreator k lb wo pl w = triggers_for k lb wo pl w (fl_events (sp_flow (sf_spec wo)))"

subsection \<open>Facts about the objects\<close>

lemma map_of_default_labels: "map_of (GetSelectorLabels wo) l = Some v \<Longrightarrow> map_of (GetMergedLabels wo) l = Some v"
proof -
  assume a: "map_of (GetSelectorLabels wo) l = Some v"
  then have d: "map_of (GetDefaultLabels wo) l = Some v"
    by (auto simp: GetSelectorLabels_def delete_conv' split: if_splits)
  have "map_of (GetMergedLabels wo) l = (map_of (map_init (om_labels (sf_meta wo))) ++ map_of (GetDefaultLabels wo)) l"
    by (simp add: GetMergedLabels_def merge_conv')
  then show ?thesis using d by simp
qed

text \<open>A set of platforms without a broker that refer to each other is never left.\<close>

lemma broker_search_closed:
  assumes "\<And>q. q \<in> S \<Longrightarrow> Option.bind (pf_broker q) de_ref = None \<and>
      (\<exists>c r. pf_clusterRef q = Some c \<and> nr_name (cf_platformRef c) \<noteq> '''' \<and> r \<in> S \<and>
        c_get (k_platforms k) w (nr_namespace (cf_platformRef c)) (nr_name (cf_platformRef c)) = Inr r)"
    and "p \<in> S"
  shows "getBrokerRefFromPlatform k w p = None"
proof -
  have "q \<in> S \<longrightarrow> False" if r: "getBrokerRefFromPlatform k w q = Some y" for q y
  proof -
    have "k' = k \<longrightarrow> w' = w \<longrightarrow> q' \<notin> S" if "getBrokerRefFromPlatform k' w' q' = Some y" for k' w' q' y
    proof (rule getBrokerRefFromPlatform.raw_induct[of "\<lambda>k' w' q' y. k' = k \<longrightarrow> w' = w \<longrightarrow> q' \<notin> S" k' w' q' y, OF _ that],
        intro impI notI)
      fix f :: "_ \<Rightarrow> _ \<Rightarrow> _ \<Rightarrow> _ option" and k' w' q' y
      assume ih: "\<And>k' w' q' y. f k' w' q' = Some y \<Longrightarrow> k' = k \<longrightarrow> w' = w \<longrightarrow> q' \<notin> S"
        and e: "(case Option.bind (pf_broker q') de_ref of
               Some r \<Rightarrow> Some (Inr (Some (if kr_namespace r = '''' then r\<lparr>kr_namespace := pf_namespace q'\<rparr> else r)))
             | None \<Rightarrow>
                (case pf_clusterRef q' of
                   None \<Rightarrow> Some (Inr None)
                 | Some c \<Rightarrow>
                    if nr_name (cf_platformRef c) = '''' then Some (Inr None)
                    else (case c_get (k_platforms k') w' (nr_namespace (cf_platformRef c)) (nr_name (cf_platformRef c)) of
                            Inl e \<Rightarrow> Some (if IsNotFound e then Inr None else Inl e)
                          | Inr q \<Rightarrow> f k' w' q))) = Some y"
        and a: "k' = k" "w' = w" and q: "q' \<in> S"
      from assms(1)[OF q] obtain c r where "Option.bind (pf_broker q') de_ref = None" "pf_clusterRef q' = Some c"
        "nr_name (cf_platformRef c) \<noteq> ''''" "r \<in> S"
        "c_get (k_platforms k) w (nr_namespace (cf_platformRef c)) (nr_name (cf_platformRef c)) = Inr r" by blast
      then show False using ih e a by auto
    qed
    then show ?thesis using r by blast
  qed
  then show ?thesis using assms(2) by (cases "getBrokerRefFromPlatform k w p") auto
qed

text \<open>C34: The platform that the active cluster platform refers to gets a reference to itself; when it has
  no broker, the search for the broker of an event type never ends, for it and for every platform of
  the cluster without a broker of its own.\<close>

theorem broker_search_diverges:
  assumes "GetActiveClusterPlatform k w = Inr cp" and "cl_platformRef cp = r" and "nr_name r \<noteq> ''''"
    and "updateIfActiveClusterPlatformExists k (nr_namespace r, nr_name r) t w = Inr t'"
    and "pf_broker t = None" and "c_get (k_platforms k) w' (nr_namespace r) (nr_name r) = Inr t'"
    and "pf_broker p = None" and "pf_clusterRef p = Some c" and "cf_platformRef c = r"
  shows "getBrokerRefFromPlatform k w' t' = None \<and> getBrokerRefFromPlatform k w' p = None"
proof -
  have t': "pf_broker t' = None \<and> (\<exists>c'. pf_clusterRef t' = Some c' \<and> cf_platformRef c' = r)"
    using assms(1,2,4,5)
    by (auto simp: updateIfActiveClusterPlatformExists_def Let_def di_SetServiceUrlInPlatformStatus_def
        js_SetServiceUrlInPlatformStatus_def split: option.splits if_splits)
  have "getBrokerRefFromPlatform k w' q = None" if "q \<in> {t', p}" for q
    using broker_search_closed[of "{t', p}" k w' q] t' assms(3,6-9) that by fastforce
  then show ?thesis by blast
qed

definition ex_cluster_platform :: sonataflow_cluster_platform where
  "ex_cluster_platform =
    \<lparr>cl_meta = new_meta '''' ''cp'', cl_platformRef = \<lparr>nr_name = ''p'', nr_namespace = ''ns''\<rparr>,
     cl_capabilities = None,
     cl_status = MarkTrue 1 SucceedConditionType \<lparr>st_conditions = [], st_observedGeneration = 0\<rparr>, cl_version = ''''\<rparr>"

definition ex_self_referring :: sonataflow_platform where
  "ex_self_referring = (new_platform ''ns'' ''p'')
     \<lparr>pf_clusterRef := Some \<lparr>cf_name = ''cp'', cf_platformRef = \<lparr>nr_name = ''p'', nr_namespace = ''ns''\<rparr>,
        cf_services = None\<rparr>\<rparr>"

theorem broker_search_diverges_witness:
  "getBrokerRefFromPlatform mem_cluster (empty_world\<lparr>mw_platforms := [ex_self_referring]\<rparr>) ex_self_referring = None"
proof -
  let ?w = "empty_world\<lparr>mw_clusterPlatforms := [ex_cluster_platform]\<rparr>"
  have "cl_IsActive ex_cluster_platform" "\<not> cl_IsSecondary ex_cluster_platform" by code_simp+
  then have a: "GetActiveClusterPlatform mem_cluster ?w = Inr ex_cluster_platform"
    by (simp add: GetActiveClusterPlatform_def getClusterPlatform_def listPrimaryClusterPlatforms_def
        listAllClusterPlatforms_def mem_eval)
  have u: "updateIfActiveClusterPlatformExists mem_cluster (''ns'', ''p'') (new_platform ''ns'' ''p'') ?w =
      Inr ex_self_referring"
    by (simp add: updateIfActiveClusterPlatformExists_def a) (simp add: ex_cluster_platform_def ex_self_referring_def
        cl_name_def new_meta_def)
  have p: "pf_broker ex_self_referring = None" "om_namespace (pf_meta ex_self_referring) = ''ns''"
    "om_name (pf_meta ex_self_referring) = ''p''"
    by (simp_all add: ex_self_referring_def new_platform_def new_meta_def)
  show ?thesis
    using broker_search_diverges[of mem_cluster ?w ex_cluster_platform "\<lparr>nr_name = ''p'', nr_namespace = ''ns''\<rparr>"
        "new_platform ''ns'' ''p''" ex_self_referring "empty_world\<lparr>mw_platforms := [ex_self_referring]\<rparr>"
        ex_self_referring "the (pf_clusterRef ex_self_referring)"] a u p
    by (simp add: mem_eval) (simp add: ex_cluster_platform_def ex_self_referring_def)
qed

lemma index_by_append_new:
  "index_by f n i xs = (None, -1) \<Longrightarrow> f c = n \<Longrightarrow> index_by f n i (xs @ [c]) = (Some c, i + int (length xs))"
  by (induction xs arbitrary: i) (auto split: if_splits)

lemma index_by_update:
  "index_by f n i xs = (Some x, j) \<Longrightarrow> f c = n \<Longrightarrow> index_by f n i (xs[nat (j - i) := c]) = (Some c, j) \<and> i \<le> j"
proof (induction xs arbitrary: i)
  case (Cons a xs)
  show ?case
  proof (cases "f a = n")
    case False
    then have r: "index_by f n (i + 1) (xs[nat (j - (i + 1)) := c]) = (Some c, j) \<and> i + 1 \<le> j"
      using Cons by simp
    then have "nat (j - i) = Suc (nat (j - (i + 1)))" by linarith
    then show ?thesis using False r by simp
  qed (use Cons in auto)
qed simp

lemma index_by_shape: "index_by f n i xs = (None, -1) \<or> (\<exists>x j. index_by f n i xs = (Some x, j) \<and> i \<le> j)"
  by (induction xs arbitrary: i) (auto, metis add_le_same_cancel1 dual_order.trans linorder_linear not_one_le_zero)

lemma container_added:
  assumes "ct_name c = n"
  shows "\<exists>j. 0 \<le> j \<and> GetContainerByName n (Some (AddOrReplaceContainer n c ps)) = (Some c, j)"
  using index_by_shape[of ct_name n 0 "ps_containers ps"]
proof (elim disjE exE conjE)
  assume "index_by ct_name n 0 (ps_containers ps) = (None, -1)"
  then show ?thesis using assms
    by (simp add: AddOrReplaceContainer_def GetContainerByName_def index_by_append_new)
next
  fix x j
  assume "index_by ct_name n 0 (ps_containers ps) = (Some x, j)" "0 \<le> j"
  then show ?thesis using assms index_by_update[of ct_name n 0 "ps_containers ps" x j c]
    by (simp add: AddOrReplaceContainer_def GetContainerByName_def)
qed

lemma fixed_port: "defaultContainerPort \<in> set (fix_port ps)"
  by (induction ps) auto

text \<open>C31: The deployment created for a workflow selects its own pods and so does the workflow's service,
  whatever labels the user sets; the pod has the workflow's container, which listens on the port the
  service targets.\<close>

theorem deployment_is_reachable:
  assumes "DeploymentCreator lb wo pl = Ret d"
  shows "map_of (dp_selector d) \<subseteq>\<^sub>m map_of (dp_templateLabels d) \<and>
    map_of (sv_selector (ServiceCreator wo)) \<subseteq>\<^sub>m map_of (dp_templateLabels d) \<and>
    (\<exists>c i. GetContainerByName DefaultContainerName (Some (dp_pod d)) = (Some c, i) \<and> 0 \<le> i \<and>
      (\<exists>p\<in>set (ct_ports c). map sp_targetPort (sv_ports (ServiceCreator wo)) = [cp_containerPort p]))"
proof -
  obtain c0 ps where c: "dp_pod d = AddOrReplaceContainer DefaultContainerName
      (c0\<lparr>ct_name := DefaultContainerName, ct_ports := fix_port (ct_ports c0)\<rparr>) ps"
    and d: "dp_selector d = GetSelectorLabels wo" "dp_templateLabels d = GetMergedLabels wo"
    using assms
    by (auto simp: DeploymentCreator_def workflow_pod_def defaultContainer_def Let_def
        split: outcome.splits sum.splits if_splits option.splits)
  have "map_of (GetSelectorLabels wo) \<subseteq>\<^sub>m map_of (GetMergedLabels wo)"
    by (auto simp: map_le_def map_of_default_labels)
  moreover have "sv_selector (ServiceCreator wo) = GetMergedLabels wo" by (simp add: ServiceCreator_def)
  ultimately show ?thesis
    using container_added[of "c0\<lparr>ct_name := DefaultContainerName, ct_ports := fix_port (ct_ports c0)\<rparr>" DefaultContainerName ps]
      fixed_port[of "ct_ports c0"] c d
    by (force simp: ServiceCreator_def defaultContainerPort_def)
qed

text \<open>Libraries for the witnesses: a merge that takes what is set in the source.\<close>

definition ex_libs :: libs where
  "ex_libs =
    \<lparr>lb_mergeContainer = (\<lambda>d s. Inr (d\<lparr>ct_image := if ct_image s = '''' then ct_image d else ct_image s,
        ct_env := if ct_env s = [] then ct_env d else ct_env s\<rparr>)),
     lb_mergePod = (\<lambda>d s. Inr (d\<lparr>ps_containers := if ps_containers s = [] then ps_containers d else ps_containers s,
        ps_volumes := if ps_volumes s = [] then ps_volumes d else ps_volumes s\<rparr>)),
     lb_mergeLabels = (\<lambda>d s. AList.merge s d),
     lb_childName = (\<lambda>p s. p @ s),
     lb_setOwner = (\<lambda>_ _. None),
     lb_errorType = (\<lambda>_. ''*errors.StatusError'')\<rparr>"

text \<open>The zero value of a workflow with a namespace and a name, and with annotations.\<close>

definition new_workflow :: "string \<Rightarrow> string \<Rightarrow> sonataflow" where
  "new_workflow ns name =
    \<lparr>sf_meta = (new_meta ns name)\<lparr>om_annotations := Some []\<rparr>,
     sf_spec = \<lparr>sp_flow = \<lparr>fl_gob = Some [], fl_timeouts = None, fl_states = [], fl_events = [], fl_functions = []\<rparr>, sp_resources = [],
       sp_podTemplate = \<lparr>pt_container = defaultFlowContainer\<lparr>ct_name := '''', ct_ports := [], ct_extras := no_extras\<rparr>,
         pt_podSpec = empty_pod_spec, pt_replicas = None, pt_deploymentModel = ''''\<rparr>,
       sp_persistence = None, sp_sink = None, sp_sources = []\<rparr>,
     sf_status = \<lparr>ss_status = \<lparr>st_conditions = [], st_observedGeneration = 0\<rparr>, ss_address = None,
       ss_recoverAttempts = 0, ss_lastRecoverAttempt = 0, ss_endpoint = None, ss_services = None,
       ss_platform = None, ss_triggers = [], ss_flowCRC = 0\<rparr>\<rparr>"

theorem deployment_is_reachable_witness:
  "\<exists>d. DeploymentCreator ex_libs (new_workflow ''ns'' ''wf'') None = Ret d \<and>
     map_of (dp_selector d) \<subseteq>\<^sub>m map_of (dp_templateLabels d)"
proof -
  have "\<exists>d. DeploymentCreator ex_libs (new_workflow ''ns'' ''wf'') None = Ret d"
    by (simp add: DeploymentCreator_def workflow_pod_def defaultContainer_def ex_libs_def RetrieveConfiguration_def
        new_workflow_def Let_def)
  then show ?thesis using deployment_is_reachable by blast
qed

end
