(* ===== verification/Managed_Properties.thy ===== *)
theory Managed_Properties
  imports Workflow_Objects Discovery "HOL-Library.Sublist"
begin

text \<open>
  The application properties the operator generates: the builder of \<open>utils/properties.go\<close>, the
  properties of a workflow (\<open>profiles/common/properties\<close>, \<open>persistence\<close> and
  \<open>platform/services/properties.go\<close>) with service discovery, and those of the platform's services.
  Property sets are values of the library \<open>magiconair/properties\<close>, which is not in the repository: its
  operations come in the record \<open>props_ops\<close>, and the locale \<open>properties_lib\<close> states their contract.
\<close>

record 'p props_ops =
  po_new :: 'p
  po_set :: "'p \<Rightarrow> string \<Rightarrow> string \<Rightarrow> 'p"
  po_get :: "'p \<Rightarrow> string \<Rightarrow> string option"
  po_keys :: "'p \<Rightarrow> string list"
  po_delete :: "'p \<Rightarrow> string \<Rightarrow> 'p"
  po_merge :: "'p \<Rightarrow> 'p \<Rightarrow> 'p"
  po_sort :: "'p \<Rightarrow> 'p"
  po_load :: "string \<Rightarrow> 'p option"
  po_text :: "'p \<Rightarrow> string"

subsection \<open>The builder\<close>

text \<open>The default properties that the initial ones have are deleted from the set the builder was given,
  so that set comes with the answer.\<close>

definition build_properties :: "'p props_ops \<Rightarrow> 'p option \<Rightarrow> 'p option \<Rightarrow> 'p option \<Rightarrow> 'p \<times> 'p option" where
  "build_properties o1 initial immutable defaults =
    (let props = (case initial of None \<Rightarrow> po_new o1 | Some p \<Rightarrow> p);
         defaults' = map_option (\<lambda>d. foldl (\<lambda>d k. if po_get o1 props k \<noteq> None then po_delete o1 d k else d) d
                                   (po_keys o1 d)) defaults;
         props = (case defaults' of None \<Rightarrow> props | Some d \<Rightarrow> po_merge o1 props d)
     in (case immutable of None \<Rightarrow> props | Some i \<Rightarrow> po_merge o1 props i, defaults'))"

definition immutableApplicationProperties :: string where
  "immutableApplicationProperties =
    ''quarkus.http.port='' @ show_int DefaultHTTPWorkflowPortInt @ [CHR 0x0A] @
    ''quarkus.http.host=0.0.0.0'' @ [CHR 0x0A] @
    ''quarkus.devservices.enabled=false'' @ [CHR 0x0A] @
    ''quarkus.kogito.devservices.enabled=false'' @ [CHR 0x0A]"

definition set_all :: "'p props_ops \<Rightarrow> (string \<times> string) list \<Rightarrow> 'p \<Rightarrow> 'p" where
  "set_all o1 kvs p = foldl (\<lambda>p (k, v). po_set o1 p k v) p kvs"

subsection \<open>Names of properties\<close>

definition KogitoServiceURLProperty :: string where "KogitoServiceURLProperty = ''kogito.service.url''"
definition KogitoUserTasksEventsEnabled :: string where
  "KogitoUserTasksEventsEnabled = ''kogito.events.usertasks.enabled''"
definition KnativeHealthEnabled :: string where
  "KnativeHealthEnabled = ''org.kie.kogito.addons.knative.eventing.health-enabled''"
definition KnativeInjectedEnvVar :: string where "KnativeInjectedEnvVar = ''${K_SINK}''"
definition QuarkusHTTP :: string where "QuarkusHTTP = ''quarkus-http''"
definition Post :: string where "Post = ''POST''"
definition KogitoOutgoingEventsURL :: string where
  "KogitoOutgoingEventsURL = ''mp.messaging.outgoing.kogito_outgoing_stream.url''"
definition KogitoOutgoingEventsConnector :: string where
  "KogitoOutgoingEventsConnector = ''mp.messaging.outgoing.kogito_outgoing_stream.connector''"
definition KogitoIncomingEventsConnector :: string where
  "KogitoIncomingEventsConnector = ''mp.messaging.incoming.kogito_incoming_stream.connector''"
definition KogitoIncomingEventsPath :: string where
  "KogitoIncomingEventsPath = ''mp.messaging.incoming.kogito_incoming_stream.path''"
definition KogitoProcessDefinitionsEvents :: "string \<Rightarrow> string" where
  "KogitoProcessDefinitionsEvents s = ''mp.messaging.outgoing.kogito-processdefinitions-events.'' @ s"
definition KogitoProcessInstancesEvents :: "string \<Rightarrow> string" where
  "KogitoProcessInstancesEvents s = ''mp.messaging.outgoing.kogito-processinstances-events.'' @ s"
definition KogitoProcessDefinitionsEventsEnabled :: string where
  "KogitoProcessDefinitionsEventsEnabled = ''kogito.events.processdefinitions.enabled''"
definition KogitoProcessInstancesEventsEnabled :: string where
  "KogitoProcessInstancesEventsEnabled = ''kogito.events.processinstances.enabled''"
definition KogitoProcessDefinitionsEventsErrorsEnabled :: string where
  "KogitoProcessDefinitionsEventsErrorsEnabled = ''kogito.events.processdefinitions.errors.propagate''"
definition KogitoDataIndexHealthCheckEnabled :: string where
  "KogitoDataIndexHealthCheckEnabled = ''kogito.data-index.health-enabled''"
definition KogitoDataIndexURL :: string where "KogitoDataIndexURL = ''kogito.data-index.url''"
definition KogitoJobServiceHealthCheckEnabled :: string where
  "KogitoJobServiceHealthCheckEnabled = ''kogito.jobs-service.health-enabled''"
definition KogitoJobServiceURL :: string where "KogitoJobServiceURL = ''kogito.jobs-service.url''"
definition JobServiceRequestEvents :: "string \<Rightarrow> string" where
  "JobServiceRequestEvents s = ''mp.messaging.outgoing.kogito-job-service-job-request-events.'' @ s"
definition JobServiceStatusChangeEvents :: string where
  "JobServiceStatusChangeEvents = ''kogito.jobs-service.http.job-status-change-events''"
definition JobServiceStatusEvents :: "string \<Rightarrow> string" where
  "JobServiceStatusEvents s = ''mp.messaging.outgoing.kogito-job-service-job-status-events-http.'' @ s"
definition health_check :: "string \<Rightarrow> string" where
  "health_check s = ''quarkus.smallrye-health.check.'' @ [CHR 0x22] @ s @ [CHR 0x22] @ ''.enabled''"
definition DataIndexKafkaHealthCheck :: string where
  "DataIndexKafkaHealthCheck = health_check ''io.quarkus.kafka.client.health.KafkaHealthCheck''"
definition JobServiceKSinkInjectionHealthCheck :: string where
  "JobServiceKSinkInjectionHealthCheck =
    health_check ''org.kie.kogito.jobs.service.messaging.http.health.knative.KSinkInjectionHealthCheck''"
definition JobServiceLeaderLivenessSmallRyeHealthProperty :: string where
  "JobServiceLeaderLivenessSmallRyeHealthProperty =
    health_check ''org.kie.kogito.jobs.service.management.JobServiceLeaderLivenessHealthCheck''"
definition JobServiceLeaderCheckExpirationInSeconds :: string where
  "JobServiceLeaderCheckExpirationInSeconds =
    ''kogito.jobs-service.management.leader-check.expiration-in-seconds''"
definition JobServiceDataSourceReactiveURL :: string where
  "JobServiceDataSourceReactiveURL = ''quarkus.datasource.reactive.url''"
definition microprofileServiceCatalogPropertyPrefix :: string where
  "microprofileServiceCatalogPropertyPrefix = ''org.kie.kogito.addons.discovery.''"
definition knativeServiceOperationPrefix :: string where
  "knativeServiceOperationPrefix = ''knative:services.v1.serving.knative.dev''"

subsection \<open>The flow\<close>

definition hasAnySleep :: "flow_action \<Rightarrow> bool" where
  "hasAnySleep a \<longleftrightarrow> (case a of None \<Rightarrow> False | Some (before, after) \<Rightarrow> before \<noteq> '''' \<or> after \<noteq> '''')"

definition hasActionsWithSleep :: "flow_action list \<Rightarrow> bool" where
  "hasActionsWithSleep as \<longleftrightarrow> list_ex hasAnySleep as"

definition has_event_timeout :: "string option \<Rightarrow> bool" where
  "has_event_timeout t \<longleftrightarrow> (case t of None \<Rightarrow> False | Some s \<Rightarrow> s \<noteq> '''')"

primrec state_timeouts :: "flow_state \<Rightarrow> bool" where
  "state_timeouts (EventState t ass) = (has_event_timeout t \<or> list_ex hasActionsWithSleep ass)"
| "state_timeouts (OperationState as) = hasActionsWithSleep as"
| "state_timeouts (SwitchState t) = has_event_timeout t"
| "state_timeouts SleepState = True"
| "state_timeouts (ParallelState bs) = list_ex hasActionsWithSleep bs"
| "state_timeouts (ForEachState as) = hasActionsWithSleep as"
| "state_timeouts (CallbackState t a) = (has_event_timeout t \<or> hasAnySleep a)"
| "state_timeouts InjectState = False"

definition HasWorkflowEventTimeout :: "flow \<Rightarrow> bool" where
  "HasWorkflowEventTimeout f \<longleftrightarrow> (case fl_timeouts f of None \<Rightarrow> False | Some (e, _) \<Rightarrow> e \<noteq> '''')"

definition HasWorkflowExecTimeout :: "flow \<Rightarrow> bool" where
  "HasWorkflowExecTimeout f \<longleftrightarrow>
    (case fl_timeouts f of None \<Rightarrow> False | Some (_, d) \<Rightarrow> (case d of None \<Rightarrow> False | Some s \<Rightarrow> s \<noteq> ''''))"

definition HasTimeouts :: "sonataflow \<Rightarrow> bool" where
  "HasTimeouts wo \<longleftrightarrow>
    (let f = sp_flow (sf_spec wo)
     in HasWorkflowExecTimeout f \<or> HasWorkflowEventTimeout f \<or> list_ex state_timeouts (fl_states f))"

definition ContainsEventKind :: "sonataflow \<Rightarrow> string \<Rightarrow> bool" where
  "ContainsEventKind wo kind \<longleftrightarrow> list_ex (\<lambda>e. fe_kind e = kind) (fl_events (sp_flow (sf_spec wo)))"

definition EventKindConsumed :: string where "EventKindConsumed = ''consumed''"

definition IsGitOpsProfile :: "gomap option \<Rightarrow> bool" where
  "IsGitOpsProfile anns \<longleftrightarrow> nil_map_get anns Profile = GitOpsProfile"

subsection \<open>Properties of a workflow\<close>

definition getPropVarRefValue :: "'w cluster \<Rightarrow> property_source \<Rightarrow> string \<Rightarrow> 'w \<Rightarrow> kerror + string" where
  "getPropVarRefValue k from ns w =
    (let from_cm = (case px_configMap from of
             None \<Rightarrow> Inr ''''
           | Some (name, key) \<Rightarrow>
              (case c_get (k_configMaps k) w ns name of
                 Inl e \<Rightarrow> if IsNotFound e then Inr '''' else Inl e
               | Inr cm \<Rightarrow> Inr (nil_map_get (cm_data cm) key)))
     in case px_secret from of
          None \<Rightarrow> from_cm
        | Some (name, key) \<Rightarrow>
           (case c_get (k_secrets k) w ns name of
              Inl e \<Rightarrow> if IsNotFound e then from_cm else Inl e
            | Inr s \<Rightarrow> (case Option.bind (se_data s) (\<lambda>m. map_of m key) of Some v \<Rightarrow> Inr v | None \<Rightarrow> from_cm)))"

fun platform_props :: "'p props_ops \<Rightarrow> 'w cluster \<Rightarrow> string \<Rightarrow> 'w \<Rightarrow> property_var list \<Rightarrow> 'p \<Rightarrow> kerror + 'p" where
  "platform_props o1 k ns w [] p = Inr p"
| "platform_props o1 k ns w (v # vs) p =
    (if pr_value v \<noteq> '''' then platform_props o1 k ns w vs (po_set o1 p (pr_name v) (pr_value v))
     else case pr_valueFrom v of
            None \<Rightarrow> platform_props o1 k ns w vs p
          | Some from \<Rightarrow>
             (case getPropVarRefValue k from ns w of
                Inl e \<Rightarrow> Inl e
              | Inr x \<Rightarrow> platform_props o1 k ns w vs (po_set o1 p (pr_name v) x)))"

definition resolvePlatformWorkflowProperties ::
  "'p props_ops \<Rightarrow> 'w cluster \<Rightarrow> sonataflow_platform \<Rightarrow> 'w \<Rightarrow> kerror + 'p" where
  "resolvePlatformWorkflowProperties o1 k p w =
    platform_props o1 k (pf_namespace p) w (pf_properties p) (po_new o1)"

definition GetPostgreSQLWorkflowProperties :: "'p props_ops \<Rightarrow> sonataflow \<Rightarrow> 'p" where
  "GetPostgreSQLWorkflowProperties o1 wo =
    (if \<not> IsDevProfile (om_annotations (sf_meta wo)) \<and> \<not> IsGitOpsProfile (om_annotations (sf_meta wo))
     then set_all o1 [(''quarkus.datasource.db-kind'', ''postgresql''), (''kogito.persistence.type'', ''jdbc''),
            (''kogito.persistence.proto.marshaller'', ''false'')] (po_new o1)
     else po_new o1)"

definition ResolveWorkflowPersistenceProperties ::
  "'p props_ops \<Rightarrow> sonataflow \<Rightarrow> sonataflow_platform \<Rightarrow> 'p" where
  "ResolveWorkflowPersistenceProperties o1 wo p =
    (if UsesPostgreSQLPersistence wo p then GetPostgreSQLWorkflowProperties o1 wo else po_new o1)"

text \<open>The three generators below ask for the workflow's sink, which may fill in a namespace in the
  workflow or the platform; both are returned.\<close>

type_synonym 'p prop_result = "'p outcome \<times> sonataflow \<times> sonataflow_platform option"

definition with_sink ::
  "'w cluster \<Rightarrow> sonataflow \<Rightarrow> sonataflow_platform option \<Rightarrow> 'w \<Rightarrow> (sonataflow \<Rightarrow> sonataflow_platform option \<Rightarrow> destination option \<Rightarrow> 'p) \<Rightarrow>
   'p prop_result" where
  "with_sink k wo pl w f =
    (case GetWorkflowSink k (Some wo) pl w of
       (sink, wo', pl') \<Rightarrow>
         (let wo' = (case wo' of None \<Rightarrow> wo | Some v \<Rightarrow> v)
          in (case sink of Ret d \<Rightarrow> Ret (f wo' pl' d) | Fail e \<Rightarrow> Fail e | Panic \<Rightarrow> Panic, wo', pl')))"

definition data_index_url :: "sonataflow \<Rightarrow> string option" where
  "data_index_url wo = Option.bind (ss_services (sf_status wo)) vs_dataIndex"

definition job_service_url :: "sonataflow \<Rightarrow> string option" where
  "job_service_url wo = Option.bind (ss_services (sf_status wo)) vs_jobService"

definition GenerateDataIndexWorkflowProperties ::
  "'p props_ops \<Rightarrow> 'w cluster \<Rightarrow> sonataflow \<Rightarrow> sonataflow_platform option \<Rightarrow> 'w \<Rightarrow> 'p prop_result" where
  "GenerateDataIndexWorkflowProperties o1 k wo pl w =
    with_sink k wo pl w (\<lambda>wo pl sink.
      let p0 = set_all o1 [(KogitoProcessDefinitionsEventsEnabled, ''false''),
                           (KogitoProcessInstancesEventsEnabled, ''false'')] (po_new o1)
      in po_sort o1
        (case data_index_url wo of
           Some url \<Rightarrow>
             if \<not> IsDevProfile (om_annotations (sf_meta wo)) \<and> di_IsServiceEnabled pl \<and> url \<noteq> '''' then
               set_all o1
                 ([(KogitoProcessDefinitionsEventsEnabled, ''true''), (KogitoProcessInstancesEventsEnabled, ''true''),
                   (KogitoProcessDefinitionsEventsErrorsEnabled, ''true'')] @
                  (if sink \<noteq> None then
                     [(KogitoProcessDefinitionsEvents ''connector'', QuarkusHTTP),
                      (KogitoProcessInstancesEvents ''connector'', QuarkusHTTP),
                      (KogitoProcessDefinitionsEvents ''url'', KnativeInjectedEnvVar),
                      (KogitoProcessInstancesEvents ''url'', KnativeInjectedEnvVar),
                      (KogitoProcessDefinitionsEvents ''method'', Post),
                      (KogitoProcessInstancesEvents ''method'', Post)]
                   else
                     [(KogitoDataIndexHealthCheckEnabled, ''true''), (KogitoDataIndexURL, url),
                      (KogitoProcessDefinitionsEvents ''url'', url @ KogitoProcessDefinitionsEventsPath),
                      (KogitoProcessInstancesEvents ''url'', url @ KogitoProcessInstancesEventsPath)])) p0
             else p0
         | None \<Rightarrow> p0))"

definition GenerateJobServiceWorkflowProperties ::
  "'p props_ops \<Rightarrow> 'w cluster \<Rightarrow> sonataflow \<Rightarrow> sonataflow_platform option \<Rightarrow> 'w \<Rightarrow> 'p prop_result" where
  "GenerateJobServiceWorkflowProperties o1 k wo pl w =
    with_sink k wo pl w (\<lambda>wo pl sink.
      let p0 = set_all o1 [(JobServiceRequestEvents ''connector'', QuarkusHTTP),
                           (JobServiceRequestEvents ''url'', ''http://localhost'' @ JobServiceJobEventsPath)] (po_new o1)
      in po_sort o1
        (case job_service_url wo of
           Some url \<Rightarrow>
             if \<not> IsDevProfile (om_annotations (sf_meta wo)) \<and> js_IsServiceEnabled pl \<and> url \<noteq> '''' then
               set_all o1
                 (if sink \<noteq> None then
                    [(JobServiceRequestEvents ''url'', KnativeInjectedEnvVar),
                     (JobServiceRequestEvents ''connector'', QuarkusHTTP), (JobServiceRequestEvents ''method'', Post)]
                  else
                    (if HasTimeouts wo then [(KogitoJobServiceHealthCheckEnabled, ''true'')] else []) @
                    [(KogitoJobServiceURL, url), (JobServiceRequestEvents ''url'', url @ JobServiceJobEventsPath)]) p0
             else p0
         | None \<Rightarrow> p0))"

definition generateKnativeEventingWorkflowProperties ::
  "'p props_ops \<Rightarrow> 'w cluster \<Rightarrow> sonataflow \<Rightarrow> sonataflow_platform option \<Rightarrow> 'w \<Rightarrow> 'p prop_result" where
  "generateKnativeEventingWorkflowProperties o1 k wo pl w =
    with_sink k wo pl w (\<lambda>wo pl sink.
      if sink = None
      then set_all o1 [(KnativeHealthEnabled, ''false''), (KnativeHealthEnabled, ''false'')] (po_new o1)
      else set_all o1
        ([(KnativeHealthEnabled, ''false''), (KnativeHealthEnabled, ''true'')] @
         (if ContainsEventKind wo EventKindProduced
          then [(KogitoOutgoingEventsConnector, QuarkusHTTP), (KogitoOutgoingEventsURL, KnativeInjectedEnvVar)] else []) @
         (if ContainsEventKind wo EventKindConsumed
          then [(KogitoIncomingEventsConnector, QuarkusHTTP), (KogitoIncomingEventsPath, ''/'')] else [])) (po_new o1))"

definition setControllersConfigProperties :: "'p props_ops \<Rightarrow> controllers_cfg \<Rightarrow> sonataflow \<Rightarrow> 'p \<Rightarrow> 'p" where
  "setControllersConfigProperties o1 c wo p =
    (if \<not> IsDevProfile (om_annotations (sf_meta wo)) \<and> cg_eventsGrouping c then
       set_all o1
         ((''kogito.events.grouping'', ''true'') #
          (if cg_eventsGroupingBinary c then
             (''kogito.events.grouping.binary'', ''true'') #
             (if cg_eventsGroupingCompress c then [(''kogito.events.grouping.compress'', ''true'')] else [])
           else [])) p
     else p)"

definition withKogitoServiceUrl :: "'p props_ops \<Rightarrow> sonataflow \<Rightarrow> 'p \<Rightarrow> 'p" where
  "withKogitoServiceUrl o1 wo p =
    po_set o1 p KogitoServiceURLProperty
      (if sf_namespace wo \<noteq> '''' then DefaultHTTPProtocol @ ''://'' @ sf_name wo @ ''.'' @ sf_namespace wo
       else DefaultHTTPProtocol @ ''://'' @ sf_name wo)"

text \<open>The properties of one group are merged in unless its generator failed.\<close>

definition merge_result :: "'p props_ops \<Rightarrow> 'p \<Rightarrow> 'p prop_result \<Rightarrow> 'p prop_result" where
  "merge_result o1 props r =
    (case r of (Ret p, wo, pl) \<Rightarrow> (Ret (po_merge o1 props p), wo, pl) | (x, wo, pl) \<Rightarrow> (x, wo, pl))"

definition and_then ::
  "'p prop_result \<Rightarrow> ('p \<Rightarrow> sonataflow \<Rightarrow> sonataflow_platform option \<Rightarrow> 'p prop_result) \<Rightarrow> 'p prop_result" where
  "and_then r f = (case r of (Ret p, wo, pl) \<Rightarrow> f p wo pl | (x, wo, pl) \<Rightarrow> (x, wo, pl))"

definition NewManagedPropertyHandler ::
  "'p props_ops \<Rightarrow> 'w cluster \<Rightarrow> sonataflow \<Rightarrow> sonataflow_platform option \<Rightarrow> 'w \<Rightarrow> 'p prop_result" where
  "NewManagedPropertyHandler o1 k wo pl w =
    (let props = po_new o1;
         props = (if IsDevProfile (om_annotations (sf_meta wo))
                  then po_set o1 props ''quarkus.dev-ui.cors.enabled'' ''false'' else props);
         props = setControllersConfigProperties o1 (k_cfg k) wo props;
         props = po_set o1 props KogitoUserTasksEventsEnabled ''false'';
         with_platform =
           (case pl of
              None \<Rightarrow> (Ret props, wo, pl)
            | Some p \<Rightarrow>
               (case resolvePlatformWorkflowProperties o1 k p w of
                  Inl e \<Rightarrow> (Fail e, wo, pl)
                | Inr q \<Rightarrow>
                   (let props = po_merge o1 (po_merge o1 props q) (ResolveWorkflowPersistenceProperties o1 wo p)
                    in and_then (merge_result o1 props (GenerateDataIndexWorkflowProperties o1 k wo pl w))
                      (\<lambda>props wo pl. merge_result o1 props (GenerateJobServiceWorkflowProperties o1 k wo pl w)))))
     in and_then with_platform (\<lambda>props wo pl.
          and_then (merge_result o1 props (generateKnativeEventingWorkflowProperties o1 k wo pl w))
            (\<lambda>props wo pl. (Ret (withKogitoServiceUrl o1 wo (po_sort o1 props)), wo, pl))))"


subsection \<open>Service discovery\<close>

definition removeDiscoveryProperties :: "'p props_ops \<Rightarrow> 'p \<Rightarrow> 'p" where
  "removeDiscoveryProperties o1 p =
    foldl (\<lambda>p k. if prefix microprofileServiceCatalogPropertyPrefix k then po_delete o1 p k else p) p (po_keys o1 p)"

definition escapeValue :: "string \<Rightarrow> char \<Rightarrow> string" where
  "escapeValue s c = concat (map (\<lambda>x. if x = c then [CHR 0x5C, c] else [x]) s)"

definition generateMicroprofileServiceCatalogProperty :: "string \<Rightarrow> string" where
  "generateMicroprofileServiceCatalogProperty uri =
    microprofileServiceCatalogPropertyPrefix @
    escapeValue (escapeValue (escapeValue uri (CHR '':'')) (CHR ''/'')) (CHR ''='')"

text \<open>The pattern \<open>^\${(kubernetes|knative|openshift):(.*)}$\<close>.\<close>

definition discovery_like :: "string \<Rightarrow> bool" where
  "discovery_like v \<longleftrightarrow>
    list_ex (\<lambda>scheme. let pre = ''${'' @ scheme @ '':''; rest = drop (length pre) v
                      in prefix pre v \<and> rest \<noteq> '''' \<and> last rest = CHR ''}'' \<and> CHR 0x0A \<notin> set (butlast rest))
      [KubernetesScheme, KnativeScheme, OpenshiftScheme]"

definition in_namespace :: "sonataflow \<Rightarrow> resource_uri \<Rightarrow> resource_uri" where
  "in_namespace wo u = (if ru_namespace u = '''' then u\<lparr>ru_namespace := sf_namespace wo\<rparr> else u)"

type_synonym catalog = "resource_uri \<Rightarrow> string \<Rightarrow> string outcome"

text \<open>The address of a resource URI: \<open>Ret None\<close> when it is left out of the discovery.\<close>

definition discover :: "catalog \<Rightarrow> sonataflow \<Rightarrow> string \<Rightarrow> string \<Rightarrow> string option outcome" where
  "discover cat wo plain fmt =
    (case ParseUri plain of
       Panic \<Rightarrow> Panic
     | Fail _ \<Rightarrow> Ret None
     | Ret u \<Rightarrow> (case cat (in_namespace wo u) fmt of Panic \<Rightarrow> Panic | Fail _ \<Rightarrow> Ret None | Ret a \<Rightarrow> Ret (Some a)))"

fun discover_props :: "'p props_ops \<Rightarrow> catalog \<Rightarrow> sonataflow \<Rightarrow> 'p \<Rightarrow> string list \<Rightarrow> 'p \<Rightarrow> 'p outcome" where
  "discover_props o1 cat wo props [] result = Ret result"
| "discover_props o1 cat wo props (key # ks) result =
    (let v = (case po_get o1 props key of None \<Rightarrow> '''' | Some v \<Rightarrow> v)
     in if \<not> discovery_like v then discover_props o1 cat wo props ks result
        else (let plain = butlast (drop 2 v)
              in case discover cat wo plain KubernetesDNSAddress of
                   Panic \<Rightarrow> Panic
                 | Fail e \<Rightarrow> Fail e
                 | Ret None \<Rightarrow> discover_props o1 cat wo props ks result
                 | Ret (Some a) \<Rightarrow>
                    discover_props o1 cat wo props ks
                      (po_set o1 (po_set o1 result (generateMicroprofileServiceCatalogProperty plain) a) key a)))"

text \<open>For an operation the property is named after the part before the query.\<close>

fun discover_functions :: "'p props_ops \<Rightarrow> catalog \<Rightarrow> sonataflow \<Rightarrow> flow_function list \<Rightarrow> 'p \<Rightarrow> 'p outcome" where
  "discover_functions o1 cat wo [] result = Ret result"
| "discover_functions o1 cat wo (f # fs) result =
    (if \<not> prefix knativeServiceOperationPrefix (ff_operation f) then discover_functions o1 cat wo fs result
     else case discover cat wo (ff_operation f) '''' of
            Panic \<Rightarrow> Panic
          | Fail e \<Rightarrow> Fail e
          | Ret None \<Rightarrow> discover_functions o1 cat wo fs result
          | Ret (Some a) \<Rightarrow>
             discover_functions o1 cat wo fs
               (po_set o1 result (generateMicroprofileServiceCatalogProperty
                  (takeWhile (\<lambda>c. c \<noteq> CHR ''?'') (ff_operation f))) a))"

definition generateDiscoveryProperties :: "'p props_ops \<Rightarrow> catalog \<Rightarrow> 'p \<Rightarrow> sonataflow \<Rightarrow> 'p outcome" where
  "generateDiscoveryProperties o1 cat props wo =
    (case discover_props o1 cat wo props (po_keys o1 props) (po_new o1) of
       Ret result \<Rightarrow> discover_functions o1 cat wo (fl_functions (sp_flow (sf_spec wo))) result
     | x \<Rightarrow> x)"

definition setDevProfileDiscoveryProperties ::
  "'p props_ops \<Rightarrow> 'w cluster \<Rightarrow> catalog \<Rightarrow> sonataflow \<Rightarrow> 'p \<Rightarrow> 'p outcome" where
  "setDevProfileDiscoveryProperties o1 k cat wo props =
    (if k_openShift k then
       (case cat \<lparr>ru_scheme = OpenshiftScheme,
               ru_gvk = \<lparr>gv_group = ''route.openshift.io'', gv_version = ''v1'', gv_kind = ''routes''\<rparr>,
               ru_namespace = sf_namespace wo, ru_name = sf_name wo, ru_query = []\<rparr> KubernetesDNSAddress of
          Panic \<Rightarrow> Panic
        | Fail _ \<Rightarrow> Ret props
        | Ret url \<Rightarrow> Ret (set_all o1 [(''quarkus.http.cors'', ''true''), (''quarkus.http.cors.origins'', url)] props))
     else Ret props)"

text \<open>\<open>Build\<close> on a handler with the default properties \<open>d\<close>, the text of the user's properties and the
  catalog, if discovery was asked for: the text and the default properties as they are left.\<close>

definition load_user :: "'p props_ops \<Rightarrow> string \<Rightarrow> 'p" where
  "load_user o1 user =
    (if user = '''' then po_new o1 else case po_load o1 user of None \<Rightarrow> po_new o1 | Some p \<Rightarrow> p)"

definition managed_set ::
  "'p props_ops \<Rightarrow> 'w cluster \<Rightarrow> sonataflow \<Rightarrow> string \<Rightarrow> catalog option \<Rightarrow> 'p \<Rightarrow> ('p \<times> 'p option) outcome" where
  "managed_set o1 k wo user cat d =
    (let userProps = removeDiscoveryProperties o1 (load_user o1 user);
         discovered = (case cat of
              None \<Rightarrow> Ret (po_new o1)
            | Some c \<Rightarrow> (case generateDiscoveryProperties o1 c userProps wo of
                          Ret q \<Rightarrow> Ret (po_merge o1 (po_new o1) q) | Fail e \<Rightarrow> Fail e | Panic \<Rightarrow> Panic));
         defaults = (case cat of
              None \<Rightarrow> Ret d
            | Some c \<Rightarrow> if IsDevProfile (om_annotations (sf_meta wo))
                        then setDevProfileDiscoveryProperties o1 k c wo d else Ret d)
     in case discovered of
          Panic \<Rightarrow> Panic
        | Fail e \<Rightarrow> Fail e
        | Ret q \<Rightarrow>
           (case defaults of
              Panic \<Rightarrow> Panic
            | Fail e \<Rightarrow> Fail e
            | Ret d \<Rightarrow>
               (case po_load o1 immutableApplicationProperties of
                  None \<Rightarrow> Panic
                | Some i \<Rightarrow> Ret (build_properties o1 (Some q) (Some i) (Some d)))))"

definition managed_Build ::
  "'p props_ops \<Rightarrow> 'w cluster \<Rightarrow> sonataflow \<Rightarrow> string \<Rightarrow> catalog option \<Rightarrow> 'p \<Rightarrow> string outcome" where
  "managed_Build o1 k wo user cat d =
    (case managed_set o1 k wo user cat d of
       Ret (p, _) \<Rightarrow> Ret (po_text o1 p) | Fail e \<Rightarrow> Fail e | Panic \<Rightarrow> Panic)"

definition ApplicationManagedProperties ::
  "'p props_ops \<Rightarrow> 'w cluster \<Rightarrow> sonataflow \<Rightarrow> sonataflow_platform option \<Rightarrow> 'w \<Rightarrow>
   string outcome \<times> sonataflow \<times> sonataflow_platform option" where
  "ApplicationManagedProperties o1 k wo pl w =
    (case NewManagedPropertyHandler o1 k wo pl w of
       (Ret d, wo, pl) \<Rightarrow> (managed_Build o1 k wo '''' None d, wo, pl)
     | (Fail e, wo, pl) \<Rightarrow> (Fail e, wo, pl)
     | (Panic, wo, pl) \<Rightarrow> (Panic, wo, pl))"

subsection \<open>Properties of the platform's services\<close>

text \<open>\<open>net/url\<close>: the parts of a URL (scheme, user with an optional password, host, path, query) and the
  values of a query.\<close>

record url_parts =
  up_scheme :: string
  up_user :: "(string \<times> string option) option"
  up_host :: string
  up_path :: string
  up_query :: string

record url_lib =
  ul_parse :: "string \<Rightarrow> kerror + url_parts"
  ul_query :: "string \<Rightarrow> kerror + (string \<times> string list) list"

definition first_when_any :: "string list option \<Rightarrow> string" where
  "first_when_any v =
    (case v of None \<Rightarrow> '''' | Some vs \<Rightarrow> if list_ex (\<lambda>x. x \<noteq> '''') vs then hd vs else '''')"

text \<open>\<open>strings.TrimLeft(url, "jdbc:")\<close> strips characters, not the prefix.\<close>

definition generateReactiveURL ::
  "url_lib \<Rightarrow> postgresql \<Rightarrow> string \<Rightarrow> string \<Rightarrow> string \<Rightarrow> int \<Rightarrow> string outcome" where
  "generateReactiveURL ul q schema ns dbName port =
    (if pq_jdbcUrl q \<noteq> '''' then
       (case ul_parse ul (dropWhile (\<lambda>c. c \<in> set ''jdbc:'') (pq_jdbcUrl q)) of
          Inl e \<Rightarrow> Fail e
        | Inr u \<Rightarrow>
           (case ul_query ul (up_query u) of
              Inl e \<Rightarrow> Fail e
            | Inr kv \<Rightarrow>
               (let cred = (case up_user u of
                       Some (name, Some pw) \<Rightarrow> if name \<noteq> '''' then name @ '':'' @ pw @ ''@'' else ''''
                     | _ \<Rightarrow> '''');
                    ret = up_scheme u @ ''://'' @ cred @ up_host u @ up_path u;
                    spv = (case map_of kv ''search_path'' of
                             Some v \<Rightarrow> first_when_any (Some v)
                           | None \<Rightarrow> first_when_any (map_of kv ''currentSchema''))
                in Ret (if spv \<noteq> '''' then ret @ ''?search_path='' @ spv else ret))))
     else
       (case pq_service q of
          None \<Rightarrow> Panic
        | Some s \<Rightarrow>
           Ret (PersistenceTypePostgreSQL @ ''://'' @ ql_name s @ ''.'' @
                (if ql_namespace s \<noteq> '''' then ql_namespace s else ns) @ '':'' @
                show_int (case ql_port s of None \<Rightarrow> port | Some i \<Rightarrow> i) @ ''/'' @
                (if ql_database s \<noteq> '''' then ql_database s else dbName) @ ''?search_path='' @
                (if ql_schema s \<noteq> '''' then ql_schema s else schema))))"

definition di_GenerateServiceProperties :: "'p props_ops \<Rightarrow> sonataflow_platform \<Rightarrow> 'p" where
  "di_GenerateServiceProperties o1 p =
    set_all o1 [(KogitoServiceURLProperty, di_GetLocalServiceBaseUrl p), (DataIndexKafkaHealthCheck, ''false'')]
      (po_new o1)"

definition service_source :: "service_spec \<Rightarrow> sonataflow_platform \<Rightarrow> destination option" where
  "service_source s p = (case vp_source s of Some d \<Rightarrow> Some d | None \<Rightarrow> GetPlatformBroker (Some p))"

definition js_GenerateServiceProperties :: "'p props_ops \<Rightarrow> url_lib \<Rightarrow> sonataflow_platform \<Rightarrow> 'p outcome" where
  "js_GenerateServiceProperties o1 ul p =
    (case js_spec (Some p) of
       None \<Rightarrow> Panic
     | Some s \<Rightarrow>
        (let sourced = (service_source s p \<noteq> None);
             props = set_all o1
               [(KogitoServiceURLProperty, GenerateServiceURL ''http'' (pf_namespace p) (js_GetServiceName p)),
                (JobServiceKSinkInjectionHealthCheck, ''false''),
                (JobServiceLeaderLivenessSmallRyeHealthProperty, ''true''),
                (JobServiceLeaderCheckExpirationInSeconds, ''60''),
                (JobServiceKSinkInjectionHealthCheck, if sourced then ''true'' else ''false'')] (po_new o1);
             finish = (\<lambda>props. Ret (po_sort o1
               (if isDataIndexEnabled (Some p) then
                  set_all o1 ((JobServiceStatusChangeEvents, ''true'') #
                    (if sourced then
                       [(JobServiceStatusEvents ''url'', KnativeInjectedEnvVar),
                        (JobServiceStatusEvents ''connector'', QuarkusHTTP), (JobServiceStatusEvents ''method'', Post)]
                     else [(JobServiceStatusEvents ''url'', di_GetLocalServiceBaseUrl p @ ''/jobs'')])) props
                else props)))
         in if js_IsServiceSetInSpec (Some p) \<and> has_postgresql (Some s) p then
              (case RetrievePostgreSQLConfiguration (vp_persistence s) (pf_persistence p) (js_GetServiceName p) of
                 Panic \<Rightarrow> Panic
               | Fail e \<Rightarrow> Fail e
               | Ret c \<Rightarrow>
                  (case pn_postgresql c of
                     None \<Rightarrow> Panic
                   | Some q \<Rightarrow>
                      (case generateReactiveURL ul q (js_GetServiceName p) (pf_namespace p) ''sonataflow''
                              DefaultPostgreSQLPort of
                         Panic \<Rightarrow> Panic
                       | Fail e \<Rightarrow> Fail e
                       | Ret url \<Rightarrow> finish (po_set o1 props JobServiceDataSourceReactiveURL url))))
            else finish props))"

text \<open>The text of a service's properties from its default properties and the user's text; when that
  cannot be loaded, the log line reads the name from the handler of the service, which is never set.\<close>

definition service_Build :: "'p props_ops \<Rightarrow> string \<Rightarrow> 'p \<Rightarrow> (string \<times> 'p) outcome" where
  "service_Build o1 user d =
    (case po_load o1 immutableApplicationProperties of
       None \<Rightarrow> Panic
     | Some i \<Rightarrow>
        if user \<noteq> '''' \<and> po_load o1 user = None then Panic
        else (case build_properties o1 (Some (load_user o1 user)) (Some i) (Some d) of
           (p, d') \<Rightarrow> Ret (po_text o1 (po_sort o1 p), case d' of None \<Rightarrow> d | Some x \<Rightarrow> x)))"

subsection \<open>The contract of a property set\<close>

locale properties_lib =
  fixes o1 :: "'p props_ops" and lookup :: "'p \<Rightarrow> string \<Rightarrow> string option"
  assumes lookup_new: "lookup (po_new o1) = Map.empty"
    and lookup_set: "lookup (po_set o1 p k v) = (if k = '''' then lookup p else (lookup p)(k \<mapsto> v))"
    and get_lookup: "po_get o1 p k = lookup p k"
    and keys_dom: "set (po_keys o1 p) = dom (lookup p)"
    and lookup_delete: "lookup (po_delete o1 p k) = (lookup p)(k := None)"
    and lookup_merge: "lookup (po_merge o1 p q) = lookup p ++ lookup q"
    and lookup_sort: "lookup (po_sort o1 p) = lookup p"
begin

lemma lookup_delete_all:
  "lookup (foldl (\<lambda>p k. if c k then po_delete o1 p k else p) p ks) = (\<lambda>x. if x \<in> set ks \<and> c x then None else lookup p x)"
  by (induction ks arbitrary: p) (auto simp: lookup_delete fun_eq_iff)

lemma lookup_build:
  "lookup (fst (build_properties o1 (Some q) (Some i) (Some d))) = lookup d ++ lookup q ++ lookup i"
proof -
  have "lookup q ++ (\<lambda>x. if x \<in> dom (lookup d) \<and> lookup q x \<noteq> None then None else lookup d x) = lookup d ++ lookup q"
    by (auto simp: fun_eq_iff map_add_def split: option.split)
  then show ?thesis
    by (simp add: build_properties_def Let_def lookup_merge lookup_delete_all get_lookup keys_dom)
qed

lemma discover_props_dom:
  "discover_props o1 cat wo props ks result = Ret r \<Longrightarrow> x \<in> dom (lookup r) \<Longrightarrow>
   x \<in> dom (lookup result) \<or> prefix microprofileServiceCatalogPropertyPrefix x \<or>
   (\<exists>v. lookup props x = Some v \<and> discovery_like v)"
proof (induction ks arbitrary: result)
  case (Cons key ks)
  let ?v = "case po_get o1 props key of None \<Rightarrow> '''' | Some v \<Rightarrow> v"
  show ?case
  proof (cases "discovery_like ?v")
    case True
    then obtain v where v: "lookup props key = Some v" "discovery_like v"
      by (cases "po_get o1 props key") (auto simp: get_lookup discovery_like_def)
    then show ?thesis
      using Cons True
      by (fastforce simp: Let_def get_lookup lookup_set generateMicroprofileServiceCatalogProperty_def
          split: outcome.splits option.splits if_splits)
  qed (use Cons in \<open>simp add: Let_def\<close>)
qed simp

lemma discover_functions_dom:
  "discover_functions o1 cat wo fs result = Ret r \<Longrightarrow> x \<in> dom (lookup r) \<Longrightarrow>
   x \<in> dom (lookup result) \<or> prefix microprofileServiceCatalogPropertyPrefix x"
proof (induction fs arbitrary: result)
  case (Cons f fs)
  then show ?case
    by (fastforce simp: lookup_set generateMicroprofileServiceCatalogProperty_def
        split: outcome.splits option.splits if_splits)
qed simp

lemma discovery_dom:
  assumes "generateDiscoveryProperties o1 cat props wo = Ret r" and "x \<in> dom (lookup r)"
  shows "prefix microprofileServiceCatalogPropertyPrefix x \<or> (\<exists>v. lookup props x = Some v \<and> discovery_like v)"
proof -
  obtain r1 where r1: "discover_props o1 cat wo props (po_keys o1 props) (po_new o1) = Ret r1"
    and r: "discover_functions o1 cat wo (fl_functions (sp_flow (sf_spec wo))) r1 = Ret r"
    using assms(1) by (auto simp: generateDiscoveryProperties_def split: outcome.splits)
  from discover_functions_dom[OF r assms(2)] show ?thesis
  proof
    assume "x \<in> dom (lookup r1)"
    from discover_props_dom[OF r1 this] show ?thesis by (simp add: lookup_new)
  qed simp
qed

lemma managed_set_lookup:
  assumes "managed_set o1 k wo user cat d = Ret (p, d')" and "po_load o1 immutableApplicationProperties = Some i"
  shows "\<exists>q dd. lookup p = lookup dd ++ lookup q ++ lookup i \<and>
    (cat = None \<or> \<not> IsDevProfile (om_annotations (sf_meta wo)) \<or> \<not> k_openShift k \<longrightarrow> dd = d) \<and>
    (cat = None \<longrightarrow> lookup q = Map.empty) \<and>
    (\<forall>x\<in>dom (lookup q). prefix microprofileServiceCatalogPropertyPrefix x \<or>
       (\<exists>v. lookup (load_user o1 user) x = Some v \<and> discovery_like v))"
proof -
  have rm: "lookup (removeDiscoveryProperties o1 u) x = Some v \<Longrightarrow> lookup u x = Some v" for u x v
    by (simp add: removeDiscoveryProperties_def lookup_delete_all split: if_splits)
  have "\<exists>q dd. build_properties o1 (Some q) (Some i) (Some dd) = (p, d') \<and>
      (case cat of None \<Rightarrow> q = po_new o1 | Some c \<Rightarrow> \<exists>r. generateDiscoveryProperties o1 c
        (removeDiscoveryProperties o1 (load_user o1 user)) wo = Ret r \<and> q = po_merge o1 (po_new o1) r) \<and>
      (cat = None \<or> \<not> IsDevProfile (om_annotations (sf_meta wo)) \<or> \<not> k_openShift k \<longrightarrow> dd = d)"
  proof (cases cat)
    case (Some c)
    then show ?thesis using assms
      by (cases "generateDiscoveryProperties o1 c (removeDiscoveryProperties o1 (load_user o1 user)) wo";
          cases "IsDevProfile (om_annotations (sf_meta wo))";
          cases "setDevProfileDiscoveryProperties o1 k c wo d")
        (auto simp: managed_set_def setDevProfileDiscoveryProperties_def)
  qed (use assms in \<open>simp add: managed_set_def\<close>)
  then obtain q dd where b: "build_properties o1 (Some q) (Some i) (Some dd) = (p, d')"
    and q: "(case cat of None \<Rightarrow> q = po_new o1 | Some c \<Rightarrow> \<exists>r. generateDiscoveryProperties o1 c
        (removeDiscoveryProperties o1 (load_user o1 user)) wo = Ret r \<and> q = po_merge o1 (po_new o1) r)"
    and dd: "cat = None \<or> \<not> IsDevProfile (om_annotations (sf_meta wo)) \<or> \<not> k_openShift k \<longrightarrow> dd = d"
    by blast
  show ?thesis
  proof (intro exI conjI)
    show "lookup p = lookup dd ++ lookup q ++ lookup i" using lookup_build[of q i dd] b by simp
    show "cat = None \<longrightarrow> lookup q = Map.empty" using q by (auto simp: lookup_new)
    show "\<forall>x\<in>dom (lookup q). prefix microprofileServiceCatalogPropertyPrefix x \<or>
       (\<exists>v. lookup (load_user o1 user) x = Some v \<and> discovery_like v)"
    proof (cases cat)
      case (Some c)
      then obtain r where r: "generateDiscoveryProperties o1 c
          (removeDiscoveryProperties o1 (load_user o1 user)) wo = Ret r" "lookup q = lookup r"
        using q by (auto simp: lookup_merge lookup_new)
      show ?thesis using discovery_dom[OF r(1)] rm r(2) by metis
    qed (use q in \<open>simp add: lookup_new\<close>)
  qed (rule dd)
qed

end

subsection \<open>Property sets as ordered lists\<close>

definition load_line :: "string \<Rightarrow> (string \<times> string)" where
  "load_line l = (takeWhile (\<lambda>c. c \<noteq> CHR ''='') l, drop 1 (dropWhile (\<lambda>c. c \<noteq> CHR ''='') l))"

definition list_props :: "gomap props_ops" where
  "list_props =
    \<lparr>po_new = [], po_set = (\<lambda>p k v. if k = '''' then p else AList.update k v p), po_get = map_of,
     po_keys = map fst, po_delete = (\<lambda>p k. AList.delete k p), po_merge = AList.merge, po_sort = sort_key fst,
     po_load = (\<lambda>s. Some (map load_line (filter (\<lambda>l. l \<noteq> '''') (split_on (CHR 0x0A) s)))),
     po_text = (\<lambda>p. concat (map (\<lambda>(k, v). k @ '' = '' @ v @ [CHR 0x0A]) p))\<rparr>"

lemma map_of_filter_key: "map_of xs k = (case filter (\<lambda>x. fst x = k) xs of [] \<Rightarrow> None | x # _ \<Rightarrow> Some (snd x))"
  by (induction xs) auto

lemma map_of_sort_key: "map_of (sort_key fst xs) = map_of xs"
  by (simp add: fun_eq_iff map_of_filter_key sort_key_stable)

interpretation list_props: properties_lib list_props map_of
  by unfold_locales
    (auto simp: list_props_def update_conv' delete_conv' merge_conv' map_of_sort_key dom_map_of_conv_image_fst)



end
