(* ===== verification/Object_Ensurers.thy ===== *)
theory Object_Ensurers
  imports Managed_Properties
begin

text \<open>
  How the objects of a workflow are kept: the visitors that change a live object
  (\<open>profiles/common/mutate_visitors.go\<close>, \<open>profiles/preview/object_creators_preview.go\<close>) and the engine that
  creates or patches it (\<open>profiles/common/ensurer.go\<close>).  \<open>controllerutil.CreateOrPatch\<close> is not in the
  repository: for each kind of object it is an operation of the record \<open>upserts\<close>.  A visitor answers the
  changed object, an error or a panic.
\<close>

definition obind :: "'a outcome \<Rightarrow> ('a \<Rightarrow> 'b outcome) \<Rightarrow> 'b outcome" where
  "obind x f = (case x of Ret a \<Rightarrow> f a | Fail e \<Rightarrow> Fail e | Panic \<Rightarrow> Panic)"

lemma obind_simps [simp]:
  "obind (Ret a) f = f a" "obind (Fail e) f = Fail e" "obind Panic f = Panic"
  by (simp_all add: obind_def)

type_synonym 'o visitor = "'o \<Rightarrow> 'o outcome"

subsection \<open>Visitors\<close>

definition on_pod_d :: "(pod_spec \<Rightarrow> pod_spec outcome) \<Rightarrow> deployment visitor" where
  "on_pod_d f d = obind (f (dp_pod d)) (\<lambda>ps. Ret (d\<lparr>dp_pod := ps\<rparr>))"

definition on_pod_k :: "(pod_spec \<Rightarrow> pod_spec outcome) \<Rightarrow> kservice visitor" where
  "on_pod_k f d = obind (f (ks_pod d)) (\<lambda>ps. Ret (d\<lparr>ks_pod := ps\<rparr>))"

text \<open>The workflow's container, found by name; without one the code indexes at -1.\<close>

definition upd_workflow_container :: "(container \<Rightarrow> container) \<Rightarrow> pod_spec \<Rightarrow> pod_spec outcome" where
  "upd_workflow_container f ps =
    (case GetContainerByName DefaultContainerName (Some ps) of
       (Some c, i) \<Rightarrow> Ret (ps\<lparr>ps_containers := (ps_containers ps)[nat i := f c]\<rparr>)
     | (None, _) \<Rightarrow> Panic)"

definition set_image :: "string \<Rightarrow> container \<Rightarrow> container" where
  "set_image img c = c\<lparr>ct_image := img, ct_imagePullPolicy := GetImagePullPolicy img\<rparr>"

definition ImageDeploymentMutateVisitor :: "sonataflow \<Rightarrow> string \<Rightarrow> deployment visitor" where
  "ImageDeploymentMutateVisitor wo img d =
    (if HasContainerSpecImage wo then Ret d else on_pod_d (upd_workflow_container (set_image img)) d)"

definition ImageKServiceMutateVisitor :: "sonataflow \<Rightarrow> string \<Rightarrow> kservice visitor" where
  "ImageKServiceMutateVisitor wo img d =
    (if HasContainerSpecImage wo then Ret d else on_pod_k (upd_workflow_container (set_image img)) d)"

text \<open>The desired pod is merged into the live one, whose volumes and mounts are dropped, except for what
  Knative injected.\<close>

definition keep_pod :: "libs \<Rightarrow> pod_spec \<Rightarrow> pod_spec \<Rightarrow> pod_spec outcome" where
  "keep_pod lb original live =
    (let original = SaveKnativeData original live;
         live = live\<lparr>ps_volumes := [], ps_containers := map (\<lambda>c. c\<lparr>ct_mounts := []\<rparr>) (ps_containers live)\<rparr>
     in case lb_mergePod lb live original of Inl e \<Rightarrow> Fail e | Inr ps \<Rightarrow> Ret ps)"

definition EnsureDeployment :: "libs \<Rightarrow> deployment \<Rightarrow> deployment \<Rightarrow> deployment outcome" where
  "EnsureDeployment lb original obj =
    (let m = (dp_meta obj)\<lparr>om_labels := om_labels (dp_meta original), om_finalizers := om_finalizers (dp_meta original)\<rparr>
     in on_pod_d (keep_pod lb (dp_pod original))
          (obj\<lparr>dp_replicas := dp_replicas original, dp_selector := dp_selector original, dp_meta := m\<rparr>))"

definition map_equal :: "gomap \<Rightarrow> gomap \<Rightarrow> bool" where
  "map_equal a b \<longleftrightarrow> list_all (\<lambda>k. map_of a k = map_of b k) (map fst a @ map fst b)"

definition DeploymentMutateVisitor ::
  "libs \<Rightarrow> sonataflow \<Rightarrow> sonataflow_platform option \<Rightarrow> deployment visitor" where
  "DeploymentMutateVisitor lb wo pl d =
    (if IsObjectNew (dp_meta d) then Ret d
     else obind (DeploymentCreator lb wo pl) (\<lambda>src.
       let labels = Some (lb_mergeLabels lb (map_init (om_labels (dp_meta d))) (map_init (om_labels (dp_meta src))));
           d = d\<lparr>dp_meta := (dp_meta d)\<lparr>om_labels := labels\<rparr>\<rparr>;
           src = src\<lparr>dp_meta := (dp_meta src)\<lparr>om_labels := labels\<rparr>,
                     dp_selector := if map_equal (dp_selector d) (dp_selector src) then dp_selector src
                                    else dp_selector d\<rparr>
       in EnsureDeployment lb src d))"

definition EnsureKService :: "libs \<Rightarrow> kservice \<Rightarrow> kservice \<Rightarrow> kservice outcome" where
  "EnsureKService lb original obj =
    on_pod_k (keep_pod lb (ks_pod original))
      (obj\<lparr>ks_meta := (ks_meta obj)\<lparr>om_labels := om_labels (ks_meta original)\<rparr>\<rparr>)"

definition KServiceMutateVisitor ::
  "libs \<Rightarrow> sonataflow \<Rightarrow> sonataflow_platform option \<Rightarrow> kservice visitor" where
  "KServiceMutateVisitor lb wo pl d =
    (if IsObjectNew (ks_meta d) then Ret d
     else obind (KServiceCreator lb wo pl) (\<lambda>src. EnsureKService lb src d))"

definition ServiceMutateVisitor :: "sonataflow \<Rightarrow> service visitor" where
  "ServiceMutateVisitor wo s =
    (if IsObjectNew (sv_meta s) then Ret s
     else (let o' = ServiceCreator wo
           in Ret (s\<lparr>sv_ports := sv_ports o', sv_meta := (sv_meta s)\<lparr>om_labels := om_labels (sv_meta o')\<rparr>\<rparr>)))"

text \<open>The managed properties are rebuilt from the user's, with discovery through the catalog.\<close>

definition ManagedPropertiesMutateVisitor ::
  "'p props_ops \<Rightarrow> 'w cluster \<Rightarrow> catalog \<Rightarrow> sonataflow \<Rightarrow> sonataflow_platform option \<Rightarrow> config_map \<Rightarrow> 'w \<Rightarrow>
   config_map visitor" where
  "ManagedPropertiesMutateVisitor o1 k cat wo pl userProps w cm =
    (let key = GetManagedPropertiesFileName wo;
         data = map_init (cm_data cm);
         data = (if map_has data key then data else [(key, '''')]);
         user = nil_map_get (cm_data userProps) ApplicationPropertiesFileName
     in obind (fst (NewManagedPropertyHandler o1 k wo pl w)) (\<lambda>d.
        obind (managed_Build o1 k wo user (Some cat) d) (\<lambda>txt.
          Ret (cm\<lparr>cm_meta := (cm_meta cm)\<lparr>om_labels := om_labels (sf_meta wo)\<rparr>,
                  cm_data := Some (AList.update key txt data)\<rparr>))))"

definition RolloutDeploymentIfCMChangedMutateVisitor ::
  "int \<Rightarrow> sonataflow \<Rightarrow> config_map \<Rightarrow> config_map \<Rightarrow> deployment visitor" where
  "RolloutDeploymentIfCMChangedMutateVisitor now wo userCM managedCM d =
    (case AnnotateDeploymentConfigChecksum now userCM managedCM ApplicationPropertiesFileName
            (GetManagedPropertiesFileName wo) d of
       Inl e \<Rightarrow> Fail (OtherError e) | Inr d \<Rightarrow> Ret d)"

definition RestoreDeploymentVolumeAndVolumeMountMutateVisitor :: "deployment visitor" where
  "RestoreDeploymentVolumeAndVolumeMountMutateVisitor =
    on_pod_d (\<lambda>ps. Ret (RestoreKnativeVolumeAndVolumeMount ps))"

definition RestoreKServiceVolumeAndVolumeMountMutateVisitor :: "kservice visitor" where
  "RestoreKServiceVolumeAndVolumeMountMutateVisitor =
    on_pod_k (\<lambda>ps. Ret (RestoreKnativeVolumeAndVolumeMount ps))"

definition imageOpenShiftTriggers :: string where "imageOpenShiftTriggers = ''image.openshift.io/triggers''"

definition trigger_annotation :: "string \<Rightarrow> string" where
  "trigger_annotation img =
    (let q = [CHR 0x22]; bq = [CHR 0x5C, CHR 0x22]
     in ''[{'' @ q @ ''from'' @ q @ '':{'' @ q @ ''kind'' @ q @ '':'' @ q @ ''ImageStreamTag'' @ q @ '','' @ q @ ''name'' @
        q @ '':'' @ q @ img @ q @ ''},'' @ q @ ''fieldPath'' @ q @ '':'' @ q @
        ''spec.template.spec.containers[?(@.name=='' @ bq @ DefaultContainerName @ bq @ '')].image'' @ q @ ''}]'')"

definition addOpenShiftImageTriggerDeploymentMutateVisitor :: "sonataflow \<Rightarrow> string \<Rightarrow> deployment visitor" where
  "addOpenShiftImageTriggerDeploymentMutateVisitor wo img d =
    (if HasContainerSpecImage wo then Ret d
     else Ret (d\<lparr>dp_meta := (dp_meta d)\<lparr>om_annotations :=
            Some (AList.update imageOpenShiftTriggers (trigger_annotation img)
              (map_init (om_annotations (dp_meta d))))\<rparr>\<rparr>))"

definition ConfigMapWorkflowPropsVolumeName :: string where
  "ConfigMapWorkflowPropsVolumeName = ''workflow-properties''"

definition quarkusProdConfigMountPath :: string where "quarkusProdConfigMountPath = ''/deployments/config''"

definition props_projections :: "sonataflow \<Rightarrow> config_map \<Rightarrow> config_map \<Rightarrow> projection list outcome" where
  "props_projections wo userCM managedCM =
    (let file = GetManagedPropertiesFileName wo;
         add = (\<lambda>cm f ps. VolumeProjectionAddConfigMap (om_name (cm_meta cm)) [(f, f)] ps)
     in case Option.bind (add userCM ApplicationPropertiesFileName []) (add managedCM file) of
          None \<Rightarrow> Panic | Some ps \<Rightarrow> Ret ps)"

definition mount_props :: "sonataflow \<Rightarrow> config_map \<Rightarrow> config_map \<Rightarrow> pod_spec \<Rightarrow> pod_spec outcome" where
  "mount_props wo userCM managedCM ps =
    obind (props_projections wo userCM managedCM) (\<lambda>prs.
      upd_workflow_container
        (\<lambda>c. AddOrReplaceVolumeMount c
          [mk_VolumeMount ConfigMapWorkflowPropsVolumeName True quarkusProdConfigMountPath])
        (AddOrReplaceVolume ps [\<lparr>vl_name = ConfigMapWorkflowPropsVolumeName, vl_source = VsProjected prs\<rparr>]))"

definition mount_d :: "int \<Rightarrow> sonataflow \<Rightarrow> config_map \<Rightarrow> config_map \<Rightarrow> deployment visitor" where
  "mount_d now wo userCM managedCM d =
    obind (RolloutDeploymentIfCMChangedMutateVisitor now wo userCM managedCM d)
      (on_pod_d (mount_props wo userCM managedCM))"

definition mount_k :: "sonataflow \<Rightarrow> config_map \<Rightarrow> config_map \<Rightarrow> kservice visitor" where
  "mount_k wo userCM managedCM = on_pod_k (mount_props wo userCM managedCM)"

subsection \<open>The engine\<close>

datatype op_result = OpNone | OpCreated | OpUpdated

text \<open>\<open>controllerutil.CreateOrPatch\<close> in a state: it is given the object as desired and the function that
  changes the live one.\<close>

type_synonym ('s, 'o) upsert =
  "'s \<Rightarrow> 'o \<Rightarrow> ('s \<Rightarrow> 'o \<Rightarrow> 'o outcome \<times> 's) \<Rightarrow> ('o \<times> op_result) outcome \<times> 's"

record 'w upserts =
  up_deployment :: "('w, deployment) upsert"
  up_kservice :: "('w, kservice) upsert"
  up_service :: "('w, service) upsert"
  up_serviceMonitor :: "('w, service_monitor) upsert"
  up_configMap :: "('w, config_map) upsert"
  up_sinkBinding :: "('w, sink_binding) upsert"
  up_trigger :: "(sonataflow \<times> 'w, trigger) upsert"

fun run_visitors :: "'o visitor list \<Rightarrow> 'o visitor" where
  "run_visitors [] x = Ret x"
| "run_visitors (v # vs) x = obind (v x) (run_visitors vs)"

definition own :: "libs \<Rightarrow> ('o \<Rightarrow> object_meta) \<Rightarrow> sonataflow \<Rightarrow> 'o visitor" where
  "own lb meta wo x = (case lb_setOwner lb (sf_meta wo) (meta x) of Some e \<Rightarrow> Fail e | None \<Rightarrow> Ret x)"

text \<open>\<open>ensureObject\<close> for an object that is not a trigger; a nil object is left alone by the callers.\<close>

definition ensureObject ::
  "libs \<Rightarrow> ('o \<Rightarrow> object_meta) \<Rightarrow> ('w, 'o) upsert \<Rightarrow> sonataflow \<Rightarrow> 'o visitor list \<Rightarrow> 'o \<Rightarrow> 'w \<Rightarrow>
   ('o option \<times> op_result) outcome \<times> 'w" where
  "ensureObject lb meta up wo vs x w =
    (case up w x (\<lambda>w x. (obind (run_visitors vs x) (own lb meta wo), w)) of
       (r, w) \<Rightarrow> (obind r (\<lambda>(x, op). Ret (Some x, op)), w))"

definition ensure_created ::
  "libs \<Rightarrow> ('o \<Rightarrow> object_meta) \<Rightarrow> ('w, 'o) upsert \<Rightarrow> sonataflow \<Rightarrow> 'o visitor list \<Rightarrow> 'o option outcome \<Rightarrow> 'w \<Rightarrow>
   ('o option \<times> op_result) outcome \<times> 'w" where
  "ensure_created lb meta up wo vs created w =
    (case created of
       Panic \<Rightarrow> (Panic, w)
     | Fail e \<Rightarrow> (Fail e, w)
     | Ret None \<Rightarrow> (Ret (None, OpNone), w)
     | Ret (Some x) \<Rightarrow> ensureObject lb meta up wo vs x w)"

definition AddFinalizer :: "string \<Rightarrow> object_meta \<Rightarrow> object_meta" where
  "AddFinalizer f m = (if ContainsFinalizer m f then m else m\<lparr>om_finalizers := om_finalizers m @ [f]\<rparr>)"

definition setWorkflowFinalizer :: "'w cluster \<Rightarrow> sonataflow \<times> 'w \<Rightarrow> kerror option \<times> sonataflow \<times> 'w" where
  "setWorkflowFinalizer k s =
    (case s of (wo, w) \<Rightarrow>
       if ContainsFinalizer (sf_meta wo) TriggerFinalizer then (None, wo, w)
       else (let wo = wo\<lparr>sf_meta := AddFinalizer TriggerFinalizer (sf_meta wo)\<rparr>;
                 (e, w) = c_update (k_workflows k) w wo
             in (e, wo, w)))"

definition addToSonataFlowTriggerList :: "sonataflow \<Rightarrow> trigger \<Rightarrow> sonataflow" where
  "addToSonataFlowTriggerList wo t =
    (let m = tg_meta t; ts = ss_triggers (sf_status wo)
     in if list_ex (\<lambda>r. nr_name r = om_name m \<and> nr_namespace r = om_namespace m) ts then wo
        else wo\<lparr>sf_status := (sf_status wo)\<lparr>ss_triggers :=
               ts @ [\<lparr>nr_name = om_name m, nr_namespace = om_namespace m\<rparr>]\<rparr>\<rparr>)"

text \<open>The change of a trigger: it is noted in the workflow; a trigger in another namespace cannot be owned
  and gets the workflow its finalizer instead.\<close>

definition mutate_trigger ::
  "libs \<Rightarrow> 'w cluster \<Rightarrow> sonataflow \<times> 'w \<Rightarrow> trigger \<Rightarrow> trigger outcome \<times> sonataflow \<times> 'w" where
  "mutate_trigger lb k s t =
    (let wo = addToSonataFlowTriggerList (fst s) t; w = snd s
     in if sf_namespace wo \<noteq> om_namespace (tg_meta t)
        then (case setWorkflowFinalizer k (wo, w) of
                (Some e, s) \<Rightarrow> (Fail e, s) | (None, s) \<Rightarrow> (Ret t, s))
        else (own lb tg_meta wo t, wo, w))"

fun ensure_triggers ::
  "libs \<Rightarrow> 'w cluster \<Rightarrow> (sonataflow \<times> 'w, trigger) upsert \<Rightarrow> trigger list \<Rightarrow> sonataflow \<times> 'w \<Rightarrow>
   unit outcome \<times> sonataflow \<times> 'w" where
  "ensure_triggers lb k up [] s = (Ret (), s)"
| "ensure_triggers lb k up (t # ts) s =
    (case up s t (mutate_trigger lb k) of
       (Ret _, s) \<Rightarrow> ensure_triggers lb k up ts s
     | (Fail e, s) \<Rightarrow> (Fail e, s)
     | (Panic, s) \<Rightarrow> (Panic, s))"

subsection \<open>The ensurers of a profile\<close>

text \<open>The fields of \<open>ObjectEnsurers\<close>, which are interfaces in the code, and those of the handler of
  Knative eventing.  \<open>None\<close> for the triggers is a call that does not return.\<close>

type_synonym ('w, 'o) ensured = "('o option \<times> op_result) outcome \<times> 'w"

record 'w ensurers =
  en_deployment :: "sonataflow \<Rightarrow> sonataflow_platform option \<Rightarrow> deployment visitor list \<Rightarrow> 'w \<Rightarrow> ('w, deployment) ensured"
  en_kservice :: "sonataflow \<Rightarrow> sonataflow_platform option \<Rightarrow> kservice visitor list \<Rightarrow> 'w \<Rightarrow> ('w, kservice) ensured"
  en_service :: "sonataflow \<Rightarrow> service visitor list \<Rightarrow> 'w \<Rightarrow> ('w, service) ensured"
  en_serviceMonitor :: "sonataflow \<Rightarrow> 'w \<Rightarrow> ('w, service_monitor) ensured"
  en_userProps :: "sonataflow \<Rightarrow> 'w \<Rightarrow> ('w, config_map) ensured"
  en_managedProps :: "sonataflow \<Rightarrow> sonataflow_platform option \<Rightarrow> config_map visitor list \<Rightarrow> 'w \<Rightarrow> ('w, config_map) ensured"
  en_sinkBinding :: "sonataflow \<Rightarrow> sonataflow_platform option \<Rightarrow> 'w \<Rightarrow>
    (sink_binding option \<times> op_result) outcome \<times> sonataflow \<times> sonataflow_platform option \<times> 'w"
  en_triggers :: "sonataflow \<Rightarrow> sonataflow_platform option \<Rightarrow> 'w \<Rightarrow> (unit outcome \<times> sonataflow \<times> 'w) option"

definition NewObjectEnsurers :: "libs \<Rightarrow> 'p props_ops \<Rightarrow> 'w cluster \<Rightarrow> 'w upserts \<Rightarrow> 'w ensurers" where
  "NewObjectEnsurers lb o1 k up =
    \<lparr>en_deployment = (\<lambda>wo pl vs w. ensure_created lb dp_meta (up_deployment up) wo vs
        (obind (DeploymentCreator lb wo pl) (\<lambda>d. Ret (Some d))) w),
     en_kservice = (\<lambda>wo pl vs w. ensure_created lb ks_meta (up_kservice up) wo vs
        (obind (KServiceCreator lb wo pl) (\<lambda>d. Ret (Some d))) w),
     en_service = (\<lambda>wo vs w. ensure_created lb sv_meta (up_service up) wo vs (Ret (Some (ServiceCreator wo))) w),
     en_serviceMonitor = (\<lambda>wo w. ensure_created lb sm_meta (up_serviceMonitor up) wo []
        (Ret (Some (ServiceMonitorCreator wo))) w),
     en_userProps = (\<lambda>wo w. ensure_created lb cm_meta (up_configMap up) wo []
        (Ret (Some (CreateNewUserPropsConfigMap wo))) w),
     en_managedProps = (\<lambda>wo pl vs w. ensure_created lb cm_meta (up_configMap up) wo vs
        (obind (fst (ApplicationManagedProperties o1 k wo pl w))
          (\<lambda>txt. Ret (Some (CreateNewManagedPropsConfigMap wo txt)))) w),
     en_sinkBinding = (\<lambda>wo pl w. case SinkBindingCreator k wo pl w of
        (r, wo, pl) \<Rightarrow> (case ensure_created lb sn_meta (up_sinkBinding up) wo [] r w of (r, w) \<Rightarrow> (r, wo, pl, w))),
     en_triggers = (\<lambda>wo pl w. map_option (\<lambda>r. case r of
        Ret ts \<Rightarrow> ensure_triggers lb k (up_trigger up) ts (wo, w) | Fail e \<Rightarrow> (Fail e, wo, w) | Panic \<Rightarrow> (Panic, wo, w))
        (TriggersCreator k lb wo pl w))\<rparr>"

end
