(* ===== verification/Workflow_Reconciler.thy ===== *)
theory Workflow_Reconciler
  imports Object_Ensurers
begin

text \<open>
  What the reconciliation profiles share: the update of a workflow's status and the state machine
  (\<open>profiles/common/reconciler.go\<close>), the status of its deployment (\<open>deployment_status_manager.go\<close>), the
  manager of its build (\<open>internal/controller/builder/kogitoserverlessbuild_manager.go\<close>) and the eventing
  objects (\<open>knative_eventing.go\<close>).  The list of objects a state answers is only kept for inspection and
  is left out.
\<close>

subsection \<open>Builds\<close>

definition QuarkusExtensionsBuildArg :: string where "QuarkusExtensionsBuildArg = ''QUARKUS_EXTENSIONS''"

definition MarkToRestart :: "'w cluster \<Rightarrow> sonataflow_build \<Rightarrow> 'w \<Rightarrow> kerror option \<times> 'w" where
  "MarkToRestart k b w = c_status (k_builds k) w (b\<lparr>sb_phase := PhaseNone\<rparr>)"

definition isExtensionPresent :: "string \<Rightarrow> gav \<Rightarrow> bool" where
  "isExtensionPresent v g \<longleftrightarrow> sublist (GroupAndArtifact g) v"

definition hasAnyExtensionPresent :: "string \<Rightarrow> gav list \<Rightarrow> bool" where
  "hasAnyExtensionPresent v gs \<longleftrightarrow> list_ex (isExtensionPresent v) gs"

definition append_extension :: "string \<Rightarrow> gav \<Rightarrow> string" where
  "append_extension v g = (if v \<noteq> '''' then v @ '','' else v) @ gav_String g"

definition extended :: "gav list \<Rightarrow> string \<Rightarrow> string" where
  "extended gs v = (if hasAnyExtensionPresent v gs then v else foldl append_extension v gs)"

text \<open>The first build argument of the name is changed through its pointer, or one is appended.\<close>

fun upd_arg :: "(string \<Rightarrow> string) \<Rightarrow> string \<Rightarrow> env_var list \<Rightarrow> env_var list" where
  "upd_arg f name [] = [\<lparr>ev_name = name, ev_value = f '''', ev_valueFrom = None\<rparr>]"
| "upd_arg f name (e # es) =
    (if ev_name e = name then e\<lparr>ev_value := f (ev_value e)\<rparr> # es else e # upd_arg f name es)"

definition addPersistenceExtensions :: "gav list \<Rightarrow> build_template \<Rightarrow> build_template" where
  "addPersistenceExtensions gs t = t\<lparr>bt_buildArgs := upd_arg (extended gs) QuarkusExtensionsBuildArg (bt_buildArgs t)\<rparr>"

definition new_build :: "libs \<Rightarrow> 'w cluster \<Rightarrow> sonataflow \<Rightarrow> sonataflow_platform \<Rightarrow> sonataflow_build" where
  "new_build lb k wo p =
    \<lparr>sb_meta = new_meta (sf_namespace wo) (sf_name wo),
     sb_template = (if UsesPostgreSQLPersistence wo p
                    then addPersistenceExtensions (cg_postgreSQLExtensions (k_cfg k)) (pf_buildTemplate p)
                    else pf_buildTemplate p),
     sb_imageTag = '''', sb_phase = PhaseNone, sb_error = '''', sb_innerBuild = ''''\<rparr>"

definition GetOrCreateBuild ::
  "libs \<Rightarrow> 'w cluster \<Rightarrow> sonataflow \<Rightarrow> 'w \<Rightarrow> (kerror + sonataflow_build) \<times> 'w" where
  "GetOrCreateBuild lb k wo w =
    (case c_get (k_builds k) w (sf_namespace wo) (sf_name wo) of
       Inr b \<Rightarrow> (Inr b, w)
     | Inl e \<Rightarrow>
        if \<not> IsNotFound e then (Inl e, w)
        else
         (case GetActivePlatform k (sf_namespace wo) w of
            (Inl e, w) \<Rightarrow> (Inl e, w)
          | (Inr p, w) \<Rightarrow>
             (let b = new_build lb k wo p
              in case lb_setOwner lb (sf_meta wo) (sb_meta b) of
                   Some e \<Rightarrow> (Inl e, w)
                 | None \<Rightarrow>
                    (case c_create (k_builds k) w b of
                       (Some e, w) \<Rightarrow> (Inl e, w)
                     | (None, w) \<Rightarrow> (Inr b, w)))))"

subsection \<open>Status of a workflow\<close>

definition flow_crc :: "sonataflow \<Rightarrow> 32 word option" where
  "flow_crc wo = map_option crc32 (fl_gob (sp_flow (sf_spec wo)))"

definition gob_error :: kerror where "gob_error = OtherError ''gob''"

text \<open>The error, the workflow as it is in memory afterwards, and the world.\<close>

definition PerformStatusUpdate ::
  "'w cluster \<Rightarrow> sonataflow \<Rightarrow> 'w \<Rightarrow> kerror option \<times> sonataflow \<times> 'w" where
  "PerformStatusUpdate k wo w =
    (case GetActivePlatform k (sf_namespace wo) w of
       (Inl e, w) \<Rightarrow> (Some e, wo, w)
     | (Inr pl, w) \<Rightarrow>
        (let wo = upd_conds (\<lambda>s. s\<lparr>st_observedGeneration := om_generation (sf_meta wo)\<rparr>) wo
         in case flow_crc wo of
              None \<Rightarrow> (Some gob_error, wo\<lparr>sf_status := (sf_status wo)\<lparr>ss_flowCRC := 0\<rparr>\<rparr>, w)
            | Some crc \<Rightarrow>
               (let wo = wo\<lparr>sf_status := (sf_status wo)\<lparr>ss_flowCRC := crc\<rparr>\<rparr>;
                    wo = SetServiceUrlsInWorkflowStatus (Some pl) wo;
                    wo = wo\<lparr>sf_status := (sf_status wo)
                           \<lparr>ss_platform := Some \<lparr>nr_name = pf_name pl, nr_namespace = pf_namespace pl\<rparr>\<rparr>\<rparr>;
                    (e, w) = c_status (k_workflows k) w wo
                in (e, wo, w))))"

definition mark_false :: "int \<Rightarrow> string \<Rightarrow> string \<Rightarrow> string \<Rightarrow> sonataflow \<Rightarrow> sonataflow" where
  "mark_false now t r m wo = upd_conds (MarkFalse now t r m) wo"

definition mark_true :: "int \<Rightarrow> string \<Rightarrow> sonataflow \<Rightarrow> sonataflow" where
  "mark_true now t wo = upd_conds (MarkTrue now t) wo"

definition mark_unknown :: "int \<Rightarrow> string \<Rightarrow> string \<Rightarrow> string \<Rightarrow> sonataflow \<Rightarrow> sonataflow" where
  "mark_unknown now t r m wo = upd_conds (MarkUnknown now workflow_manager t r m) wo"

text \<open>Delays in seconds.\<close>

definition RequeueAfterFailure :: int where "RequeueAfterFailure = 180"
definition RequeueAfterFollowDeployment :: int where "RequeueAfterFollowDeployment = 5"
definition RequeueAfterIsRunning :: int where "RequeueAfterIsRunning = 60"

lemmas requeue_defs = RequeueAfterFailure_def RequeueAfterFollowDeployment_def RequeueAfterIsRunning_def

subsection \<open>The deployment's status\<close>

text \<open>\<open>Ret None\<close> in the code is a nil deployment with no error.\<close>

definition getDeployment :: "'w cluster \<Rightarrow> sonataflow \<Rightarrow> 'w \<Rightarrow> kerror + deployment option" where
  "getDeployment k wo w =
    (let found = (\<lambda>name. case c_get (k_deployments k) w (sf_namespace wo) name of
                     Inr d \<Rightarrow> Inr (Some d) | Inl e \<Rightarrow> if IsNotFound e then Inr None else Inl e)
     in if IsKnativeDeployment wo then
          (case c_get (k_kservices k) w (sf_namespace wo) (sf_name wo) of
             Inl e \<Rightarrow> if IsNotFound e then Inr None else Inl e
           | Inr s \<Rightarrow> found (ks_latestCreatedRevisionName s @ ''-deployment''))
        else found (sf_name wo))"

definition RolloutDeployment :: "int \<Rightarrow> 'w cluster \<Rightarrow> sonataflow \<Rightarrow> 'w \<Rightarrow> kerror option \<times> 'w" where
  "RolloutDeployment now k wo w =
    (case getDeployment k wo w of
       Inl e \<Rightarrow> (Some e, w)
     | Inr None \<Rightarrow> (None, w)
     | Inr (Some d) \<Rightarrow>
        (case MarkDeploymentToRollout now d of
           Inl e \<Rightarrow> (Some (OtherError e), w)
         | Inr d \<Rightarrow> c_update (k_deployments k) w d))"

definition GetDeploymentUnavailabilityMessage :: "deployment \<Rightarrow> string" where
  "GetDeploymentUnavailabilityMessage d =
    (let m = deployment_unavailability d
     in if m = '''' then ''Workflow Deployment '' @ om_name (dp_meta d) @ '' is unavailable'' else m)"

text \<open>A label selector made of key and value pairs: every key is there with its value.\<close>

definition selects :: "gomap \<Rightarrow> object_meta \<Rightarrow> bool" where
  "selects sel m \<longleftrightarrow>
    list_all (\<lambda>(key, v). nil_map_get (om_labels m) key = v \<and>
      (\<exists>l\<in>set_option (om_labels m). map_has l key)) sel"

text \<open>The pods of a deployment for the troubleshooter: those of its namespace with the labels of its
  selector.\<close>

definition pods_of :: "'w cluster \<Rightarrow> 'w \<Rightarrow> gomap \<Rightarrow> string \<Rightarrow> kerror + pod list" where
  "pods_of k w sel ns =
    map_sum id (filter (\<lambda>p. selects sel (pd_meta p))) (c_list (k_pods k) w ns)"

definition SyncDeploymentStatus ::
  "int \<Rightarrow> 'w cluster \<Rightarrow> sonataflow \<Rightarrow> 'w \<Rightarrow> (ctrl_result \<times> kerror option) \<times> sonataflow" where
  "SyncDeploymentStatus now k wo w =
    (let missing = (\<lambda>e. ((after_seconds RequeueAfterFailure, e),
           mark_false now RunningConditionType DeploymentUnavailableReason ''Couldn't find the workflow deployment'' wo))
     in case getDeployment k wo w of
          Inl e \<Rightarrow> missing (Some e)
        | Inr None \<Rightarrow> missing None
        | Inr (Some d) \<Rightarrow>
           if IsDeploymentAvailable d then
             ((after_seconds RequeueAfterIsRunning, None), mark_true now RunningConditionType wo)
           else if IsDeploymentFailed d then
             ((after_seconds RequeueAfterFailure, None),
              mark_false now RunningConditionType DeploymentFailureReason (GetDeploymentUnavailabilityMessage d)
                (wo\<lparr>sf_status := (sf_status wo)\<lparr>ss_lastRecoverAttempt := now\<rparr>\<rparr>))
           else
             (let waiting = ((\<lparr>rs_requeue = True, rs_after = RequeueAfterFollowDeployment\<rparr>, None),
                    mark_false now RunningConditionType WaitingForDeploymentReason '''' wo)
              in if IsDeploymentMinimumReplicasUnavailable d then
                   (case ReasonMessage (pods_of k w) d DefaultContainerName of
                      Inl e \<Rightarrow> ((after_seconds RequeueAfterFailure, Some e), wo)
                    | Inr m \<Rightarrow>
                       if m \<noteq> '''' then
                         ((after_seconds RequeueAfterFailure, None),
                          mark_false now RunningConditionType DeploymentUnavailableReason m wo)
                       else waiting)
                 else waiting))"

subsection \<open>Eventing\<close>

text \<open>\<open>None\<close> is a panic or a call that does not return.\<close>

definition eventing_Ensure ::
  "'w cluster \<Rightarrow> 'w ensurers \<Rightarrow> sonataflow \<Rightarrow> sonataflow_platform option \<Rightarrow> 'w \<Rightarrow>
   (kerror option \<times> sonataflow \<times> 'w) option" where
  "eventing_Ensure k en wo pl w =
    (case k_knative k w of
       Inl e \<Rightarrow> Some (Some e, wo, w)
     | Inr av \<Rightarrow>
        if \<not> ka_eventing av then Some (None, wo, w)
        else
         (case en_sinkBinding en wo pl w of
            (Panic, _) \<Rightarrow> None
          | (Fail e, wo, pl, w) \<Rightarrow> Some (Some e, wo, w)
          | (Ret _, wo, pl, w) \<Rightarrow>
             (case en_triggers en wo pl w of
                None \<Rightarrow> None
              | Some (Panic, _) \<Rightarrow> None
              | Some (Fail e, wo, w) \<Rightarrow> Some (Some e, wo, w)
              | Some (Ret _, wo, w) \<Rightarrow> Some (None, wo, w))))"

subsection \<open>The state machine\<close>

text \<open>What \<open>Do\<close> leaves behind.\<close>

record 'w stepped =
  sd_result :: ctrl_result
  sd_error :: "kerror option"
  sd_workflow :: sonataflow
  sd_world :: 'w

definition stepped :: "ctrl_result \<Rightarrow> kerror option \<Rightarrow> sonataflow \<Rightarrow> 'w \<Rightarrow> 'w stepped" where
  "stepped r e wo w = \<lparr>sd_result = r, sd_error = e, sd_workflow = wo, sd_world = w\<rparr>"

lemma stepped_simps [simp]:
  "sd_result (stepped r e wo w) = r" "sd_error (stepped r e wo w) = e"
  "sd_workflow (stepped r e wo w) = wo" "sd_world (stepped r e wo w) = w"
  by (simp_all add: stepped_def)

record 'w reconciliation_state =
  rc_can :: "sonataflow \<Rightarrow> bool"
  rc_do :: "sonataflow \<Rightarrow> 'w \<Rightarrow> 'w stepped option"
  rc_post :: "sonataflow \<Rightarrow> 'w \<Rightarrow> kerror option \<times> 'w"

definition unknown_state :: kerror where
  "unknown_state = OtherError ''the workflow is in an unknown state condition''"

text \<open>\<open>do\<close>: the first state that can reconcile runs; its post-reconciliation follows unless it failed.
  The error of the post-reconciliation is returned with the state's result.\<close>

definition machine_do :: "'w reconciliation_state list \<Rightarrow> sonataflow \<Rightarrow> 'w \<Rightarrow> 'w stepped option" where
  "machine_do states wo w =
    (case find (\<lambda>h. rc_can h wo) states of
       None \<Rightarrow> Some (stepped no_result (Some unknown_state) wo w)
     | Some h \<Rightarrow>
        (case rc_do h wo w of
           None \<Rightarrow> None
         | Some s \<Rightarrow>
            if sd_error s \<noteq> None then Some s
            else (case rc_post h (sd_workflow s) (sd_world s) of
                    (e, w) \<Rightarrow> Some (s\<lparr>sd_error := e, sd_world := w\<rparr>))))"

definition profile_Reconcile ::
  "int \<Rightarrow> 'w reconciliation_state list \<Rightarrow> sonataflow \<Rightarrow> 'w \<Rightarrow> 'w stepped option" where
  "profile_Reconcile now states wo w =
    machine_do states (upd_conds (InitializeConditions now workflow_manager) wo) w"

end
