(* ===== verification/Preview_Profile.thy ===== *)
theory Preview_Profile
  imports Workflow_Reconciler
begin

text \<open>
  The preview profile (\<open>internal/controller/profiles/preview\<close>): a workflow is built into an image, the
  build is followed, and the image is deployed.  \<open>Do\<close> of each state is a function on the workflow and
  the world; \<open>None\<close> is a panic.  The record \<open>support\<close> holds what the Go structs share: the cluster, the
  libraries, the discovery catalog, the ensurers and the current time.
\<close>

record ('w, 'p) support =
  su_cluster :: "'w cluster"
  su_libs :: libs
  su_props :: "'p props_ops"
  su_catalog :: "'w \<Rightarrow> catalog"
  su_ensurers :: "'w ensurers"
  su_now :: int

definition requeueAfterStartingBuild :: int where "requeueAfterStartingBuild = 180"
definition requeueWhileWaitForBuild :: int where "requeueWhileWaitForBuild = 60"
definition requeueWhileWaitForPlatform :: int where "requeueWhileWaitForPlatform = 5"

subsection \<open>Deploying with an image\<close>

text \<open>\<open>Inl\<close> is the error with which the reconciliation stops, \<open>Inr True\<close> tells that Knative serving is
  missing.\<close>

definition ensureKnativeServingRequired :: "'w cluster \<Rightarrow> sonataflow \<Rightarrow> 'w \<Rightarrow> (kerror + bool) \<times> 'w" where
  "ensureKnativeServingRequired k wo w =
    (if IsKnativeDeployment wo then
       (case k_knative k w of
          Inl e \<Rightarrow> (Inl e, w)
        | Inr av \<Rightarrow>
           if ka_serving av then (Inr False, w)
           else (Inr True, k_event k warning_event ''KnativeServingNotAvailable''
             (''Knative Serving is not available in this cluster, can't deploy workflow. Please update the deployment model to '' @
              KubernetesDeploymentModel) w))
     else (Inr False, w))"

definition deployment_visitors ::
  "('w, 'p) support \<Rightarrow> sonataflow \<Rightarrow> sonataflow_platform option \<Rightarrow> string \<Rightarrow> config_map \<Rightarrow> config_map \<Rightarrow>
   deployment visitor list" where
  "deployment_visitors su wo pl img userCM managedCM =
    (let lb = su_libs su; now = su_now su
     in if k_openShift (su_cluster su) then
          [DeploymentMutateVisitor lb wo pl, mount_d now wo userCM managedCM,
           addOpenShiftImageTriggerDeploymentMutateVisitor wo img, ImageDeploymentMutateVisitor wo img,
           RestoreDeploymentVolumeAndVolumeMountMutateVisitor,
           RolloutDeploymentIfCMChangedMutateVisitor now wo userCM managedCM]
        else
          [DeploymentMutateVisitor lb wo pl, ImageDeploymentMutateVisitor wo img, mount_d now wo userCM managedCM,
           RestoreDeploymentVolumeAndVolumeMountMutateVisitor,
           RolloutDeploymentIfCMChangedMutateVisitor now wo userCM managedCM])"

definition kservice_visitors ::
  "('w, 'p) support \<Rightarrow> sonataflow \<Rightarrow> sonataflow_platform option \<Rightarrow> string \<Rightarrow> config_map \<Rightarrow> config_map \<Rightarrow>
   kservice visitor list" where
  "kservice_visitors su wo pl img userCM managedCM =
    [KServiceMutateVisitor (su_libs su) wo pl, ImageKServiceMutateVisitor wo img, mount_k wo userCM managedCM,
     RestoreKServiceVolumeAndVolumeMountMutateVisitor]"

text \<open>\<open>DeploymentByDeploymentModel\<close>: what the code reads of the answer is the operation and the error.\<close>

definition ensure_deployment ::
  "('w, 'p) support \<Rightarrow> sonataflow \<Rightarrow> sonataflow_platform option \<Rightarrow> string \<Rightarrow> config_map \<Rightarrow> config_map \<Rightarrow> 'w \<Rightarrow>
   op_result outcome \<times> 'w" where
  "ensure_deployment su wo pl img userCM managedCM w =
    (if IsKnativeDeployment wo
     then (case en_kservice (su_ensurers su) wo pl (kservice_visitors su wo pl img userCM managedCM) w of
             (r, w) \<Rightarrow> (obind r (\<lambda>(_, op). Ret op), w))
     else (case en_deployment (su_ensurers su) wo pl (deployment_visitors su wo pl img userCM managedCM) w of
             (r, w) \<Rightarrow> (obind r (\<lambda>(_, op). Ret op), w)))"

text \<open>\<open>ServiceByDeploymentModel\<close>: Knative serving handles the service itself.\<close>

definition ensure_service :: "('w, 'p) support \<Rightarrow> sonataflow \<Rightarrow> 'w \<Rightarrow> unit outcome \<times> 'w" where
  "ensure_service su wo w =
    (if IsKnativeDeployment wo then (Ret (), w)
     else (case en_service (su_ensurers su) wo [ServiceMutateVisitor wo] w of (r, w) \<Rightarrow> (obind r (\<lambda>_. Ret ()), w)))"

definition ensureServiceMonitor ::
  "('w, 'p) support \<Rightarrow> sonataflow \<Rightarrow> sonataflow_platform option \<Rightarrow> 'w \<Rightarrow> unit outcome \<times> 'w" where
  "ensureServiceMonitor su wo pl w =
    (if IsMonitoringEnabled pl \<and> \<not> IsKnativeDeployment wo
     then (case en_serviceMonitor (su_ensurers su) wo w of (r, w) \<Rightarrow> (obind r (\<lambda>_. Ret ()), w))
     else (Ret (), w))"

text \<open>A failure that is written to the status: the write's own error is dropped.  Two messages are given an
  error they have no verb for, which \<open>fmt\<close> then appends in its own way.\<close>

definition extra_error :: "libs \<Rightarrow> kerror \<Rightarrow> string" where
  "extra_error lb e = ''%!(EXTRA '' @ lb_errorType lb e @ ''='' @ error_text e @ '')''"

definition fail_with ::
  "('w, 'p) support \<Rightarrow> string \<Rightarrow> string \<Rightarrow> kerror \<Rightarrow> sonataflow \<Rightarrow> 'w \<Rightarrow> 'w stepped" where
  "fail_with su reason msg e wo w =
    (case PerformStatusUpdate (su_cluster su) (mark_false (su_now su) RunningConditionType reason msg wo) w of
       (_, wo, w) \<Rightarrow> stepped no_result (Some e) wo w)"

text \<open>The two property files: the user's, then the managed one that is made from it.\<close>

definition ensure_managed ::
  "('w, 'p) support \<Rightarrow> sonataflow \<Rightarrow> sonataflow_platform option \<Rightarrow> config_map \<Rightarrow> 'w \<Rightarrow>
   (config_map option \<times> op_result) outcome \<times> 'w" where
  "ensure_managed su wo pl userCM w =
    en_managedProps (su_ensurers su) wo pl
      [ManagedPropertiesMutateVisitor (su_props su) (su_cluster su) (su_catalog su w) wo pl userCM w] w"

text \<open>The end of \<open>ensureObjects\<close>, after the deployment: the service, the eventing objects, the monitor and
  the status of a new deployment.\<close>

definition ensure_rest ::
  "('w, 'p) support \<Rightarrow> sonataflow \<Rightarrow> sonataflow_platform option \<Rightarrow> op_result \<Rightarrow> 'w \<Rightarrow> 'w stepped option" where
  "ensure_rest su wo pl op w =
    (let k = su_cluster su; now = su_now su
     in case ensure_service su wo w of
          (Panic, w) \<Rightarrow> None
        | (Fail e, w) \<Rightarrow>
            Some (fail_with su DeploymentUnavailableReason
              (''Unable to make the service available due to '' @ extra_error (su_libs su) e) e wo w)
        | (Ret _, w) \<Rightarrow>
           (case eventing_Ensure k (su_ensurers su) wo pl w of
              None \<Rightarrow> None
            | Some (Some e, wo, w) \<Rightarrow> Some (stepped no_result (Some e) wo w)
            | Some (None, wo, w) \<Rightarrow>
               (case ensureServiceMonitor su wo pl w of
                  (Panic, w) \<Rightarrow> None
                | (Fail e, w) \<Rightarrow> Some (stepped no_result (Some e) wo w)
                | (Ret _, w) \<Rightarrow>
                   if op = OpCreated then
                     (case PerformStatusUpdate k (mark_false now RunningConditionType WaitingForDeploymentReason '''' wo) w of
                        (Some e, wo, w) \<Rightarrow> Some (stepped no_result (Some e) wo w)
                      | (None, wo, w) \<Rightarrow>
                         Some (stepped \<lparr>rs_requeue = True, rs_after = RequeueAfterFollowDeployment\<rparr> None wo w))
                   else Some (stepped no_result None wo w))))"

definition ensureObjects :: "('w, 'p) support \<Rightarrow> sonataflow \<Rightarrow> string \<Rightarrow> 'w \<Rightarrow> 'w stepped option" where
  "ensureObjects su wo img w =
    (let k = su_cluster su;
         (found, w) = GetActivePlatform k (sf_namespace wo) w;
         pl = (case found of Inl _ \<Rightarrow> None | Inr p \<Rightarrow> Some p)
     in case en_userProps (su_ensurers su) wo w of
          (Fail e, w) \<Rightarrow>
            Some (fail_with su ExternalResourcesNotFoundReason ''Unable to retrieve the user properties config map'' e wo w)
        | (Ret (Some userCM, _), w) \<Rightarrow>
           (case ensure_managed su wo pl userCM w of
              (Fail e, w) \<Rightarrow>
                Some (fail_with su ExternalResourcesNotFoundReason
                  ''Unable to retrieve the managed properties config map'' e wo w)
            | (Ret (Some managedCM, _), w) \<Rightarrow>
               (case ensure_deployment su wo pl img userCM managedCM w of
                  (Panic, w) \<Rightarrow> None
                | (Fail e, w) \<Rightarrow>
                    Some (fail_with su DeploymentUnavailableReason
                      (''Unable to perform the deploy due to '' @ extra_error (su_libs su) e) e wo w)
                | (Ret op, w) \<Rightarrow> ensure_rest su wo pl op w)
            | (_, w) \<Rightarrow> None)
        | (_, w) \<Rightarrow> None)"

definition reconcileWithImage :: "('w, 'p) support \<Rightarrow> sonataflow \<Rightarrow> string \<Rightarrow> 'w \<Rightarrow> 'w stepped option" where
  "reconcileWithImage su wo img w =
    (let k = su_cluster su
     in case ensureKnativeServingRequired k wo w of
          (Inl e, w) \<Rightarrow> Some (stepped no_result (Some e) wo w)
        | (Inr True, w) \<Rightarrow> Some (stepped no_result None wo w)
        | (Inr False, w) \<Rightarrow>
           (case ensureObjects su wo img w of
              None \<Rightarrow> None
            | Some s \<Rightarrow>
               if sd_error s \<noteq> None \<or> rs_requeue (sd_result s) then Some s
               else
                (case SyncDeploymentStatus (su_now su) k (sd_workflow s) (sd_world s) of
                   ((_, Some e), wo) \<Rightarrow> Some (stepped no_result (Some e) wo (sd_world s))
                 | ((r, None), wo) \<Rightarrow>
                    (case PerformStatusUpdate k wo (sd_world s) of
                       (Some e, wo, w) \<Rightarrow> Some (stepped no_result (Some e) wo w)
                     | (None, wo, w) \<Rightarrow> Some (stepped r None wo w)))))"

subsection \<open>The builder state\<close>

definition builder_CanReconcile :: "sonataflow \<Rightarrow> bool" where
  "builder_CanReconcile wo \<longleftrightarrow>
    IsUnknown (GetTopLevelCondition wo) \<or> IsWaitingForPlatform wo \<or> IsBuildFailed wo"

text \<open>Marks a condition and writes the status: the error of the write is the error of the state.\<close>

definition update_and ::
  "('w, 'p) support \<Rightarrow> ctrl_result \<Rightarrow> (sonataflow \<Rightarrow> 'w \<Rightarrow> 'w) \<Rightarrow> sonataflow \<Rightarrow> 'w \<Rightarrow> 'w stepped" where
  "update_and su r ev wo w =
    (case PerformStatusUpdate (su_cluster su) wo w of (e, wo, w) \<Rightarrow> stepped r e wo (ev wo w))"

definition no_event :: "sonataflow \<Rightarrow> 'w \<Rightarrow> 'w" where "no_event wo w = w"

definition start_build :: "('w, 'p) support \<Rightarrow> sonataflow \<Rightarrow> 'w \<Rightarrow> 'w stepped" where
  "start_build su wo w =
    (let k = su_cluster su; now = su_now su
     in case GetOrCreateBuild (su_libs su) k wo w of
          (Inl e, w) \<Rightarrow>
            update_and su no_result no_event
              (mark_false now BuiltConditionType BuildFailedReason
                (''Failed to retrieve or create a Build CR%!(EXTRA string='' @ sf_namespace wo @ '')'') wo) w
        | (Inr b, w) \<Rightarrow>
            if sb_phase b \<noteq> PhaseFailed then
              update_and su (after_seconds requeueAfterStartingBuild)
                (\<lambda>wo. k_event k normal_event BuildIsRunningReason (''Workflow '' @ sf_name wo @ '' build has started.''))
                (mark_false now RunningConditionType WaitingForBuildReason ''''
                  (mark_false now BuiltConditionType BuildIsRunningReason '''' wo)) w
            else stepped (after_seconds requeueAfterStartingBuild) None wo w)"

definition builder_Do :: "('w, 'p) support \<Rightarrow> sonataflow \<Rightarrow> 'w \<Rightarrow> 'w stepped option" where
  "builder_Do su wo w =
    (let k = su_cluster su; now = su_now su;
         no_props = (\<lambda>what e wo w. Some (update_and su no_result no_event
            (mark_false now RunningConditionType ExternalResourcesNotFoundReason
              (''Unable to retrieve the '' @ what @ '' properties config map: '' @ error_text e) wo) w))
     in case GetActivePlatform k (sf_namespace wo) w of
          (Inl e, w) \<Rightarrow>
            if IsNotFound e then
              Some (update_and su (after_seconds requeueWhileWaitForPlatform) no_event
                (mark_false now BuiltConditionType WaitingForPlatformReason
                  (''No active Platform for namespace '' @ sf_namespace wo @ '' so the workflow cannot be built.'') wo) w)
            else Some (stepped (after_seconds requeueWhileWaitForPlatform) (Some e) wo w)
        | (Inr pl, w) \<Rightarrow>
           (case PerformStatusUpdate k wo w of
              (_, wo, w) \<Rightarrow>
                (case en_userProps (su_ensurers su) wo w of
                   (Fail e, w) \<Rightarrow> no_props ''user'' e wo w
                 | (Ret (Some userCM, _), w) \<Rightarrow>
                    (case ensure_managed su wo (Some pl) userCM w of
                       (Fail e, w) \<Rightarrow> no_props ''managed'' e wo w
                     | (Ret _, w) \<Rightarrow> Some (start_build su wo w)
                     | (Panic, w) \<Rightarrow> None)
                 | (_, w) \<Rightarrow> None)))"

subsection \<open>The state that follows the build\<close>

definition follow_CanReconcile :: "sonataflow \<Rightarrow> bool" where
  "follow_CanReconcile wo \<longleftrightarrow> IsBuildRunningOrUnknown wo \<or> IsWaitingForBuild wo"

definition follow_result :: "'w stepped \<Rightarrow> 'w stepped" where
  "follow_result s =
    (if sd_error s \<noteq> None then s\<lparr>sd_result := no_result\<rparr> else s\<lparr>sd_result := after_seconds requeueWhileWaitForBuild\<rparr>)"

definition build_succeeded :: "('w, 'p) support \<Rightarrow> sonataflow \<Rightarrow> 'w \<Rightarrow> 'w stepped" where
  "build_succeeded su wo w =
    (let k = su_cluster su; now = su_now su;
         finish = (\<lambda>wo w. follow_result (update_and su no_result
            (\<lambda>wo. k_event k normal_event BuildSuccessfulReason
              (''Workflow '' @ sf_name wo @ '' build has been finished successfully.''))
            (mark_true now BuiltConditionType
              (mark_false now RunningConditionType WaitingForDeploymentReason
                ''Build has finished, rolling out deployment'' wo)) w))
     in if IsReady wo then
          (case RolloutDeployment now k wo w of
             (Some e, w) \<Rightarrow> stepped (after_seconds RequeueAfterFailure) (Some e) wo w
           | (None, w) \<Rightarrow> finish wo (k_event k normal_event WaitingForDeploymentReason
               (''Rolling out workflow '' @ sf_name wo @ '' deployment.'') w))
        else finish wo w)"

definition follow_Do :: "('w, 'p) support \<Rightarrow> sonataflow \<Rightarrow> 'w \<Rightarrow> 'w stepped option" where
  "follow_Do su wo w =
    (let k = su_cluster su; now = su_now su
     in case GetOrCreateBuild (su_libs su) k wo w of
          (Inl e, w) \<Rightarrow>
            Some (case PerformStatusUpdate k
                    (mark_false now BuiltConditionType BuildFailedReason (error_text e) wo) w of
                    (Some e, wo, w) \<Rightarrow> stepped no_result (Some e) wo w
                  | (None, wo, w) \<Rightarrow> stepped (after_seconds RequeueAfterFailure) None wo w)
        | (Inr b, w) \<Rightarrow>
            Some
             (if sb_phase b = PhaseSucceeded then build_succeeded su wo w
              else if sb_phase b = PhaseFailed \<or> sb_phase b = PhaseError then
                follow_result (update_and su no_result
                  (\<lambda>wo. k_event k warning_event BuildFailedReason
                    (''Workflow '' @ sf_name wo @ '' build has failed. Error: '' @ sb_error b))
                  (mark_false now BuiltConditionType BuildFailedReason
                    (''Workflow '' @ sf_name wo @ '' build failed. Error: '' @ sb_error b) wo) w)
              else if sb_phase b = PhaseRunning \<and> \<not> IsBuildRunning wo then
                follow_result (update_and su no_result
                  (\<lambda>wo. k_event k normal_event BuildIsRunningReason (''Workflow '' @ sf_name wo @ '' build is running.''))
                  (mark_false now BuiltConditionType BuildIsRunningReason '''' wo) w)
              else stepped (after_seconds requeueWhileWaitForBuild) None wo w))"

subsection \<open>The state that deploys\<close>

definition deploy_CanReconcile :: "sonataflow \<Rightarrow> bool" where
  "deploy_CanReconcile wo \<longleftrightarrow> IsTrue (wf_cond wo BuiltConditionType)"

text \<open>A workflow without a checksum counts as unchanged; \<open>None\<close> is an error.\<close>

definition isWorkflowChanged :: "sonataflow \<Rightarrow> bool option" where
  "isWorkflowChanged wo =
    (if ss_flowCRC (sf_status wo) = 0 then Some False
     else map_option (\<lambda>crc. crc \<noteq> ss_flowCRC (sf_status wo)) (flow_crc wo))"

definition restart_build :: "('w, 'p) support \<Rightarrow> sonataflow_build \<Rightarrow> sonataflow \<Rightarrow> 'w \<Rightarrow> 'w stepped" where
  "restart_build su b wo w =
    (let k = su_cluster su; now = su_now su
     in case MarkToRestart k b w of
          (Some e, w) \<Rightarrow> stepped no_result (Some e) wo w
        | (None, w) \<Rightarrow>
            update_and su no_result
              (\<lambda>wo. k_event k normal_event BuildMarkedToRestartReason
                (''Workflow '' @ sf_name wo @ '' will start a new build.''))
              (mark_unknown now RunningConditionType '''' ''''
                (mark_false now BuiltConditionType BuildIsRunningReason ''Build marked to restart'' wo)) w)"

definition deploy_Do :: "('w, 'p) support \<Rightarrow> sonataflow \<Rightarrow> 'w \<Rightarrow> 'w stepped option" where
  "deploy_Do su wo w =
    (let k = su_cluster su; now = su_now su
     in case GetActivePlatform k (sf_namespace wo) w of
          (Inl e, w) \<Rightarrow>
            Some (stepped (after_seconds requeueWhileWaitForPlatform) (Some e)
              (mark_false now RunningConditionType WaitingForPlatformReason
                (''No active Platform for namespace '' @ sf_namespace wo @
                 '' so the resWorkflowDef cannot be deployed. Waiting for an active platform'') wo) w)
        | (Inr _, w) \<Rightarrow>
           (case GetOrCreateBuild (su_libs su) k wo w of
              (Inl e, w) \<Rightarrow> Some (stepped no_result (Some e) wo w)
            | (Inr b, w) \<Rightarrow>
               (case isWorkflowChanged wo of
                  None \<Rightarrow> Some (stepped no_result (Some gob_error) wo w)
                | Some True \<Rightarrow> Some (restart_build su b wo w)
                | Some False \<Rightarrow>
                   (case reconcileWithImage su wo (sb_imageTag b) w of
                      None \<Rightarrow> None
                    | Some s \<Rightarrow>
                       (case sd_error s of
                          None \<Rightarrow> Some s
                        | Some e \<Rightarrow>
                           Some (update_and su (sd_result s) no_event
                             (mark_false now RunningConditionType DeploymentFailureReason
                               (''Error in deploy the workflow:'' @ error_text e) (sd_workflow s)) (sd_world s)))))))"

subsection \<open>Outdated revisions\<close>

definition workflowContainer :: string where "workflowContainer = ''workflow''"

definition containsKSink :: "revision \<Rightarrow> bool" where
  "containsKSink r =
    (case find (\<lambda>c. ct_name c = workflowContainer) (ps_containers (rv_pod r)) of
       None \<Rightarrow> False | Some c \<Rightarrow> list_ex (\<lambda>e. ev_name e = kSink) (ct_env c))"

text \<open>\<open>sort.Sort\<close> promises no order among revisions of the same second; here they keep the listed one.\<close>

definition sortRevisions :: "revision list \<Rightarrow> revision list" where
  "sortRevisions rs = sort_key (\<lambda>r. om_creationTimestamp (rv_meta r)) rs"

fun delete_all :: "('w, 'o) client \<Rightarrow> ('o \<Rightarrow> object_meta) \<Rightarrow> 'o list \<Rightarrow> 'w \<Rightarrow> kerror option \<times> 'w" where
  "delete_all c meta [] w = (None, w)"
| "delete_all c meta (x # xs) w =
    (case c_delete c w (om_namespace (meta x)) (om_name (meta x)) of
       (Some e, w) \<Rightarrow> (Some e, w)
     | (None, w) \<Rightarrow> delete_all c meta xs w)"

text \<open>All revisions but the last one that have no sink.\<close>

definition outdated :: "revision list \<Rightarrow> revision list" where
  "outdated rs = filter (\<lambda>r. \<not> containsKSink r) (butlast (sortRevisions rs))"

definition revisions_of :: "'w cluster \<Rightarrow> sonataflow \<Rightarrow> 'w \<Rightarrow> kerror + revision list" where
  "revisions_of k wo w =
    map_sum id (filter (\<lambda>r. selects [(LabelWorkflow, sf_name wo), (LabelWorkflowNamespace, sf_namespace wo)] (rv_meta r)))
      (c_list (k_revisions k) w (sf_namespace wo))"

definition cleanupOutdatedRevisions :: "'w cluster \<Rightarrow> sonataflow \<Rightarrow> 'w \<Rightarrow> kerror option \<times> 'w" where
  "cleanupOutdatedRevisions k wo w =
    (if \<not> IsKnativeDeployment wo then (None, w)
     else (case k_knative k w of
       Inl e \<Rightarrow> (Some e, w)
     | Inr av \<Rightarrow>
        if \<not> ka_serving av \<or> \<not> ka_eventing av then (None, w)
        else (case CheckKSinkInjected k (sf_name wo) (sf_namespace wo) w of
          Inl e \<Rightarrow> (Some e, w)
        | Inr False \<Rightarrow> (Some (OtherError ''waiting for Sinkbinding K_SINK injection to complete''), w)
        | Inr True \<Rightarrow>
           (case revisions_of k wo w of
              Inl e \<Rightarrow> (Some e, w)
            | Inr rs \<Rightarrow> delete_all (k_revisions k) rv_meta (outdated rs) w))))"

definition deploy_PostReconcile :: "('w, 'p) support \<Rightarrow> sonataflow \<Rightarrow> 'w \<Rightarrow> kerror option \<times> 'w" where
  "deploy_PostReconcile su wo w = cleanupOutdatedRevisions (su_cluster su) wo w"

subsection \<open>The profile\<close>

definition no_post :: "sonataflow \<Rightarrow> 'w \<Rightarrow> kerror option \<times> 'w" where "no_post wo w = (None, w)"

definition preview_states :: "('w, 'p) support \<Rightarrow> 'w reconciliation_state list" where
  "preview_states su =
    [\<lparr>rc_can = builder_CanReconcile, rc_do = builder_Do su, rc_post = no_post\<rparr>,
     \<lparr>rc_can = follow_CanReconcile, rc_do = follow_Do su, rc_post = no_post\<rparr>,
     \<lparr>rc_can = deploy_CanReconcile, rc_do = deploy_Do su, rc_post = deploy_PostReconcile su\<rparr>]"

definition preview_Reconcile :: "('w, 'p) support \<Rightarrow> sonataflow \<Rightarrow> 'w \<Rightarrow> 'w stepped option" where
  "preview_Reconcile su wo w = profile_Reconcile (su_now su) (preview_states su) wo w"

lemma delete_all_removed:
  assumes "object_store c (\<lambda>x. om_namespace (meta x)) (\<lambda>x. om_name (meta x))"
    and "delete_all c meta xs w = (None, w')"
  shows "(\<forall>x\<in>set xs. \<exists>e. c_get c w' (om_namespace (meta x)) (om_name (meta x)) = Inl e \<and> IsNotFound e) \<and>
    (\<forall>n m. (\<forall>x\<in>set xs. (n, m) \<noteq> (om_namespace (meta x), om_name (meta x))) \<longrightarrow> c_get c w' n m = c_get c w n m)"
  using assms(2)
proof (induction xs arbitrary: w)
  case (Cons x xs)
  then obtain w1 where d: "c_delete c w (om_namespace (meta x)) (om_name (meta x)) = (None, w1)"
    and r: "delete_all c meta xs w1 = (None, w')"
    by (auto split: prod.splits option.splits)
  note IH = Cons.IH[OF r]
  note gone = object_store.delete_get[OF assms(1) d] and frame = object_store.delete_frame[OF assms(1) d]
  have "\<exists>e. c_get c w' (om_namespace (meta x)) (om_name (meta x)) = Inl e \<and> IsNotFound e"
    using IH gone by (metis prod.inject)
  moreover have "c_get c w' n m = c_get c w n m"
    if "\<forall>y\<in>set (x # xs). (n, m) \<noteq> (om_namespace (meta y), om_name (meta y))" for n m
    using IH frame[of n m] that by simp
  ultimately show ?case using IH by simp
qed simp

lemma outdated_sub: "set (outdated rs) \<subseteq> set rs"
  by (auto simp: outdated_def sortRevisions_def dest: in_set_butlastD)

lemma newest_not_outdated:
  assumes "distinct (map f rs)" "rs \<noteq> []" "x \<in> set (outdated rs)"
  shows "f x \<noteq> f (last (sortRevisions rs))"
proof -
  have ne: "sortRevisions rs \<noteq> []" using assms(2)
    by (metis length_0_conv length_sort sortRevisions_def)
  have d: "distinct (map f (sortRevisions rs))"
    using assms(1) by (simp add: sortRevisions_def distinct_map)
  have "sortRevisions rs = butlast (sortRevisions rs) @ [last (sortRevisions rs)]" using ne by simp
  then have "distinct (map f (butlast (sortRevisions rs)) @ [f (last (sortRevisions rs))])"
    using d by (metis list.map(1) list.map(2) map_append)
  then have "f (last (sortRevisions rs)) \<notin> f ` set (butlast (sortRevisions rs))" by simp
  then show ?thesis using assms(3) unfolding outdated_def by (metis filter_is_subset image_eqI subsetD)
qed


text \<open>Three revisions of a workflow deployed with Knative: two without a sink.\<close>

definition ex_revision :: "string \<Rightarrow> int \<Rightarrow> env_var list \<Rightarrow> revision" where
  "ex_revision name t env =
    \<lparr>rv_meta = (new_meta ''ns'' name)\<lparr>om_creationTimestamp := t,
       om_labels := Some [(LabelWorkflow, ''wf''), (LabelWorkflowNamespace, ''ns'')]\<rparr>,
     rv_pod = empty_pod_spec\<lparr>ps_containers := [defaultFlowContainer\<lparr>ct_name := workflowContainer, ct_env := env\<rparr>]\<rparr>\<rparr>"

definition ex_revisions :: "revision list" where
  "ex_revisions = [ex_revision ''c'' 3 [], ex_revision ''a'' 1 [],
     ex_revision ''b'' 2 [\<lparr>ev_name = kSink, ev_value = ''x'', ev_valueFrom = None\<rparr>]]"

definition ex_knative_workflow :: sonataflow where
  "ex_knative_workflow = (new_workflow ''ns'' ''wf'')
    \<lparr>sf_spec := (sf_spec (new_workflow ''ns'' ''wf''))\<lparr>sp_podTemplate :=
      (sp_podTemplate (sf_spec (new_workflow ''ns'' ''wf'')))\<lparr>pt_deploymentModel := KnativeDeploymentModel\<rparr>\<rparr>\<rparr>"

definition ex_revision_world :: mem_world where
  "ex_revision_world = empty_world
    \<lparr>mw_revisions := ex_revisions,
     mw_sinkBindings := [\<lparr>sn_meta = new_meta ''ns'' ''wf-sb'', sn_sink = \<lparr>de_ref = None, de_uri = None\<rparr>, sn_subject = sink_subject ex_knative_workflow,
       sn_sinkProvided = Some ''True''\<rparr>]\<rparr>"

lemma ex_revisions_listed: "revisions_of mem_cluster ex_knative_workflow ex_revision_world = Inr ex_revisions"
  by (simp add: revisions_of_def mem_eval ex_revision_world_def ex_revisions_def ex_revision_def selects_def
      new_meta_def nil_map_get_def map_has_def map_get_def ex_knative_workflow_def new_workflow_def sf_name_def sf_namespace_def
      LabelWorkflow_def LabelWorkflowNamespace_def Domain_def)

lemma ex_revisions_sorted: "map (\<lambda>r. om_name (rv_meta r)) (sortRevisions ex_revisions) = [''a'', ''b'', ''c'']"
  by (simp add: sortRevisions_def ex_revisions_def ex_revision_def new_meta_def)


end
