(* ===== verification/Gitops_Profile.thy ===== *)
theory Gitops_Profile
  imports Preview_Profile
begin


text \<open>
  The gitops profile (\<open>internal/controller/profiles/gitops\<close>): the image is built elsewhere, so the build is
  marked as skipped and then only the deployment is reconciled, by the reconciler of the preview profile.
\<close>

definition ensureBuildSkipped_CanReconcile :: "sonataflow \<Rightarrow> bool" where
  "ensureBuildSkipped_CanReconcile wo \<longleftrightarrow>
    IsUnknown (wf_cond wo BuiltConditionType) \<or> IsTrue (wf_cond wo BuiltConditionType) \<or>
    GetReason (wf_cond wo BuiltConditionType) \<noteq> BuildSkippedReason"

definition ensureBuildSkipped_Do :: "('w, 'p) support \<Rightarrow> sonataflow \<Rightarrow> 'w \<Rightarrow> 'w stepped option" where
  "ensureBuildSkipped_Do su wo w =
    (case PerformStatusUpdate (su_cluster su)
            (mark_false (su_now su) BuiltConditionType BuildSkippedReason '''' wo) w of
       (Some e, wo, w) \<Rightarrow> Some (stepped no_result (Some e) wo w)
     | (None, wo, w) \<Rightarrow> Some (stepped requeue_now None wo w))"

text \<open>The code reads the reason through the pointer: a missing condition would be a panic, which the order of
  the states and the initialisation of the conditions exclude.\<close>

definition followDeploy_CanReconcile :: "sonataflow \<Rightarrow> bool" where
  "followDeploy_CanReconcile wo \<longleftrightarrow> GetReason (wf_cond wo BuiltConditionType) = BuildSkippedReason"

definition followDeploy_Do :: "('w, 'p) support \<Rightarrow> sonataflow \<Rightarrow> 'w \<Rightarrow> 'w stepped option" where
  "followDeploy_Do su wo w = reconcileWithImage su wo '''' w"

definition gitops_states :: "('w, 'p) support \<Rightarrow> 'w reconciliation_state list" where
  "gitops_states su =
    [\<lparr>rc_can = ensureBuildSkipped_CanReconcile, rc_do = ensureBuildSkipped_Do su, rc_post = no_post\<rparr>,
     \<lparr>rc_can = followDeploy_CanReconcile, rc_do = followDeploy_Do su, rc_post = no_post\<rparr>]"

definition gitops_Reconcile :: "('w, 'p) support \<Rightarrow> sonataflow \<Rightarrow> 'w \<Rightarrow> 'w stepped option" where
  "gitops_Reconcile su wo w = profile_Reconcile (su_now su) (gitops_states su) wo w"

end
