(* ===== verification/Dev_Profile.thy ===== *)
theory Dev_Profile
  imports Gitops_Profile
begin


text \<open>
  The dev profile (\<open>internal/controller/profiles/dev\<close>): the workflow's definition is mounted into a
  container that reloads it, and the running condition is kept by three states.  The ensurers are
  interfaces in the code; the OpenShift variant of the profile differs in the ensurer of the network
  and in the enricher of the status.
\<close>

record dev_libs =
  dl_json :: "sonataflow \<Rightarrow> kerror + string"
  dl_safeEncode :: "string \<Rightarrow> string"
  dl_isDNS1035 :: "string \<Rightarrow> bool"
  dl_parseURL :: "string \<Rightarrow> kerror + string"

definition configMapResourcesVolumeName :: string where "configMapResourcesVolumeName = ''resources''"
definition configMapExternalResourcesVolumeNamePrefix :: string where
  "configMapExternalResourcesVolumeNamePrefix = ''res-''"
definition quarkusDevConfigMountPath :: string where
  "quarkusDevConfigMountPath = ''/home/kogito/serverless-workflow-project/src/main/resources''"
definition RecoverDeploymentErrorRetries :: int where "RecoverDeploymentErrorRetries = 3"
definition RequeueRecoverDeploymentErrorInterval :: int where "RequeueRecoverDeploymentErrorInterval = 600"

subsection \<open>The objects\<close>

definition dns1035MaxChar :: nat where "dns1035MaxChar = 63"

definition SafeDNS1035 :: "dev_libs \<Rightarrow> string \<Rightarrow> string \<Rightarrow> string option" where
  "SafeDNS1035 dl pre s =
    (let n = take dns1035MaxChar (pre @ dl_safeEncode dl s) in if dl_isDNS1035 dl n then Some n else None)"

definition GetWorkflowDefFileName :: "sonataflow \<Rightarrow> string" where
  "GetWorkflowDefFileName wo = sf_name wo @ ''.sw.json''"

definition CreateNewConfigMap :: "dev_libs \<Rightarrow> sonataflow \<Rightarrow> config_map outcome" where
  "CreateNewConfigMap dl wo =
    (case dl_json dl wo of
       Inl e \<Rightarrow> Fail e
     | Inr def \<Rightarrow> Ret \<lparr>cm_meta = labelled_meta wo (sf_name wo), cm_data = Some [(GetWorkflowDefFileName wo, def)]\<rparr>)"

text \<open>The resources of the workflow, when all their config maps are there.\<close>

fun fetch_resources :: "'w cluster \<Rightarrow> string \<Rightarrow> 'w \<Rightarrow> cm_resource list \<Rightarrow> kerror option" where
  "fetch_resources k ns w [] = None"
| "fetch_resources k ns w (r # rs) =
    (case c_get (k_configMaps k) w ns (cr_configMap r) of Inl e \<Rightarrow> Some e | Inr _ \<Rightarrow> fetch_resources k ns w rs)"

definition FetchExternalResourcesConfigMapsRef ::
  "'w cluster \<Rightarrow> sonataflow \<Rightarrow> 'w \<Rightarrow> kerror + cm_resource list" where
  "FetchExternalResourcesConfigMapsRef k wo w =
    (let rs = sp_resources (sf_spec wo)
     in case fetch_resources k (sf_namespace wo) w rs of Some e \<Rightarrow> Inl e | None \<Rightarrow> Inr rs)"

definition serviceCreator :: "sonataflow \<Rightarrow> service" where
  "serviceCreator wo =
    (let s = ServiceCreator wo
     in if IsDevProfile (om_annotations (sf_meta wo)) then s\<lparr>sv_type := ''NodePort''\<rparr> else s)"

text \<open>The thresholds of the default probes; a probe that is missing after the merge would be a panic.\<close>

definition set_threshold :: "int \<Rightarrow> http_probe option \<Rightarrow> http_probe option outcome" where
  "set_threshold n p = (case p of None \<Rightarrow> Panic | Some p \<Rightarrow> Ret (Some (p\<lparr>hp_failureThreshold := n\<rparr>)))"

definition dev_probes :: "int \<Rightarrow> container_extras \<Rightarrow> container_extras \<Rightarrow> container_extras outcome" where
  "dev_probes n user x =
    obind (if ce_startup user = None then set_threshold n (ce_startup x) else Ret (ce_startup x)) (\<lambda>s.
    obind (if ce_liveness user = None then set_threshold n (ce_liveness x) else Ret (ce_liveness x)) (\<lambda>l.
    obind (if ce_readiness user = None then set_threshold n (ce_readiness x) else Ret (ce_readiness x)) (\<lambda>r.
      Ret (x\<lparr>ce_startup := s, ce_liveness := l, ce_readiness := r\<rparr>))))"

definition dev_container :: "int \<Rightarrow> container_extras \<Rightarrow> pod_spec \<Rightarrow> pod_spec outcome" where
  "dev_container n user ps =
    (case GetContainerByName DefaultContainerName (Some ps) of
       (Some c, i) \<Rightarrow>
         obind (dev_probes n user (ct_extras c)) (\<lambda>x.
           Ret (ps\<lparr>ps_containers := (ps_containers ps)[nat i := c\<lparr>ct_extras := x\<rparr>]\<rparr>))
     | _ \<Rightarrow> obind (dev_probes n user no_extras) (\<lambda>_. Ret ps))"

definition deploymentCreator ::
  "libs \<Rightarrow> controllers_cfg \<Rightarrow> sonataflow \<Rightarrow> sonataflow_platform option \<Rightarrow> deployment outcome" where
  "deploymentCreator lb cfg wo pl =
    obind (DeploymentCreator lb wo pl)
      (on_pod_d (dev_container (cg_healthFailureThresholdDevMode cfg)
        (ct_extras (pt_container (sp_podTemplate (sf_spec wo))))))"

definition deploymentMutateVisitor ::
  "libs \<Rightarrow> controllers_cfg \<Rightarrow> sonataflow \<Rightarrow> sonataflow_platform option \<Rightarrow> deployment visitor" where
  "deploymentMutateVisitor lb cfg wo pl d =
    (if IsObjectNew (dp_meta d) then Ret d
     else obind (deploymentCreator lb cfg wo pl) (\<lambda>src. EnsureDeployment lb src d))"

definition ensureWorkflowDefConfigMapMutator :: "dev_libs \<Rightarrow> sonataflow \<Rightarrow> config_map visitor" where
  "ensureWorkflowDefConfigMapMutator dl wo cm =
    (if IsObjectNew (cm_meta cm) then Ret cm
     else obind (CreateNewConfigMap dl wo) (\<lambda>src.
       Ret (cm\<lparr>cm_data := cm_data src, cm_meta := (cm_meta cm)\<lparr>om_labels := om_labels (cm_meta src)\<rparr>\<rparr>)))"

text \<open>The loop over the workflow's resources: those without a path go to the volume of the root directory, the
  others get a mount and a volume for their path.\<close>

fun mount_resources ::
  "dev_libs \<Rightarrow> cm_resource list \<Rightarrow> projection list \<times> volume_mount list \<times> volume list \<Rightarrow>
   (projection list \<times> volume_mount list \<times> volume list) option" where
  "mount_resources dl [] acc = Some acc"
| "mount_resources dl (r # rs) (ps, ms, vs) =
    (if cr_workflowPath r = '''' then
       (case VolumeProjectionAddConfigMap (cr_configMap r) [] ps of
          None \<Rightarrow> None | Some ps \<Rightarrow> mount_resources dl rs (ps, ms, vs))
     else
       (case SafeDNS1035 dl configMapExternalResourcesVolumeNamePrefix (cr_workflowPath r) of
          None \<Rightarrow> None
        | Some name \<Rightarrow>
           (case VolumeAddVolumeProjectionConfigMap vs (cr_configMap r) name of
              None \<Rightarrow> None
            | Some vs \<Rightarrow> mount_resources dl rs
                (ps, VolumeMountAdd ms name (path_join [quarkusDevConfigMountPath, cr_workflowPath r]), vs))))"

definition dev_volumes ::
  "dev_libs \<Rightarrow> sonataflow \<Rightarrow> config_map \<Rightarrow> config_map \<Rightarrow> config_map \<Rightarrow> cm_resource list \<Rightarrow>
   (projection list \<times> volume_mount list \<times> volume list) outcome" where
  "dev_volumes dl wo flowDefCM userCM managedCM rs =
    (case Option.bind
       (case props_projections wo userCM managedCM of
          Ret ps \<Rightarrow> VolumeProjectionAddConfigMap (om_name (cm_meta flowDefCM)) [] ps | _ \<Rightarrow> None)
       (\<lambda>ps. mount_resources dl rs (ps, [mk_VolumeMount configMapResourcesVolumeName True quarkusDevConfigMountPath], [])) of
       None \<Rightarrow> Panic | Some x \<Rightarrow> Ret x)"

definition mountDevConfigMapsMutateVisitor ::
  "dev_libs \<Rightarrow> sonataflow \<Rightarrow> config_map \<Rightarrow> config_map \<Rightarrow> config_map \<Rightarrow> cm_resource list \<Rightarrow> deployment visitor" where
  "mountDevConfigMapsMutateVisitor dl wo flowDefCM userCM managedCM rs =
    on_pod_d (\<lambda>pod. obind (dev_volumes dl wo flowDefCM userCM managedCM rs) (\<lambda>(ps, ms, vs).
      upd_workflow_container (\<lambda>c. AddOrReplaceVolumeMount c ms)
        (AddOrReplaceVolume (AddOrReplaceVolume pod
          [\<lparr>vl_name = configMapResourcesVolumeName, vl_source = VsProjected ps\<rparr>]) vs)))"

subsection \<open>The ensurers and the enricher of the status\<close>

text \<open>The fields of \<open>objectEnsurers\<close>.  The ensurer of the network answers only its error.\<close>

record 'w dev_ensurers =
  dn_deployment :: "sonataflow \<Rightarrow> sonataflow_platform option \<Rightarrow> deployment visitor list \<Rightarrow> 'w \<Rightarrow> ('w, deployment) ensured"
  dn_service :: "sonataflow \<Rightarrow> service visitor list \<Rightarrow> 'w \<Rightarrow> ('w, service) ensured"
  dn_serviceMonitor :: "sonataflow \<Rightarrow> 'w \<Rightarrow> ('w, service_monitor) ensured"
  dn_network :: "sonataflow \<Rightarrow> 'w \<Rightarrow> ('w, route) ensured"
  dn_definition :: "sonataflow \<Rightarrow> config_map visitor list \<Rightarrow> 'w \<Rightarrow> ('w, config_map) ensured"
  dn_userProps :: "sonataflow \<Rightarrow> 'w \<Rightarrow> ('w, config_map) ensured"
  dn_managedProps :: "sonataflow \<Rightarrow> sonataflow_platform option \<Rightarrow> config_map visitor list \<Rightarrow> 'w \<Rightarrow> ('w, config_map) ensured"

definition RouteForWorkflow :: "sonataflow \<Rightarrow> route" where
  "RouteForWorkflow wo =
    \<lparr>ro_meta = labelled_meta wo (sf_name wo), ro_host = '''', ro_service = sf_name wo, ro_tls = True\<rparr>"

definition newObjectEnsurers ::
  "libs \<Rightarrow> dev_libs \<Rightarrow> 'p props_ops \<Rightarrow> 'w cluster \<Rightarrow> 'w upserts \<Rightarrow> ('w, route) upsert \<Rightarrow> 'w dev_ensurers" where
  "newObjectEnsurers lb dl o1 k up upr =
    \<lparr>dn_deployment = (\<lambda>wo pl vs w. ensure_created lb dp_meta (up_deployment up) wo vs
        (obind (deploymentCreator lb (k_cfg k) wo pl) (\<lambda>d. Ret (Some d))) w),
     dn_service = (\<lambda>wo vs w. ensure_created lb sv_meta (up_service up) wo vs (Ret (Some (serviceCreator wo))) w),
     dn_serviceMonitor = en_serviceMonitor (NewObjectEnsurers lb o1 k up),
     dn_network = (\<lambda>wo w. if k_openShift k
        then ensure_created lb ro_meta upr wo [] (Ret (Some (RouteForWorkflow wo))) w else (Ret (None, OpNone), w)),
     dn_definition = (\<lambda>wo vs w. ensure_created lb cm_meta (up_configMap up) wo vs
        (obind (CreateNewConfigMap dl wo) (\<lambda>c. Ret (Some c))) w),
     dn_userProps = en_userProps (NewObjectEnsurers lb o1 k up),
     dn_managedProps = en_managedProps (NewObjectEnsurers lb o1 k up)\<rparr>"

definition findNodePortFromPorts :: "service_port list \<Rightarrow> int" where
  "findNodePortFromPorts ps = (case find (\<lambda>p. sp_nodePort p \<noteq> 0) ps of None \<Rightarrow> 0 | Some p \<Rightarrow> sp_nodePort p)"

text \<open>The address of the first listed pod's host with the service's node port, and the service's own URL.
  The error comes with the workflow as it was changed before it.\<close>

definition node_endpoint ::
  "dev_libs \<Rightarrow> 'w cluster \<Rightarrow> sonataflow \<Rightarrow> service \<Rightarrow> 'w \<Rightarrow> kerror option \<times> sonataflow" where
  "node_endpoint dl k wo s w =
    (let port = findNodePortFromPorts (sv_ports s)
     in if port > 0 then
          (case pods_of k w [(LabelK8SName, map_get (GetDefaultLabels wo) LabelK8SName)] (sf_namespace wo) of
             Inl e \<Rightarrow> (Some e, wo)
           | Inr ps \<Rightarrow>
              (let ip = (case ps of [] \<Rightarrow> '''' | p # _ \<Rightarrow> pd_hostIP p)
               in case dl_parseURL dl (''http://'' @ ip @ '':'' @ show_int port @ ''/'' @ sf_name wo) of
                    Inl e \<Rightarrow> (Some e, wo)
                  | Inr url \<Rightarrow> (None, wo\<lparr>sf_status := (sf_status wo)\<lparr>ss_endpoint := Some url\<rparr>\<rparr>)))
        else (None, wo))"

definition statusEnricher ::
  "dev_libs \<Rightarrow> 'w cluster \<Rightarrow> sonataflow \<Rightarrow> 'w \<Rightarrow> kerror option \<times> sonataflow" where
  "statusEnricher dl k wo w =
    (case c_get (k_services k) w (sf_namespace wo) (sf_name wo) of
       Inl e \<Rightarrow> (Some e, wo)
     | Inr s \<Rightarrow>
        if sv_ports s = [] then (None, wo)
        else (case node_endpoint dl k wo s w of
                (Some e, wo) \<Rightarrow> (Some e, wo)
              | (None, wo) \<Rightarrow>
                 (case dl_parseURL dl (RetrieveServiceURL s) of
                    Inl e \<Rightarrow> (Some e, wo)
                  | Inr url \<Rightarrow> (None, wo\<lparr>sf_status := (sf_status wo)\<lparr>ss_address := Some url\<rparr>\<rparr>))))"

definition statusEnricherOpenShift :: "'w cluster \<Rightarrow> sonataflow \<Rightarrow> 'w \<Rightarrow> kerror option \<times> sonataflow" where
  "statusEnricherOpenShift k wo w =
    (case c_get (k_routes k) w (sf_namespace wo) (sf_name wo) of
       Inl e \<Rightarrow> (Some e, wo)
     | Inr r \<Rightarrow>
        (let url = (if ro_tls r then ''https'' else ''http'') @ ''://'' @ ro_host r @ ''/'' @ sf_name wo
         in (None, wo\<lparr>sf_status := (sf_status wo)\<lparr>ss_endpoint := Some url, ss_address := Some url\<rparr>\<rparr>)))"

definition dev_enrich :: "dev_libs \<Rightarrow> 'w cluster \<Rightarrow> sonataflow \<Rightarrow> 'w \<Rightarrow> kerror option \<times> sonataflow" where
  "dev_enrich dl k wo w =
    (if k_openShift k then statusEnricherOpenShift k wo w else statusEnricher dl k wo w)"

subsection \<open>The states\<close>

record ('w, 'p) dev_support =
  dv_support :: "('w, 'p) support"
  dv_libs :: dev_libs
  dv_ensurers :: "'w dev_ensurers"

definition ensureRunning_CanReconcile :: "sonataflow \<Rightarrow> bool" where
  "ensureRunning_CanReconcile wo \<longleftrightarrow> IsReady wo \<or> IsUnknown (GetTopLevelCondition wo) \<or> IsChildObjectsProblem wo"

definition fail_after :: "kerror \<Rightarrow> sonataflow \<Rightarrow> 'w \<Rightarrow> 'w stepped" where
  "fail_after e wo w = stepped (after_seconds RequeueAfterFailure) (Some e) wo w"

text \<open>The end of \<open>Do\<close>: a new workflow waits for its deployment, a deployment that is not available is noted.\<close>

definition dev_status :: "('w, 'p) support \<Rightarrow> deployment \<Rightarrow> sonataflow \<Rightarrow> 'w \<Rightarrow> 'w stepped" where
  "dev_status su d wo w =
    (let k = su_cluster su; now = su_now su;
         upd = (\<lambda>wo. case PerformStatusUpdate k wo w of
            (Some e, wo, w) \<Rightarrow> fail_after e wo w
          | (None, wo, w) \<Rightarrow> stepped (after_seconds RequeueAfterIsRunning) None wo w)
     in if IsUnknown (GetTopLevelCondition wo)
        then upd (mark_false now RunningConditionType WaitingForDeploymentReason '''' wo)
        else if \<not> IsDeploymentAvailable d
        then upd (mark_false now RunningConditionType DeploymentUnavailableReason (GetDeploymentUnavailabilityMessage d) wo)
        else stepped (after_seconds RequeueAfterIsRunning) None wo w)"

definition dev_monitor ::
  "'w dev_ensurers \<Rightarrow> sonataflow \<Rightarrow> sonataflow_platform option \<Rightarrow> 'w \<Rightarrow> unit outcome \<times> 'w" where
  "dev_monitor en wo pl w =
    (if IsMonitoringEnabled pl
     then (case dn_serviceMonitor en wo w of (r, w) \<Rightarrow> (obind r (\<lambda>_. Ret ()), w))
     else (Ret (), w))"

text \<open>The service, the monitor and the network after the deployment.\<close>

definition dev_rest ::
  "('w, 'p) dev_support \<Rightarrow> sonataflow_platform \<Rightarrow> deployment \<Rightarrow> sonataflow \<Rightarrow> 'w \<Rightarrow> 'w stepped option" where
  "dev_rest dv pl d wo w =
    (let su = dv_support dv; en = dv_ensurers dv
     in case dn_service en wo [ServiceMutateVisitor wo] w of
          (Panic, w) \<Rightarrow> None
        | (Fail e, w) \<Rightarrow> Some (fail_after e wo w)
        | (Ret _, w) \<Rightarrow>
           (case dev_monitor en wo (Some pl) w of
              (Panic, w) \<Rightarrow> None
            | (Fail e, w) \<Rightarrow> Some (fail_after e wo w)
            | (Ret _, w) \<Rightarrow>
               (case dn_network en wo w of
                  (Panic, w) \<Rightarrow> None
                | (Fail e, w) \<Rightarrow> Some (fail_after e wo w)
                | (Ret _, w) \<Rightarrow> Some (dev_status su d wo w))))"

definition dev_deploy ::
  "('w, 'p) dev_support \<Rightarrow> sonataflow_platform \<Rightarrow> config_map \<Rightarrow> config_map \<Rightarrow> config_map \<Rightarrow> sonataflow \<Rightarrow> 'w \<Rightarrow>
   'w stepped option" where
  "dev_deploy dv pl flowDefCM userCM managedCM wo w =
    (let su = dv_support dv; k = su_cluster su; lb = su_libs su; dl = dv_libs dv; en = dv_ensurers dv;
         img = (if pf_devBaseImage pl \<noteq> '''' then pf_devBaseImage pl else GetDefaultWorkflowDevModeImageTag (k_cfg k))
     in case FetchExternalResourcesConfigMapsRef k wo w of
          Inl e \<Rightarrow>
            Some (case PerformStatusUpdate k (mark_false (su_now su) RunningConditionType ExternalResourcesNotFoundReason
                         (''External Resources ConfigMap not found: '' @ error_text e) wo) w of
                    (Some e, wo, w) \<Rightarrow> fail_after e wo w
                  | (None, wo, w) \<Rightarrow> stepped (after_seconds RequeueAfterFailure) None wo w)
        | Inr rs \<Rightarrow>
            (case dn_deployment en wo (Some pl)
                   [deploymentMutateVisitor lb (k_cfg k) wo (Some pl), ImageDeploymentMutateVisitor wo img,
                    mountDevConfigMapsMutateVisitor dl wo flowDefCM userCM managedCM rs] w of
               (Fail e, w) \<Rightarrow> Some (fail_after e wo w)
             | (Ret (Some d, _), w) \<Rightarrow> dev_rest dv pl d wo w
             | (_, w) \<Rightarrow> None))"

definition ensureRunning_Do :: "('w, 'p) dev_support \<Rightarrow> sonataflow \<Rightarrow> 'w \<Rightarrow> 'w stepped option" where
  "ensureRunning_Do dv wo w =
    (let su = dv_support dv; k = su_cluster su; en = dv_ensurers dv; stop = (\<lambda>e w. Some (stepped no_result (Some e) wo w))
     in case dn_definition en wo [ensureWorkflowDefConfigMapMutator (dv_libs dv) wo] w of
          (Fail e, w) \<Rightarrow> stop e w
        | (Ret (Some flowDefCM, _), w) \<Rightarrow>
           (case GetActivePlatform k (sf_namespace wo) w of
              (Inl e, w) \<Rightarrow> stop e w
            | (Inr pl, w) \<Rightarrow>
               (case dn_userProps en wo w of
                  (Fail e, w) \<Rightarrow> stop e w
                | (Ret (Some userCM, _), w) \<Rightarrow>
                   (case dn_managedProps en wo (Some pl)
                          [ManagedPropertiesMutateVisitor (su_props su) k (su_catalog su w) wo (Some pl) userCM w] w of
                      (Fail e, w) \<Rightarrow> stop e w
                    | (Ret (Some managedCM, _), w) \<Rightarrow> dev_deploy dv pl flowDefCM userCM managedCM wo w
                    | (_, w) \<Rightarrow> None)
                | (_, w) \<Rightarrow> None))
        | (_, w) \<Rightarrow> None)"

definition followDeployment_Do :: "('w, 'p) dev_support \<Rightarrow> sonataflow \<Rightarrow> 'w \<Rightarrow> 'w stepped option" where
  "followDeployment_Do dv wo w =
    (let su = dv_support dv; k = su_cluster su
     in case SyncDeploymentStatus (su_now su) k wo w of
          ((_, Some e), wo) \<Rightarrow> Some (fail_after e wo w)
        | ((r, None), wo) \<Rightarrow>
           (case PerformStatusUpdate k wo w of
              (Some e, wo, w) \<Rightarrow> Some (fail_after e wo w)
            | (None, wo, w) \<Rightarrow> Some (stepped r None wo w)))"

definition followDeployment_PostReconcile :: "('w, 'p) dev_support \<Rightarrow> sonataflow \<Rightarrow> 'w \<Rightarrow> kerror option \<times> 'w" where
  "followDeployment_PostReconcile dv wo w =
    (let k = su_cluster (dv_support dv)
     in case c_get (k_deployments k) w (sf_namespace wo) (sf_name wo) of
          Inl e \<Rightarrow> (Some e, w)
        | Inr d \<Rightarrow>
           if IsDeploymentAvailable d then
             (case dev_enrich (dv_libs dv) k wo w of
                (Some e, wo) \<Rightarrow> (Some e, w)
              | (None, wo) \<Rightarrow> (case PerformStatusUpdate k wo w of (e, _, w) \<Rightarrow> (e, w)))
           else (None, w))"

definition recover_CanReconcile :: "sonataflow \<Rightarrow> bool" where
  "recover_CanReconcile wo \<longleftrightarrow> IsFalse (wf_cond wo RunningConditionType)"

definition set_attempts :: "int \<Rightarrow> sonataflow \<Rightarrow> sonataflow" where
  "set_attempts n wo = wo\<lparr>sf_status := (sf_status wo)\<lparr>ss_recoverAttempts := n\<rparr>\<rparr>"

text \<open>\<open>retry.RetryOnConflict\<close> repeats the same update.  Instants are in nanoseconds; the second guard holds when
  more than ten minutes have gone by since the last attempt.\<close>

definition recover_Do :: "('w, 'p) dev_support \<Rightarrow> sonataflow \<Rightarrow> 'w \<Rightarrow> 'w stepped option" where
  "recover_Do dv wo w =
    (let su = dv_support dv; k = su_cluster su; now = su_now su; attempts = ss_recoverAttempts (sf_status wo);
         upd = (\<lambda>r wo w. Some (case PerformStatusUpdate k wo w of
             (Some e, wo, w) \<Rightarrow> stepped no_result (Some e) wo w | (None, wo, w) \<Rightarrow> stepped r None wo w));
         failure = after_seconds RequeueAfterFailure; interval = after_seconds RequeueRecoverDeploymentErrorInterval
     in case c_get (k_deployments k) w (sf_namespace wo) (sf_name wo) of
          Inl e \<Rightarrow>
            if IsNotFound e then upd failure (mark_unknown now RunningConditionType '''' '''' (set_attempts 0 wo)) w
            else Some (stepped no_result (Some e) wo w)
        | Inr d \<Rightarrow>
            if IsDeploymentAvailable d then upd failure (mark_true now RunningConditionType (set_attempts 0 wo)) w
            else if attempts \<ge> RecoverDeploymentErrorRetries then
              upd interval (mark_false now RunningConditionType RedeploymentExhaustedReason
                (''Can't recover workflow from failure after maximum attempts: '' @ show_int attempts) wo) w
            else if ss_lastRecoverAttempt (sf_status wo) \<noteq> 0 \<and>
                now - ss_lastRecoverAttempt (sf_status wo) > 10 * 60 * 1000000000 then
              Some (stepped interval None wo w)
            else (case MarkDeploymentToRollout now d of
                    Inl e \<Rightarrow> Some (stepped no_result (Some (OtherError e)) wo w)
                  | Inr d \<Rightarrow>
                     (case RetryOnConflict (\<lambda>w. c_update (k_deployments k) w d) w of
                        (Some e, w) \<Rightarrow> Some (stepped interval None wo w)
                      | (None, w) \<Rightarrow>
                         upd interval (set_attempts (attempts + 1)
                           (wo\<lparr>sf_status := (sf_status wo)\<lparr>ss_lastRecoverAttempt := now\<rparr>\<rparr>)) w)))"

definition dev_states :: "('w, 'p) dev_support \<Rightarrow> 'w reconciliation_state list" where
  "dev_states dv =
    [\<lparr>rc_can = ensureRunning_CanReconcile, rc_do = ensureRunning_Do dv, rc_post = no_post\<rparr>,
     \<lparr>rc_can = IsWaitingForDeployment, rc_do = followDeployment_Do dv, rc_post = followDeployment_PostReconcile dv\<rparr>,
     \<lparr>rc_can = recover_CanReconcile, rc_do = recover_Do dv, rc_post = no_post\<rparr>]"

definition dev_Reconcile :: "('w, 'p) dev_support \<Rightarrow> sonataflow \<Rightarrow> 'w \<Rightarrow> 'w stepped option" where
  "dev_Reconcile dv wo w = profile_Reconcile (su_now (dv_support dv)) (dev_states dv) wo w"

end
