(* ===== verification/Workflow_Lifecycle.thy ===== *)
theory Workflow_Lifecycle
  imports Gitops_Profile
begin


text \<open>
  How the states of the preview and gitops profiles hand a workflow to each other, seen through the two
  conditions of its status.
\<close>

subsection \<open>What a step leaves of the conditions\<close>

definition same_conds :: "sonataflow \<Rightarrow> sonataflow \<Rightarrow> bool" where
  "same_conds a b \<longleftrightarrow> st_conditions (sf_conds a) = st_conditions (sf_conds b)"

text \<open>Only the running condition may differ.\<close>

definition only_running :: "sonataflow \<Rightarrow> sonataflow \<Rightarrow> bool" where
  "only_running a b \<longleftrightarrow>
    (wf_status (sf_conds a) \<longrightarrow>
      wf_status (sf_conds b) \<and> (\<forall>t. t \<noteq> RunningConditionType \<longrightarrow> cond_view (sf_conds b) t = cond_view (sf_conds a) t))"

named_theorems kept \<open>steps that change no condition but the running one\<close>

lemma same_conds_refl [simp, intro]: "same_conds a a" by (simp add: same_conds_def)

lemma same_conds_view: "same_conds a b \<Longrightarrow> cond_view (sf_conds b) = cond_view (sf_conds a)"
  by (rule ext) (simp add: same_conds_def cond_view_def getCondition_def)

lemma same_conds_wf: "same_conds a b \<Longrightarrow> wf_status (sf_conds b) = wf_status (sf_conds a)"
  by (simp add: same_conds_def wf_status_def)

lemma only_running_refl [simp, intro]: "only_running a a" by (simp add: only_running_def)

lemma only_running_trans [trans]: "only_running a b \<Longrightarrow> only_running b c \<Longrightarrow> only_running a c"
  by (simp add: only_running_def)

lemma only_running_same: "same_conds a b \<Longrightarrow> only_running a b"
  by (simp add: only_running_def same_conds_view same_conds_wf)

lemma only_running_mark [kept]:
  "only_running wo (mark_false now RunningConditionType r m wo)"
  "only_running wo (mark_true now RunningConditionType wo)"
  by (auto simp: only_running_def mark_false_def mark_true_def)

lemma same_conds_services: "same_conds wo (SetServiceUrlsInWorkflowStatus pl wo)"
  by (simp add: same_conds_def sf_conds_def SetServiceUrlsInWorkflowStatus_def di_SetServiceUrlInWorkflowStatus_def
      js_SetServiceUrlInWorkflowStatus_def Let_def)

lemma PerformStatusUpdate_conds:
  "PerformStatusUpdate k wo w = (e, wo', w') \<Longrightarrow> same_conds wo wo'"
  using same_conds_services[of "wo\<lparr>sf_status := (sf_status wo)\<lparr>ss_flowCRC := crc\<rparr>\<rparr>" for crc]
  by (auto simp: PerformStatusUpdate_def same_conds_def sf_conds_def upd_conds_def Let_def
      SetServiceUrlsInWorkflowStatus_def di_SetServiceUrlInWorkflowStatus_def js_SetServiceUrlInWorkflowStatus_def
      split: prod.splits sum.splits option.splits if_splits)

lemma PerformStatusUpdate_kept [kept]:
  "PerformStatusUpdate k wo w = (e, wo', w') \<Longrightarrow> only_running wo wo'"
  by (rule only_running_same) (rule PerformStatusUpdate_conds)

lemma fail_with_kept [kept]: "only_running wo (sd_workflow (fail_with su r m e wo w))"
  by (auto simp: fail_with_def split: prod.splits intro: only_running_trans dest!: PerformStatusUpdate_kept
      intro!: only_running_mark)

text \<open>The ensurers that are handed the workflow itself leave its conditions alone.\<close>

definition keeps_conditions :: "'w ensurers \<Rightarrow> bool" where
  "keeps_conditions en \<longleftrightarrow>
    (\<forall>wo pl w. same_conds wo (fst (snd (en_sinkBinding en wo pl w)))) \<and>
    (\<forall>wo pl w r wo' w'. en_triggers en wo pl w = Some (r, wo', w') \<longrightarrow> same_conds wo wo')"

lemma eventing_Ensure_kept:
  assumes "keeps_conditions en" "eventing_Ensure k en wo pl w = Some (e, wo', w')"
  shows "only_running wo wo'"
proof -
  obtain r wo1 pl1 w1 where s: "en_sinkBinding en wo pl w = (r, wo1, pl1, w1)" by (cases "en_sinkBinding en wo pl w") auto
  have "same_conds wo wo1" using assms(1) s unfolding keeps_conditions_def by (metis fst_conv snd_conv)
  then have k1: "only_running wo wo1" by (rule only_running_same)
  have k2: "only_running wo b" if "en_triggers en wo1 p v = Some (x, b, v')" for b p v x v'
    using assms(1) that k1 only_running_trans only_running_same unfolding keeps_conditions_def by blast
  show ?thesis
  proof (cases "wo' = wo \<or> wo' = wo1")
    case True
    then show ?thesis using k1 by auto
  next
    case False
    then obtain x w2 where "en_triggers en wo1 pl1 w1 = Some (x, wo', w2)"
      using assms(2) s
      by (cases "en_triggers en wo1 pl1 w1")
        (auto simp: eventing_Ensure_def split: sum.splits if_splits outcome.splits)
    then show ?thesis by (rule k2)
  qed
qed

lemma ensure_rest_kept:
  assumes "keeps_conditions (su_ensurers su)" "ensure_rest su wo pl op w = Some s"
  shows "only_running wo (sd_workflow s)"
proof (cases "ensure_service su wo w")
  case sv: (Pair r w1)
  show ?thesis
  proof (cases r)
    case (Ret x)
    then obtain e wo1 w2 where ev: "eventing_Ensure (su_cluster su) (su_ensurers su) wo pl w1 = Some (e, wo1, w2)"
      using assms(2) sv by (auto simp: ensure_rest_def Let_def split: option.splits)
    note k1 = eventing_Ensure_kept[OF assms(1) ev]
    show ?thesis
    proof (cases "PerformStatusUpdate (su_cluster su)
        (mark_false (su_now su) RunningConditionType WaitingForDeploymentReason '''' wo1) (snd (ensureServiceMonitor su wo1 pl w2))")
      case (fields e' wo2 w3)
      have "only_running wo1 wo2" using PerformStatusUpdate_kept[OF fields] only_running_mark(1) only_running_trans by blast
      then have "only_running wo wo2" using k1 only_running_trans by blast
      then show ?thesis
        using assms(2) sv Ret ev k1 fields
        by (auto simp: ensure_rest_def Let_def split: option.splits outcome.splits prod.splits if_splits)
    qed
  next
    case (Fail e)
    then show ?thesis using assms(2) sv fail_with_kept by (auto simp: ensure_rest_def Let_def)
  next
    case Panic
    then show ?thesis using assms(2) sv by (auto simp: ensure_rest_def Let_def)
  qed
qed

lemma ensureObjects_kept:
  assumes "keeps_conditions (su_ensurers su)" "ensureObjects su wo img w = Some s"
  shows "only_running wo (sd_workflow s)"
  using assms(2) ensure_rest_kept[OF assms(1)] fail_with_kept
  by (auto simp: ensureObjects_def Let_def split: prod.splits outcome.splits option.splits)

lemma SyncDeploymentStatus_kept:
  "SyncDeploymentStatus now k wo w = (r, wo') \<Longrightarrow> only_running wo wo'"
proof -
  have a: "only_running wo (mark_false now RunningConditionType r m
      (wo\<lparr>sf_status := (sf_status wo)\<lparr>ss_lastRecoverAttempt := now\<rparr>\<rparr>))" for r m
    by (rule only_running_trans[OF only_running_same only_running_mark(1)]) (simp add: same_conds_def sf_conds_def)
  show "SyncDeploymentStatus now k wo w = (r, wo') \<Longrightarrow> only_running wo wo'"
    using a by (auto simp: SyncDeploymentStatus_def Let_def intro: only_running_mark
        split: sum.splits option.splits if_splits)
qed

lemma reconcileWithImage_kept:
  assumes "keeps_conditions (su_ensurers su)" "reconcileWithImage su wo img w = Some s"
  shows "only_running wo (sd_workflow s)"
proof -
  have last: "only_running wo (sd_workflow s)"
    if o: "ensureObjects su wo img w1 = Some s1" and sy: "SyncDeploymentStatus n (su_cluster su) (sd_workflow s1) v = (r, wo2)"
      and u: "PerformStatusUpdate (su_cluster su) wo2 v = (e, wo3, w3)" and s: "sd_workflow s \<in> {sd_workflow s1, wo2, wo3}"
    for w1 s1 n v r wo2 e wo3 w3
    using ensureObjects_kept[OF assms(1) o] SyncDeploymentStatus_kept[OF sy] PerformStatusUpdate_kept[OF u] s
    by (auto intro: only_running_trans)
  show ?thesis
  proof (cases "ensureKnativeServingRequired (su_cluster su) wo w")
    case (Pair r w1)
    show ?thesis
    proof (cases "r = Inr False")
      case True
      then obtain s1 where o: "ensureObjects su wo img w1 = Some s1"
        using assms(2) Pair by (auto simp: reconcileWithImage_def Let_def split: option.splits)
      obtain r2 wo2 where sy: "SyncDeploymentStatus (su_now su) (su_cluster su) (sd_workflow s1) (sd_world s1) = (r2, wo2)"
        by fastforce
      obtain e wo3 w3 where u: "PerformStatusUpdate (su_cluster su) wo2 (sd_world s1) = (e, wo3, w3)"
        by (rule prod_cases3)
      have "sd_workflow s \<in> {sd_workflow s1, wo2, wo3}"
        using assms(2) Pair True o sy u
        by (auto simp: reconcileWithImage_def Let_def split: if_splits prod.splits option.splits)
      then show ?thesis using last[OF o sy u] by blast
    next
      case False
      then have "sd_workflow s = wo"
        using assms(2) Pair by (auto simp: reconcileWithImage_def Let_def split: sum.splits bool.splits)
      then show ?thesis by simp
    qed
  qed
qed

subsection \<open>The preview profile always has a state for its workflows\<close>

definition built :: "sonataflow \<Rightarrow> payload option" where
  "built wo = cond_view (sf_conds wo) BuiltConditionType"

definition running :: "sonataflow \<Rightarrow> payload option" where
  "running wo = cond_view (sf_conds wo) RunningConditionType"

definition reason_of :: "payload option \<Rightarrow> string" where
  "reason_of v = (case v of None \<Rightarrow> '''' | Some (_, r, _) \<Rightarrow> r)"

lemma can_views:
  "builder_CanReconcile wo \<longleftrightarrow> running wo = None \<or> view_is CUnknown (running wo) \<or>
     view_is CFalse (built wo) \<and> reason_of (built wo) \<in> {WaitingForPlatformReason, BuildFailedReason}"
  "follow_CanReconcile wo \<longleftrightarrow> built wo = None \<or> view_is CUnknown (built wo) \<or>
     view_is CFalse (built wo) \<and> reason_of (built wo) = BuildIsRunningReason \<or>
     view_is CFalse (running wo) \<and> reason_of (running wo) = WaitingForBuildReason"
  "deploy_CanReconcile wo \<longleftrightarrow> view_is CTrue (built wo)"
  by (auto simp: builder_CanReconcile_def follow_CanReconcile_def deploy_CanReconcile_def workflow_predicate_defs
      wf_cond_def cond_readers_view built_def running_def reason_of_def Let_def split: option.splits)

text \<open>The build's condition as the preview profile leaves it.\<close>

definition preview_ok :: "sonataflow \<Rightarrow> bool" where
  "preview_ok wo \<longleftrightarrow> wf_status (sf_conds wo) \<and>
    (view_is CFalse (built wo) \<longrightarrow>
      reason_of (built wo) \<in> {WaitingForPlatformReason, BuildFailedReason, BuildIsRunningReason})"

lemma preview_ok_same: "same_conds a b \<Longrightarrow> preview_ok b \<longleftrightarrow> preview_ok a"
  by (simp add: preview_ok_def built_def same_conds_view same_conds_wf)

lemma preview_ok_running: "only_running a b \<Longrightarrow> preview_ok a \<Longrightarrow> preview_ok b"
  by (auto simp: preview_ok_def built_def only_running_def)

lemma preview_ok_mark_built:
  "preview_ok wo \<Longrightarrow> r \<in> {WaitingForPlatformReason, BuildFailedReason, BuildIsRunningReason} \<Longrightarrow>
    preview_ok (mark_false now BuiltConditionType r m wo)"
  "preview_ok wo \<Longrightarrow> preview_ok (mark_true now BuiltConditionType wo)"
  by (auto simp: preview_ok_def built_def mark_false_def mark_true_def reason_of_def)

lemma preview_ok_mark_running:
  "preview_ok wo \<Longrightarrow> preview_ok (mark_false now RunningConditionType r m wo)"
  "preview_ok wo \<Longrightarrow> preview_ok (mark_unknown now RunningConditionType r m wo)"
  by (auto simp: preview_ok_def built_def mark_false_def mark_unknown_def reason_of_def MarkUnknown_view
      spec_MarkUnknown_def workflow_manager_def NewConditionManager_def Let_def)

lemma preview_ok_update: "preview_ok (sd_workflow (update_and su r ev wo w)) \<longleftrightarrow> preview_ok wo"
proof (cases "PerformStatusUpdate (su_cluster su) wo w")
  case (fields e a b)
  then show ?thesis using preview_ok_same[OF PerformStatusUpdate_conds[OF fields]] by (simp add: update_and_def)
qed

lemmas preview_oks = preview_ok_mark_built preview_ok_mark_running preview_ok_update

lemma preview_ok_init:
  assumes "preview_ok wo" shows "preview_ok (upd_conds (InitializeConditions now workflow_manager) wo)"
  using assms
  by (auto simp: preview_ok_def built_def InitializeConditions_view spec_Initialize_def workflow_manager_def
      NewConditionManager_def Let_def reason_of_def split: if_splits)

lemma preview_ok_handled:
  assumes "preview_ok wo" shows "\<exists>h\<in>set (preview_states su). rc_can h wo"
proof -
  have "builder_CanReconcile wo \<or> follow_CanReconcile wo \<or> deploy_CanReconcile wo"
  proof (cases "built wo")
    case (Some p)
    then show ?thesis using assms by (cases "fst p") (auto simp: can_views preview_ok_def)
  qed (simp add: can_views)
  then show ?thesis by (auto simp: preview_states_def)
qed

lemma preview_ok_builder:
  assumes "preview_ok wo" "builder_Do su wo w = Some s" shows "preview_ok (sd_workflow s)"
proof -
  have st: "preview_ok (sd_workflow (start_build su a v))" if "preview_ok a" for a v
    using that by (auto simp: start_build_def Let_def preview_oks split: prod.splits sum.splits)
  show ?thesis
  proof (cases "GetActivePlatform (su_cluster su) (sf_namespace wo) w")
    case (Pair r w1)
    show ?thesis
    proof (cases r)
      case (Inl e)
      then show ?thesis using assms Pair by (auto simp: builder_Do_def Let_def preview_oks split: if_splits)
    next
      case (Inr pl)
      obtain e1 wo1 w2 where u: "PerformStatusUpdate (su_cluster su) wo w1 = (e1, wo1, w2)" by (rule prod_cases3)
      have ok: "preview_ok wo1" using preview_ok_same[OF PerformStatusUpdate_conds[OF u]] assms(1) by simp
      then show ?thesis
        using assms(2) Pair Inr u
        by (auto simp: builder_Do_def Let_def preview_oks st split: prod.splits outcome.splits option.splits)
    qed
  qed
qed

lemma preview_ok_follow:
  assumes "preview_ok wo" "follow_Do su wo w = Some s" shows "preview_ok (sd_workflow s)"
proof -
  have fr: "preview_ok (sd_workflow (follow_result x)) \<longleftrightarrow> preview_ok (sd_workflow x)" for x :: "'a stepped"
    by (simp add: follow_result_def)
  have bs: "preview_ok (sd_workflow (build_succeeded su a v))" if "preview_ok a" for a v
    using that by (auto simp: build_succeeded_def Let_def fr preview_oks split: prod.splits option.splits)
  have bf: "preview_ok wo'" if "PerformStatusUpdate (su_cluster su)
      (mark_false (su_now su) BuiltConditionType BuildFailedReason m wo) v = (e, wo', v')" for m v e wo' v'
    using preview_ok_same[OF PerformStatusUpdate_conds[OF that]] assms(1) by (simp add: preview_oks)
  obtain r w1 where "GetOrCreateBuild (su_libs su) (su_cluster su) wo w = (r, w1)" by fastforce
  then show ?thesis
    using assms bf
    by (cases r) (auto simp: follow_Do_def Let_def fr bs preview_oks split: prod.splits option.splits if_splits)
qed

lemma preview_ok_deploy:
  assumes "preview_ok wo" "keeps_conditions (su_ensurers su)" "deploy_Do su wo w = Some s"
  shows "preview_ok (sd_workflow s)"
proof -
  have rb: "preview_ok (sd_workflow (restart_build su b wo v))" for b v
    using assms(1) by (auto simp: restart_build_def Let_def preview_oks split: prod.splits option.splits)
  have rw: "preview_ok (sd_workflow s1)" if "reconcileWithImage su wo img v = Some s1" for img v s1
    using preview_ok_running[OF reconcileWithImage_kept[OF assms(2) that] assms(1)] .
  show ?thesis
    using assms(1,3) rb rw
    by (auto simp: deploy_Do_def Let_def preview_oks split: prod.splits sum.splits option.splits bool.splits)
qed

text \<open>A workflow as the preview profile finds it: a new one, or one it left behind and whose specification and
  labels somebody may have changed since.\<close>

inductive preview_history :: "('w, 'p) support \<Rightarrow> sonataflow \<Rightarrow> bool" for su where
  created: "st_conditions (sf_conds wo) = [] \<Longrightarrow> preview_history su wo"
| edited: "preview_history su wo \<Longrightarrow> same_conds wo wo' \<Longrightarrow> preview_history su wo'"
| reconciled: "preview_history su wo \<Longrightarrow> preview_Reconcile (su\<lparr>su_now := n\<rparr>) wo w = Some s \<Longrightarrow>
    preview_history su (sd_workflow s)"

lemma machine_do_by:
  assumes "machine_do states wo w = Some s"
  shows "sd_workflow s = wo \<or> (\<exists>h\<in>set states. \<exists>s'. rc_do h wo w = Some s' \<and> sd_workflow s = sd_workflow s')"
proof (cases "find (\<lambda>h. rc_can h wo) states")
  case (Some h)
  then have "h \<in> set states" by (auto simp: find_Some_iff)
  then show ?thesis
    using assms Some by (fastforce simp: machine_do_def split: option.splits if_splits prod.splits)
qed (use assms in \<open>auto simp: machine_do_def\<close>)

lemma preview_ok_history:
  assumes "preview_history su wo" "keeps_conditions (su_ensurers su)" shows "preview_ok wo"
  using assms(1)
proof induction
  case (created wo)
  then show ?case
    by (simp add: preview_ok_def wf_status_def wf_conditions_def built_def cond_view_def getCondition_def)
next
  case (edited wo wo')
  then show ?case by (simp add: preview_ok_same)
next
  case (reconciled wo n w s)
  let ?wo = "upd_conds (InitializeConditions n workflow_manager) wo"
  have ok: "preview_ok ?wo" using reconciled.IH by (rule preview_ok_init)
  have m: "machine_do (preview_states (su\<lparr>su_now := n\<rparr>)) ?wo w = Some s"
    using reconciled.hyps by (simp add: preview_Reconcile_def profile_Reconcile_def)
  have k: "keeps_conditions (su_ensurers (su\<lparr>su_now := n\<rparr>))" using assms(2) by simp
  show ?case
    using machine_do_by[OF m] ok preview_ok_builder[OF ok] preview_ok_follow[OF ok] preview_ok_deploy[OF ok k]
    by (auto simp: preview_states_def)
qed

text \<open>C1: Whatever the cluster answers and however the workflow is edited in between, a workflow that only the
  preview profile has handled always has a state that can reconcile it, so the profile never reports an unknown
  state; its conditions stay well formed.\<close>

theorem preview_never_stuck:
  assumes "preview_history su wo" "keeps_conditions (su_ensurers su)"
  shows "wf_status (sf_conds wo) \<and>
    (\<exists>h\<in>set (preview_states su). rc_can h (upd_conds (InitializeConditions n workflow_manager) wo))"
proof
  have ok: "preview_ok wo" using assms by (rule preview_ok_history)
  then show "wf_status (sf_conds wo)" by (simp add: preview_ok_def)
  show "\<exists>h\<in>set (preview_states su). rc_can h (upd_conds (InitializeConditions n workflow_manager) wo)"
    using preview_ok_init[OF ok] by (rule preview_ok_handled)
qed


subsection \<open>Single passes\<close>

lemma IsReady_view: "IsReady wo \<longleftrightarrow> view_is CTrue (running wo)"
  by (simp add: IsReady_def GetTopLevelCondition_def wf_cond_def IsTrue_view running_def)

lemma running_marks:
  assumes "wf_status (sf_conds wo)"
  shows "running (mark_false now RunningConditionType r m wo) = Some (CFalse, r, m)"
    "running (mark_true now RunningConditionType wo) = Some (CTrue, '''', '''')"
    "built (mark_false now BuiltConditionType r m wo) = Some (CFalse, r, m)"
    "wf_status (sf_conds (mark_false now t r m wo))"
  using assms by (auto simp: running_def built_def mark_false_def mark_true_def)


lemma update_and_conds: "same_conds wo (sd_workflow (update_and su r ev wo w))"
proof (cases "PerformStatusUpdate (su_cluster su) wo w")
  case (fields e a b)
  then show ?thesis using PerformStatusUpdate_conds[OF fields] by (simp add: update_and_def)
qed

lemma restart_ignores_ensurers: "restart_build (su\<lparr>su_ensurers := en\<rparr>) b wo w = restart_build su b wo w"
  unfolding restart_build_def update_and_def Let_def by (simp cong del: option.case_cong_weak)

lemma deploy_changed:
  assumes "isWorkflowChanged wo = Some True"
    and "GetActivePlatform (su_cluster su) (sf_namespace wo) w = (Inr pl, w1)"
    and "GetOrCreateBuild (su_libs su) (su_cluster su) wo w1 = (Inr b, w2)"
  shows "deploy_Do su wo w = Some (restart_build su b wo w2)"
  by (simp add: deploy_Do_def assms)


lemma failed_reconcile_result:
  assumes "reconcileWithImage su wo img w = Some s" "sd_error s \<noteq> None" shows "sd_result s = no_result"
proof -
  have fw: "sd_result (fail_with su r m e a v) = no_result" for r m e a v
    by (auto simp: fail_with_def split: prod.splits)
  have er: "sd_result x = no_result" if "ensure_rest su a p op v = Some x" "sd_error x \<noteq> None" for a p op v x
    using that fw by (auto simp: ensure_rest_def Let_def split: prod.splits outcome.splits option.splits if_splits)
  have eo: "sd_result x = no_result" if "ensureObjects su a i v = Some x" "sd_error x \<noteq> None" for a i v x
    using that fw er by (auto simp: ensureObjects_def Let_def split: prod.splits outcome.splits option.splits)
  show ?thesis
    using assms eo
    by (auto simp: reconcileWithImage_def Let_def split: prod.splits sum.splits bool.splits option.splits if_splits)
qed


text \<open>Without an active platform the builder's note that the workflow waits for one is never stored: the
  status update looks for the platform first and fails, so nothing is written after the searches.\<close>

lemma waiting_for_platform_not_stored:
  assumes "GetActivePlatform (su_cluster su) (sf_namespace wo) w = (Inl e, w1)" "IsNotFound e"
    and "GetActivePlatform (su_cluster su) (sf_namespace wo) w1 = (Inl e', w2)"
  shows "\<exists>s. builder_Do su wo w = Some s \<and> sd_error s = Some e' \<and> sd_world s = w2"
  using assms
  by (simp add: builder_Do_def update_and_def PerformStatusUpdate_def no_event_def mark_false_def Let_def)

text \<open>A build that was created is found again: asking a second time answers the same build and creates
  nothing.\<close>

theorem build_created_once:
  assumes "object_store (k_builds k) (\<lambda>b. om_namespace (sb_meta b)) (\<lambda>b. om_name (sb_meta b))"
    and "GetOrCreateBuild lb k wo w = (Inr b, w')"
    and "om_namespace (sb_meta b) = sf_namespace wo" "om_name (sb_meta b) = sf_name wo"
  shows "GetOrCreateBuild lb k wo w' = (Inr b, w')"
proof -
  have "c_get (k_builds k) w' (sf_namespace wo) (sf_name wo) = Inr b"
    using assms(2) object_store.create_get[OF assms(1), of _ b w'] assms(3,4)
    by (auto simp: GetOrCreateBuild_def Let_def split: sum.splits if_splits prod.splits option.splits)
  then show ?thesis by (simp add: GetOrCreateBuild_def)
qed

subsection \<open>The ensurers keep the conditions\<close>

text \<open>What the ensurers need of \<open>CreateOrPatch\<close> for triggers: what the function it is given keeps of the
  workflow, it keeps.\<close>

locale workflow_upsert =
  fixes up :: "(sonataflow \<times> 'w, trigger) upsert"
  assumes up_keeps: "P (fst s) \<Longrightarrow> (\<And>s t. P (fst s) \<Longrightarrow> P (fst (snd (f s t)))) \<Longrightarrow> P (fst (snd (up s t f)))"
begin

lemma ensure_triggers_keeps:
  "same_conds wo (fst s) \<Longrightarrow> same_conds wo (fst (snd (ensure_triggers lb k up ts s)))"
proof (induction ts arbitrary: s)
  case (Cons t ts)
  have m: "same_conds wo (fst (snd (mutate_trigger lb k s t)))" if "same_conds wo (fst s)" for s t
    using that
    by (auto simp: mutate_trigger_def setWorkflowFinalizer_def addToSonataFlowTriggerList_def Let_def same_conds_def
        sf_conds_def split: prod.splits option.splits if_splits)
  have "same_conds wo (fst (snd (up s t (mutate_trigger lb k))))"
    using Cons.prems m by (rule up_keeps)
  then show ?case
    using Cons.IH by (auto split: prod.splits outcome.splits)
qed simp

lemma new_ensurers_keep:
  assumes "up_trigger ups = up" shows "keeps_conditions (NewObjectEnsurers lb o1 k ups)"
proof -
  have s: "same_conds wo (fst (snd (SinkBindingCreator k wo pl w)))" for wo pl w
    by (auto simp: SinkBindingCreator_def GetWorkflowSink_def Let_def same_conds_def sf_conds_def
        split: prod.splits option.splits outcome.splits)
  have t: "same_conds wo wo'" if en: "en_triggers (NewObjectEnsurers lb o1 k ups) wo pl w = Some (r, wo', w')" for wo pl w r wo' w'
  proof -
    obtain x where x: "TriggersCreator k lb wo pl w = Some x"
      using en by (auto simp: NewObjectEnsurers_def)
    show ?thesis
    proof (cases x)
      case (Ret ts)
      then have "ensure_triggers lb k up ts (wo, w) = (r, wo', w')"
        using en x by (simp add: NewObjectEnsurers_def assms)
      then show ?thesis using ensure_triggers_keeps[of wo "(wo, w)" lb k ts] by simp
    qed (use en x in \<open>auto simp: NewObjectEnsurers_def\<close>)
  qed
  have "fst (snd (en_sinkBinding (NewObjectEnsurers lb o1 k ups) wo pl w)) = fst (snd (SinkBindingCreator k wo pl w))"
    for wo pl w
    by (simp add: NewObjectEnsurers_def split: prod.split)
  then show ?thesis using s t unfolding keeps_conditions_def by metis
qed

end

subsection \<open>A reconciler in memory\<close>

text \<open>\<open>CreateOrPatch\<close> on a client: the object is read, changed by the function and written back.\<close>

definition client_upsert :: "('s \<Rightarrow> 'w) \<Rightarrow> ('w \<Rightarrow> 's \<Rightarrow> 's) \<Rightarrow> ('w, 'o) client \<Rightarrow> ('o \<Rightarrow> object_meta) \<Rightarrow> ('s, 'o) upsert" where
  "client_upsert get put c meta s x f =
    (let write = (\<lambda>op how s y. case op c (get s) y of
             (None, w) \<Rightarrow> (Ret (y, how), put w s) | (Some e, w) \<Rightarrow> (Fail e, put w s));
         change = (\<lambda>op how y. case f s y of
             (Ret y, s) \<Rightarrow> write op how s y | (Fail e, s) \<Rightarrow> (Fail e, s) | (Panic, s) \<Rightarrow> (Panic, s))
     in case c_get c (get s) (om_namespace (meta x)) (om_name (meta x)) of
          Inr y \<Rightarrow> change c_patch OpUpdated y
        | Inl e \<Rightarrow> if IsNotFound e then change c_create OpCreated x else (Fail e, s))"

definition mem_upserts :: "mem_world upserts" where
  "mem_upserts =
    (let here = (\<lambda>w. w); put = (\<lambda>w _. w)
     in \<lparr>up_deployment = client_upsert here put (k_deployments mem_cluster) dp_meta,
         up_kservice = client_upsert here put (k_kservices mem_cluster) ks_meta,
         up_service = client_upsert here put (k_services mem_cluster) sv_meta,
         up_serviceMonitor = (\<lambda>w x f. (Ret (x, OpNone), w)),
         up_configMap = client_upsert here put (k_configMaps mem_cluster) cm_meta,
         up_sinkBinding = client_upsert here put (k_sinkBindings mem_cluster) sn_meta,
         up_trigger = client_upsert snd (\<lambda>w s. (fst s, w)) (k_triggers mem_cluster) tg_meta\<rparr>)"

lemma client_upsert_state:
  "fst (snd (client_upsert snd (\<lambda>w s. (fst s, w)) c meta s x f)) = fst s \<or>
    (\<exists>y. fst (snd (client_upsert snd (\<lambda>w s. (fst s, w)) c meta s x f)) = fst (snd (f s y)))"
proof -
  have w: "fst (snd (case f s y of
      (Ret y, s) \<Rightarrow> (case op (snd s) y of (None, w) \<Rightarrow> (Ret (y, how), fst s, w) | (Some e, w) \<Rightarrow> (Fail e, fst s, w))
    | (Fail e, s) \<Rightarrow> (Fail e, s) | (Panic, s) \<Rightarrow> (Panic, s))) = fst (snd (f s y))" for op and how :: op_result and y
    by (simp split: prod.split outcome.split option.split)
  show ?thesis
  proof (cases "c_get c (snd s) (om_namespace (meta x)) (om_name (meta x))")
    case (Inr y)
    then show ?thesis using w[where y = y and how = OpUpdated and op = "c_patch c"] by (auto simp: client_upsert_def)
  next
    case (Inl e)
    then show ?thesis using w[where y = x and how = OpCreated and op = "c_create c"] by (auto simp: client_upsert_def)
  qed
qed

interpretation mem_triggers: workflow_upsert "client_upsert snd (\<lambda>w s. (fst s, w)) c tg_meta"
  by unfold_locales (metis client_upsert_state)

definition ex_support :: "(mem_world, (string \<times> string) list) support" where
  "ex_support = \<lparr>su_cluster = mem_cluster, su_libs = ex_libs, su_props = list_props, su_catalog = (\<lambda>_ _ _. Fail gob_error),
     su_ensurers = NewObjectEnsurers ex_libs list_props mem_cluster mem_upserts, su_now = 7\<rparr>"

lemma ex_support_keeps: "keeps_conditions (su_ensurers ex_support)"
  unfolding ex_support_def support.simps
  by (rule mem_triggers.new_ensurers_keep) (simp add: mem_upserts_def Let_def)

theorem preview_never_stuck_witness:
  "wf_status (sf_conds (new_workflow ''ns'' ''wf'')) \<and>
    (\<exists>h\<in>set (preview_states ex_support). rc_can h (upd_conds (InitializeConditions 3 workflow_manager) (new_workflow ''ns'' ''wf'')))"
proof (rule preview_never_stuck[OF _ ex_support_keeps])
  show "preview_history ex_support (new_workflow ''ns'' ''wf'')"
    by (rule preview_history.created) (simp add: new_workflow_def sf_conds_def)
qed

text \<open>A namespace with an active platform, a workflow and its build.\<close>

definition ex_workflow :: sonataflow where
  "ex_workflow = (new_workflow ''ns'' ''wf'')\<lparr>sf_status := (sf_status (new_workflow ''ns'' ''wf''))
     \<lparr>ss_flowCRC := 5, ss_status := \<lparr>st_conditions = [mk_condition BuiltConditionType CTrue '''' '''',
        mk_condition RunningConditionType CTrue '''' ''''], st_observedGeneration = 0\<rparr>\<rparr>\<rparr>"

definition ex_build :: sonataflow_build where
  "ex_build = new_build ex_libs mem_cluster ex_workflow ex_active"

definition ex_ns_world :: mem_world where
  "ex_ns_world = empty_world\<lparr>mw_platforms := [ex_active], mw_workflows := [ex_workflow], mw_builds := [ex_build]\<rparr>"

lemma ex_active_facts:
  "pf_IsActive ex_active" "om_namespace (pf_meta ex_active) = ''ns''" "\<not> pf_IsSecondary ex_active"
proof -
  show "pf_IsActive ex_active" by code_simp
  show "om_namespace (pf_meta ex_active) = ''ns''" "\<not> pf_IsSecondary ex_active"
    by (simp_all add: ex_active_def pf_upd_conds_def new_platform_def new_meta_def pf_IsSecondary_def nil_map_get_def)
qed

lemma ex_ns_platform:
  assumes "c_list (k_platforms k) w ''ns'' = Inr [ex_active]"
  shows "GetActivePlatform k ''ns'' w = (Inr ex_active, w)"
  using active_platform_found[OF assms, of ex_active] ex_active_facts assms by auto

lemma ex_workflow_facts [simp]:
  "sf_namespace ex_workflow = ''ns''" "sf_name ex_workflow = ''wf''" "sf_namespace (new_workflow ns nm) = ns"
  "sf_name (new_workflow ns nm) = nm" "flow_crc ex_workflow = Some 0" "flow_crc (new_workflow ns nm) = Some 0"
  "ss_flowCRC (sf_status ex_workflow) = 5" "wf_status (sf_conds ex_workflow)"
proof -
  have "crc32 [] = 0" by code_simp
  then show "flow_crc ex_workflow = Some 0" "flow_crc (new_workflow ns nm) = Some 0"
    by (simp_all add: flow_crc_def ex_workflow_def new_workflow_def)
qed (simp_all add: ex_workflow_def sf_namespace_def sf_name_def new_workflow_def new_meta_def sf_conds_def wf_status_def
    wf_conditions_def condition_type_defs)

lemma ex_ns_found: "GetActivePlatform mem_cluster ''ns'' ex_ns_world = (Inr ex_active, ex_ns_world)"
  by (rule ex_ns_platform) (simp add: mem_eval ex_ns_world_def ex_active_facts)

lemma ex_build_found: "GetOrCreateBuild ex_libs mem_cluster ex_workflow ex_ns_world = (Inr ex_build, ex_ns_world)"
  by (simp add: GetOrCreateBuild_def mem_eval ex_ns_world_def ex_build_def new_build_def new_meta_def)




theorem build_created_once_witness:
  "\<exists>b w'. GetOrCreateBuild ex_libs mem_cluster ex_workflow (ex_ns_world\<lparr>mw_builds := []\<rparr>) = (Inr b, w') \<and>
     GetOrCreateBuild ex_libs mem_cluster ex_workflow w' = (Inr b, w')"
proof -
  let ?w = "ex_ns_world\<lparr>mw_builds := []\<rparr>"
  have pl: "GetActivePlatform mem_cluster ''ns'' ?w = (Inr ex_active, ?w)"
    by (rule ex_ns_platform) (simp add: mem_eval ex_ns_world_def ex_active_facts)
  have g: "c_get (k_builds mem_cluster) ?w ''ns'' ''wf'' = Inl (NotFound ''not found'')" by (simp add: mem_eval)
  have o: "lb_setOwner ex_libs a c = None" for a c by (simp add: ex_libs_def)
  have k: "om_namespace (sb_meta ex_build) = ''ns''" "om_name (sb_meta ex_build) = ''wf''"
    by (simp_all add: ex_build_def new_build_def new_meta_def)
  obtain w' where "GetOrCreateBuild ex_libs mem_cluster ex_workflow ?w = (Inr ex_build, w')"
    using k by (simp add: GetOrCreateBuild_def g pl o Let_def mem_eval flip: ex_build_def)
  moreover have "object_store (k_builds mem_cluster) (\<lambda>b. om_namespace (sb_meta b)) (\<lambda>b. om_name (sb_meta b))"
    unfolding mem_cluster_fields by (rule mem_of_store) simp
  ultimately show ?thesis
    using build_created_once[of mem_cluster ex_libs ex_workflow ?w ex_build w'] k by auto
qed

lemma PerformStatusUpdate_ok:
  assumes "GetActivePlatform k (sf_namespace wo) w = (Inr pl, w1)" "flow_crc wo \<noteq> None"
    and "\<And>x. sf_meta x = sf_meta wo \<Longrightarrow> fst (c_status (k_workflows k) w1 x) = None"
  shows "\<exists>wo' w'. PerformStatusUpdate k wo w = (None, wo', w')"
proof -
  obtain crc where "flow_crc wo = Some crc" using assms(2) by auto
  moreover have "flow_crc (upd_conds f wo) = flow_crc wo" for f by (simp add: flow_crc_def)
  moreover have "sf_meta (SetServiceUrlsInWorkflowStatus p x) = sf_meta x" for p x
    by (simp add: SetServiceUrlsInWorkflowStatus_def di_SetServiceUrlInWorkflowStatus_def
        js_SetServiceUrlInWorkflowStatus_def Let_def)
  moreover have "\<exists>w'. c_status (k_workflows k) w1 x = (None, w')" if "sf_meta x = sf_meta wo" for x
    using assms(3)[OF that] by (cases "c_status (k_workflows k) w1 x") simp
  ultimately have "\<exists>x. \<exists>w'. PerformStatusUpdate k wo w = (let (e, w) = c_status (k_workflows k) w1 x in (e, x, w)) \<and>
      c_status (k_workflows k) w1 x = (None, w')"
    by (simp add: PerformStatusUpdate_def Let_def assms(1)) (rule exI, rule conjI, rule refl, simp)
  then show ?thesis by auto
qed


subsection \<open>The gitops profile settles\<close>

definition build_skipped :: "sonataflow \<Rightarrow> bool" where
  "build_skipped wo \<longleftrightarrow> wf_status (sf_conds wo) \<and> (\<exists>m. built wo = Some (CFalse, BuildSkippedReason, m))"

lemma gitops_can_views:
  "ensureBuildSkipped_CanReconcile wo \<longleftrightarrow> built wo = None \<or> \<not> view_is CFalse (built wo) \<or>
     reason_of (built wo) \<noteq> BuildSkippedReason"
  "followDeploy_CanReconcile wo \<longleftrightarrow> reason_of (built wo) = BuildSkippedReason"
proof -
  have st: "x = CTrue \<or> x = CUnknown \<longleftrightarrow> x \<noteq> CFalse" for x by (cases x) auto
  show "ensureBuildSkipped_CanReconcile wo \<longleftrightarrow> built wo = None \<or> \<not> view_is CFalse (built wo) \<or>
     reason_of (built wo) \<noteq> BuildSkippedReason"
    unfolding ensureBuildSkipped_CanReconcile_def wf_cond_def cond_readers_view built_def reason_of_def view_is_def
    using st by (auto split: option.splits)
  show "followDeploy_CanReconcile wo \<longleftrightarrow> reason_of (built wo) = BuildSkippedReason"
    by (simp add: followDeploy_CanReconcile_def wf_cond_def cond_readers_view built_def reason_of_def)
qed



end
