(* ===== verification/Dev_Lifecycle.thy ===== *)
theory Dev_Lifecycle
  imports Dev_Profile Workflow_Lifecycle
begin

text \<open>
  How the states of the dev profile divide the conditions of a workflow between them, and how far its
  recovery from a failed deployment goes.
\<close>


subsection \<open>The dev profile\<close>

lemma dev_can_views:
  "ensureRunning_CanReconcile wo \<longleftrightarrow> running wo = None \<or> \<not> view_is CFalse (running wo) \<or>
     reason_of (running wo) = ExternalResourcesNotFoundReason"
  "IsWaitingForDeployment wo \<longleftrightarrow> view_is CFalse (running wo) \<and> reason_of (running wo) = WaitingForDeploymentReason"
  "recover_CanReconcile wo \<longleftrightarrow> view_is CFalse (running wo)"
proof -
  have st: "x = CTrue \<or> x = CUnknown \<longleftrightarrow> x \<noteq> CFalse" for x by (cases x) auto
  show "ensureRunning_CanReconcile wo \<longleftrightarrow> running wo = None \<or> \<not> view_is CFalse (running wo) \<or>
     reason_of (running wo) = ExternalResourcesNotFoundReason"
    unfolding ensureRunning_CanReconcile_def IsReady_view workflow_predicate_defs wf_cond_def cond_readers_view
      running_def[symmetric] reason_of_def view_is_def Let_def
    using st by (auto split: option.splits)
qed (simp_all add: recover_CanReconcile_def workflow_predicate_defs wf_cond_def cond_readers_view running_def
    reason_of_def Let_def split: option.splits)

lemma machine_do_no_post:
  assumes "find (\<lambda>h. rc_can h wo) states = Some h" "rc_post h = no_post"
  shows "machine_do states wo w = rc_do h wo w"
  using assms by (auto simp: machine_do_def no_post_def split: option.split)

text \<open>In the dev profile a workflow is always handled, by the state its running condition asks for: one that
  waits for its deployment is followed, one that failed for another reason than its resources is recovered, any
  other is deployed.\<close>

theorem dev_state_of_condition:
  "dev_Reconcile dv wo w =
    (let wo' = upd_conds (InitializeConditions (su_now (dv_support dv)) workflow_manager) wo
     in case running wo' of
          Some (CFalse, r, _) \<Rightarrow>
            if r = WaitingForDeploymentReason then machine_do [dev_states dv ! 1] wo' w
            else if r = ExternalResourcesNotFoundReason then ensureRunning_Do dv wo' w else recover_Do dv wo' w
        | _ \<Rightarrow> ensureRunning_Do dv wo' w)"
proof -
  let ?wo = "upd_conds (InitializeConditions (su_now (dv_support dv)) workflow_manager) wo"
  have e: "dev_Reconcile dv wo w = machine_do (dev_states dv) ?wo w"
    by (simp add: dev_Reconcile_def profile_Reconcile_def)
  note v = dev_can_views[of ?wo]
  have run: ?thesis if "ensureRunning_CanReconcile ?wo"
      "\<And>r m. running ?wo = Some (CFalse, r, m) \<Longrightarrow> r = ExternalResourcesNotFoundReason"
  proof -
    have "machine_do (dev_states dv) ?wo w = ensureRunning_Do dv ?wo w"
      using that(1) by (subst machine_do_no_post[where h = "dev_states dv ! 0"]) (simp_all add: dev_states_def)
    then show ?thesis
      using that(2) by (auto simp: e Let_def condition_reason_defs split: option.split cond_status.split)
  qed
  show ?thesis
  proof (cases "running ?wo")
    case None
    then show ?thesis using run v by simp
  next
    case (Some p)
    obtain st r m where p: "p = (st, r, m)" by (rule prod_cases3)
    show ?thesis
    proof (cases "st = CFalse")
      case False
      then show ?thesis using run v Some p by simp
    next
      case True
      consider (wait) "r = WaitingForDeploymentReason" | (ext) "r = ExternalResourcesNotFoundReason"
        | (other) "r \<noteq> WaitingForDeploymentReason" "r \<noteq> ExternalResourcesNotFoundReason" by blast
      then show ?thesis
      proof cases
        case wait
        then have c: "\<not> ensureRunning_CanReconcile ?wo" "IsWaitingForDeployment ?wo"
          using v Some p True by (simp_all add: reason_of_def condition_reason_defs)
        then show ?thesis
          by (simp add: e machine_do_def dev_states_def Some p True wait Let_def cong: option.case_cong)
      next
        case ext
        then show ?thesis using run v Some p True by (simp add: reason_of_def)
      next
        case other
        then have c: "\<not> ensureRunning_CanReconcile ?wo" "\<not> IsWaitingForDeployment ?wo" "recover_CanReconcile ?wo"
          using v Some p True by (simp_all add: reason_of_def)
        then have "machine_do (dev_states dv) ?wo w = recover_Do dv ?wo w"
          by (subst machine_do_no_post[where h = "dev_states dv ! 2"]) (simp_all add: dev_states_def)
        then show ?thesis using other by (simp add: e Some p True)
      qed
    qed
  qed
qed

lemma PerformStatusUpdate_attempts:
  "PerformStatusUpdate k wo w = (e, wo', w') \<Longrightarrow> ss_recoverAttempts (sf_status wo') = ss_recoverAttempts (sf_status wo)"
  by (auto simp: PerformStatusUpdate_def upd_conds_def Let_def SetServiceUrlsInWorkflowStatus_def
      di_SetServiceUrlInWorkflowStatus_def js_SetServiceUrlInWorkflowStatus_def
      split: prod.splits sum.splits option.splits if_splits)


text \<open>C40: The guard on the time of the last attempt is the wrong way round: once more than ten minutes have passed
  since then, no later pass ever rolls the deployment out again or changes anything, however unavailable it is.\<close>

theorem recovery_stops_after_ten_minutes:
  assumes "c_get (k_deployments (su_cluster (dv_support dv))) w (sf_namespace wo) (sf_name wo) = Inr d"
    and "\<not> IsDeploymentAvailable d" "ss_recoverAttempts (sf_status wo) < 3" "ss_lastRecoverAttempt (sf_status wo) \<noteq> 0"
    and "t > ss_lastRecoverAttempt (sf_status wo) + 600 * 1000000000"
  shows "recover_Do (dv\<lparr>dv_support := (dv_support dv)\<lparr>su_now := t\<rparr>\<rparr>) wo w =
    Some (stepped (after_seconds RequeueRecoverDeploymentErrorInterval) None wo w)"
  using assms by (simp add: recover_Do_def RecoverDeploymentErrorRetries_def Let_def)

definition ex_dev_support :: "int \<Rightarrow> (mem_world, (string \<times> string) list) dev_support" where
  "ex_dev_support now =
    \<lparr>dv_support = ex_support\<lparr>su_now := now\<rparr>,
     dv_libs = \<lparr>dl_json = (\<lambda>_. Inr ''{}''), dl_safeEncode = (\<lambda>s. s), dl_isDNS1035 = (\<lambda>_. True), dl_parseURL = Inr\<rparr>,
     dv_ensurers = newObjectEnsurers ex_libs
       \<lparr>dl_json = (\<lambda>_. Inr ''{}''), dl_safeEncode = (\<lambda>s. s), dl_isDNS1035 = (\<lambda>_. True), dl_parseURL = Inr\<rparr>
       list_props mem_cluster mem_upserts (\<lambda>w x f. (Ret (x, OpNone), w))\<rparr>"

definition ex_stale_deployment :: deployment where
  "ex_stale_deployment =
    \<lparr>dp_meta = new_meta ''ns'' ''wf'', dp_paused = False, dp_selector = [], dp_replicas = Some 1, dp_strategy = '''',
     dp_templateLabels = [], dp_templateAnnotations = None, dp_pod = empty_pod_spec, dp_conditions = []\<rparr>"

lemma ex_stale: "\<not> IsDeploymentAvailable ex_stale_deployment"
  by (simp add: IsDeploymentAvailable_def isDeploymentInCondition_def ex_stale_deployment_def)

lemma ex_stale_found:
  "c_get (k_deployments (su_cluster (dv_support (ex_dev_support n)))) (empty_world\<lparr>mw_deployments := [ex_stale_deployment]\<rparr>)
     ''ns'' ''wf'' = Inr ex_stale_deployment"
  by (simp add: ex_dev_support_def ex_support_def mem_eval ex_stale_deployment_def new_meta_def)


theorem recovery_stops_after_ten_minutes_witness:
  "sd_world (the (recover_Do (ex_dev_support 0\<lparr>dv_support := (dv_support (ex_dev_support 0))\<lparr>su_now := 600000000002\<rparr>\<rparr>)
     (ex_workflow\<lparr>sf_status := (sf_status ex_workflow)\<lparr>ss_lastRecoverAttempt := 1\<rparr>\<rparr>)
     (empty_world\<lparr>mw_deployments := [ex_stale_deployment]\<rparr>))) = empty_world\<lparr>mw_deployments := [ex_stale_deployment]\<rparr>"
proof -
  let ?wo = "ex_workflow\<lparr>sf_status := (sf_status ex_workflow)\<lparr>ss_lastRecoverAttempt := 1\<rparr>\<rparr>"
  have n: "sf_namespace ?wo = ''ns''" "sf_name ?wo = ''wf''" "ss_recoverAttempts (sf_status ?wo) = 0"
    by (simp_all add: sf_namespace_def sf_name_def ex_workflow_def new_workflow_def new_meta_def)
  show ?thesis
    using recovery_stops_after_ten_minutes[of "ex_dev_support 0" _ ?wo ex_stale_deployment 600000000002]
      ex_stale_found[of 0] ex_stale n by simp
qed

end
