(* ===== verification/Workflow_Controller.thy ===== *)
theory Workflow_Controller
  imports Dev_Lifecycle
begin


text \<open>
  The controller of workflows (\<open>internal/controller/sonataflow_controller.go\<close>), the choice of the profile
  (\<open>profiles/factory/factory.go\<close>), the requests that platforms and builds send to it, the manager of
  workflows for other packages (\<open>workflows/workflows.go\<close>) and the handler of monitors
  (\<open>profiles/monitoring/monitoring.go\<close>).  A request is a namespace and a name.
\<close>

subsection \<open>The profile of a workflow\<close>

definition set_profile :: "string \<Rightarrow> sonataflow \<Rightarrow> sonataflow" where
  "set_profile p wo = wo\<lparr>sf_meta := (sf_meta wo)
     \<lparr>om_annotations := Some (AList.update Profile p (map_init (om_annotations (sf_meta wo))))\<rparr>\<rparr>"

definition setDefaults :: "sonataflow \<Rightarrow> sonataflow" where
  "setDefaults wo =
    (let p = GetProfileOrDefault (Some (map_init (om_annotations (sf_meta wo)))); wo = set_profile p wo
     in if p = DevProfile
        then wo\<lparr>sf_spec := (sf_spec wo)\<lparr>sp_podTemplate :=
               (sp_podTemplate (sf_spec wo))\<lparr>pt_deploymentModel := KubernetesDeploymentModel\<rparr>\<rparr>\<rparr>
        else wo)"

datatype profile_builder = PreviewBuilder | DevBuilder | GitOpsBuilder

definition profileBuilders :: "(string \<times> profile_builder) list" where
  "profileBuilders = [(PreviewProfile, PreviewBuilder), (DevProfile, DevBuilder), (GitOpsProfile, GitOpsBuilder)]"

text \<open>The builder and the workflow, in whose annotations the choice may be written; \<open>None\<close> is the write to a
  nil map.\<close>

definition profileBuilder :: "sonataflow \<Rightarrow> (profile_builder \<times> sonataflow) option" where
  "profileBuilder wo =
    (let p = GetProfileOrDefault (om_annotations (sf_meta wo));
         p = (if p = ProdProfile then PreviewProfile else p)
     in if (p = PreviewProfile \<or> p = ProdProfile) \<and> HasContainerSpecImage wo then
          (case om_annotations (sf_meta wo) of
             None \<Rightarrow> None
           | Some _ \<Rightarrow> map_option (\<lambda>b. (b, set_profile GitOpsProfile wo)) (map_of profileBuilders GitOpsProfile))
        else
          (case map_of profileBuilders p of
             None \<Rightarrow> map_option (\<lambda>b. (b, wo)) (map_of profileBuilders DefaultProfile)
           | Some b \<Rightarrow> Some (b, wo)))"

text \<open>\<open>profiles.NewReconciler\<close> and \<open>Reconcile\<close> of the profile it answers.\<close>

definition run_profile :: "('w, 'p) dev_support \<Rightarrow> sonataflow \<Rightarrow> 'w \<Rightarrow> 'w stepped option" where
  "run_profile dv wo w =
    (case profileBuilder wo of
       None \<Rightarrow> None
     | Some (PreviewBuilder, wo) \<Rightarrow> preview_Reconcile (dv_support dv) wo w
     | Some (GitOpsBuilder, wo) \<Rightarrow> gitops_Reconcile (dv_support dv) wo w
     | Some (DevBuilder, wo) \<Rightarrow> dev_Reconcile dv wo w)"

subsection \<open>The controller\<close>

definition cleanupTriggers :: "'w cluster \<Rightarrow> sonataflow \<Rightarrow> 'w \<Rightarrow> kerror option \<times> 'w" where
  "cleanupTriggers k wo w =
    (case delete_triggers k (ss_triggers (sf_status wo)) w of
       (Some e, w) \<Rightarrow> (Some e, w)
     | (None, w) \<Rightarrow> c_update (k_workflows k) w (wo\<lparr>sf_meta := RemoveFinalizer TriggerFinalizer (sf_meta wo)\<rparr>))"

definition SonataFlow_Reconcile ::
  "('w, 'p) dev_support \<Rightarrow> string \<times> string \<Rightarrow> 'w \<Rightarrow> (ctrl_result \<times> kerror option \<times> 'w) option" where
  "SonataFlow_Reconcile dv req w =
    (let k = su_cluster (dv_support dv)
     in case IsOperatorAllowedOnNamespace k (fst req) w of
          Inl e \<Rightarrow> Some (no_result, Some e, w)
        | Inr False \<Rightarrow> Some (no_result, None, w)
        | Inr True \<Rightarrow>
           (case c_get (k_workflows k) w (fst req) (snd req) of
              Inl e \<Rightarrow> Some (no_result, if IsNotFound e then None else Some e, w)
            | Inr wo \<Rightarrow>
               (let wo = setDefaults wo
                in if om_deletionTimestamp (sf_meta wo) \<noteq> None \<and> ContainsFinalizer (sf_meta wo) TriggerFinalizer
                   then (case cleanupTriggers k wo w of (e, w) \<Rightarrow> Some (no_result, e, w))
                   else if \<not> IsOperatorHandlerConsideringLock k (fst req) (sf_meta wo) w then Some (no_result, None, w)
                   else map_option (\<lambda>s. (sd_result s, sd_error s, sd_world s)) (run_profile dv wo w))))"

subsection \<open>Requests from platforms and builds\<close>

definition platformEnqueueRequestsFromMapFunc :: "'w cluster \<Rightarrow> sonataflow_platform \<Rightarrow> 'w \<Rightarrow> (string \<times> string) list" where
  "platformEnqueueRequestsFromMapFunc k p w =
    (if pf_IsReady p then
       (case c_list (k_workflows k) w (if IsCurrentOperatorGlobal k then '''' else pf_namespace p) of
          Inl e \<Rightarrow> []
        | Inr wos \<Rightarrow>
           map (\<lambda>wo. (sf_namespace wo, sf_name wo))
             (filter (\<lambda>wo. IsFalse (GetTopLevelCondition wo) \<and>
                GetReason (GetTopLevelCondition wo) = WaitingForPlatformReason) wos))
     else [])"

text \<open>The key is that of the workflow the code has just declared, which is empty.\<close>

definition buildEnqueueRequestsFromMapFunc :: "'w cluster \<Rightarrow> sonataflow_build \<Rightarrow> 'w \<Rightarrow> (string \<times> string) list" where
  "buildEnqueueRequestsFromMapFunc k b w =
    (if sb_phase b = PhaseSucceeded then
       (case c_get (k_workflows k) w '''' '''' of
          Inl e \<Rightarrow> []
        | Inr wo \<Rightarrow> if IsBuildRunningOrUnknown wo then [(sf_namespace wo, sf_name wo)] else [])
     else [])"

subsection \<open>The manager of workflows and the handler of monitors\<close>

definition NewManager :: "'w cluster \<Rightarrow> string \<Rightarrow> string \<Rightarrow> 'w \<Rightarrow> kerror + sonataflow" where
  "NewManager k ns name w = c_get (k_workflows k) w ns name"

definition SetBuiltStatusToRunning ::
  "int \<Rightarrow> 'w cluster \<Rightarrow> string \<Rightarrow> sonataflow \<Rightarrow> 'w \<Rightarrow> kerror option \<times> sonataflow \<times> 'w" where
  "SetBuiltStatusToRunning now k msg wo w =
    (let wo = mark_false now BuiltConditionType BuildIsRunningReason msg wo;
         (e, w) = c_status (k_workflows k) w wo
     in (e, wo, w))"

definition monitoring_Ensure ::
  "'w cluster \<Rightarrow> 'w ensurers \<Rightarrow> sonataflow \<Rightarrow> 'w \<Rightarrow> service_monitor option outcome \<times> 'w" where
  "monitoring_Ensure k en wo w =
    (case k_prometheus k w of
       Inl e \<Rightarrow> (Fail e, w)
     | Inr False \<Rightarrow> (Ret None, w)
     | Inr True \<Rightarrow> (case en_serviceMonitor en wo w of (r, w) \<Rightarrow> (obind r (\<lambda>(sm, _). Ret sm), w)))"

subsection \<open>The choice of the profile\<close>

lemma nil_map_get_Some: "nil_map_get (Some m) key = map_get m key" by (simp add: nil_map_get_def)

definition builder_name :: "profile_builder \<Rightarrow> string" where
  "builder_name b = (case b of PreviewBuilder \<Rightarrow> PreviewProfile | DevBuilder \<Rightarrow> DevProfile | GitOpsBuilder \<Rightarrow> GitOpsProfile)"

lemma profile_after_defaults:
  "om_annotations (sf_meta (setDefaults wo)) =
    Some (AList.update Profile (GetProfileOrDefault (om_annotations (sf_meta wo))) (map_init (om_annotations (sf_meta wo))))"
  "HasContainerSpecImage (setDefaults wo) = HasContainerSpecImage wo"
proof -
  have "GetProfileOrDefault (Some (map_init a)) = GetProfileOrDefault a" for a
    by (cases a) (simp_all add: GetProfileOrDefault_def map_init_def map_get_def supportedProfiles_def profile_defs)
  then show "om_annotations (sf_meta (setDefaults wo)) =
    Some (AList.update Profile (GetProfileOrDefault (om_annotations (sf_meta wo))) (map_init (om_annotations (sf_meta wo))))"
    by (simp add: setDefaults_def set_profile_def Let_def)
  show "HasContainerSpecImage (setDefaults wo) = HasContainerSpecImage wo"
    by (simp add: setDefaults_def set_profile_def Let_def HasContainerSpecImage_def)
qed

lemma profile_cases:
  "GetProfileOrDefault a =
    (if IsDevProfile a then DevProfile else if nil_map_get a Profile = GitOpsProfile then GitOpsProfile else PreviewProfile)"
  by (cases a) (auto simp: GetProfileOrDefault_def IsDevProfile_def nil_map_get_def supportedProfiles_def profile_defs map_get_def)

lemma GetProfile_set:
  "isValidProfile p \<Longrightarrow> GetProfileOrDefault (Some (AList.update Profile p m)) = p"
  by (auto simp: GetProfileOrDefault_def isValidProfile_def supportedProfiles_def profile_defs split: if_splits)

lemma valid_profiles [simp]: "isValidProfile DevProfile" "isValidProfile PreviewProfile" "isValidProfile GitOpsProfile"
  by (simp_all add: isValidProfile_def supportedProfiles_def profile_defs)

lemma profileBuilder_of:
  assumes "om_annotations (sf_meta wo) = Some (AList.update Profile p m)" "isValidProfile p"
  shows "profileBuilder wo = Some
    (if p = DevProfile then (DevBuilder, wo) else if p = GitOpsProfile then (GitOpsBuilder, wo)
     else if HasContainerSpecImage wo then (GitOpsBuilder, set_profile GitOpsProfile wo) else (PreviewBuilder, wo))"
proof -
  have "p = DevProfile \<or> p = PreviewProfile \<or> p = GitOpsProfile"
    using assms(2) by (auto simp: isValidProfile_def supportedProfiles_def split: if_splits)
  then show ?thesis
    using GetProfile_set[OF assms(2), of m]
    by (elim disjE) (simp_all add: profileBuilder_def assms(1) profileBuilders_def profile_defs)
qed

lemma profileBuilder_defaults:
  "profileBuilder (setDefaults wo) = Some
    (if IsDevProfile (om_annotations (sf_meta wo)) then (DevBuilder, setDefaults wo)
     else if nil_map_get (om_annotations (sf_meta wo)) Profile = GitOpsProfile then (GitOpsBuilder, setDefaults wo)
     else if HasContainerSpecImage wo then (GitOpsBuilder, set_profile GitOpsProfile (setDefaults wo))
     else (PreviewBuilder, setDefaults wo))"
  using profileBuilder_of[OF profile_after_defaults(1) GetProfileOrDefault_valid]
  by (simp add: profile_after_defaults profile_cases) (simp add: profile_defs)

text \<open>C13: The choice of a profile never fails once the defaults are set: dev is used when it is asked for, gitops when
  it is asked for or when a workflow that is not in dev brings its own image, preview otherwise.  The choice is
  written to the annotations, and choosing again for that workflow gives the same profile.\<close>

theorem profile_choice:
  "\<exists>b wo'. profileBuilder (setDefaults wo) = Some (b, wo') \<and>
    (b = DevBuilder \<longleftrightarrow> IsDevProfile (om_annotations (sf_meta wo))) \<and>
    (b = GitOpsBuilder \<longleftrightarrow> nil_map_get (om_annotations (sf_meta wo)) Profile = GitOpsProfile \<or>
       \<not> IsDevProfile (om_annotations (sf_meta wo)) \<and> HasContainerSpecImage wo) \<and>
    nil_map_get (om_annotations (sf_meta wo')) Profile = builder_name b \<and>
    (\<exists>wo''. profileBuilder (setDefaults wo') = Some (b, wo''))"
proof -
  let ?a = "om_annotations (sf_meta wo)" and ?d = "setDefaults wo"
  have nd: "DevProfile \<noteq> GitOpsProfile" "GitOpsProfile \<noteq> DevProfile" "PreviewProfile \<noteq> GitOpsProfile" "PreviewProfile \<noteq> DevProfile"
    "GitOpsProfile \<noteq> ''''" "DevProfile \<noteq> ''''"
    by (simp_all add: profile_defs)
  have dv: "IsDevProfile (Some (AList.update Profile p m)) \<longleftrightarrow> p = DevProfile" for p m
    using nd by (simp add: IsDevProfile_def)
  have an: "om_annotations (sf_meta (set_profile p x)) = Some (AList.update Profile p (map_init (om_annotations (sf_meta x))))"
    "HasContainerSpecImage (set_profile p x) = HasContainerSpecImage x" for p x
    by (simp_all add: set_profile_def HasContainerSpecImage_def)
  have g: "IsDevProfile ?a \<Longrightarrow> nil_map_get ?a Profile \<noteq> GitOpsProfile"
    using nd by (auto simp: IsDevProfile_def nil_map_get_def split: option.splits)
  show ?thesis
    using g nd
    by (auto simp: profileBuilder_defaults builder_name_def an profile_after_defaults nil_map_get_Some profile_cases dv)
qed

subsection \<open>Triggers in other namespaces\<close>

text \<open>Besides what \<open>workflow_upsert\<close> asks, a successful \<open>CreateOrPatch\<close> has applied the function, without an
  error, to an object of the same name.\<close>

locale trigger_upsert = workflow_upsert +
  assumes up_applies: "up s t f = (Ret r, s') \<Longrightarrow>
    \<exists>s0 y x. (om_namespace (tg_meta y), om_name (tg_meta y)) = (om_namespace (tg_meta t), om_name (tg_meta t)) \<and>
      fst s0 = fst s \<and> fst (f s0 y) = Ret x \<and> fst s' = fst (snd (f s0 y))"
begin

definition noted :: "sonataflow \<Rightarrow> trigger \<Rightarrow> bool" where
  "noted wo t \<longleftrightarrow> (\<exists>r\<in>set (ss_triggers (sf_status wo)). nr_name r = om_name (tg_meta t) \<and> nr_namespace r = om_namespace (tg_meta t)) \<and>
    (om_namespace (tg_meta t) \<noteq> sf_namespace wo \<longrightarrow> ContainsFinalizer (sf_meta wo) TriggerFinalizer)"

lemma mutate_keeps_noted: "noted (fst s) t \<Longrightarrow> noted (fst (snd (mutate_trigger lb k s t'))) t"
  by (auto simp: mutate_trigger_def setWorkflowFinalizer_def addToSonataFlowTriggerList_def Let_def noted_def
      ContainsFinalizer_def sf_namespace_def AddFinalizer_def split: prod.splits option.splits if_splits)

lemma mutate_notes:
  "fst (mutate_trigger lb k s t) = Ret x \<Longrightarrow> noted (fst (snd (mutate_trigger lb k s t))) t"
  by (auto simp: mutate_trigger_def setWorkflowFinalizer_def addToSonataFlowTriggerList_def Let_def noted_def
      ContainsFinalizer_def sf_namespace_def list_ex_iff AddFinalizer_def split: prod.splits option.splits if_splits)

lemma ensured_triggers_noted:
  "ensure_triggers lb k up ts s = (Ret (), s') \<Longrightarrow> (\<forall>t\<in>T. noted (fst s) t) \<Longrightarrow> \<forall>t\<in>T \<union> set ts. noted (fst s') t"
proof (induction ts arbitrary: s T)
  case (Cons t ts)
  obtain r s1 where u: "up s t (mutate_trigger lb k) = (Ret r, s1)" and rest: "ensure_triggers lb k up ts s1 = (Ret (), s')"
    using Cons.prems(1) by (auto split: prod.splits outcome.splits)
  obtain s0 y x where y: "(om_namespace (tg_meta y), om_name (tg_meta y)) = (om_namespace (tg_meta t), om_name (tg_meta t))"
    and "fst (mutate_trigger lb k s0 y) = Ret x" "fst s1 = fst (snd (mutate_trigger lb k s0 y))"
    using up_applies[OF u] by auto
  then have "noted (fst s1) y" using mutate_notes by simp
  then have "noted (fst s1) t" using y by (simp add: noted_def)
  moreover have "noted (fst s1) t'" if "t' \<in> T" for t'
  proof -
    have "noted (fst (snd (up s t (mutate_trigger lb k)))) t'"
      by (rule up_keeps) (use Cons.prems(2) that mutate_keeps_noted in auto)
    then show ?thesis by (simp add: u)
  qed
  ultimately have "\<forall>t\<in>insert t T. noted (fst s1) t" by auto
  from Cons.IH[OF rest this] show ?case by simp
qed simp

end


lemma client_upsert_applies:
  assumes get: "\<And>w n m y. c_get c w n m = Inr y \<Longrightarrow> om_namespace (meta y) = n \<and> om_name (meta y) = m"
    and "client_upsert snd (\<lambda>w s. (fst s, w)) c meta s t f = (Ret r, s')"
  shows "\<exists>s0 y x. (om_namespace (meta y), om_name (meta y)) = (om_namespace (meta t), om_name (meta t)) \<and>
      fst s0 = fst s \<and> fst (f s0 y) = Ret x \<and> fst s' = fst (snd (f s0 y))"
proof -
  have change: "\<exists>x. fst (f s y) = Ret x \<and> fst s' = fst (snd (f s y))"
    if "(case f s y of
      (Ret y, s) \<Rightarrow> (case op (snd s) y of (None, w) \<Rightarrow> (Ret (y, how), fst s, w) | (Some e, w) \<Rightarrow> (Fail e, fst s, w))
    | (Fail e, s) \<Rightarrow> (Fail e, s) | (Panic, s) \<Rightarrow> (Panic, s)) = (Ret r, s')" for op and how :: op_result and y
    using that by (auto split: prod.splits outcome.splits option.splits)
  show ?thesis
  proof (cases "c_get c (snd s) (om_namespace (meta t)) (om_name (meta t))")
    case (Inr y)
    then obtain x where "fst (f s y) = Ret x" "fst s' = fst (snd (f s y))"
      using change[where y = y and op = "c_patch c" and how = OpUpdated] assms(2)
      by (auto simp: client_upsert_def Let_def)
    then show ?thesis using get[OF Inr] by (intro exI[of _ s] exI[of _ y] exI[of _ x]) simp
  next
    case (Inl e)
    then obtain x where "fst (f s t) = Ret x" "fst s' = fst (snd (f s t))"
      using change[where y = t and op = "c_create c" and how = OpCreated] assms(2)
      by (auto simp: client_upsert_def Let_def split: if_splits)
    then show ?thesis by (intro exI[of _ s] exI[of _ t] exI[of _ x]) simp
  qed
qed

interpretation mem_trigger_store: trigger_upsert "up_trigger mem_upserts"
proof -
  have u: "up_trigger mem_upserts = client_upsert snd (\<lambda>w s. (fst s, w)) (k_triggers mem_cluster) tg_meta"
    by (simp add: mem_upserts_def Let_def)
  have get: "om_namespace (tg_meta y) = n \<and> om_name (tg_meta y) = m" if "c_get (k_triggers mem_cluster) w n m = Inr y" for w n m y
    using that by (auto simp: mem_eval find_Some_iff split: option.splits)
  show "trigger_upsert (up_trigger mem_upserts)"
    unfolding u trigger_upsert_def trigger_upsert_axioms_def
    by (intro conjI allI impI mem_triggers.workflow_upsert_axioms) (rule client_upsert_applies[OF get])
qed


subsection \<open>The controller's guards\<close>

lemma delete_triggers_gone:
  assumes store: "object_store (k_triggers k) (\<lambda>t. om_namespace (tg_meta t)) (\<lambda>t. om_name (tg_meta t))"
    and "delete_triggers k rs w = (None, w')"
  shows "(\<forall>r\<in>set rs. \<exists>e. c_get (k_triggers k) w' (nr_namespace r) (nr_name r) = Inl e \<and> IsNotFound e) \<and>
    (\<forall>n m. (\<forall>r\<in>set rs. (n, m) \<noteq> (nr_namespace r, nr_name r)) \<longrightarrow> c_get (k_triggers k) w' n m = c_get (k_triggers k) w n m)"
  using assms(2)
proof (induction rs arbitrary: w)
  case (Cons r rs)
  obtain x w1 where d: "c_delete (k_triggers k) w (nr_namespace r) (nr_name r) = (x, w1)" by fastforce
  then have rest: "delete_triggers k rs w1 = (None, w')" and x: "x = None \<or> (\<exists>e. x = Some e \<and> IsNotFound e)"
    using Cons.prems by (auto split: option.splits if_splits)
  have gone: "\<exists>e. c_get (k_triggers k) w1 (nr_namespace r) (nr_name r) = Inl e \<and> IsNotFound e"
    using x d object_store.delete_get[OF store] object_store.delete_missing[OF store] by blast
  have frame: "c_get (k_triggers k) w1 n m = c_get (k_triggers k) w n m" if "(n, m) \<noteq> (nr_namespace r, nr_name r)" for n m
    using x d that object_store.delete_frame[OF store] object_store.delete_missing[OF store] by blast
  note IH = Cons.IH[OF rest]
  have "\<exists>e. c_get (k_triggers k) w' (nr_namespace r) (nr_name r) = Inl e \<and> IsNotFound e"
    using IH gone by (metis prod.inject)
  moreover have "c_get (k_triggers k) w' n m = c_get (k_triggers k) w n m"
    if "\<forall>y\<in>set (r # rs). (n, m) \<noteq> (nr_namespace y, nr_name y)" for n m
    using IH frame[of n m] that by simp
  ultimately show ?case using IH by simp
qed simp

text \<open>The controller takes the finalizer off a workflow only when all its triggers are gone: after a clean-up
  without an error none of those in its status is left and no other trigger was touched.\<close>

theorem triggers_cleaned_up:
  assumes "object_store (k_triggers k) (\<lambda>t. om_namespace (tg_meta t)) (\<lambda>t. om_name (tg_meta t))"
    and frame: "\<And>w x e w' n m. c_update (k_workflows k) w x = (e, w') \<Longrightarrow>
      c_get (k_triggers k) w' n m = c_get (k_triggers k) w n m"
    and "cleanupTriggers k wo w = (None, w')"
  shows "(\<forall>r\<in>set (ss_triggers (sf_status wo)). \<exists>e. c_get (k_triggers k) w' (nr_namespace r) (nr_name r) = Inl e \<and> IsNotFound e) \<and>
    (\<forall>n m. (\<forall>r\<in>set (ss_triggers (sf_status wo)). (n, m) \<noteq> (nr_namespace r, nr_name r)) \<longrightarrow>
      c_get (k_triggers k) w' n m = c_get (k_triggers k) w n m)"
proof -
  obtain w1 where d: "delete_triggers k (ss_triggers (sf_status wo)) w = (None, w1)"
    and u: "c_update (k_workflows k) w1 (wo\<lparr>sf_meta := RemoveFinalizer TriggerFinalizer (sf_meta wo)\<rparr>) = (None, w')"
    using assms(3) by (auto simp: cleanupTriggers_def split: prod.splits option.splits)
  show ?thesis using delete_triggers_gone[OF assms(1) d] by (simp add: frame[OF u])
qed

text \<open>A pass over a workflow that is not assigned to this operator, or whose namespace it may not work on,
  changes nothing, unless the workflow is being deleted with triggers to clean up.\<close>

theorem foreign_workflow_untouched:
  assumes "IsOperatorAllowedOnNamespace (su_cluster (dv_support dv)) ns w = Inr False \<or>
      c_get (k_workflows (su_cluster (dv_support dv))) w ns name = Inr wo \<and>
      \<not> IsOperatorHandlerConsideringLock (su_cluster (dv_support dv)) ns (sf_meta (setDefaults wo)) w \<and>
      om_deletionTimestamp (sf_meta wo) = None"
  shows "\<exists>r e. SonataFlow_Reconcile dv (ns, name) w = Some (r, e, w) \<and> r = no_result"
proof -
  have "om_deletionTimestamp (sf_meta (setDefaults x)) = om_deletionTimestamp (sf_meta x)" for x
    by (simp add: setDefaults_def set_profile_def Let_def)
  then show ?thesis
    using assms
    by (auto simp: SonataFlow_Reconcile_def Let_def split: sum.split bool.split)
qed

text \<open>A finished build never wakes up the workflow it belongs to: the requests it makes do not depend on which
  build it is, and there are none as no workflow has an empty name.\<close>

theorem builds_wake_nobody:
  assumes "c_get (k_workflows k) w '''' '''' = Inl e"
  shows "buildEnqueueRequestsFromMapFunc k b w = []"
  using assms by (simp add: buildEnqueueRequestsFromMapFunc_def)

theorem triggers_cleaned_up_witness:
  "\<exists>w' e. cleanupTriggers mem_cluster (ex_workflow\<lparr>sf_status := (sf_status ex_workflow)
       \<lparr>ss_triggers := [\<lparr>nr_name = ''t'', nr_namespace = ''other''\<rparr>]\<rparr>\<rparr>) ex_ns_world = (None, w') \<and>
     c_get (k_triggers mem_cluster) w' ''other'' ''t'' = Inl e \<and> IsNotFound e"
proof -
  let ?wo = "ex_workflow\<lparr>sf_status := (sf_status ex_workflow)\<lparr>ss_triggers := [\<lparr>nr_name = ''t'', nr_namespace = ''other''\<rparr>]\<rparr>\<rparr>"
  have st: "object_store (k_triggers mem_cluster) (\<lambda>t. om_namespace (tg_meta t)) (\<lambda>t. om_name (tg_meta t))"
    unfolding mem_cluster_fields by (rule mem_of_store) simp
  have fr: "c_get (k_triggers mem_cluster) w' n m = c_get (k_triggers mem_cluster) w n m"
    if "c_update (k_workflows mem_cluster) w x = (e, w')" for w x e w' n m
    using that by (auto simp: mem_eval split: option.splits)
  obtain w' where "cleanupTriggers mem_cluster ?wo ex_ns_world = (None, w')"
    by (simp add: cleanupTriggers_def mem_eval ex_ns_world_def RemoveFinalizer_def)
  from triggers_cleaned_up[OF st fr this] this show ?thesis by auto
qed

theorem foreign_workflow_untouched_witness:
  "\<exists>r e. SonataFlow_Reconcile (ex_dev_support 0\<lparr>dv_support := ex_support\<lparr>su_cluster := mem_cluster
       \<lparr>k_operatorID := ''other''\<rparr>\<rparr>\<rparr>) (''ns'', ''wf'') ex_ns_world = Some (r, e, ex_ns_world) \<and> r = no_result"
proof (rule foreign_workflow_untouched[where wo = ex_workflow], rule disjI2, intro conjI)
  let ?k = "mem_cluster\<lparr>k_operatorID := ''other''\<rparr>"
  show "c_get (k_workflows (su_cluster (dv_support (ex_dev_support 0\<lparr>dv_support := ex_support\<lparr>su_cluster := ?k\<rparr>\<rparr>)))) ex_ns_world ''ns'' ''wf'' =
      Inr ex_workflow"
    by (simp add: mem_eval ex_ns_world_def ex_workflow_def new_workflow_def new_meta_def)
  show "om_deletionTimestamp (sf_meta ex_workflow) = None" by (simp add: ex_workflow_def new_workflow_def new_meta_def)
  have "GetOperatorIDAnnotation (sf_meta (setDefaults ex_workflow)) = ''''"
    by (simp add: GetOperatorIDAnnotation_def setDefaults_def set_profile_def Let_def ex_workflow_def new_workflow_def new_meta_def
        map_init_def nil_map_get_def map_get_def GetProfileOrDefault_def supportedProfiles_def profile_defs OperatorIDAnnotation_def
        Profile_def Domain_def)
  then show "\<not> IsOperatorHandlerConsideringLock (su_cluster (dv_support (ex_dev_support 0\<lparr>dv_support := ex_support\<lparr>su_cluster := ?k\<rparr>\<rparr>)))
      ''ns'' (sf_meta (setDefaults ex_workflow)) ex_ns_world"
    by (simp add: IsOperatorHandlerConsideringLock_def IsOperatorHandler_def mem_eval IsCurrentOperatorGlobal_def DefaultPlatformName_def)
qed

theorem builds_wake_nobody_witness:
  "buildEnqueueRequestsFromMapFunc mem_cluster (ex_build\<lparr>sb_phase := PhaseSucceeded\<rparr>) ex_ns_world = []"
  by (rule builds_wake_nobody[where e = "NotFound ''not found''"])
    (simp add: mem_eval ex_ns_world_def ex_workflow_def new_workflow_def new_meta_def)

end
