(* ===== verification/Builder_Image.thy ===== *)
theory Builder_Image
  imports Go_Regexp Platform "HOL-Library.Sublist"
begin

text \<open>
  The base image of a build (\<open>internal/controller/platform/platformutils.go\<close>): the Dockerfile that comes
  with the operator names a builder image in a line \<open>FROM ... AS builder\<close>, which the platform or the
  operator's configuration can replace.  Without such a line the code indexes an empty list, which is the
  \<open>None\<close> of the definitions.
\<close>

subsection \<open>Finding and replacing\<close>

text \<open>The leftmost match: the string from where it starts and what is left after it.\<close>

fun rx_find :: "rx \<Rightarrow> string \<Rightarrow> (string \<times> string) option" where
  "rx_find r [] = map_option (\<lambda>t. ([], t)) (rx_after r [])"
| "rx_find r (c # s) =
    (case rx_after r (c # s) of Some t \<Rightarrow> Some (c # s, t) | None \<Rightarrow> rx_find r s)"

text \<open>\<open>strings.Replace\<close> with at most one replacement, and \<open>strings.Trim\<close> of spaces.\<close>

fun replace_once :: "string \<Rightarrow> string \<Rightarrow> string \<Rightarrow> string" where
  "replace_once old new [] = (if old = [] then new else [])"
| "replace_once old new (c # s) =
    (if prefix old (c # s) then new @ drop (length old) (c # s) else c # replace_once old new s)"

definition trim_spaces :: "string \<Rightarrow> string" where
  "trim_spaces s = rev (dropWhile (\<lambda>c. c = CHR '' '') (rev (dropWhile (\<lambda>c. c = CHR '' '') s)))"

definition from_lit :: string where "from_lit = ''FROM ''"
definition as_builder :: string where "as_builder = '' AS builder''"

definition builderDockerfileFromRE :: rx where
  "builderDockerfileFromRE = RSeq (rx_lit from_lit) (RSeq (RStar RAny) (rx_lit as_builder))"

definition GetFromImageTagDockerfile :: "string \<Rightarrow> string option" where
  "GetFromImageTagDockerfile d =
    (case rx_find builderDockerfileFromRE d of
       None \<Rightarrow> None
     | Some (s, rest) \<Rightarrow>
        (let m = rx_text s rest
         in Some (trim_spaces (take (length m - length from_lit - length as_builder) (drop (length from_lit) m)))))"

definition base_image :: "controllers_cfg \<Rightarrow> sonataflow_platform \<Rightarrow> string" where
  "base_image c p = (if bc_baseImage (pf_buildConfig p) \<noteq> '''' then bc_baseImage (pf_buildConfig p)
                     else cg_baseBuilderImageTag c)"

definition GetCustomizedBuilderDockerfile :: "controllers_cfg \<Rightarrow> string \<Rightarrow> sonataflow_platform \<Rightarrow> string option" where
  "GetCustomizedBuilderDockerfile c d p =
    (if base_image c p \<noteq> ''''
     then map_option (\<lambda>img. replace_once img (base_image c p) d) (GetFromImageTagDockerfile d)
     else Some d)"

subsection \<open>The line of the builder image\<close>

lemma in_ranges_char: "in_ranges [(of_char c, of_char c)] d \<longleftrightarrow> d = c"
  by (auto simp: in_ranges_def)

lemma rx_match_lit:
  "CHR ''.'' \<notin> set l \<Longrightarrow> rx_match (rx_lit l) s k = (if prefix l s then k (drop (length l) s) else None)"
proof (induction l arbitrary: s)
  case (Cons c l)
  then show ?case by (cases s) (auto simp: rx_char_def in_ranges_char simp del: of_char_of)
qed simp

lemma star_any_run:
  assumes "CHR 0x0A \<notin> set xs" "t = [] \<or> hd t = CHR 0x0A" "length xs \<le> n"
  shows "star_loop (rx_match RAny) n (xs @ t) k = back_off k xs t"
  using assms
proof (induction xs arbitrary: n)
  case Nil
  then have "rx_match RAny t k = None" for k :: "string \<Rightarrow> 'a option" by (cases t) auto
  then show ?case by (cases n) simp_all
next
  case (Cons x xs)
  then obtain m where n: "n = Suc m" by (cases n) auto
  have "of_char x \<noteq> (10::nat)"
  proof
    assume x: "of_char x = (10::nat)"
    have "char_of (10::nat) = CHR 0x0A" by code_simp
    then have "x = CHR 0x0A" using x char_of_char[of x] by metis
    then show False using Cons.prems(1) by simp
  qed
  then show ?case using Cons n by (auto split: option.splits)
qed

lemma rx_match_star_any:
  assumes "CHR 0x0A \<notin> set xs" "t = [] \<or> hd t = CHR 0x0A"
  shows "rx_match (RStar RAny) (xs @ t) k = back_off k xs t"
  using star_any_run[OF assms, of "length (xs @ t)" k] by simp

lemma back_off_suffix: "back_off k ys t = Some r \<Longrightarrow> back_off k (xs @ ys) t = Some r"
  by (induction xs) auto

lemma back_off_fails:
  "(\<And>u. suffix u xs \<Longrightarrow> k (u @ t) = None) \<Longrightarrow> back_off k xs t = None"
proof (induction xs)
  case (Cons x xs)
  have "back_off k xs t = None" by (rule Cons.IH) (use Cons.prems in \<open>auto intro: suffix_ConsI\<close>)
  then show ?case using Cons.prems[of "x # xs"] by simp
next
  case Nil
  then show ?case using Nil[of "[]"] by simp
qed

lemma rx_find_None: "rx_find r s = None \<longleftrightarrow> \<not> rx_anywhere r s"
  by (induction s) (auto split: option.splits)

lemma rx_find_skip:
  assumes "rx_after r s = Some t" "\<And>u. suffix u xs \<Longrightarrow> u \<noteq> [] \<Longrightarrow> rx_after r (u @ s) = None"
  shows "rx_find r (xs @ s) = Some (s, t)"
  using assms(2)
proof (induction xs)
  case (Cons x xs)
  have "rx_find r (xs @ s) = Some (s, t)" by (rule Cons.IH) (use Cons.prems in \<open>auto intro: suffix_ConsI\<close>)
  then show ?case using Cons.prems[of "x # xs"] by simp
qed (cases s, use assms(1) in auto)

text \<open>A text does not occur before the place where it is followed by the rest.\<close>

definition first_at :: "string \<Rightarrow> string \<Rightarrow> string \<Rightarrow> bool" where
  "first_at x pre post \<longleftrightarrow> list_all (\<lambda>u. u \<noteq> [] \<longrightarrow> \<not> prefix x (u @ x @ post)) (suffixes pre)"

lemma first_atD: "first_at x pre post \<Longrightarrow> suffix u pre \<Longrightarrow> u \<noteq> [] \<Longrightarrow> \<not> prefix x (u @ x @ post)"
  by (simp add: first_at_def list_all_iff)

lemma first_at_tl: "first_at x (c # pre) post \<Longrightarrow> first_at x pre post"
  by (auto simp: first_at_def list_all_iff intro: suffix_ConsI)

lemma replace_once_at: "first_at old pre post \<Longrightarrow> replace_once old new (pre @ old @ post) = pre @ new @ post"
proof (induction pre)
  case (Cons c pre)
  then show ?case using first_atD[OF Cons.prems, of "c # pre"] first_at_tl[OF Cons.prems] by simp
qed (cases old; cases post; simp)

lemma as_builder_once:
  assumes "t = [] \<or> hd t = CHR 0x0A" "suffix u ''AS builder''"
  shows "\<not> prefix as_builder (u @ t)"
proof -
  have "u \<in> set (suffixes ''AS builder'')" using assms(2) by (simp only: set_suffixes_eq mem_Collect_eq)
  then show ?thesis using assms(1) by (cases t) (auto simp: as_builder_def)
qed

lemma from_line_matches:
  assumes "CHR 0x0A \<notin> set img" "t = [] \<or> hd t = CHR 0x0A"
  shows "rx_after builderDockerfileFromRE (from_lit @ img @ as_builder @ t) = Some t"
proof -
  let ?k = "\<lambda>u. rx_match (rx_lit as_builder) u Some"
  have lit: "?k u = (if prefix as_builder u then Some (drop (length as_builder) u) else None)" for u
    by (rule rx_match_lit) (simp add: as_builder_def)
  have "back_off ?k ''AS builder'' t = None"
    by (rule back_off_fails) (use as_builder_once[OF assms(2)] lit in auto)
  then have "back_off ?k as_builder t = Some t"
    using lit[of "as_builder @ t"] by (simp add: as_builder_def)
  then have "back_off ?k (img @ as_builder) t = Some t" by (rule back_off_suffix)
  moreover have "CHR 0x0A \<notin> set (img @ as_builder)" using assms(1) by (simp add: as_builder_def)
  ultimately have "rx_match (RStar RAny) ((img @ as_builder) @ t) ?k = Some t"
    using rx_match_star_any[OF _ assms(2)] by metis
  moreover have "CHR ''.'' \<notin> set from_lit" by (simp add: from_lit_def)
  ultimately show ?thesis
    by (simp add: rx_after_def builderDockerfileFromRE_def rx_match_lit del: rx_match.simps(7))
qed

lemma from_prefix:
  assumes "rx_after builderDockerfileFromRE s = Some t" shows "prefix from_lit s"
proof (rule ccontr)
  assume "\<not> prefix from_lit s"
  moreover have "CHR ''.'' \<notin> set from_lit" by (simp add: from_lit_def)
  ultimately show False using assms by (simp add: rx_after_def builderDockerfileFromRE_def rx_match_lit)
qed

lemma image_of_from_line:
  assumes "CHR 0x0A \<notin> set img" "post = [] \<or> hd post = CHR 0x0A" "trim_spaces img = img"
    "first_at from_lit pre (img @ as_builder @ post)"
  shows "GetFromImageTagDockerfile (pre @ from_lit @ img @ as_builder @ post) = Some img"
proof -
  let ?s = "from_lit @ img @ as_builder @ post"
  have none: "rx_after builderDockerfileFromRE (u @ ?s) = None" if "suffix u pre" "u \<noteq> []" for u
    using from_prefix first_atD[OF assms(4) that] by (metis not_Some_eq)
  have "rx_find builderDockerfileFromRE (pre @ ?s) = Some (?s, post)"
    by (rule rx_find_skip[OF from_line_matches[OF assms(1,2)] none])
  then show ?thesis using assms(3) by (simp add: GetFromImageTagDockerfile_def rx_text_def)
qed

text \<open>C29: The base image of the platform, or else of the operator's configuration, takes the place of the
  image in the builder line of the Dockerfile and nothing else changes, as long as neither \<open>FROM\<close> nor the
  image's name occurs before that line.\<close>

theorem dockerfile_customised:
  assumes "base_image c p \<noteq> ''''" "CHR 0x0A \<notin> set img" "post = [] \<or> hd post = CHR 0x0A" "trim_spaces img = img"
    "first_at from_lit pre (img @ as_builder @ post)" "first_at img (pre @ from_lit) (as_builder @ post)"
  shows "GetCustomizedBuilderDockerfile c (pre @ from_lit @ img @ as_builder @ post) p =
    Some (pre @ from_lit @ base_image c p @ as_builder @ post)"
proof -
  have "replace_once img (base_image c p) ((pre @ from_lit) @ img @ as_builder @ post) =
      (pre @ from_lit) @ base_image c p @ as_builder @ post"
    by (rule replace_once_at[OF assms(6)])
  then show ?thesis
    using image_of_from_line[OF assms(2-5)] assms(1)
    by (simp add: GetCustomizedBuilderDockerfile_def)
qed

text \<open>When the image is mentioned before the builder line, that mention is replaced and the line
  still names the old image.\<close>

theorem earlier_mention_replaced:
  assumes "base_image c p \<noteq> ''''" "CHR 0x0A \<notin> set img" "post = [] \<or> hd post = CHR 0x0A" "trim_spaces img = img"
    "first_at from_lit (pre @ img @ mid) (img @ as_builder @ post)"
    "first_at img pre (mid @ from_lit @ img @ as_builder @ post)"
  shows "GetCustomizedBuilderDockerfile c (pre @ img @ mid @ from_lit @ img @ as_builder @ post) p =
    Some (pre @ base_image c p @ mid @ from_lit @ img @ as_builder @ post)"
  using image_of_from_line[OF assms(2-5)] assms(1) replace_once_at[OF assms(6), of "base_image c p"]
  by (simp add: GetCustomizedBuilderDockerfile_def)

lemma customised_total_iff:
  "GetCustomizedBuilderDockerfile c d p = None \<longleftrightarrow>
    base_image c p \<noteq> '''' \<and> \<not> rx_anywhere builderDockerfileFromRE d"
  by (auto simp: GetCustomizedBuilderDockerfile_def GetFromImageTagDockerfile_def Let_def
      rx_find_None[symmetric] split: option.splits)

text \<open>A platform with a base image of its own.\<close>

definition ex_based :: sonataflow_platform where
  "ex_based = upd_config (\<lambda>b. b\<lparr>bc_baseImage := ''b:2''\<rparr>) (new_platform ''ns'' ''p'')"

lemma ex_based_image: "base_image defaultControllersCfg ex_based = ''b:2''"
  by (simp add: base_image_def ex_based_def upd_config_def)

theorem dockerfile_customised_witness:
  "GetCustomizedBuilderDockerfile defaultControllersCfg
     ([CHR ''#'', CHR 0x0A] @ from_lit @ ''a:1'' @ as_builder @ [CHR 0x0A, CHR ''R'']) ex_based =
   Some ([CHR ''#'', CHR 0x0A] @ from_lit @ ''b:2'' @ as_builder @ [CHR 0x0A, CHR ''R''])"
proof -
  have f: "first_at from_lit [CHR ''#'', CHR 0x0A] (''a:1'' @ as_builder @ [CHR 0x0A, CHR ''R''])"
    "first_at ''a:1'' ([CHR ''#'', CHR 0x0A] @ from_lit) (as_builder @ [CHR 0x0A, CHR ''R''])"
    "trim_spaces ''a:1'' = ''a:1''"
    by code_simp+
  show ?thesis
    using dockerfile_customised[where c = defaultControllersCfg and p = ex_based, unfolded ex_based_image, OF _ _ _ f(3,1,2)]
    by simp
qed

theorem earlier_mention_replaced_witness:
  "GetCustomizedBuilderDockerfile defaultControllersCfg
     (''# '' @ ''a:1'' @ [CHR 0x0A] @ from_lit @ ''a:1'' @ as_builder @ []) ex_based =
   Some (''# '' @ ''b:2'' @ [CHR 0x0A] @ from_lit @ ''a:1'' @ as_builder @ [])"
proof -
  have f: "trim_spaces ''a:1'' = ''a:1''" "first_at from_lit (''# '' @ ''a:1'' @ [CHR 0x0A]) (''a:1'' @ as_builder @ [])"
    "first_at ''a:1'' ''# '' ([CHR 0x0A] @ from_lit @ ''a:1'' @ as_builder @ [])"
    by code_simp+
  show ?thesis
    using earlier_mention_replaced[where c = defaultControllersCfg and p = ex_based, unfolded ex_based_image, OF _ _ _ f(1,2,3)]
    by simp
qed

end
