(* ===== verification/Build_Controller.thy ===== *)
theory Build_Controller
  imports Builder_Image Container_Build Workflow_Controller
begin

text \<open>
  The controller of builds (\<open>internal/controller/sonataflowbuild_controller.go\<close>) and its two build managers
  (\<open>internal/controller/builder\<close>): on Kubernetes a build is carried out by the container builder, whose build
  is kept as JSON in the status of the \<open>SonataFlowBuild\<close>; on OpenShift by a build configuration of the
  cluster, of which the status keeps a reference.  The JSON codecs, the workflow's JSON, the OpenShift
  clients and \<open>CreateOrPatch\<close> are operations of the record \<open>build_env\<close>.
\<close>

subsection \<open>Data\<close>

record typed_ref =
  tr_apiGroup :: string
  tr_kind :: string
  tr_name :: string

text \<open>The objects of OpenShift's build API.\<close>

record image_stream =
  is_meta :: object_meta
  is_local :: bool

record os_build_spec =
  op_runPolicy :: string
  op_failedLimit :: int
  op_successfulLimit :: int
  op_sourceType :: string
  op_dockerfile :: string
  op_configMaps :: "(string \<times> string) list"
  op_strategyType :: string
  op_optimization :: string
  op_buildArgs :: "env_var list"
  op_env :: "env_var list"
  op_forcePull :: bool
  op_toNamespace :: string
  op_toName :: string
  op_toKind :: string
  op_resources :: string

record os_build_config =
  oc_meta :: object_meta
  oc_spec :: os_build_spec

text \<open>\<open>ob_type\<close> is the group and version, and the kind, the client leaves in the object.\<close>

record os_build =
  ob_meta :: object_meta
  ob_type :: "string \<times> string"
  ob_phase :: string
  ob_message :: string
  ob_image :: string

record os_build_request =
  oq_namespace :: string
  oq_name :: string
  oq_asFile :: string
  oq_message :: string
  oq_body :: string

record build_codec =
  bk_encode :: "container_build \<Rightarrow> kerror + string"
  bk_decode :: "string \<Rightarrow> kerror + container_build"
  bk_encodeRef :: "typed_ref \<Rightarrow> kerror + string"
  bk_decodeRef :: "string \<Rightarrow> kerror + typed_ref"

record 'w build_env =
  be_cluster :: "'w cluster"
  be_cb :: "'w cb_env"
  be_codec :: build_codec
  be_libs :: libs
  be_json :: "sonataflow \<Rightarrow> kerror + string"
  be_imageStream :: "('w, image_stream) upsert"
  be_buildConfig :: "('w, os_build_config) upsert"
  be_getBuild :: "'w \<Rightarrow> string \<Rightarrow> string \<Rightarrow> kerror + os_build"
  be_instantiate :: "'w \<Rightarrow> os_build_request \<Rightarrow> (kerror + os_build) \<times> 'w"
  be_buildClient :: "kerror option"
  be_now :: int

subsection \<open>The inner build\<close>

definition build_phase_text :: "build_phase \<Rightarrow> string" where
  "build_phase_text p =
    (case p of PhaseNone \<Rightarrow> '''' | PhaseInitialization \<Rightarrow> ''Initialization'' | PhaseScheduling \<Rightarrow> ''Scheduling''
     | PhasePending \<Rightarrow> ''Pending'' | PhaseRunning \<Rightarrow> ''Running'' | PhaseSucceeded \<Rightarrow> ''Succeeded''
     | PhaseFailed \<Rightarrow> ''Failed'' | PhaseInterrupted \<Rightarrow> ''Interrupted'' | PhaseError \<Rightarrow> ''Error'')"

text \<open>\<open>GetInnerBuild\<close> leaves the value it is given as it is when there is no text.\<close>

definition SetInnerBuild :: "('a \<Rightarrow> kerror + string) \<Rightarrow> 'a \<Rightarrow> sonataflow_build \<Rightarrow> kerror + sonataflow_build" where
  "SetInnerBuild enc x b = map_sum id (\<lambda>s. b\<lparr>sb_innerBuild := s\<rparr>) (enc x)"

definition GetInnerBuild :: "(string \<Rightarrow> kerror + 'a) \<Rightarrow> 'a \<Rightarrow> sonataflow_build \<Rightarrow> kerror + 'a" where
  "GetInnerBuild dec zero b = (if sb_innerBuild b = '''' then Inr zero else dec (sb_innerBuild b))"

definition zero_container_build :: container_build where
  "zero_container_build =
    \<lparr>cb_namespace = '''', cb_name = '''', cb_tasks = [], cb_strategy = '''', cb_timeout = 0, cb_phase = PhaseNone,
     cb_imageTag = '''', cb_error = '''', cb_failure = None, cb_startedAt = None, cb_duration = None,
     cb_volumes = []\<rparr>"

definition zero_typed_ref :: typed_ref where
  "zero_typed_ref = \<lparr>tr_apiGroup = '''', tr_kind = '''', tr_name = ''''\<rparr>"

subsection \<open>The configuration of the builder\<close>

definition configKeyDefaultExtension :: string where
  "configKeyDefaultExtension = ''DEFAULT_WORKFLOW_EXTENSION''"

definition defaultBuilderResourceName :: string where "defaultBuilderResourceName = ''Dockerfile''"

definition isValidBuilderConfigMap :: "config_map \<Rightarrow> kerror option" where
  "isValidBuilderConfigMap cm =
    (let missing = (\<lambda>key. nil_map_get (cm_data cm) key = '''');
         err = (\<lambda>key. OtherError (''unable to find '' @ nil_map_get (cm_data cm) key @ '' key into builder config map''))
     in if missing configKeyDefaultExtension then Some (err configKeyDefaultExtension)
        else if missing defaultBuilderResourceName then Some (err defaultBuilderResourceName)
        else None)"

definition GetBuilderConfigMap :: "'w build_env \<Rightarrow> string \<Rightarrow> 'w \<Rightarrow> kerror + config_map" where
  "GetBuilderConfigMap env fallbackNS w =
    (let found = ce_lookupEnv (be_cb env) ''POD_NAMESPACE'';
         ns = (case found of None \<Rightarrow> fallbackNS | Some ns \<Rightarrow> ns)
     in if found = None \<and> ns = ''''
        then Inl (OtherError ''Can't find current context namespace, make sure that POD_NAMESPACE env is set'')
        else case c_get (k_configMaps (be_cluster env)) w ns (cg_builderConfigMapName (k_cfg (be_cluster env))) of
               Inl e \<Rightarrow> Inl e
             | Inr cm \<Rightarrow> (case isValidBuilderConfigMap cm of Some e \<Rightarrow> Inl e | None \<Rightarrow> Inr cm))"

text \<open>A manager: its kind, the platform and the config map.\<close>

datatype manager_kind = ContainerManager | OpenShiftManager

record build_manager =
  bm_kind :: manager_kind
  bm_platform :: sonataflow_platform
  bm_config :: config_map

definition NewBuildManager ::
  "'w build_env \<Rightarrow> string \<Rightarrow> 'w \<Rightarrow> (kerror + build_manager) \<times> 'w" where
  "NewBuildManager env ns w =
    (case GetActivePlatform (be_cluster env) ns w of
       (Inl e, w) \<Rightarrow> (Inl e, w)
     | (Inr p, w) \<Rightarrow>
        (case GetBuilderConfigMap env ns w of
           Inl e \<Rightarrow> (Inl e, w)
         | Inr cm \<Rightarrow>
            if pf_cluster p = PlatformClusterOpenShift
            then (case be_buildClient env of
                    Some e \<Rightarrow> (Inl e, w)
                  | None \<Rightarrow> (Inr \<lparr>bm_kind = OpenShiftManager, bm_platform = p, bm_config = cm\<rparr>, w))
            else (Inr \<lparr>bm_kind = ContainerManager, bm_platform = p, bm_config = cm\<rparr>, w)))"

definition fetchWorkflowForBuild :: "'w build_env \<Rightarrow> sonataflow_build \<Rightarrow> 'w \<Rightarrow> kerror + sonataflow" where
  "fetchWorkflowForBuild env b w = c_get (k_workflows (be_cluster env)) w (sb_namespace b) (sb_name b)"

definition manager_dockerfile :: "'w build_env \<Rightarrow> build_manager \<Rightarrow> string option" where
  "manager_dockerfile env m =
    GetCustomizedBuilderDockerfile (k_cfg (be_cluster env))
      (nil_map_get (cm_data (bm_config m)) defaultBuilderResourceName) (bm_platform m)"

subsection \<open>The manager on Kubernetes\<close>

record kaniko_build_input =
  ki_name :: string
  ki_task :: kaniko_task
  ki_definition :: string
  ki_workflow :: sonataflow
  ki_properties :: "cm_resource list"
  ki_dockerfile :: string
  ki_imageTag :: string

definition resourceDockerfile :: string where "resourceDockerfile = ''Dockerfile''"

definition buildNamespacedImageTag :: "sonataflow \<Rightarrow> string" where
  "buildNamespacedImageTag wo = sf_namespace wo @ ''/'' @ GetWorkflowAppImageNameTag wo"

definition buildWorkflowPropertyResources :: "sonataflow \<Rightarrow> cm_resource list" where
  "buildWorkflowPropertyResources wo =
    [\<lparr>cr_configMap = GetWorkflowUserPropertiesConfigMapName wo, cr_workflowPath = ''''\<rparr>,
     \<lparr>cr_configMap = GetWorkflowManagedPropertiesConfigMapName wo, cr_workflowPath = ''''\<rparr>]"

definition schedule_task :: "'w build_env \<Rightarrow> build_manager \<Rightarrow> sonataflow_build \<Rightarrow> kaniko_task" where
  "schedule_task env m b =
    \<lparr>kt_name = ''kaniko'', kt_resources = bt_resources (sb_template b), kt_buildArgs = bt_buildArgs (sb_template b),
     kt_envs = bt_envs (sb_template b), kt_contextDir = '''', kt_baseImage = '''', kt_image = '''',
     kt_registry = \<lparr>registry_spec.rg_insecure = False, rg_address = '''', rg_secret = '''', rg_ca = '''', rg_organization = ''''\<rparr>,
     kt_verbose = None, kt_cacheEnabled = (if IsKanikoCacheEnabled (bm_platform m) then Some True else None),
     kt_cachePVC = '''', kt_flags = bt_arguments (sb_template b),
     kt_executorImage = cg_kanikoExecutorImageTag (k_cfg (be_cluster env))\<rparr>"

text \<open>Of the task only the arguments, the resources, the variables and the executor's image are handed on.\<close>

definition newBuild ::
  "'w build_env \<Rightarrow> kaniko_build_input \<Rightarrow> platform_build \<Rightarrow> string \<Rightarrow> 'w \<Rightarrow> container_build outcome \<times> 'w" where
  "newBuild env inp pl ext w =
    (let t = ki_task inp
     in case CreateScheduler \<lparr>bi_image = ki_imageTag inp, bi_name = ki_name inp, bi_platform = pl,
                bi_executorImage = kt_executorImage t\<rparr> of
          Panic \<Rightarrow> (Panic, w)
        | Fail e \<Rightarrow> (Fail e, w)
        | Ret c \<Rightarrow>
            newContainerBuild (be_cb env) w
              [(resourceDockerfile, ki_dockerfile inp), (ki_name inp @ ext, ki_definition inp)]
              (map (\<lambda>r. (cr_configMap r, cr_workflowPath r))
                (sp_resources (sf_spec (ki_workflow inp)) @ ki_properties inp))
              (with_options (kt_flags t) (kt_resources t) (kt_buildArgs t) (kt_envs t) c))"

definition build_platform :: "sonataflow_platform \<Rightarrow> string \<Rightarrow> platform_build" where
  "build_platform p name =
    (let r = bc_registry (pf_buildConfig p)
     in \<lparr>pb_namespace = pf_namespace p, pb_name = name, pb_buildStrategy = ContainerBuildStrategyPod,
         pb_publishStrategy = PlatformBuildPublishStrategyKaniko, pb_baseImage = '''',
         pb_registry = \<lparr>registry_spec.rg_insecure = platform_registry.rg_insecure r,
           rg_address = platform_registry.rg_address r, rg_secret = platform_registry.rg_secret r,
           rg_ca = '''', rg_organization = ''''\<rparr>,
         pb_timeout = bc_timeout (pf_buildConfig p)\<rparr>)"

definition buildImage ::
  "'w build_env \<Rightarrow> build_manager \<Rightarrow> kaniko_build_input \<Rightarrow> 'w \<Rightarrow> container_build outcome \<times> 'w" where
  "buildImage env m inp w =
    (case bc_timeout (pf_buildConfig (bm_platform m)) of
       None \<Rightarrow> (Panic, w)
     | Some _ \<Rightarrow> newBuild env inp (build_platform (bm_platform m) (ki_name inp))
                  (nil_map_get (cm_data (bm_config m)) configKeyDefaultExtension) w)"

definition with_default_timeout :: "build_manager \<Rightarrow> build_manager" where
  "with_default_timeout m =
    (if bc_timeout (pf_buildConfig (bm_platform m)) = None
     then m\<lparr>bm_platform := upd_config (\<lambda>c. c\<lparr>bc_timeout := Some (5 * 60 * 1000000000)\<rparr>) (bm_platform m)\<rparr>
     else m)"

definition scheduleNewKanikoBuildWithContainerFile ::
  "'w build_env \<Rightarrow> build_manager \<Rightarrow> sonataflow_build \<Rightarrow> kaniko_task \<Rightarrow> 'w \<Rightarrow> container_build outcome \<times> 'w" where
  "scheduleNewKanikoBuildWithContainerFile env m b t w =
    (case fetchWorkflowForBuild env b w of
       Inl e \<Rightarrow> (Fail e, w)
     | Inr wo \<Rightarrow>
        (case be_json env wo of
           Inl e \<Rightarrow> (Fail e, w)
         | Inr def \<Rightarrow>
            (case manager_dockerfile env m of
               None \<Rightarrow> (Panic, w)
             | Some d \<Rightarrow>
                buildImage env (with_default_timeout m)
                  \<lparr>ki_name = sf_name wo, ki_task = t, ki_definition = def, ki_workflow = wo,
                   ki_properties = buildWorkflowPropertyResources wo, ki_dockerfile = d,
                   ki_imageTag = buildNamespacedImageTag wo\<rparr> w)))"

text \<open>What a manager answers: the build as it is in memory after the call.\<close>

definition kaniko_Schedule ::
  "'w build_env \<Rightarrow> build_manager \<Rightarrow> sonataflow_build \<Rightarrow> 'w \<Rightarrow> sonataflow_build outcome \<times> 'w" where
  "kaniko_Schedule env m b w =
    (case scheduleNewKanikoBuildWithContainerFile env m b (schedule_task env m b) w of
       (Panic, w) \<Rightarrow> (Panic, w)
     | (Fail e, w) \<Rightarrow> (Fail e, w)
     | (Ret c, w) \<Rightarrow>
        (case SetInnerBuild (bk_encode (be_codec env)) c b of
           Inl e \<Rightarrow> (Fail e, w)
         | Inr b \<Rightarrow>
            (Ret (b\<lparr>sb_phase := if cb_phase c = PhaseNone then PhaseInitialization else cb_phase c,
                    sb_error := cb_error c\<rparr>), w)))"

definition kaniko_Reconcile ::
  "'w build_env \<Rightarrow> build_manager \<Rightarrow> sonataflow_build \<Rightarrow> 'w \<Rightarrow> sonataflow_build outcome \<times> 'w" where
  "kaniko_Reconcile env m b w =
    (case GetInnerBuild (bk_decode (be_codec env)) zero_container_build b of
       Inl e \<Rightarrow> (Fail e, w)
     | Inr c \<Rightarrow>
        (case cb_Reconcile (be_cb env) w c of
           (Panic, w) \<Rightarrow> (Panic, w)
         | (Fail e, w) \<Rightarrow> (Fail e, w)
         | (Ret c, w) \<Rightarrow>
            (case SetInnerBuild (bk_encode (be_codec env)) c
                    (b\<lparr>sb_phase := cb_phase c, sb_error := cb_error c, sb_imageTag := cb_imageTag c\<rparr>) of
               Inl e \<Rightarrow> (Fail e, w) | Inr b \<Rightarrow> (Ret b, w))))"

subsection \<open>The manager on OpenShift\<close>

definition BuildPhaseNew :: string where "BuildPhaseNew = ''New''"
definition BuildPhasePending :: string where "BuildPhasePending = ''Pending''"
definition BuildPhaseRunning :: string where "BuildPhaseRunning = ''Running''"
definition BuildPhaseComplete :: string where "BuildPhaseComplete = ''Complete''"
definition BuildPhaseFailed :: string where "BuildPhaseFailed = ''Failed''"
definition BuildPhaseError :: string where "BuildPhaseError = ''Error''"
definition BuildPhaseCancelled :: string where "BuildPhaseCancelled = ''Cancelled''"

lemmas os_phase_defs = BuildPhaseNew_def BuildPhasePending_def BuildPhaseRunning_def BuildPhaseComplete_def
  BuildPhaseFailed_def BuildPhaseError_def BuildPhaseCancelled_def

definition openshiftBuildPhaseMatrix :: "(string \<times> build_phase) list" where
  "openshiftBuildPhaseMatrix =
    [(BuildPhaseNew, PhaseScheduling), (BuildPhasePending, PhasePending), (BuildPhaseRunning, PhaseRunning),
     (BuildPhaseComplete, PhaseSucceeded), (BuildPhaseFailed, PhaseFailed), (BuildPhaseError, PhaseError),
     (BuildPhaseCancelled, PhaseInterrupted)]"

definition os_phase :: "string \<Rightarrow> build_phase" where
  "os_phase s = (case map_of openshiftBuildPhaseMatrix s of None \<Rightarrow> PhaseNone | Some p \<Rightarrow> p)"

definition addExternalResources :: "sonataflow \<Rightarrow> os_build_spec \<Rightarrow> os_build_spec" where
  "addExternalResources wo s =
    s\<lparr>op_configMaps := map (\<lambda>r. (cr_configMap r, cr_workflowPath r)) (sp_resources (sf_spec wo)) @
       [(GetWorkflowUserPropertiesConfigMapName wo, ''''), (GetWorkflowManagedPropertiesConfigMapName wo, '''')]\<rparr>"

definition newDefaultBuildConfig ::
  "'w build_env \<Rightarrow> build_manager \<Rightarrow> sonataflow_build \<Rightarrow> sonataflow \<Rightarrow> os_build_config option" where
  "newDefaultBuildConfig env m b wo =
    Option.bind (manager_dockerfile env m) (\<lambda>d. Option.bind (GetFromImageTagDockerfile d) (\<lambda>img.
      Some \<lparr>oc_meta = new_meta (sb_namespace b) (sb_name b),
            oc_spec = \<lparr>op_runPolicy = ''Serial'', op_failedLimit = 1, op_successfulLimit = 3, op_sourceType = ''Binary'',
              op_dockerfile = d, op_configMaps = [], op_strategyType = ''Docker'', op_optimization = ''SkipLayers'',
              op_buildArgs = bt_buildArgs (sb_template b), op_env = bt_envs (sb_template b),
              op_forcePull = (GetImageTag img = ''latest''), op_toNamespace = sb_namespace b,
              op_toName = GetWorkflowAppImageNameTag wo, op_toKind = ''ImageStreamTag'',
              op_resources = bt_resources (sb_template b)\<rparr>\<rparr>))"

definition update_build_config ::
  "'w build_env \<Rightarrow> build_manager \<Rightarrow> sonataflow_build \<Rightarrow> sonataflow \<Rightarrow> os_build_config \<Rightarrow> os_build_config outcome" where
  "update_build_config env m b wo bc =
    (if IsObjectNew (oc_meta bc) then Ret bc
     else case newDefaultBuildConfig env m b wo of
            None \<Rightarrow> Panic
          | Some r \<Rightarrow> Ret (bc\<lparr>oc_spec := addExternalResources wo (oc_spec r)\<rparr>))"

definition os_Schedule ::
  "'w build_env \<Rightarrow> build_manager \<Rightarrow> sonataflow_build \<Rightarrow> 'w \<Rightarrow> sonataflow_build outcome \<times> 'w" where
  "os_Schedule env m b w =
    (case fetchWorkflowForBuild env b w of
       Inl e \<Rightarrow> (Fail e, w)
     | Inr wo \<Rightarrow>
        (case newDefaultBuildConfig env m b wo of
           None \<Rightarrow> (Panic, w)
         | Some bc \<Rightarrow>
            (let bc = bc\<lparr>oc_spec := addExternalResources wo (oc_spec bc)\<rparr>;
                 ist = \<lparr>is_meta = SetMergedLabels wo (new_meta (sb_namespace b) (sb_name b)), is_local = True\<rparr>;
                 bc = bc\<lparr>oc_meta := SetMergedLabels wo (oc_meta bc)\<rparr>
             in case lb_setOwner (be_libs env) (sb_meta b) (oc_meta bc) of
                  Some e \<Rightarrow> (Fail e, w)
                | None \<Rightarrow>
                   (case lb_setOwner (be_libs env) (sb_meta b) (is_meta ist) of
                      Some e \<Rightarrow> (Fail e, w)
                    | None \<Rightarrow>
                       (case be_imageStream env w ist (\<lambda>w x. (Ret (x\<lparr>is_local := True\<rparr>), w)) of
                          (Panic, w) \<Rightarrow> (Panic, w)
                        | (Fail e, w) \<Rightarrow> (Fail e, w)
                        | (Ret _, w) \<Rightarrow>
                           (case be_buildConfig env w bc (\<lambda>w x. (update_build_config env m b wo x, w)) of
                              (Panic, w) \<Rightarrow> (Panic, w)
                            | (Fail e, w) \<Rightarrow> (Fail e, w)
                            | (Ret _, w) \<Rightarrow> (Ret (b\<lparr>sb_phase := PhaseInitialization\<rparr>), w)))))))"

definition zero_os_build :: os_build where
  "zero_os_build = \<lparr>ob_meta = new_meta '''' '''', ob_type = ('''', ''''), ob_phase = '''', ob_message = '''', ob_image = ''''\<rparr>"

definition fetchOpenShiftBuildRef :: "'w build_env \<Rightarrow> sonataflow_build \<Rightarrow> 'w \<Rightarrow> kerror + os_build" where
  "fetchOpenShiftBuildRef env b w =
    (case GetInnerBuild (bk_decodeRef (be_codec env)) zero_typed_ref b of
       Inl e \<Rightarrow> Inl e
     | Inr r \<Rightarrow>
        (case be_getBuild env w (sb_namespace b) (tr_name r) of
           Inl e \<Rightarrow> if IsNotFound e then Inr zero_os_build else Inl e
         | Inr x \<Rightarrow> Inr x))"

definition KogitoWorkflowJSONFileExt :: string where "KogitoWorkflowJSONFileExt = ''.sw.json''"

definition pushNewOpenShiftBuildForWorkflow ::
  "'w build_env \<Rightarrow> sonataflow_build \<Rightarrow> sonataflow \<Rightarrow> 'w \<Rightarrow> (kerror + os_build) \<times> 'w" where
  "pushNewOpenShiftBuildForWorkflow env b wo w =
    (case be_json env wo of
       Inl e \<Rightarrow> (Inl e, w)
     | Inr def \<Rightarrow>
        be_instantiate env w
          \<lparr>oq_namespace = sb_namespace b, oq_name = sb_name b, oq_asFile = sf_name wo @ KogitoWorkflowJSONFileExt,
           oq_message = ''Triggered by SonataFlow Operator'', oq_body = def\<rparr>)"

definition ToTypedLocalReference :: "os_build \<Rightarrow> typed_ref" where
  "ToTypedLocalReference x =
    \<lparr>tr_apiGroup = fst (ob_type x), tr_kind = snd (ob_type x), tr_name = om_name (ob_meta x)\<rparr>"

definition os_Reconcile ::
  "'w build_env \<Rightarrow> build_manager \<Rightarrow> sonataflow_build \<Rightarrow> 'w \<Rightarrow> sonataflow_build outcome \<times> 'w" where
  "os_Reconcile env m b w =
    (let with_ref = (\<lambda>x b w. case SetInnerBuild (bk_encodeRef (be_codec env)) (ToTypedLocalReference x) b of
                       Inl e \<Rightarrow> (Fail e, w) | Inr b \<Rightarrow> (Ret b, w))
     in case fetchOpenShiftBuildRef env b w of
          Inl e \<Rightarrow> (Fail e, w)
        | Inr x \<Rightarrow>
           if sb_phase b = PhaseNone \<or> sb_phase b = PhaseInitialization then
             (if ob_phase x = BuildPhaseNew \<or> ob_phase x = BuildPhaseRunning \<or> ob_phase x = BuildPhasePending
              then (Ret (b\<lparr>sb_phase := PhaseRunning\<rparr>), w)
              else case fetchWorkflowForBuild env b w of
                     Inl e \<Rightarrow> (Fail e, w)
                   | Inr wo \<Rightarrow>
                      (case pushNewOpenShiftBuildForWorkflow env b wo w of
                         (Inl e, w) \<Rightarrow> (Fail e, w)
                       | (Inr x, w) \<Rightarrow> with_ref x (b\<lparr>sb_phase := PhaseScheduling, sb_imageTag := ob_image x\<rparr>) w))
           else with_ref x
                  (b\<lparr>sb_phase := os_phase (ob_phase x),
                     sb_error := if ob_phase x = BuildPhaseError then ob_message x else sb_error b,
                     sb_imageTag := ob_image x\<rparr>) w)"

text \<open>A build that is gone is the zero value, not nil, so the code's branch for nil is never taken.\<close>

subsection \<open>The controller\<close>

definition manager_Schedule ::
  "'w build_env \<Rightarrow> build_manager \<Rightarrow> sonataflow_build \<Rightarrow> 'w \<Rightarrow> sonataflow_build outcome \<times> 'w" where
  "manager_Schedule env m = (case bm_kind m of ContainerManager \<Rightarrow> kaniko_Schedule env m | OpenShiftManager \<Rightarrow> os_Schedule env m)"

definition manager_Reconcile ::
  "'w build_env \<Rightarrow> build_manager \<Rightarrow> sonataflow_build \<Rightarrow> 'w \<Rightarrow> sonataflow_build outcome \<times> 'w" where
  "manager_Reconcile env m = (case bm_kind m of ContainerManager \<Rightarrow> kaniko_Reconcile env m | OpenShiftManager \<Rightarrow> os_Reconcile env m)"

definition requeueAfterForNewBuild :: int where "requeueAfterForNewBuild = 10"
definition requeueAfterForBuildRunning :: int where "requeueAfterForBuildRunning = 30"

definition manageStatusUpdate ::
  "'w build_env \<Rightarrow> sonataflow_build \<Rightarrow> build_phase \<Rightarrow> 'w \<Rightarrow> kerror option \<times> 'w" where
  "manageStatusUpdate env b before w =
    (case c_status (k_builds (be_cluster env)) w b of
       (Some e, w) \<Rightarrow> (Some e, w)
     | (None, w) \<Rightarrow>
        (None, if before \<noteq> sb_phase b
               then k_event (be_cluster env) normal_event ''Updated''
                      (''Updated buildphase to '' @ build_phase_text (sb_phase b)) w
               else w))"

definition restart_marked :: "sonataflow_build \<Rightarrow> bool" where
  "restart_marked b \<longleftrightarrow> GetAnnotationAsBool (om_annotations (sb_meta b)) BuildRestartAnnotation"

definition unmark_restart :: "sonataflow_build \<Rightarrow> sonataflow_build" where
  "unmark_restart b = b\<lparr>sb_meta := (sb_meta b)
     \<lparr>om_annotations := SetAnnotation (om_annotations (sb_meta b)) BuildRestartAnnotation ''false''\<rparr>\<rparr>"

type_synonym 'w build_result = "(ctrl_result \<times> kerror option \<times> 'w) option"

definition scheduleNewBuild :: "'w build_env \<Rightarrow> build_manager \<Rightarrow> sonataflow_build \<Rightarrow> 'w \<Rightarrow> 'w build_result" where
  "scheduleNewBuild env m b w =
    (let k = be_cluster env; failed = (\<lambda>e w. Some (no_result, Some e, w));
         scheduled = (\<lambda>w. Some (after_seconds requeueAfterForNewBuild, None, w))
     in case manager_Schedule env m b w of
          (Panic, w) \<Rightarrow> None
        | (Fail e, w) \<Rightarrow> failed e w
        | (Ret b, w) \<Rightarrow>
           (case manageStatusUpdate env b PhaseNone w of
              (Some e, w) \<Rightarrow> failed e w
            | (None, w) \<Rightarrow>
               if restart_marked b then
                 (case c_update (k_builds k) w (unmark_restart b) of
                    (Some e, w) \<Rightarrow> failed e w
                  | (None, w) \<Rightarrow>
                     (case NewManager k (sb_namespace b) (sb_name b) w of
                        Inl e \<Rightarrow> failed e w
                      | Inr wo \<Rightarrow>
                         (case SetBuiltStatusToRunning (be_now env) k ''Build marked to restart'' wo w of
                            (Some e, _, w) \<Rightarrow> failed e w
                          | (None, _, w) \<Rightarrow> scheduled w)))
               else scheduled w))"

text \<open>\<open>reflect.DeepEqual\<close> is given the status and a pointer to its copy, which are never equal.\<close>

definition deep_equal_to_pointer :: "sonataflow_build \<Rightarrow> sonataflow_build \<Rightarrow> bool" where
  "deep_equal_to_pointer b before = False"

definition SonataFlowBuild_Reconcile :: "'w build_env \<Rightarrow> string \<times> string \<Rightarrow> 'w \<Rightarrow> 'w build_result" where
  "SonataFlowBuild_Reconcile env req w =
    (case c_get (k_builds (be_cluster env)) w (fst req) (snd req) of
       Inl e \<Rightarrow> Some (no_result, if IsNotFound e then None else Some e, w)
     | Inr b \<Rightarrow>
        (case NewBuildManager env (sb_namespace b) w of
           (Inl e, w) \<Rightarrow> Some (no_result, Some e, w)
         | (Inr m, w) \<Rightarrow>
            if sb_phase b = PhaseNone \<or> restart_marked b then scheduleNewBuild env m b w
            else if sb_phase b \<noteq> PhaseSucceeded \<and> sb_phase b \<noteq> PhaseError \<and> sb_phase b \<noteq> PhaseFailed then
              (case manager_Reconcile env m b w of
                 (Panic, w) \<Rightarrow> None
               | (Fail e, w) \<Rightarrow> Some (no_result, Some e, w)
               | (Ret b', w) \<Rightarrow>
                  (let polled = (\<lambda>w. Some (after_seconds requeueAfterForBuildRunning, None, w))
                   in if \<not> deep_equal_to_pointer b' b then
                        (case manageStatusUpdate env b' (sb_phase b) w of
                           (Some e, w) \<Rightarrow> Some (no_result, Some e, w)
                         | (None, w) \<Rightarrow> polled w)
                      else polled w))
            else Some (no_result, None, w)))"

subsection \<open>A build as the container builder sees it\<close>

text \<open>What the JSON of a container build keeps of it: instants are written to the second.  (The zero time is
  written as null; no clock shows it.)\<close>

definition whole_seconds :: "int \<Rightarrow> int" where "whole_seconds t = t - t mod 1000000000"

definition json_times :: "container_build \<Rightarrow> container_build" where
  "json_times c = c\<lparr>cb_startedAt := map_option whole_seconds (cb_startedAt c),
     cb_failure := map_option (\<lambda>f. f\<lparr>fa_time := whole_seconds (fa_time f),
                                     fa_attemptTime := whole_seconds (fa_attemptTime f)\<rparr>) (cb_failure c)\<rparr>"

locale build_json =
  fixes cd :: build_codec
  assumes decode_encode: "bk_encode cd c = Inr s \<Longrightarrow> s \<noteq> '''' \<and> bk_decode cd s = Inr (json_times c)"
    and decode_encode_ref: "bk_encodeRef cd r = Inr s \<Longrightarrow> s \<noteq> '''' \<and> bk_decodeRef cd s = Inr r"
begin

lemma inner_of_set: "SetInnerBuild (bk_encode cd) c b = Inr b' \<Longrightarrow>
    GetInnerBuild (bk_decode cd) z b' = Inr (json_times c) \<and> (\<exists>s. b' = b\<lparr>sb_innerBuild := s\<rparr>)"
  by (auto simp: SetInnerBuild_def GetInnerBuild_def map_sum_Inr_iff dest: decode_encode)

lemma ref_of_set: "SetInnerBuild (bk_encodeRef cd) r b = Inr b' \<Longrightarrow>
    GetInnerBuild (bk_decodeRef cd) z b' = Inr r \<and> (\<exists>s. b' = b\<lparr>sb_innerBuild := s\<rparr>)"
  by (auto simp: SetInnerBuild_def GetInnerBuild_def map_sum_Inr_iff dest: decode_encode_ref)

end

lemma json_times_fields [simp]:
  "cb_phase (json_times c) = cb_phase c" "cb_strategy (json_times c) = cb_strategy c"
  "cb_imageTag (json_times c) = cb_imageTag c" "cb_error (json_times c) = cb_error c"
  "cb_startedAt (json_times c) = None \<longleftrightarrow> cb_startedAt c = None"
  "cb_failure (json_times c) = None \<longleftrightarrow> cb_failure c = None"
  by (simp_all add: json_times_def)

lemma json_times_inv [simp]: "cb_inv (json_times c) = cb_inv c"
  by (cases "cb_failure c") (simp_all add: cb_inv_def json_times_def)

lemma json_times_measure [simp]: "cb_measure (json_times c) = cb_measure c"
  by (cases "cb_failure c") (simp_all add: cb_measure_def recoveries_left_def json_times_def)

lemma json_times_idem: "json_times (json_times c) = json_times c"
  by (cases "cb_failure c"; cases "cb_startedAt c") (simp_all add: json_times_def whole_seconds_def)

text \<open>The build of the operator shows the phase of its inner build, except before that has begun.\<close>

definition shows_phase :: "sonataflow_build \<Rightarrow> container_build \<Rightarrow> bool" where
  "shows_phase b c \<longleftrightarrow> sb_phase b = cb_phase c \<or> sb_phase b = PhaseInitialization \<and> cb_phase c = PhaseNone"

abbreviation inner_build :: "'w build_env \<Rightarrow> sonataflow_build \<Rightarrow> kerror + container_build" where
  "inner_build env b \<equiv> GetInnerBuild (bk_decode (be_codec env)) zero_container_build b"

lemma cb_step_strategy: "cb_step env c c' \<Longrightarrow> cb_strategy c' = cb_strategy c"
proof (elim cb_stepE)
  fix w w'
  assume r: "cb_Reconcile env w c = (Ret c', w')"
  show "cb_strategy c' = cb_strategy c"
  proof (cases "cb_strategy c = ContainerBuildStrategyPod")
    case True
    then show ?thesis
      using r monitor_Ret[of env w c] initialize_Ret[of env w c]
      by (cases "cb_phase c")
        (auto simp: cb_Reconcile_cases[OF True] schedule_Handle_def recovery_Handle_def Let_def
          split: prod.splits outcome.splits option.splits if_splits)
  qed (use r in \<open>simp add: cb_Reconcile_other_strategy\<close>)
qed

text \<open>Only the recovery writes the record of failures.\<close>

lemma cb_step_failure: "cb_step env c c' \<Longrightarrow> cb_phase c \<noteq> PhaseFailed \<Longrightarrow> cb_failure c' = cb_failure c"
proof (elim cb_stepE)
  fix w w'
  assume r: "cb_Reconcile env w c = (Ret c', w')" and p: "cb_phase c \<noteq> PhaseFailed"
  show "cb_failure c' = cb_failure c"
  proof (cases "cb_strategy c = ContainerBuildStrategyPod")
    case True
    then show ?thesis
      using r p monitor_Ret[of env w c] initialize_Ret[of env w c]
      by (cases "cb_phase c")
        (auto simp: cb_Reconcile_cases[OF True] schedule_Handle_def split: prod.splits outcome.splits option.splits)
  qed (use r in \<open>simp add: cb_Reconcile_other_strategy\<close>)
qed

text \<open>Scheduling begins with a fresh build that has made one step.\<close>

lemma newContainerBuild_steps:
  assumes "newContainerBuild env w res cms c = (Ret c', w')" "fresh_build c"
  shows "\<exists>c0. fresh_build c0 \<and> cb_strategy c0 = cb_strategy c \<and> cb_step env c0 c'"
proof -
  obtain c1 w1 where m: "mountResourcesBinary env w res c = (Inr c1, w1)"
    and r: "cb_Reconcile env w1 (mountResourcesConfigMap cms c1) = (Ret c', w')"
    using assms(1) by (auto simp: newContainerBuild_def split: prod.splits sum.splits)
  have "\<exists>v. c1 = c\<lparr>cb_volumes := v\<rparr>"
  proof (cases "res = []")
    case True
    then have "c1 = c\<lparr>cb_volumes := cb_volumes c\<rparr>" using m by (simp add: mountResourcesBinary_def)
    then show ?thesis by blast
  qed (use m in \<open>auto simp: mountResourcesBinary_def Let_def split: sum.splits prod.splits option.splits if_splits\<close>)
  then obtain v where "c1 = c\<lparr>cb_volumes := v\<rparr>" by blast
  then have "fresh_build (mountResourcesConfigMap cms c1)" "cb_strategy (mountResourcesConfigMap cms c1) = cb_strategy c"
    using assms(2) by (simp_all add: fresh_build_def mountResourcesConfigMap_def)
  then show ?thesis using cb_stepI[OF r] by blast
qed

lemma scheduled_steps:
  assumes "scheduleNewKanikoBuildWithContainerFile env m b t w = (Ret c', w')"
  shows "\<exists>c0. fresh_build c0 \<and> cb_strategy c0 = ContainerBuildStrategyPod \<and> cb_step (be_cb env) c0 c'"
proof -
  obtain inp pl ext where n: "newBuild env inp pl ext w = (Ret c', w')"
    using assms
    by (auto simp: scheduleNewKanikoBuildWithContainerFile_def buildImage_def split: sum.splits option.splits)
  obtain i c res cms where s: "CreateScheduler i = Ret c"
    and b: "newContainerBuild (be_cb env) w res cms (with_options (kt_flags (ki_task inp)) (kt_resources (ki_task inp))
      (kt_buildArgs (ki_task inp)) (kt_envs (ki_task inp)) c) = (Ret c', w')"
    using n by (auto simp: newBuild_def Let_def split: outcome.splits)
  have "cb_strategy c = ContainerBuildStrategyPod"
    using s by (auto simp: CreateScheduler_def split: if_splits option.splits)
  moreover have "fresh_build (with_options f r ba en c)" for f r ba en
    using scheduled_builds_are_fresh[OF s, of "[]" f r ba en] by (simp add: mountResourcesConfigMap_def fresh_build_def)
  ultimately show ?thesis
    using newContainerBuild_steps[OF b] by (simp add: with_options_def on_task_def)
qed

text \<open>The builds that managers on Kubernetes leave behind: scheduled, then reconciled by the controller as
  long as it still does that, while users edit the rest of the object.\<close>

definition is_done :: "build_phase \<Rightarrow> bool" where
  "is_done p \<longleftrightarrow> p = PhaseSucceeded \<or> p = PhaseError \<or> p = PhaseFailed"

inductive build_history :: "'w build_env \<Rightarrow> sonataflow_build \<Rightarrow> bool" for env where
  scheduled: "kaniko_Schedule env m b w = (Ret b', w') \<Longrightarrow> build_history env b'"
| polled: "build_history env b \<Longrightarrow> \<not> is_done (sb_phase b) \<Longrightarrow> kaniko_Reconcile env m b w = (Ret b', w') \<Longrightarrow>
    build_history env b'"
| edited: "build_history env b \<Longrightarrow> build_history env (b\<lparr>sb_meta := om, sb_template := t\<rparr>)"

lemma inner_build_edited [simp]:
  "GetInnerBuild d z (b\<lparr>sb_meta := om, sb_template := t\<rparr>) = GetInnerBuild d z b"
  "shows_phase (b\<lparr>sb_meta := om, sb_template := t\<rparr>) c = shows_phase b c"
  by (simp_all add: GetInnerBuild_def shows_phase_def)

definition tracked :: "'w build_env \<Rightarrow> sonataflow_build \<Rightarrow> container_build \<Rightarrow> bool" where
  "tracked env b c \<longleftrightarrow> inner_build env b = Inr c \<and> cb_inv c \<and> cb_failure c = None \<and> cb_strategy c = ContainerBuildStrategyPod \<and>
    shows_phase b c"

text \<open>One pass of the manager is one step of the inner build.\<close>

lemma kaniko_pass:
  assumes "build_json (be_codec env)" "inner_build env b = Inr c" "kaniko_Reconcile env m b w = (Ret b', w')"
  shows "\<exists>c'. cb_Reconcile (be_cb env) w c = (Ret c', w') \<and> inner_build env b' = Inr (json_times c') \<and>
    sb_phase b' = cb_phase c' \<and> sb_imageTag b' = cb_imageTag c' \<and> sb_error b' = cb_error c'"
proof -
  show ?thesis
    using assms(2,3) by (auto simp: kaniko_Reconcile_def split: outcome.splits prod.splits sum.splits dest!: build_json.inner_of_set[OF assms(1)])
qed

lemma kaniko_scheduled:
  assumes "build_json (be_codec env)" "kaniko_Schedule env m b w = (Ret b', w')"
  shows "\<exists>c. tracked env b' c"
proof -
  obtain c b1 where s: "scheduleNewKanikoBuildWithContainerFile env m b (schedule_task env m b) w = (Ret c, w')"
    and b1: "SetInnerBuild (bk_encode (be_codec env)) c b = Inr b1"
    and b': "b' = b1\<lparr>sb_phase := if cb_phase c = PhaseNone then PhaseInitialization else cb_phase c,
                    sb_error := cb_error c\<rparr>"
    using assms(2) by (auto simp: kaniko_Schedule_def split: outcome.splits prod.splits sum.splits)
  have i: "inner_build env b' = Inr (json_times c)" and p: "shows_phase b' c"
    using build_json.inner_of_set[OF assms(1) b1, of zero_container_build]
    by (simp_all add: b' shows_phase_def GetInnerBuild_def split: if_splits)
  obtain c0 where c0: "fresh_build c0" "cb_strategy c0 = ContainerBuildStrategyPod" "cb_step (be_cb env) c0 c"
    using scheduled_steps[OF s] by blast
  then have "cb_inv c" "cb_strategy c = ContainerBuildStrategyPod" "cb_failure c = None"
    using cb_step_summary[OF c0(3) fresh_build_inv[OF c0(1)]] cb_step_strategy[OF c0(3)] cb_step_failure[OF c0(3)]
    by (simp_all add: fresh_build_def)
  then show ?thesis using i p by (auto simp: tracked_def shows_phase_def)
qed

lemma tracked_pass:
  assumes "build_json (be_codec env)" "tracked env b c" "kaniko_Reconcile env m b w = (Ret b', w')"
    "\<not> is_done (sb_phase b)"
  shows "\<exists>c'. cb_step (be_cb env) c c' \<and> tracked env b' (json_times c') \<and> sb_phase b' = cb_phase c'"
proof -
  obtain c' where r: "cb_Reconcile (be_cb env) w c = (Ret c', w')" and c': "inner_build env b' = Inr (json_times c')"
    "sb_phase b' = cb_phase c'"
    using kaniko_pass[OF assms(1) _ assms(3)] assms(2) by (auto simp: tracked_def)
  have st: "cb_step (be_cb env) c c'" by (rule cb_stepI[OF r])
  then show ?thesis
    using c' assms(2,4) cb_step_summary[OF st] cb_step_strategy[OF st] cb_step_failure[OF st]
    by (auto simp: tracked_def shows_phase_def is_done_def)
qed

lemma history_tracked:
  assumes "build_json (be_codec env)" "build_history env b" shows "\<exists>c. tracked env b c"
  using assms(2)
proof (induction rule: build_history.induct)
  case (scheduled m b w b' w')
  then show ?case using kaniko_scheduled[OF assms(1)] by blast
next
  case (polled b m w b' w')
  then show ?case using tracked_pass[OF assms(1) _ polled.hyps(3,2)] by blast
qed (simp add: tracked_def)

text \<open>C5: A build on Kubernetes is its inner build: whatever happened since it was scheduled, its status holds a
  container build within the invariant of the container builder and shows its phase, the manager never
  panics on it, and a pass makes one step of the inner build, so that the phase stays, moves along the
  documented ones, or is back at none when the old builder pod has not gone yet.\<close>

theorem build_follows_inner:
  assumes "build_json (be_codec env)" "build_history env b" "\<not> is_done (sb_phase b)"
  shows "(\<exists>c. inner_build env b = Inr c \<and> cb_inv c \<and> shows_phase b c) \<and>
    kaniko_Reconcile env m b w \<noteq> (Panic, w') \<and>
    (kaniko_Reconcile env m b w = (Ret b', w') \<longrightarrow>
      (\<exists>c c'. inner_build env b = Inr c \<and> cb_step (be_cb env) c c' \<and> inner_build env b' = Inr (json_times c')) \<and>
      (sb_phase b' = sb_phase b \<or> sb_phase b' \<in> set (phase_next (sb_phase b)) \<or>
       sb_phase b = PhaseInitialization \<and> sb_phase b' = PhaseNone))"
proof -
  obtain c where c: "tracked env b c" using history_tracked[OF assms(1,2)] by blast
  have "kaniko_Reconcile env m b w \<noteq> (Panic, w')"
    using c cb_no_panic[of c "be_cb env" w w']
    by (auto simp: kaniko_Reconcile_def tracked_def split: outcome.splits prod.splits sum.splits)
  moreover have "sb_phase b' = sb_phase b \<or> sb_phase b' \<in> set (phase_next (sb_phase b)) \<or>
       sb_phase b = PhaseInitialization \<and> sb_phase b' = PhaseNone"
    if "cb_step (be_cb env) c c'" "sb_phase b' = cb_phase c'" for c'
    using cb_step_summary[OF that(1)] c that(2) by (auto simp: tracked_def shows_phase_def phase_next_def)
  ultimately show ?thesis
    using c tracked_pass[OF assms(1) c _ assms(3)] unfolding tracked_def by metis
qed

subsection \<open>What the controller does with a finished build\<close>

lemma done_pass:
  assumes "c_get (k_builds (be_cluster env)) w ns n = Inr b" "NewBuildManager env (sb_namespace b) w = (Inr m, w')"
    "is_done (sb_phase b)" "\<not> restart_marked b"
  shows "SonataFlowBuild_Reconcile env (ns, n) w = Some (no_result, None, w')"
  using assms by (auto simp: SonataFlowBuild_Reconcile_def is_done_def)

text \<open>C37: The recovery of the container builder never runs: when the pass of a manager finds that the builder pod has
  failed, the inner build has not used any of its attempts, but the controller leaves a failed build alone
  from then on, however often it is called.\<close>

theorem failed_build_not_recovered:
  assumes "build_json (be_codec env)" "build_history env b" "\<not> is_done (sb_phase b)"
    "kaniko_Reconcile env m b w = (Ret b', w')" "sb_phase b' = PhaseFailed"
    "c_get (k_builds (be_cluster env)) v ns n = Inr b'" "\<not> restart_marked b'"
    "NewBuildManager env (sb_namespace b') v = (Inr m', v')"
  shows "(\<exists>c. inner_build env b' = Inr c \<and> recovery_CanHandle c \<and> cb_failure c = None) \<and>
    SonataFlowBuild_Reconcile env (ns, n) v = Some (no_result, None, v')"
proof -
  obtain c where "tracked env b' c"
    using history_tracked[OF assms(1) build_history.polled[OF assms(2,3,4)]] by blast
  then have "inner_build env b' = Inr c" "recovery_CanHandle c" "cb_failure c = None"
    using assms(5) by (auto simp: tracked_def shows_phase_def recovery_CanHandle_def)
  then show ?thesis
    using done_pass[OF assms(6,8) _ assms(7)] assms(5) by (auto simp: is_done_def)
qed

text \<open>An interrupted build is written again and again: the controller takes it for unfinished, the manager
  leaves it as it is, and since the comparison with the earlier status never succeeds the status is
  updated and the next pass asked for, every thirty seconds.\<close>

theorem interrupted_build_polled:
  assumes "build_json (be_codec env)" "inner_build env b = Inr c" "cb_phase c = PhaseInterrupted" "sb_phase b = PhaseInterrupted"
    "c_get (k_builds (be_cluster env)) w ns n = Inr b" "NewBuildManager env (sb_namespace b) w = (Inr m, w1)"
    "bm_kind m = ContainerManager" "\<not> restart_marked b" "bk_encode (be_codec env) c = Inr s"
  shows "\<exists>b' e w2. c_status (k_builds (be_cluster env)) w1 b' = (e, w2) \<and> sb_phase b' = PhaseInterrupted \<and>
      sb_template b' = sb_template b \<and> inner_build env b' = Inr (json_times c) \<and>
      SonataFlowBuild_Reconcile env (ns, n) w =
        Some (if e = None then after_seconds requeueAfterForBuildRunning else no_result, e, w2)"
proof -
  have c: "cb_Reconcile (be_cb env) w1 c = (Ret c, w1)" by (rule build_ends_are_final) (simp add: assms(3))
  let ?b = "b\<lparr>sb_phase := cb_phase c, sb_error := cb_error c, sb_imageTag := cb_imageTag c, sb_innerBuild := s\<rparr>"
  have r: "kaniko_Reconcile env m b w1 = (Ret ?b, w1)"
    using assms(2,9) c by (simp add: kaniko_Reconcile_def SetInnerBuild_def)
  have i: "inner_build env ?b = Inr (json_times c)"
    using build_json.decode_encode[OF assms(1) assms(9)] by (simp add: GetInnerBuild_def)
  obtain e w2 where st: "c_status (k_builds (be_cluster env)) w1 ?b = (e, w2)" by (cases "c_status (k_builds (be_cluster env)) w1 ?b")
  have "SonataFlowBuild_Reconcile env (ns, n) w =
        Some (if e = None then after_seconds requeueAfterForBuildRunning else no_result, e, w2)"
    using assms(3-8) r st
    by (cases e) (simp_all add: SonataFlowBuild_Reconcile_def manager_Reconcile_def Let_def manageStatusUpdate_def
        deep_equal_to_pointer_def)
  then show ?thesis using st i assms(3) by (intro exI[of _ ?b] exI[of _ e] exI[of _ w2]) simp
qed

subsection \<open>Restarts\<close>

text \<open>The status subresource: what a successful status update stores of the object is its status.\<close>

locale status_store = object_store cl ns_of name_of
  for cl :: "('w, 'o) client" and ns_of :: "'o \<Rightarrow> string" and name_of :: "'o \<Rightarrow> string" +
  fixes status_of :: "'o \<Rightarrow> 's"
  assumes status_get: "c_status cl w x = (None, w') \<Longrightarrow>
      \<exists>y. c_get cl w' (ns_of x) (name_of x) = Inr y \<and> ns_of y = ns_of x \<and> name_of y = name_of x \<and> status_of y = status_of x"
begin

lemma update_after_status:
  assumes "c_status cl w x = (None, w1)" "c_update cl w1 z = (None, w2)" "ns_of z = ns_of x" "name_of z = name_of x"
  shows "c_get cl w2 (ns_of x) (name_of x) = Inr z"
  using update_get[OF assms(2)] assms(3,4) by simp

end

abbreviation build_store :: "('w, sonataflow_build) client \<Rightarrow> bool" where
  "build_store cl \<equiv> status_store cl sb_namespace sb_name sb_phase"

interpretation mem_builds: status_store "k_builds mem_cluster" sb_namespace sb_name sb_phase
proof -
  have st: "object_store (k_builds mem_cluster) sb_namespace sb_name"
    unfolding mem_cluster_fields sb_namespace_def[abs_def] sb_name_def[abs_def] by (rule mem_of_store) simp
  have "c_status (k_builds mem_cluster) = c_update (k_builds mem_cluster)"
    unfolding mem_cluster_fields by (rule mem_of_ops)
  then show "status_store (k_builds mem_cluster) sb_namespace sb_name sb_phase"
    unfolding status_store_def status_store_axioms_def using st object_store.update_get[OF st] by auto
qed

lemma scheduled_build:
  assumes "manager_Schedule env m b w = (Ret b', w')"
  shows "sb_meta b' = sb_meta b \<and> sb_phase b' \<noteq> PhaseNone"
  using assms
  by (auto simp: manager_Schedule_def kaniko_Schedule_def os_Schedule_def SetInnerBuild_def map_sum_Inr_iff Let_def
      split: manager_kind.splits outcome.splits prod.splits sum.splits option.splits if_splits)

lemma unmarked: "\<not> restart_marked (unmark_restart b)"
proof -
  have "ParseBool ''false'' = Some False" by (simp add: ParseBool_def)
  moreover have "map_get [(BuildRestartAnnotation, ''false'')] BuildRestartAnnotation = ''false''"
    by (simp add: map_get_def)
  ultimately show ?thesis
    by (cases "om_annotations (sb_meta b)")
      (simp_all add: restart_marked_def unmark_restart_def GetAnnotationAsBool_def SetAnnotation_def)
qed


text \<open>A workflow whose flow has changed gets a new image: once its build has been marked by the preview profile, the
  next pass of the build controller schedules it anew, whatever state it was in before.\<close>

theorem reset_build_scheduled:
  assumes "build_store (k_builds (be_cluster env))" "MarkToRestart (be_cluster env) b w = (None, w')"
    "NewBuildManager env (sb_namespace b) w' = (Inr m, v)"
  shows "\<exists>b'. c_get (k_builds (be_cluster env)) w' (sb_namespace b) (sb_name b) = Inr b' \<and> sb_phase b' = PhaseNone \<and>
    SonataFlowBuild_Reconcile env (sb_namespace b, sb_name b) w' = scheduleNewBuild env m b' v"
proof -
  obtain b' where b': "c_get (k_builds (be_cluster env)) w' (sb_namespace b) (sb_name b) = Inr b'" "sb_phase b' = PhaseNone"
    "sb_namespace b' = sb_namespace b"
    using status_store.status_get[OF assms(1), of w "b\<lparr>sb_phase := PhaseNone\<rparr>" w'] assms(2)
    by (auto simp: MarkToRestart_def sb_namespace_def sb_name_def)
  then show ?thesis using assms(3) by (auto simp: SonataFlowBuild_Reconcile_def)
qed

subsection \<open>OpenShift\<close>

definition os_active :: "string \<Rightarrow> bool" where
  "os_active p \<longleftrightarrow> p = BuildPhaseNew \<or> p = BuildPhaseRunning \<or> p = BuildPhasePending"

text \<open>C19: The OpenShift manager starts a build only for a \<open>SonataFlowBuild\<close> that has just been scheduled and whose
  referenced build is not under way, and otherwise leaves the cluster alone; the pushed build is the one the status refers to
  from then on.\<close>

theorem openshift_pushes_once:
  assumes "build_json (be_codec env)" "os_Reconcile env m b w = (r, w')"
  shows "w' = w \<or>
    sb_phase b \<in> {PhaseNone, PhaseInitialization} \<and>
    (\<exists>x. fetchOpenShiftBuildRef env b w = Inr x \<and> \<not> os_active (ob_phase x)) \<and>
    (\<exists>q p. be_instantiate env w q = (p, w') \<and> oq_name q = sb_name b \<and> oq_namespace q = sb_namespace b \<and>
      (\<forall>b'. r = Ret b' \<longrightarrow> sb_phase b' = PhaseScheduling \<and>
        (\<exists>x. p = Inr x \<and> GetInnerBuild (bk_decodeRef (be_codec env)) zero_typed_ref b' = Inr (ToTypedLocalReference x))))"
proof (cases "w' = w")
  case False
  let ?ref = "\<lambda>x b w. case SetInnerBuild (bk_encodeRef (be_codec env)) (ToTypedLocalReference x) b of
                       Inl e \<Rightarrow> (Fail e, w) | Inr b \<Rightarrow> (Ret b, w)"
  obtain x where x: "fetchOpenShiftBuildRef env b w = Inr x"
    using assms(2) False by (auto simp: os_Reconcile_def Let_def split: sum.splits)
  have ph: "sb_phase b \<in> {PhaseNone, PhaseInitialization}" and na: "\<not> os_active (ob_phase x)"
    using assms(2) False x by (auto simp: os_Reconcile_def Let_def os_active_def split: sum.splits if_splits)
  obtain wo where "fetchWorkflowForBuild env b w = Inr wo"
    using assms(2) False x ph na by (auto simp: os_Reconcile_def Let_def os_active_def split: sum.splits)
  then obtain p where p: "pushNewOpenShiftBuildForWorkflow env b wo w = (p, w')"
    and r: "\<And>y. p = Inr y \<Longrightarrow> (r, w') = ?ref y (b\<lparr>sb_phase := PhaseScheduling, sb_imageTag := ob_image y\<rparr>) w'"
      "\<And>e. p = Inl e \<Longrightarrow> r = Fail e"
    using assms(2) x ph na by (auto simp: os_Reconcile_def Let_def os_active_def split: sum.splits prod.splits)
  obtain q where q: "be_instantiate env w q = (p, w')" "oq_name q = sb_name b" "oq_namespace q = sb_namespace b"
    using p False by (auto simp: pushNewOpenShiftBuildForWorkflow_def split: sum.splits)
  have "sb_phase b' = PhaseScheduling \<and>
      (\<exists>x. p = Inr x \<and> GetInnerBuild (bk_decodeRef (be_codec env)) zero_typed_ref b' = Inr (ToTypedLocalReference x))"
    if b': "r = Ret b'" for b'
  proof (cases p)
    case (Inr y)
    let ?b = "b\<lparr>sb_phase := PhaseScheduling, sb_imageTag := ob_image y\<rparr>"
    have s: "SetInnerBuild (bk_encodeRef (be_codec env)) (ToTypedLocalReference y) ?b = Inr b'"
      using r(1)[OF Inr] b' by (auto split: sum.splits)
    show ?thesis using build_json.ref_of_set[OF assms(1) s, of zero_typed_ref] Inr by auto
  qed (use r(2) b' in simp)
  then show ?thesis using x ph na q by blast
qed simp

text \<open>An OpenShift build that has disappeared is built again: the pass that misses it puts the phase back to the start,
  the controller then schedules it, and the pass after that pushes a new build unless the cluster has one under the empty name.\<close>

theorem lost_openshift_build:
  assumes "bm_kind m = OpenShiftManager" "sb_phase b \<notin> {PhaseNone, PhaseInitialization}" "\<not> is_done (sb_phase b)"
    "\<not> restart_marked b" "GetInnerBuild (bk_decodeRef (be_codec env)) zero_typed_ref b = Inr r"
    "be_getBuild env w (sb_namespace b) (tr_name r) = Inl e" "IsNotFound e"
    "manager_Reconcile env m b w = (Ret b1, w1)"
  shows "w1 = w \<and> sb_phase b1 = PhaseNone \<and>
    (c_get (k_builds (be_cluster env)) v ns n = Inr b1 \<longrightarrow> NewBuildManager env (sb_namespace b1) v = (Inr m, v1) \<longrightarrow>
      SonataFlowBuild_Reconcile env (ns, n) v = scheduleNewBuild env m b1 v1) \<and>
    (manager_Schedule env m b1 v1 = (Ret b2, v2) \<longrightarrow> sb_phase b2 = PhaseInitialization)"
proof -
  have f: "fetchOpenShiftBuildRef env b w = Inr zero_os_build"
    using assms(5-7) by (simp add: fetchOpenShiftBuildRef_def)
  have b1: "sb_phase b1 = PhaseNone" "w1 = w"
    using assms(1,2,8) f
    by (auto simp: manager_Reconcile_def os_Reconcile_def zero_os_build_def os_phase_def openshiftBuildPhaseMatrix_def
        os_phase_defs SetInnerBuild_def map_sum_Inr_iff split: sum.splits)
  then show ?thesis
    using assms(1)
    by (auto simp: SonataFlowBuild_Reconcile_def manager_Schedule_def os_Schedule_def Let_def
        split: sum.splits option.splits outcome.splits prod.splits)
qed

subsection \<open>What a platform's options reach\<close>

lemma schedule_task_fields:
  "kt_flags (schedule_task env m b) = bt_arguments (sb_template b)"
  "kt_resources (schedule_task env m b) = bt_resources (sb_template b)"
  "kt_buildArgs (schedule_task env m b) = bt_buildArgs (sb_template b)"
  "kt_envs (schedule_task env m b) = bt_envs (sb_template b)"
  "kt_executorImage (schedule_task env m b) = cg_kanikoExecutorImageTag (k_cfg (be_cluster env))"
  by (simp_all add: schedule_task_def)

text \<open>The Kaniko cache of a platform never reaches a build: whatever the strategy options of the platform say, the
  same container build is scheduled.\<close>

theorem cache_option_ignored:
  "kaniko_Schedule env (m\<lparr>bm_platform := upd_config (\<lambda>c. c\<lparr>bc_options := opts\<rparr>) (bm_platform m)\<rparr>) b w =
   kaniko_Schedule env m b w"
proof -
  let ?m = "m\<lparr>bm_platform := upd_config (\<lambda>c. c\<lparr>bc_options := opts\<rparr>) (bm_platform m)\<rparr>"
  have d: "manager_dockerfile env ?m = manager_dockerfile env m"
    by (simp add: manager_dockerfile_def GetCustomizedBuilderDockerfile_def base_image_def upd_config_def)
  have n: "newBuild env (inp\<lparr>ki_task := schedule_task env m1 b\<rparr>) p e v = newBuild env (inp\<lparr>ki_task := schedule_task env m2 b\<rparr>) p e v"
    for inp p e v m1 m2
    by (simp add: newBuild_def Let_def schedule_task_fields split: outcome.split)
  have i: "buildImage env (with_default_timeout ?m) (inp\<lparr>ki_task := schedule_task env ?m b\<rparr>) v =
      buildImage env (with_default_timeout m) (inp\<lparr>ki_task := schedule_task env m b\<rparr>) v" for inp v
    by (cases "bc_timeout (pf_buildConfig (bm_platform m))")
      (simp_all add: buildImage_def with_default_timeout_def upd_config_def build_platform_def pf_namespace_def Let_def, (rule n)+)
  have "buildImage env (with_default_timeout ?m) \<lparr>ki_name = a1, ki_task = schedule_task env ?m b, ki_definition = a2,
        ki_workflow = a3, ki_properties = a4, ki_dockerfile = a5, ki_imageTag = a6\<rparr> v =
      buildImage env (with_default_timeout m) \<lparr>ki_name = a1, ki_task = schedule_task env m b, ki_definition = a2,
        ki_workflow = a3, ki_properties = a4, ki_dockerfile = a5, ki_imageTag = a6\<rparr> v" for a1 a2 a3 a4 a5 a6 v
    using i[of "\<lparr>ki_name = a1, ki_task = schedule_task env m b, ki_definition = a2,
        ki_workflow = a3, ki_properties = a4, ki_dockerfile = a5, ki_imageTag = a6\<rparr>" v] by simp
  then have "scheduleNewKanikoBuildWithContainerFile env ?m b (schedule_task env ?m b) w =
      scheduleNewKanikoBuildWithContainerFile env m b (schedule_task env m b) w"
    by (simp add: scheduleNewKanikoBuildWithContainerFile_def d split: sum.split option.split)
  then show ?thesis by (simp add: kaniko_Schedule_def)
qed

text \<open>A Dockerfile without a builder line makes the operator panic: on OpenShift always, on Kubernetes as soon
  as a base image is configured.\<close>

theorem builder_line_required:
  assumes "\<not> rx_anywhere builderDockerfileFromRE (nil_map_get (cm_data (bm_config m)) defaultBuilderResourceName)"
    "fetchWorkflowForBuild env b w = Inr wo"
  shows "os_Schedule env m b w = (Panic, w) \<and>
    (base_image (k_cfg (be_cluster env)) (bm_platform m) \<noteq> '''' \<longrightarrow> be_json env wo = Inr d \<longrightarrow>
      kaniko_Schedule env m b w = (Panic, w))"
  using assms
  by (auto simp: os_Schedule_def newDefaultBuildConfig_def manager_dockerfile_def GetCustomizedBuilderDockerfile_def
      GetFromImageTagDockerfile_def rx_find_None[symmetric] kaniko_Schedule_def scheduleNewKanikoBuildWithContainerFile_def)

subsection \<open>A cluster with builds\<close>

text \<open>A codec for the listed builds and references: the text of the n-th is n+1 letters long.\<close>

fun index_of :: "'a \<Rightarrow> 'a list \<Rightarrow> nat option" where
  "index_of x [] = None"
| "index_of x (y # ys) = (if x = y then Some 0 else map_option Suc (index_of x ys))"

lemma index_of_Some: "index_of x xs = Some i \<Longrightarrow> i < length xs \<and> xs ! i = x"
  by (induction xs arbitrary: i) (auto split: if_splits)

definition table_encode :: "('a \<Rightarrow> 'a) \<Rightarrow> 'a list \<Rightarrow> 'a \<Rightarrow> kerror + string" where
  "table_encode f xs x =
    (case index_of (f x) (map f xs) of
       None \<Rightarrow> Inl (OtherError ''json'') | Some i \<Rightarrow> Inr (replicate (Suc i) (CHR ''x'')))"

definition table_decode :: "('a \<Rightarrow> 'a) \<Rightarrow> 'a list \<Rightarrow> string \<Rightarrow> kerror + 'a" where
  "table_decode f xs s = (if s \<noteq> '''' \<and> length s \<le> length xs then Inr (f (xs ! (length s - 1))) else Inl (OtherError ''json''))"

lemma table_roundtrip: "table_encode f xs x = Inr s \<Longrightarrow> s \<noteq> '''' \<and> table_decode f xs s = Inr (f x)"
  by (auto simp: table_encode_def table_decode_def split: option.splits dest!: index_of_Some)

definition table_codec :: "container_build list \<Rightarrow> typed_ref list \<Rightarrow> build_codec" where
  "table_codec cs rs = \<lparr>bk_encode = table_encode json_times cs, bk_decode = table_decode json_times cs,
     bk_encodeRef = table_encode (\<lambda>r. r) rs, bk_decodeRef = table_decode (\<lambda>r. r) rs\<rparr>"

interpretation table_json: build_json "table_codec cs rs"
  by unfold_locales (simp_all add: table_codec_def table_roundtrip)

definition ex_cluster_cb :: "mem_world cb_env" where
  "ex_cluster_cb = \<lparr>ce_now = (\<lambda>_. 7000000000), ce_pods = k_pods mem_cluster, ce_cms = k_configMaps mem_cluster,
     ce_secrets = k_secrets mem_cluster, ce_list_services = (\<lambda>_ _ _. Inr []), ce_uuid = (\<lambda>_ n. show_nat n),
     ce_lookupEnv = (\<lambda>_. None), ce_yamlHost = Inr, ce_backoff = (\<lambda>n. 5 * 2 ^ nat n)\<rparr>"

definition ex_os_build :: os_build where
  "ex_os_build = zero_os_build\<lparr>ob_meta := new_meta ''ns'' ''wf-1'', ob_phase := BuildPhaseNew\<rparr>"

definition ex_build_env :: "container_build list \<Rightarrow> mem_world build_env" where
  "ex_build_env cs = \<lparr>be_cluster = mem_cluster, be_cb = ex_cluster_cb, be_codec = table_codec cs [ToTypedLocalReference ex_os_build],
     be_libs = ex_libs, be_json = (\<lambda>_. Inr ''{}''), be_imageStream = (\<lambda>w x f. (Ret (x, OpNone), w)),
     be_buildConfig = (\<lambda>w x f. (Ret (x, OpNone), w)), be_getBuild = (\<lambda>_ _ _. Inl (NotFound ''not found'')),
     be_instantiate = (\<lambda>w q. (Inr ex_os_build, w\<lparr>mw_events := (''Pushed'', oq_name q, '''') # mw_events w\<rparr>)),
     be_buildClient = None, be_now = 7\<rparr>"

definition ex_builder_config :: config_map where
  "ex_builder_config = \<lparr>cm_meta = new_meta ''ns'' ''sonataflow-operator-builder-config'',
     cm_data = Some [(configKeyDefaultExtension, ''.sw.json''), (defaultBuilderResourceName, ''FROM a:1 AS builder'')]\<rparr>"

definition ex_build_world :: mem_world where
  "ex_build_world = ex_ns_world\<lparr>mw_configMaps := [ex_builder_config]\<rparr>"

definition ex_build_manager :: "manager_kind \<Rightarrow> build_manager" where
  "ex_build_manager mk = \<lparr>bm_kind = mk, bm_platform = ex_active, bm_config = ex_builder_config\<rparr>"

definition ex_failed_pod_world :: mem_world where
  "ex_failed_pod_world = ex_build_world\<lparr>mw_pods := [ex_builder_pod ''Failed'']\<rparr>"

text \<open>The inner builds of the example: scheduled, then pending, then with a pod that failed.\<close>

definition ex_inner1 :: container_build where
  "ex_inner1 = \<lparr>cb_namespace = ''ns'', cb_name = ''wf'',
     cb_tasks = [Some \<lparr>kt_name = ''KanikoTask'', kt_resources = '''', kt_buildArgs = [], kt_envs = [],
       kt_contextDir = ''/builder/wf/context'', kt_baseImage = '''', kt_image = ''ns/wf:latest'',
       kt_registry = \<lparr>registry_spec.rg_insecure = False, rg_address = '''', rg_secret = '''', rg_ca = '''', rg_organization = ''''\<rparr>,
       kt_verbose = None, kt_cacheEnabled = None, kt_cachePVC = '''', kt_flags = [],
       kt_executorImage = ''gcr.io/kaniko-project/executor:v1.9.0''\<rparr>],
     cb_strategy = ''pod'', cb_timeout = 300000000000, cb_phase = PhaseScheduling, cb_imageTag = '''', cb_error = '''',
     cb_failure = None, cb_startedAt = None, cb_duration = None,
     cb_volumes = map (\<lambda>n. \<lparr>rw_name = n, rw_type = ''configMap'', rw_dir = ''''\<rparr>)
       [''sonataflow-wf-builder'', ''wf-props'', ''wf-managed-props'']\<rparr>"

definition ex_inner2 :: container_build where
  "ex_inner2 = ex_inner1\<lparr>cb_phase := PhasePending, cb_startedAt := Some 7000000000\<rparr>"

definition ex_inner3 :: container_build where
  "ex_inner3 = ex_inner2\<lparr>cb_phase := PhaseFailed, cb_error := ''Pod failed'', cb_duration := Some (- 7000000000)\<rparr>"

definition ex_env :: "mem_world build_env" where "ex_env = ex_build_env [ex_inner1, ex_inner2, ex_inner3]"

abbreviation ex_km :: build_manager where "ex_km \<equiv> ex_build_manager ContainerManager"

definition ex_build1 :: sonataflow_build where
  "ex_build1 = ex_build\<lparr>sb_phase := PhaseScheduling, sb_innerBuild := ''x''\<rparr>"
definition ex_build2 :: sonataflow_build where
  "ex_build2 = ex_build\<lparr>sb_phase := PhasePending, sb_innerBuild := ''xx''\<rparr>"
definition ex_build3 :: sonataflow_build where
  "ex_build3 = ex_build\<lparr>sb_phase := PhaseFailed, sb_error := ''Pod failed'', sb_innerBuild := ''xxx''\<rparr>"

lemma ex_schedule: "fst (kaniko_Schedule ex_env ex_km ex_build ex_build_world) = Ret ex_build1"
  by code_simp
lemma ex_pass1: "fst (kaniko_Reconcile ex_env ex_km ex_build1 ex_build_world) = Ret ex_build2"
  by code_simp
lemma ex_pass2: "fst (kaniko_Reconcile ex_env ex_km ex_build2 ex_failed_pod_world) = Ret ex_build3"
  by code_simp
lemma ex_phases: "sb_phase ex_build1 = PhaseScheduling" "sb_phase ex_build2 = PhasePending" "sb_phase ex_build3 = PhaseFailed"
  by code_simp+

lemma ex_json: "build_json (be_codec ex_env)"
  by (simp add: ex_env_def ex_build_env_def table_json.build_json_axioms)

lemma fst_Ret: "fst p = Ret x \<Longrightarrow> \<exists>w. p = (Ret x, w)"
  by (cases p) simp

lemma ex_history: "build_history ex_env ex_build1" "build_history ex_env ex_build2"
proof -
  show h: "build_history ex_env ex_build1"
    using fst_Ret[OF ex_schedule] by (auto intro: build_history.scheduled)
  have "\<not> is_done (sb_phase ex_build1)" by (simp add: ex_phases is_done_def)
  then show "build_history ex_env ex_build2"
    using fst_Ret[OF ex_pass1] by (auto intro: build_history.polled[OF h])
qed

theorem build_follows_inner_witness:
  "sb_phase ex_build2 \<in> set (phase_next (sb_phase ex_build1)) \<and>
   (\<exists>c c'. inner_build ex_env ex_build1 = Inr c \<and> cb_step ex_cluster_cb c c' \<and>
      inner_build ex_env ex_build2 = Inr (json_times c'))"
proof -
  obtain w' where w': "kaniko_Reconcile ex_env ex_km ex_build1 ex_build_world = (Ret ex_build2, w')"
    using fst_Ret[OF ex_pass1] by blast
  have "\<not> is_done (sb_phase ex_build1)" "be_cb ex_env = ex_cluster_cb"
    by (simp_all add: ex_phases is_done_def ex_env_def ex_build_env_def)
  then show ?thesis
    using build_follows_inner[OF ex_json ex_history(1), of ex_km ex_build_world w' ex_build2] w' by (simp add: ex_phases)
qed

text \<open>The failed build in the cluster.\<close>

definition ex_failed_world :: mem_world where
  "ex_failed_world = ex_build_world\<lparr>mw_builds := [ex_build3]\<rparr>"

lemma ex_manager_found: "fst (NewBuildManager ex_env ''ns'' ex_failed_world) = Inr ex_km"
  by code_simp

theorem failed_build_not_recovered_witness:
  "\<exists>v. SonataFlowBuild_Reconcile ex_env (''ns'', ''wf'') ex_failed_world = Some (no_result, None, v)"
proof -
  obtain w' where w': "kaniko_Reconcile ex_env ex_km ex_build2 ex_failed_pod_world = (Ret ex_build3, w')"
    using fst_Ret[OF ex_pass2] by blast
  obtain v' where v': "NewBuildManager ex_env ''ns'' ex_failed_world = (Inr ex_km, v')"
    using ex_manager_found by (cases "NewBuildManager ex_env ''ns'' ex_failed_world") simp
  have "sb_namespace ex_build3 = ''ns''" "\<not> is_done (sb_phase ex_build2)" "\<not> restart_marked ex_build3"
    "c_get (k_builds (be_cluster ex_env)) ex_failed_world ''ns'' ''wf'' = Inr ex_build3"
    by code_simp+
  then show ?thesis
    using failed_build_not_recovered[OF ex_json ex_history(2) _ w', of ex_failed_world "''ns''" "''wf''" ex_km v'] v' ex_phases(3) by simp
qed

text \<open>A build marked to restart.\<close>

definition ex_marked_world :: mem_world where
  "ex_marked_world = ex_build_world\<lparr>mw_builds :=
     [ex_build3\<lparr>sb_meta := (sb_meta ex_build3)\<lparr>om_annotations := Some [(BuildRestartAnnotation, ''true'')]\<rparr>\<rparr>]\<rparr>"

definition pass_ok :: "'w build_result \<Rightarrow> bool" where
  "pass_ok r \<longleftrightarrow> (case r of Some (_, None, _) \<Rightarrow> True | _ \<Rightarrow> False)"

lemma ex_restart: "pass_ok (SonataFlowBuild_Reconcile ex_env (''ns'', ''wf'') ex_marked_world)"
  by code_simp


text \<open>OpenShift: a scheduled build of which there is none in the cluster yet.\<close>

definition ex_fresh_os :: sonataflow_build where "ex_fresh_os = ex_build\<lparr>sb_phase := PhaseInitialization\<rparr>"

theorem openshift_pushes_once_witness:
  "\<exists>r w' q p. os_Reconcile ex_env (ex_build_manager OpenShiftManager) ex_fresh_os ex_build_world = (r, w') \<and>
     be_instantiate ex_env ex_build_world q = (p, w') \<and> oq_name q = ''wf''"
proof -
  obtain r w' where o: "os_Reconcile ex_env (ex_build_manager OpenShiftManager) ex_fresh_os ex_build_world = (r, w')"
    by (cases "os_Reconcile ex_env (ex_build_manager OpenShiftManager) ex_fresh_os ex_build_world")
  have "length (mw_events (snd (os_Reconcile ex_env (ex_build_manager OpenShiftManager) ex_fresh_os ex_build_world))) = 1"
    "length (mw_events ex_build_world) = 0" "sb_name ex_fresh_os = ''wf''"
    by code_simp+
  then have "w' \<noteq> ex_build_world" "sb_name ex_fresh_os = ''wf''" using o by auto
  then show ?thesis using openshift_pushes_once[OF ex_json o] o by auto
qed

theorem reset_build_scheduled_witness:
  "\<exists>w' b'. MarkToRestart mem_cluster ex_build3 ex_failed_world = (None, w') \<and>
     c_get (k_builds mem_cluster) w' ''ns'' ''wf'' = Inr b' \<and> sb_phase b' = PhaseNone"
proof -
  have k: "be_cluster ex_env = mem_cluster" by (simp add: ex_env_def ex_build_env_def)
  obtain e w' where m: "MarkToRestart mem_cluster ex_build3 ex_failed_world = (e, w')"
    by (cases "MarkToRestart mem_cluster ex_build3 ex_failed_world")
  have "fst (MarkToRestart mem_cluster ex_build3 ex_failed_world) = None" "sb_namespace ex_build3 = ''ns''" "sb_name ex_build3 = ''wf''"
    "fst (NewBuildManager ex_env ''ns'' (snd (MarkToRestart mem_cluster ex_build3 ex_failed_world))) = Inr ex_km"
    by code_simp+
  then have n: "e = None" "sb_namespace ex_build3 = ''ns''" "sb_name ex_build3 = ''wf''" "fst (NewBuildManager ex_env ''ns'' w') = Inr ex_km"
    using m by auto
  then obtain v where "NewBuildManager ex_env ''ns'' w' = (Inr ex_km, v)" by (cases "NewBuildManager ex_env ''ns'' w'") simp
  then show ?thesis
    using reset_build_scheduled[of ex_env ex_build3 ex_failed_world w' ex_km v, unfolded k] mem_builds.status_store_axioms m n
    by auto
qed

definition ex_plain_config :: config_map where
  "ex_plain_config = ex_builder_config\<lparr>cm_data := Some [(configKeyDefaultExtension, ''.sw.json''), (defaultBuilderResourceName, ''FROM a:1'')]\<rparr>"

theorem builder_line_required_witness:
  "os_Schedule ex_env ((ex_build_manager OpenShiftManager)\<lparr>bm_config := ex_plain_config\<rparr>) ex_build ex_build_world = (Panic, ex_build_world)"
proof -
  have "\<not> rx_anywhere builderDockerfileFromRE (nil_map_get (cm_data ex_plain_config) defaultBuilderResourceName)"
    "fetchWorkflowForBuild ex_env ex_build ex_build_world = Inr ex_workflow"
    by code_simp+
  then show ?thesis
    using builder_line_required[of "(ex_build_manager OpenShiftManager)\<lparr>bm_config := ex_plain_config\<rparr>" ex_env ex_build ex_build_world ex_workflow]
    by simp
qed

end
