(* ===== verification/Cluster_Platform.thy ===== *)
theory Cluster_Platform
  imports Platform_Controller
begin

text \<open>
  The controller of cluster platforms (\<open>internal/controller/sonataflowclusterplatform_controller.go\<close>,
  \<open>internal/controller/clusterplatform\<close>): a cluster platform points to a platform whose services serve the
  whole cluster and shows that platform's condition; only one primary cluster platform is active, the
  others are duplicates.  The lemmas show how the condition follows the platform, that no pass lets a
  second one become active, and when a duplicate gets another chance.
\<close>

subsection \<open>The action\<close>

definition cl_upd_conds :: "(api_status \<Rightarrow> api_status) \<Rightarrow> sonataflow_cluster_platform \<Rightarrow> sonataflow_cluster_platform" where
  "cl_upd_conds f p = p\<lparr>cl_status := f (cl_status p)\<rparr>"

definition cl_key :: "sonataflow_cluster_platform \<Rightarrow> request" where
  "cl_key p = (om_namespace (cl_meta p), cl_name p)"

definition cl_initialize_CanHandle :: "'w cluster \<Rightarrow> sonataflow_cluster_platform \<Rightarrow> 'w \<Rightarrow> bool" where
  "cl_initialize_CanHandle k p w \<longleftrightarrow> \<not> cl_IsDuplicated p \<or> allDuplicatedClusterPlatforms k w"

definition cl_isPrimaryDuplicate :: "'w cluster \<Rightarrow> sonataflow_cluster_platform \<Rightarrow> 'w \<Rightarrow> kerror + bool" where
  "cl_isPrimaryDuplicate k p w =
    (if cl_IsSecondary p then Inr False
     else map_sum id (list_ex (\<lambda>q. cl_name q \<noteq> cl_name p \<and> cl_IsActive q)) (listPrimaryClusterPlatforms k w))"

text \<open>The error of the update is only logged.\<close>

definition updateClusterPlatform :: "'w cluster \<Rightarrow> sonataflow_cluster_platform \<Rightarrow> 'w \<Rightarrow> kerror option \<times> 'w" where
  "updateClusterPlatform k p w =
    (case c_get (k_clusterPlatforms k) w (om_namespace (cl_meta p)) (cl_name p) of
       Inl e \<Rightarrow> (Some e, w)
     | Inr x \<Rightarrow>
        (None, snd (c_update (k_clusterPlatforms k) w
                 (x\<lparr>cl_platformRef := cl_platformRef p, cl_capabilities := cl_capabilities p\<rparr>))))"

definition default_capabilities :: "sonataflow_cluster_platform \<Rightarrow> sonataflow_cluster_platform" where
  "default_capabilities p =
    (if cl_capabilities p = None then p\<lparr>cl_capabilities := Some [PlatformServices]\<rparr> else p)"

definition cl_configureDefaults ::
  "'w cluster \<Rightarrow> sonataflow_cluster_platform \<Rightarrow> 'w \<Rightarrow> kerror option \<times> sonataflow_cluster_platform \<times> 'w" where
  "cl_configureDefaults k p w =
    (let p = default_capabilities p; (e, w) = updateClusterPlatform k p w in (e, p, w))"

text \<open>The condition a cluster platform takes from that of its platform.\<close>

definition ref_text :: "name_ref \<Rightarrow> string" where
  "ref_text r = ''SonataFlowPlatform '' @ [CHR 0x27] @ nr_namespace r @ ''/'' @ nr_name r @ [CHR 0x27]"

definition follow_platform :: "int \<Rightarrow> name_ref \<Rightarrow> condition option \<Rightarrow> api_status \<Rightarrow> api_status" where
  "follow_platform now r c =
    (if IsTrue c then
       MarkTrueWithReason now SucceedConditionType '''' (''Referenced '' @ ref_text r @ '' is ready'')
     else if IsFalse c then
       MarkFalse now SucceedConditionType PlatformFailureReason (''Referenced '' @ ref_text r @ '' not ready'')
     else
       MarkUnknown now platform_manager SucceedConditionType PlatformWarmingReason
         (''Waiting for referenced '' @ ref_text r @ '' to be ready''))"

text \<open>The error and the object as it is in memory afterwards.\<close>

definition cl_initialize_Handle ::
  "int \<Rightarrow> 'w cluster \<Rightarrow> sonataflow_cluster_platform \<Rightarrow> 'w \<Rightarrow> kerror option \<times> sonataflow_cluster_platform \<times> 'w" where
  "cl_initialize_Handle now k p w =
    (case cl_isPrimaryDuplicate k p w of
       Inl e \<Rightarrow> (Some e, p, w)
     | Inr True \<Rightarrow>
        (None, if cl_IsDuplicated p then p
               else cl_upd_conds (MarkFalse now SucceedConditionType PlatformDuplicatedReason '''') p, w)
     | Inr False \<Rightarrow>
        (case cl_configureDefaults k p w of
           (Some e, p, w) \<Rightarrow> (Some e, p, w)
         | (None, p, w) \<Rightarrow>
            (let p = p\<lparr>cl_version := SpecVersion\<rparr>; r = cl_platformRef p
             in case c_get (k_platforms k) w (nr_namespace r) (nr_name r) of
                  Inr pl \<Rightarrow> (None, cl_upd_conds (follow_platform now r (pf_cond pl)) p, w)
                | Inl e \<Rightarrow>
                   if IsNotFound e
                   then (None, cl_upd_conds (MarkFalse now SucceedConditionType PlatformNotFoundReason
                           (nr_name r @ '' platform does not exist in '' @ nr_namespace r @ '' namespace.'')) p, w)
                   else (Some e, p, w))))"

subsection \<open>The controller\<close>

definition ClusterPlatform_Reconcile ::
  "int \<Rightarrow> 'w cluster \<Rightarrow> request \<Rightarrow> 'w \<Rightarrow> ctrl_result \<times> kerror option \<times> 'w" where
  "ClusterPlatform_Reconcile now k req w =
    (case c_get (k_clusterPlatforms k) w (fst req) (snd req) of
       Inl e \<Rightarrow> (no_result, if IsNotFound e then None else Some e, w)
     | Inr p \<Rightarrow>
        (let inst = cl_upd_conds (InitializeConditions now platform_manager) p
         in if \<not> cl_initialize_CanHandle k inst w then (no_result, None, w)
            else case cl_initialize_Handle now k inst w of
              (Some e, t, w) \<Rightarrow>
                (case c_status (k_clusterPlatforms k) w
                        (cl_upd_conds (MarkFalse now SucceedConditionType PlatformFailureReason (error_text e)) t) of
                   (Some e', w) \<Rightarrow> (no_result, Some e', w)
                 | (None, w) \<Rightarrow>
                    (no_result, Some e,
                     k_event k warning_event ''Failed'' (''Failed to update SonataFlowClusterPlaform: '' @ error_text e) w))
            | (None, t, w) \<Rightarrow>
                (let t = cl_upd_conds (\<lambda>s. s\<lparr>st_observedGeneration := om_generation (cl_meta inst)\<rparr>) t
                 in case c_status (k_clusterPlatforms k) w t of
                      (Some e, w) \<Rightarrow>
                        (no_result, Some e, k_event k normal_event ''Status Updated'' ''Updated cluster platform condition'' w)
                    | (None, w) \<Rightarrow>
                        (if cl_IsReady t then no_result else after_seconds 5, None,
                         k_event k normal_event ''Updated'' ''Updated cluster platform condition to '' w))))"

definition mapPlatformToClusterPlatformRequests :: "'w cluster \<Rightarrow> sonataflow_platform \<Rightarrow> 'w \<Rightarrow> request list" where
  "mapPlatformToClusterPlatformRequests k p w =
    (case GetActiveClusterPlatform k w of
       Inl _ \<Rightarrow> []
     | Inr cp \<Rightarrow>
        if pf_key p = (nr_namespace (cl_platformRef cp), nr_name (cl_platformRef cp)) then [cl_key cp] else [])"

definition mapClusterPlatformToClusterPlatformRequests ::
  "'w cluster \<Rightarrow> sonataflow_cluster_platform \<Rightarrow> 'w \<Rightarrow> request list" where
  "mapClusterPlatformToClusterPlatformRequests k cp w =
    (if cl_IsActive cp then
       (case c_list (k_clusterPlatforms k) w '''' of
          Inl _ \<Rightarrow> []
        | Inr ps \<Rightarrow> filter (\<lambda>r. r \<noteq> cl_key cp) (map cl_key ps))
     else [])"

subsection \<open>The condition of a cluster platform\<close>

lemma cl_status_frame [simp]:
  "cl_status (default_capabilities p) = cl_status p" "cl_meta (default_capabilities p) = cl_meta p"
  "cl_platformRef (default_capabilities p) = cl_platformRef p"
  "cl_meta (cl_upd_conds f p) = cl_meta p" "cl_status (cl_upd_conds f p) = f (cl_status p)"
  by (simp_all add: default_capabilities_def cl_upd_conds_def)

lemma cl_defaults_frame: "cl_configureDefaults k p w = (e, q, w') \<Longrightarrow> q = default_capabilities p"
  by (auto simp: cl_configureDefaults_def Let_def split: prod.splits)

lemma cl_ready_view: "cl_IsReady p \<longleftrightarrow> view_is CTrue (cond_view (cl_status p) SucceedConditionType)"
  by (simp add: cl_IsReady_def cl_cond_def cond_readers_view)

lemma cl_duplicated_view: "cl_IsDuplicated p \<longleftrightarrow>
    (\<exists>m. cond_view (cl_status p) SucceedConditionType = Some (CFalse, PlatformDuplicatedReason, m))"
  by (auto simp: cl_IsDuplicated_def cl_cond_def cond_readers_view view_is_def platform_reason_defs split: option.splits)

lemma spec_MarkUnknown_alone:
  "spec_MarkUnknown platform_manager t r m v = v(t \<mapsto> (CUnknown, r, m))"
  by (simp add: spec_MarkUnknown_def platform_manager_def NewConditionManager_def)

lemma follow_platform_view:
  assumes "wf_status s"
  shows "view_is CTrue (cond_view (follow_platform now r c s) SucceedConditionType) \<longleftrightarrow> IsTrue c"
    "wf_status (follow_platform now r c s)"
  using assms
  by (auto simp: follow_platform_def MarkUnknown_view spec_MarkUnknown_alone view_is_def)

text \<open>What the action leaves of the object it is given.\<close>

lemma cl_handle_cases:
  assumes "cl_initialize_Handle now k p w = (e, t, w')" "wf_status (cl_status p)"
  shows "cl_meta t = cl_meta p \<and> wf_status (cl_status t) \<and>
    (e = None \<longrightarrow> cl_IsReady t \<longrightarrow> cl_isPrimaryDuplicate k p w = Inr False)"
proof -
  consider (err) e' where "cl_isPrimaryDuplicate k p w = Inl e'" | (dup) "cl_isPrimaryDuplicate k p w = Inr True"
    | (only) "cl_isPrimaryDuplicate k p w = Inr False"
    by (cases "cl_isPrimaryDuplicate k p w") auto
  then show ?thesis
  proof cases
    case err
    then show ?thesis using assms by (auto simp: cl_initialize_Handle_def)
  next
    case dup
    then show ?thesis
      using assms
      by (auto simp: cl_initialize_Handle_def cl_ready_view cl_duplicated_view view_is_def split: if_splits)
  next
    case only
    then show ?thesis
      using assms
      by (auto simp: cl_initialize_Handle_def Let_def follow_platform_view cl_upd_conds_def
          split: prod.splits option.splits sum.splits if_splits dest!: cl_defaults_frame)
  qed
qed

text \<open>C20: A cluster platform is ready just when the platform it refers to is: a pass that handles one that is
  not a duplicate and can write its status writes it as ready if the platform is found and ready and as not ready
  otherwise, and as long as it is not ready the controller comes back after five seconds.\<close>

theorem cluster_platform_follows:
  assumes "c_get (k_clusterPlatforms k) w (fst req) (snd req) = Inr p" "wf_status (cl_status p)" "\<not> cl_IsDuplicated p"
    "cl_isPrimaryDuplicate k p w = Inr False" "ClusterPlatform_Reconcile now k req w = (r, None, w')"
  shows "\<exists>t v v'. c_status (k_clusterPlatforms k) v t = (None, v') \<and> cl_meta t = cl_meta p \<and> cl_version t = SpecVersion \<and>
    (cl_IsReady t \<longleftrightarrow>
      (\<exists>pl. c_get (k_platforms k) v (nr_namespace (cl_platformRef p)) (nr_name (cl_platformRef p)) = Inr pl \<and> pf_IsReady pl)) \<and>
    r = (if cl_IsReady t then no_result else after_seconds 5)"
proof -
  let ?i = "cl_upd_conds (InitializeConditions now platform_manager) p"
  have wf: "wf_status (cl_status ?i)" using assms(2) by auto
  have names: "cl_name ?i = cl_name p" "cl_IsSecondary ?i = cl_IsSecondary p"
    by (simp_all add: cl_name_def cl_IsSecondary_def)
  then have d: "cl_isPrimaryDuplicate k ?i w = Inr False" using assms(4) by (simp add: cl_isPrimaryDuplicate_def split: if_splits)
  have "\<not> cl_IsDuplicated ?i"
    using assms(2,3)
    by (auto simp: cl_duplicated_view InitializeConditions_view spec_Initialize_def platform_manager_def NewConditionManager_def
        Let_def split: if_splits)
  then have can: "cl_initialize_CanHandle k ?i w" by (simp add: cl_initialize_CanHandle_def)
  obtain e t v where h: "cl_initialize_Handle now k ?i w = (e, t, v)" by (cases "cl_initialize_Handle now k ?i w") auto
  have e: "e = None"
    using assms(1,5) can h by (auto simp: ClusterPlatform_Reconcile_def Let_def split: option.splits prod.splits)
  let ?t = "cl_upd_conds (\<lambda>s. s\<lparr>st_observedGeneration := om_generation (cl_meta ?i)\<rparr>) t"
  obtain v' where st: "c_status (k_clusterPlatforms k) v ?t = (None, v')" "r = (if cl_IsReady ?t then no_result else after_seconds 5)"
    using assms(1,5) can h e by (auto simp: ClusterPlatform_Reconcile_def Let_def split: option.splits prod.splits)
  have ready: "cl_IsReady ?t = cl_IsReady t" by (simp add: cl_IsReady_def cl_cond_def cl_upd_conds_def getCondition_def)
  have "cl_version t = SpecVersion \<and> cl_meta t = cl_meta p \<and> (cl_IsReady t \<longleftrightarrow>
      (\<exists>pl. c_get (k_platforms k) v (nr_namespace (cl_platformRef p)) (nr_name (cl_platformRef p)) = Inr pl \<and> pf_IsReady pl))"
    using h d e wf
    by (auto simp: cl_initialize_Handle_def Let_def cl_ready_view follow_platform_view cl_upd_conds_def pf_IsReady_def
        split: prod.splits option.splits sum.splits if_splits dest!: cl_defaults_frame)
  then show ?thesis
    using st ready by (intro exI[of _ ?t] exI[of _ v] exI[of _ v']) (simp add: cl_upd_conds_def)
qed

subsection \<open>At most one active cluster platform\<close>

definition primary_active :: "sonataflow_cluster_platform \<Rightarrow> bool" where
  "primary_active p \<longleftrightarrow> \<not> cl_IsSecondary p \<and> cl_IsActive p"

definition one_active :: "sonataflow_cluster_platform list \<Rightarrow> bool" where
  "one_active ps \<longleftrightarrow> distinct (map cl_name ps) \<and> list_all (\<lambda>p. wf_status (cl_status p)) ps \<and>
    (\<forall>p\<in>set ps. \<forall>q\<in>set ps. primary_active p \<longrightarrow> primary_active q \<longrightarrow> cl_name p = cl_name q)"

lemma primary_active_cong: "cl_meta p = cl_meta q \<Longrightarrow> cl_status p = cl_status q \<Longrightarrow> primary_active p = primary_active q"
  by (simp add: primary_active_def cl_IsSecondary_def cl_IsActive_def cl_IsReady_def cl_IsDuplicated_def cl_cond_def)

text \<open>The contract of the client for cluster platforms, which are listed by name: a read answers a listed object; a write of
  an object that is listed with the same metadata changes at most this one, an update keeps its status, a
  status update its metadata.\<close>

locale cluster_store =
  fixes cl :: "('w, sonataflow_cluster_platform) client"
  assumes get_listed: "c_get cl w n m = Inr x \<Longrightarrow> c_list cl w '''' = Inr xs \<Longrightarrow> x \<in> set xs"
    and update_listed: "c_update cl w x = (e, w') \<Longrightarrow> c_list cl w '''' = Inr xs \<Longrightarrow> distinct (map cl_name xs) \<Longrightarrow>
      z \<in> set xs \<Longrightarrow> cl_meta z = cl_meta x \<Longrightarrow> cl_status z = cl_status x \<Longrightarrow>
      \<exists>ys. c_list cl w' '''' = Inr ys \<and> map cl_name ys = map cl_name xs \<and>
        (\<forall>y\<in>set ys. \<exists>u\<in>set xs. cl_meta y = cl_meta u \<and> cl_status y = cl_status u)"
    and status_listed: "c_status cl w x = (e, w') \<Longrightarrow> c_list cl w '''' = Inr xs \<Longrightarrow> distinct (map cl_name xs) \<Longrightarrow>
      z \<in> set xs \<Longrightarrow> cl_meta z = cl_meta x \<Longrightarrow>
      \<exists>ys. c_list cl w' '''' = Inr ys \<and> map cl_name ys = map cl_name xs \<and>
        (\<forall>y\<in>set ys. y \<in> set xs \<or> cl_meta y = cl_meta x \<and> cl_status y = cl_status x)"
begin

lemma status_one_active:
  assumes "c_status cl w t = (e, w')" "c_list cl w '''' = Inr xs" "one_active xs" "z \<in> set xs" "cl_meta z = cl_meta t"
    "wf_status (cl_status t)" "primary_active t \<Longrightarrow> \<forall>q\<in>set xs. primary_active q \<longrightarrow> cl_name q = cl_name t"
  shows "\<exists>ys. c_list cl w' '''' = Inr ys \<and> one_active ys"
proof -
  have xs: "distinct (map cl_name xs)" "\<And>u. u \<in> set xs \<Longrightarrow> wf_status (cl_status u)"
    "\<And>u v. u \<in> set xs \<Longrightarrow> v \<in> set xs \<Longrightarrow> primary_active u \<Longrightarrow> primary_active v \<Longrightarrow> cl_name u = cl_name v"
    using assms(3) unfolding one_active_def list_all_iff by blast+
  obtain ys where ys: "c_list cl w' '''' = Inr ys" "map cl_name ys = map cl_name xs"
    "\<And>y. y \<in> set ys \<Longrightarrow> y \<in> set xs \<or> cl_meta y = cl_meta t \<and> cl_status y = cl_status t"
    using status_listed[OF assms(1,2) xs(1) assms(4,5)] by (elim exE conjE) (rule that, assumption, assumption, blast)
  have t: "y \<in> set xs \<or> cl_name y = cl_name t \<and> primary_active y = primary_active t \<and> cl_status y = cl_status t"
    if "y \<in> set ys" for y
    using ys(3)[OF that] primary_active_cong[of y t] by (auto simp: cl_name_def)
  have "wf_status (cl_status y)" if "y \<in> set ys" for y
    using t[OF that] xs(2)[of y] assms(6) by auto
  moreover have "cl_name p = cl_name q" if "p \<in> set ys" "q \<in> set ys" "primary_active p" "primary_active q" for p q
    using t[OF that(1)] t[OF that(2)] that(3,4) assms(7) xs(3)[of p q] by auto
  ultimately show ?thesis using ys(1,2) xs(1) unfolding one_active_def list_all_iff by metis
qed

lemma update_one_active:
  assumes "updateClusterPlatform k p w = (e, w')" "k_clusterPlatforms k = cl" "c_list cl w '''' = Inr xs" "one_active xs"
  shows "\<exists>ys. c_list cl w' '''' = Inr ys \<and> one_active ys \<and>
    map cl_name ys = map cl_name xs \<and> (\<forall>y\<in>set ys. \<exists>u\<in>set xs. cl_meta y = cl_meta u \<and> cl_status y = cl_status u)"
proof (cases "c_get cl w (om_namespace (cl_meta p)) (cl_name p)")
  case (Inl e)
  then have "w' = w" using assms(1,2) by (simp add: updateClusterPlatform_def)
  then show ?thesis using assms(3,4) by blast
next
  case (Inr x)
  let ?x = "x\<lparr>cl_platformRef := cl_platformRef p, cl_capabilities := cl_capabilities p\<rparr>"
  obtain e' where u: "c_update cl w ?x = (e', w')"
    using assms(1,2) Inr by (cases "c_update cl w ?x") (auto simp: updateClusterPlatform_def)
  have xs: "distinct (map cl_name xs)" "\<And>u. u \<in> set xs \<Longrightarrow> wf_status (cl_status u)"
    "\<And>u v. u \<in> set xs \<Longrightarrow> v \<in> set xs \<Longrightarrow> primary_active u \<Longrightarrow> primary_active v \<Longrightarrow> cl_name u = cl_name v"
    using assms(4) unfolding one_active_def list_all_iff by blast+
  have x: "x \<in> set xs" using get_listed[OF Inr assms(3)] .
  have "cl_meta x = cl_meta ?x" "cl_status x = cl_status ?x" by simp_all
  from update_listed[OF u assms(3) xs(1) x this] obtain ys where ys: "c_list cl w' '''' = Inr ys" "map cl_name ys = map cl_name xs"
    "\<forall>y\<in>set ys. \<exists>u\<in>set xs. cl_meta y = cl_meta u \<and> cl_status y = cl_status u"
    by (elim exE conjE)
  have old: "\<exists>u\<in>set xs. cl_name y = cl_name u \<and> primary_active y = primary_active u \<and> cl_status y = cl_status u"
    if "y \<in> set ys" for y
  proof -
    obtain u where "u \<in> set xs" "cl_meta y = cl_meta u" "cl_status y = cl_status u" using ys(3) \<open>y \<in> set ys\<close> by blast
    then show ?thesis using primary_active_cong[of y u] by (intro bexI[of _ u]) (simp_all add: cl_name_def)
  qed
  have "wf_status (cl_status y)" if "y \<in> set ys" for y using old[OF that] xs(2) by auto
  moreover have "cl_name p = cl_name q" if "p \<in> set ys" "q \<in> set ys" "primary_active p" "primary_active q" for p q
  proof -
    note h = that
    obtain u v where "u \<in> set xs" "cl_name p = cl_name u" "primary_active u" "v \<in> set xs" "cl_name q = cl_name v" "primary_active v"
      using old[OF h(1)] old[OF h(2)] h(3,4) by auto
    then show ?thesis using xs(3)[of u v] by simp
  qed
  ultimately have "one_active ys" using ys(2) xs(1) unfolding one_active_def list_all_iff by metis
  then show ?thesis using ys by (intro exI[of _ ys] conjI) assumption+
qed

lemma handle_world:
  assumes "cl_initialize_Handle now k p w = (e, t, w')" "k_clusterPlatforms k = cl" "c_list cl w '''' = Inr xs" "one_active xs"
  shows "\<exists>ys. c_list cl w' '''' = Inr ys \<and> one_active ys \<and>
    map cl_name ys = map cl_name xs \<and> (\<forall>y\<in>set ys. \<exists>u\<in>set xs. cl_meta y = cl_meta u \<and> cl_status y = cl_status u)"
proof (cases "cl_isPrimaryDuplicate k p w = Inr False")
  case True
  then obtain e' where "updateClusterPlatform k (default_capabilities p) w = (e', w')"
    using assms(1)
    by (auto simp: cl_initialize_Handle_def cl_configureDefaults_def Let_def split: prod.splits option.splits sum.splits if_splits)
  then show ?thesis using update_one_active[OF _ assms(2-4)] by blast
next
  case False
  then have "w' = w" using assms(1) by (auto simp: cl_initialize_Handle_def split: sum.splits bool.splits)
  then show ?thesis using assms(3,4) by blast
qed

end

text \<open>The client in memory keeps this contract.\<close>

lemma store_set_names: "map cl_name (store_set f cl_name x xs) = map cl_name xs"
  by (induction xs) auto

lemma store_set_sub: "y \<in> set (store_set f g x xs) \<Longrightarrow> y = x \<or> y \<in> set xs"
  by (induction xs) (auto split: if_splits)

interpretation mem_cluster_platforms: cluster_store "k_clusterPlatforms mem_cluster"
proof -
  let ?f = "\<lambda>x. om_namespace (cl_meta x)"
  have name: "(\<lambda>x. om_name (cl_meta x)) = cl_name" by (simp add: fun_eq_iff cl_name_def)
  have c: "k_clusterPlatforms mem_cluster = mem_of cl_meta mw_clusterPlatforms (\<lambda>v w. w\<lparr>mw_clusterPlatforms := v\<rparr>)"
    by (rule mem_cluster_fields)
  have put: "\<exists>ys. c_list (k_clusterPlatforms mem_cluster) w' '''' = Inr ys \<and> map cl_name ys = map cl_name xs \<and>
      (\<forall>y\<in>set ys. y \<in> set xs \<or> y = x)"
    if "c_update (k_clusterPlatforms mem_cluster) w x = (e, w')" "c_list (k_clusterPlatforms mem_cluster) w '''' = Inr xs" for w x e w' xs
    using that unfolding c mem_of_ops name
    by (auto simp: store_set_names split: option.splits dest!: store_set_sub)
  have st: "c_status (k_clusterPlatforms mem_cluster) = c_update (k_clusterPlatforms mem_cluster)" unfolding c by (rule mem_of_ops)
  have g: "x \<in> set xs"
    if "c_get (k_clusterPlatforms mem_cluster) w n m = Inr x" "c_list (k_clusterPlatforms mem_cluster) w '''' = Inr xs" for w n m x xs
    using that unfolding c mem_of_ops by (auto simp: find_Some_iff split: option.splits)
  show "cluster_store (k_clusterPlatforms mem_cluster)"
  proof (unfold_locales)
    show "x \<in> set xs"
      if "c_get (k_clusterPlatforms mem_cluster) w n m = Inr x" "c_list (k_clusterPlatforms mem_cluster) w '''' = Inr xs" for w n m x xs
      using g that .
    show "\<exists>ys. c_list (k_clusterPlatforms mem_cluster) w' '''' = Inr ys \<and> map cl_name ys = map cl_name xs \<and>
        (\<forall>y\<in>set ys. \<exists>u\<in>set xs. cl_meta y = cl_meta u \<and> cl_status y = cl_status u)"
      if "c_update (k_clusterPlatforms mem_cluster) w x = (e, w')" "c_list (k_clusterPlatforms mem_cluster) w '''' = Inr xs"
        "distinct (map cl_name xs)" "z \<in> set xs" "cl_meta z = cl_meta x" "cl_status z = cl_status x" for w x e w' xs z
      using put[OF that(1,2)] that(4-6) by metis
    show "\<exists>ys. c_list (k_clusterPlatforms mem_cluster) w' '''' = Inr ys \<and> map cl_name ys = map cl_name xs \<and>
        (\<forall>y\<in>set ys. y \<in> set xs \<or> cl_meta y = cl_meta x \<and> cl_status y = cl_status x)"
      if "c_status (k_clusterPlatforms mem_cluster) w x = (e, w')" "c_list (k_clusterPlatforms mem_cluster) w '''' = Inr xs"
        "distinct (map cl_name xs)" "z \<in> set xs" "cl_meta z = cl_meta x" for w x e w' xs z
      using put[OF that(1)[unfolded st] that(2)] by metis
  qed
qed

text \<open>The platform the handler was called with is still there when its status is written.\<close>

lemma listed_still:
  assumes p: "p \<in> set xs" and d: "distinct (map cl_name xs)" and n: "map cl_name zs = map cl_name xs"
    and from': "\<forall>z\<in>set zs. \<exists>u\<in>set xs. cl_meta z = cl_meta u \<and> cl_status z = cl_status u"
  shows "\<exists>z\<in>set zs. cl_meta z = cl_meta p"
proof -
  have "cl_name p \<in> set (map cl_name zs)" using p n by simp
  then obtain z where z: "z \<in> set zs" "cl_name z = cl_name p" by auto
  then obtain u where u: "u \<in> set xs" "cl_meta z = cl_meta u" using from' by blast
  then have "u = p" using z(2) p d by (metis cl_name_def distinct_map inj_onD)
  then show ?thesis using z(1) u(2) by blast
qed

text \<open>The status the reconciliation writes after the handler has answered.\<close>

definition written_cluster_platform :: "int \<Rightarrow> int \<Rightarrow> kerror option \<Rightarrow> sonataflow_cluster_platform \<Rightarrow> sonataflow_cluster_platform" where
  "written_cluster_platform now gen e t =
    (if e = None then cl_upd_conds (\<lambda>s. s\<lparr>st_observedGeneration := gen\<rparr>) t
     else cl_upd_conds (MarkFalse now SucceedConditionType PlatformFailureReason (error_text (the e))) t)"

lemma written_meta [simp]: "cl_meta (written_cluster_platform now gen e t) = cl_meta t"
  by (simp add: written_cluster_platform_def)

lemma written_wf:
  assumes "wf_status (cl_status t)" shows "wf_status (cl_status (written_cluster_platform now gen e t))"
  using assms Mark_wf[OF assms] by (cases e) (simp_all add: written_cluster_platform_def wf_status_def)

lemma written_active:
  assumes wf: "wf_status (cl_status t)" and pa: "primary_active (written_cluster_platform now gen e t)"
  shows "e = None \<and> cl_IsReady t \<and> \<not> cl_IsSecondary t"
proof -
  have e: "e = None"
  proof (rule ccontr)
    assume n: "e \<noteq> None"
    have "cl_status (written_cluster_platform now gen e t)
        = MarkFalse now SucceedConditionType PlatformFailureReason (error_text (the e)) (cl_status t)"
      unfolding written_cluster_platform_def using n by (simp only: if_False cl_status_frame)
    then have "\<not> cl_IsReady (written_cluster_platform now gen e t)"
      unfolding cl_ready_view using Mark_view(3)[OF wf] by (simp add: view_is_def)
    then show False using pa by (simp add: primary_active_def cl_IsActive_def)
  qed
  then show ?thesis using pa
    by (simp add: written_cluster_platform_def primary_active_def cl_IsActive_def cl_IsReady_def cl_cond_def cl_upd_conds_def
        getCondition_def cl_IsSecondary_def)
qed

lemma no_duplicate_alone:
  assumes "cl_isPrimaryDuplicate k p w = Inr False" "\<not> cl_IsSecondary p" "c_list (k_clusterPlatforms k) w '''' = Inr xs"
    "q \<in> set xs" "primary_active q"
  shows "cl_name q = cl_name p"
  using assms
  by (auto simp: cl_isPrimaryDuplicate_def listPrimaryClusterPlatforms_def listAllClusterPlatforms_def primary_active_def
      list_ex_iff cl_name_def)

text \<open>C8: At most one primary cluster platform is active: no pass of the controller over any of them, whatever the platforms
  are like, makes a second one active, as long as the passes are made one at a time.\<close>

theorem at_most_one_active:
  assumes "cluster_store (k_clusterPlatforms k)"
    "\<And>ty rs m v. c_list (k_clusterPlatforms k) (k_event k ty rs m v) '''' = c_list (k_clusterPlatforms k) v ''''"
    "c_list (k_clusterPlatforms k) w '''' = Inr xs" "one_active xs" "ClusterPlatform_Reconcile now k req w = (r, e, w')"
  shows "\<exists>ys. c_list (k_clusterPlatforms k) w' '''' = Inr ys \<and> one_active ys"
proof (cases "c_get (k_clusterPlatforms k) w (fst req) (snd req)")
  case (Inl e)
  then show ?thesis using assms(3-5) by (auto simp: ClusterPlatform_Reconcile_def)
next
  case (Inr p)
  let ?i = "cl_upd_conds (InitializeConditions now platform_manager) p"
  have p: "p \<in> set xs" using cluster_store.get_listed[OF assms(1) Inr assms(3)] .
  then have wf: "wf_status (cl_status ?i)" using assms(4) by (auto simp: one_active_def list_all_iff)
  show ?thesis
  proof (cases "cl_initialize_CanHandle k ?i w")
    case False
    then show ?thesis using assms(3-5) Inr by (auto simp: ClusterPlatform_Reconcile_def Let_def)
  next
    case True
    obtain e0 t v where h: "cl_initialize_Handle now k ?i w = (e0, t, v)" by (cases "cl_initialize_Handle now k ?i w") auto
    have t: "cl_meta t = cl_meta p" "wf_status (cl_status t)"
      and only: "e0 = None \<Longrightarrow> cl_IsReady t \<Longrightarrow> cl_isPrimaryDuplicate k ?i w = Inr False"
      using cl_handle_cases[OF h wf] by auto
    obtain zs where zs: "c_list (k_clusterPlatforms k) v '''' = Inr zs" "one_active zs" "map cl_name zs = map cl_name xs"
      "\<forall>z\<in>set zs. \<exists>u\<in>set xs. cl_meta z = cl_meta u \<and> cl_status z = cl_status u"
      using cluster_store.handle_world[OF assms(1) h refl assms(3,4)] by blast
    have dx: "distinct (map cl_name xs)" using assms(4) by (simp add: one_active_def)
    obtain z where z: "z \<in> set zs" "cl_meta z = cl_meta p" using listed_still[OF p dx zs(3,4)] by blast
    let ?t = "written_cluster_platform now (om_generation (cl_meta ?i)) e0 t"
    obtain e1 v1 where st: "c_status (k_clusterPlatforms k) v ?t = (e1, v1)" by (cases "c_status (k_clusterPlatforms k) v ?t")
    have w': "c_list (k_clusterPlatforms k) w' '''' = c_list (k_clusterPlatforms k) v1 ''''"
      using assms(2,5) Inr True h st
      by (auto simp: ClusterPlatform_Reconcile_def written_cluster_platform_def Let_def split: option.splits if_splits prod.splits)
    have tm: "cl_meta z = cl_meta ?t" using z(2) t(1) by simp
    have alone: "\<forall>q\<in>set zs. primary_active q \<longrightarrow> cl_name q = cl_name ?t" if pa: "primary_active ?t"
    proof -
      note a = written_active[OF t(2) pa]
      have "cl_isPrimaryDuplicate k ?i w = Inr False" "\<not> cl_IsSecondary ?i" using only a t(1) by (simp_all add: cl_IsSecondary_def)
      then have "\<forall>q\<in>set xs. primary_active q \<longrightarrow> cl_name q = cl_name ?i" using no_duplicate_alone[OF _ _ assms(3)] by blast
      then show ?thesis using zs(4) t(1) primary_active_cong by (metis cl_name_def cl_status_frame(4) written_meta)
    qed
    show ?thesis
      using cluster_store.status_one_active[OF assms(1) st zs(1,2) z(1) tm written_wf[OF t(2)] alone] w' by simp
  qed
qed

subsection \<open>Duplicates\<close>

text \<open>A duplicate waits for all others: a cluster platform marked as a duplicate is left alone, without a
  requeue, as long as any listed cluster platform is not a duplicate, even a secondary one that never serves
  the cluster.\<close>

theorem duplicate_waits:
  assumes "c_get (k_clusterPlatforms k) w (fst req) (snd req) = Inr p" "wf_status (cl_status p)" "cl_IsDuplicated p"
    "c_list (k_clusterPlatforms k) w '''' = Inr xs" "q \<in> set xs" "\<not> cl_IsDuplicated q"
  shows "ClusterPlatform_Reconcile now k req w = (no_result, None, w)"
proof -
  have "cl_IsDuplicated (cl_upd_conds (InitializeConditions now platform_manager) p)"
    using assms(2,3)
    by (auto simp: cl_duplicated_view InitializeConditions_view spec_Initialize_def platform_manager_def NewConditionManager_def
        Let_def split: if_splits)
  moreover have "\<not> allDuplicatedClusterPlatforms k w"
    using assms(4-6) by (auto simp: allDuplicatedClusterPlatforms_def listAllClusterPlatforms_def list_all_iff)
  ultimately show ?thesis
    using assms(1) by (simp add: ClusterPlatform_Reconcile_def Let_def cl_initialize_CanHandle_def)
qed

subsection \<open>Witnesses\<close>

definition ex_cp :: "string \<Rightarrow> sonataflow_cluster_platform" where
  "ex_cp n = \<lparr>cl_meta = new_meta '''' n, cl_platformRef = \<lparr>nr_name = ''p'', nr_namespace = ''ns''\<rparr>, cl_capabilities = None,
     cl_status = \<lparr>st_conditions = [], st_observedGeneration = 0\<rparr>, cl_version = ''''\<rparr>"

definition ex_cp_marked :: "string \<Rightarrow> sonataflow_cluster_platform" where
  "ex_cp_marked n = cl_upd_conds (MarkFalse 1 SucceedConditionType PlatformDuplicatedReason '''') (ex_cp n)"

definition ex_cp_world :: mem_world where
  "ex_cp_world = empty_world\<lparr>mw_clusterPlatforms := [ex_cp ''a'', ex_cp ''b'', ex_cp_marked ''c''],
     mw_platforms := [pf_upd_conds (MarkTrue 1 SucceedConditionType) (new_platform ''ns'' ''p'')]\<rparr>"

definition cp_ok :: "ctrl_result \<times> kerror option \<times> 'w \<Rightarrow> bool" where
  "cp_ok r \<longleftrightarrow> fst (snd r) = None"

lemma ex_cp_pass:
  "cp_ok (ClusterPlatform_Reconcile 5 mem_cluster ('''', ''b'') ex_cp_world)"
  "c_get (k_clusterPlatforms mem_cluster) ex_cp_world '''' ''b'' = Inr (ex_cp ''b'')"
  "c_get (k_clusterPlatforms mem_cluster) ex_cp_world '''' ''c'' = Inr (ex_cp_marked ''c'')"
  "c_list (k_clusterPlatforms mem_cluster) ex_cp_world '''' = Inr [ex_cp ''a'', ex_cp ''b'', ex_cp_marked ''c'']"
  "cl_isPrimaryDuplicate mem_cluster (ex_cp ''b'') ex_cp_world = Inr False"
  "\<not> cl_IsDuplicated (ex_cp n)" "cl_IsDuplicated (ex_cp_marked ''c'')"
  "wf_status (cl_status (ex_cp ''b''))" "wf_status (cl_status (ex_cp_marked ''c''))"
  by code_simp+

theorem cluster_platform_follows_witness:
  "\<exists>r w'. ClusterPlatform_Reconcile 5 mem_cluster ('''', ''b'') ex_cp_world = (r, None, w') \<and>
     (\<exists>t. r = (if cl_IsReady t then no_result else after_seconds 5))"
proof -
  obtain r w' where p: "ClusterPlatform_Reconcile 5 mem_cluster ('''', ''b'') ex_cp_world = (r, None, w')"
    using ex_cp_pass(1) by (cases "ClusterPlatform_Reconcile 5 mem_cluster ('''', ''b'') ex_cp_world") (auto simp: cp_ok_def)
  have "c_get (k_clusterPlatforms mem_cluster) ex_cp_world (fst ('''', ''b'')) (snd ('''', ''b'')) = Inr (ex_cp ''b'')"
    using ex_cp_pass(2) by simp
  from cluster_platform_follows[OF this ex_cp_pass(8) ex_cp_pass(6) ex_cp_pass(5) p] p show ?thesis by blast
qed

theorem at_most_one_active_witness:
  "\<exists>r e w' ys. ClusterPlatform_Reconcile 5 mem_cluster ('''', ''b'') ex_cp_world = (r, e, w') \<and>
     c_list (k_clusterPlatforms mem_cluster) w' '''' = Inr ys \<and> one_active ys"
proof -
  obtain r e w' where p: "ClusterPlatform_Reconcile 5 mem_cluster ('''', ''b'') ex_cp_world = (r, e, w')"
    by (cases "ClusterPlatform_Reconcile 5 mem_cluster ('''', ''b'') ex_cp_world") auto
  have one: "one_active [ex_cp ''a'', ex_cp ''b'', ex_cp_marked ''c'']" by code_simp
  have ev: "c_list (k_clusterPlatforms mem_cluster) (k_event mem_cluster ty rs m v) '''' = c_list (k_clusterPlatforms mem_cluster) v ''''"
    for ty rs m v by (simp add: mem_eval)
  show ?thesis
    using at_most_one_active[OF mem_cluster_platforms.cluster_store_axioms ev ex_cp_pass(4) one p] p by blast
qed

theorem duplicate_waits_witness:
  "ClusterPlatform_Reconcile 5 mem_cluster ('''', ''c'') ex_cp_world = (no_result, None, ex_cp_world)"
  using ex_cp_pass(3)
  by (intro duplicate_waits[OF _ ex_cp_pass(9) ex_cp_pass(7) ex_cp_pass(4), where q = "ex_cp ''a''"]) (simp_all add: ex_cp_pass(6))

end
