(* ===== verification/Service_Components.thy ===== *)
theory Service_Components
  imports Workflow_Controller
begin

text \<open>
  How the services of a platform are deployed (\<open>internal/controller/platform/k8s.go\<close> and the handlers of
  \<open>platform/services/services.go\<close>): the config map, the deployment, the service and the Knative objects of the
  data index and of the job service.  The interface \<open>PlatformServiceHandler\<close> is the record
  \<open>service_handler\<close>, with one value for each of the two services; \<open>di_components\<close> and \<open>js_components\<close>
  are what the service action of a platform runs.  \<open>controllerutil.CreateOrUpdate\<close> is a parameter
  (\<open>upserts\<close>), and so is \<open>mergo\<close>.  The answer of a write is not read back into the object.
\<close>

subsection \<open>The environment\<close>

text \<open>\<open>ve_mergeSpec\<close> merges the specification of the second deployment into the first, overriding it.\<close>

record ('w, 'p) services_env =
  ve_cluster :: "'w cluster"
  ve_libs :: libs
  ve_props :: "'p props_ops"
  ve_url :: url_lib
  ve_up :: "'w upserts"
  ve_trigger :: "('w, trigger) upsert"
  ve_mergeSpec :: "deployment \<Rightarrow> deployment \<Rightarrow> kerror + deployment"

text \<open>The methods of a handler, applied to the platform it points to.\<close>

record ('w, 'p) service_handler =
  sh_containerName :: string
  sh_serviceName :: string
  sh_cmName :: string
  sh_image :: "string \<Rightarrow> string"
  sh_env :: "env_var list"
  sh_requests :: gomap
  sh_limits :: gomap
  sh_replicas :: "int outcome"
  sh_strategy :: string
  sh_persistence :: "container \<Rightarrow> container outcome"
  sh_mergeContainer :: "container \<Rightarrow> container outcome"
  sh_mergePod :: "pod_spec \<Rightarrow> pod_spec outcome"
  sh_properties :: "'p outcome"
  sh_knative :: "sonataflow_platform \<Rightarrow> gomap \<Rightarrow> 'w \<Rightarrow> ((string \<times> kerror) + trigger list \<times> sink_binding option) outcome"
  sh_kSink :: "'w \<Rightarrow> bool outcome"

subsection \<open>The handlers\<close>

definition lift_sum :: "kerror + 'a \<Rightarrow> 'a outcome" where
  "lift_sum x = (case x of Inl e \<Rightarrow> Fail e | Inr a \<Rightarrow> Ret a)"

text \<open>The variables the operator has set win over those of the user's container.\<close>

definition mergeContainerPreservingEnvVars :: "libs \<Rightarrow> container \<Rightarrow> container \<Rightarrow> container outcome" where
  "mergeContainerPreservingEnvVars lb dest src =
    obind (lift_sum (lb_mergeContainer lb dest src)) (\<lambda>c.
      Ret (foldl (\<lambda>c e. fst (AddEnvIfNotPresent c e)) (c\<lparr>ct_env := ct_env dest\<rparr>) (ct_env src)))"

definition with_spec :: "service_spec option \<Rightarrow> (service_spec \<Rightarrow> 'a outcome) \<Rightarrow> 'a outcome" where
  "with_spec s f = (case s of None \<Rightarrow> Panic | Some s \<Rightarrow> f s)"

definition di_GetEnvironmentVariables :: "env_var list" where
  "di_GetEnvironmentVariables =
    [\<lparr>ev_name = ''KOGITO_DATA_INDEX_QUARKUS_PROFILE'', ev_value = ''http-events-support'', ev_valueFrom = None\<rparr>]"

definition di_GetReplicaCount :: "sonataflow_platform \<Rightarrow> int outcome" where
  "di_GetReplicaCount p =
    with_spec (di_spec (Some p)) (\<lambda>s. Ret (case pt_replicas (vp_podTemplate s) of Some n \<Rightarrow> n | None \<Rightarrow> 1))"

definition js_GetReplicaCount :: "sonataflow_platform \<Rightarrow> int outcome" where
  "js_GetReplicaCount p =
    with_spec (js_spec (Some p)) (\<lambda>s. Ret (if pt_replicas (vp_podTemplate s) = Some 0 then 0 else 1))"

definition RecreateDeploymentStrategyType :: string where "RecreateDeploymentStrategyType = ''Recreate''"

definition NewDataIndexHandler :: "('w, 'p) services_env \<Rightarrow> sonataflow_platform \<Rightarrow> ('w, 'p) service_handler" where
  "NewDataIndexHandler env p =
    \<lparr>sh_containerName = DataIndexServiceName, sh_serviceName = di_GetServiceName p, sh_cmName = di_GetServiceCmName p,
     sh_image = di_GetServiceImageName (k_cfg (ve_cluster env)), sh_env = di_GetEnvironmentVariables,
     sh_requests = [(''cpu'', ''100m''), (''memory'', ''1Gi'')], sh_limits = [(''cpu'', ''200m''), (''memory'', ''1Gi'')],
     sh_replicas = di_GetReplicaCount p, sh_strategy = '''',
     sh_persistence = di_ConfigurePersistence (k_cfg (ve_cluster env)) p,
     sh_mergeContainer = (\<lambda>c. with_spec (di_spec (Some p)) (\<lambda>s.
       mergeContainerPreservingEnvVars (ve_libs env) c (ToContainer (pt_container (vp_podTemplate s))))),
     sh_mergePod = (\<lambda>ps. with_spec (di_spec (Some p)) (\<lambda>s.
       lift_sum (lb_mergePod (ve_libs env) ps (ToPodSpec (pt_podSpec (vp_podTemplate s)))))),
     sh_properties = Ret (di_GenerateServiceProperties (ve_props env) p),
     sh_knative = (\<lambda>p' lbl w. obind (di_GenerateKnativeResources (ve_cluster env) (lb_childName (ve_libs env)) p' lbl w)
       (\<lambda>r. Ret (map_sum id (\<lambda>ts. (ts, None)) r))),
     sh_kSink = (\<lambda>w. Ret True)\<rparr>"

definition NewJobServiceHandler :: "('w, 'p) services_env \<Rightarrow> sonataflow_platform \<Rightarrow> ('w, 'p) service_handler" where
  "NewJobServiceHandler env p =
    \<lparr>sh_containerName = JobServiceName, sh_serviceName = js_GetServiceName p, sh_cmName = js_GetServiceCmName p,
     sh_image = js_GetServiceImageName (k_cfg (ve_cluster env)), sh_env = [],
     sh_requests = [(''cpu'', ''250m''), (''memory'', ''64Mi'')], sh_limits = [(''cpu'', ''500m''), (''memory'', ''1Gi'')],
     sh_replicas = js_GetReplicaCount p, sh_strategy = RecreateDeploymentStrategyType,
     sh_persistence = js_ConfigurePersistence (k_cfg (ve_cluster env)) p,
     sh_mergeContainer = (\<lambda>c. with_spec (js_spec (Some p)) (\<lambda>s.
       mergeContainerPreservingEnvVars (ve_libs env) c (ToContainer (pt_container (vp_podTemplate s))))),
     sh_mergePod = (\<lambda>ps. with_spec (js_spec (Some p)) (\<lambda>s.
       lift_sum (lb_mergePod (ve_libs env) ps (ToPodSpec (pt_podSpec (vp_podTemplate s)))))),
     sh_properties = js_GenerateServiceProperties (ve_props env) (ve_url env) p,
     sh_knative = js_GenerateKnativeResources (ve_cluster env) (lb_childName (ve_libs env)),
     sh_kSink = js_CheckKSinkInjected (ve_cluster env) p\<rparr>"

subsection \<open>Labels\<close>

definition getLabels :: "sonataflow_platform \<Rightarrow> ('w, 'p) service_handler \<Rightarrow> gomap \<times> gomap" where
  "getLabels p h =
    ([(LabelApp, pf_name p), (LabelAppNamespace, pf_namespace p), (LabelService, sh_serviceName h),
      (LabelK8SName, sh_containerName h), (LabelK8SComponent, sh_serviceName h), (LabelK8SPartOF, pf_name p),
      (LabelK8SManagedBy, ''sonataflow-operator'')],
     [(LabelService, sh_serviceName h)])"

definition component_meta :: "sonataflow_platform \<Rightarrow> ('w, 'p) service_handler \<Rightarrow> string \<Rightarrow> object_meta" where
  "component_meta p h name = (new_meta (pf_namespace p) name)\<lparr>om_labels := Some (fst (getLabels p h))\<rparr>"

text \<open>\<open>SetControllerReference\<close> comes before each write.\<close>

definition owned :: "('w, 'p) services_env \<Rightarrow> sonataflow_platform \<Rightarrow> object_meta \<Rightarrow> 'w \<Rightarrow> (unit \<Rightarrow> 'a outcome \<times> 'w) \<Rightarrow> 'a outcome \<times> 'w"
where
  "owned env p m w f = (case lb_setOwner (ve_libs env) (pf_meta p) m of Some e \<Rightarrow> (Fail e, w) | None \<Rightarrow> f ())"

definition done_unit :: "('o \<times> op_result) outcome \<times> 'w \<Rightarrow> unit outcome \<times> 'w" where
  "done_unit r = (obind (fst r) (\<lambda>_. Ret ()), snd r)"

subsection \<open>The config map\<close>

text \<open>The handler of the properties is built once; its text is computed again, from itself as the user's
  properties, when the object is written.  Writing to a live object without data is a panic.\<close>

definition write_properties :: "'p props_ops \<Rightarrow> string \<Rightarrow> 'p \<Rightarrow> config_map visitor" where
  "write_properties o1 user d live =
    (case cm_data live of
       None \<Rightarrow> Panic
     | Some m \<Rightarrow> obind (service_Build o1 user d) (\<lambda>(s, _).
         Ret (live\<lparr>cm_data := Some (AList.update ApplicationPropertiesFileName s m)\<rparr>)))"

definition createOrUpdateConfigMap ::
  "('w, 'p) services_env \<Rightarrow> sonataflow_platform \<Rightarrow> ('w, 'p) service_handler \<Rightarrow> 'w \<Rightarrow> unit outcome \<times> 'w" where
  "createOrUpdateConfigMap env p h w =
    (case obind (sh_properties h) (service_Build (ve_props env) '''') of
       Panic \<Rightarrow> (Panic, w)
     | Fail e \<Rightarrow> (Fail e, w)
     | Ret (txt, d) \<Rightarrow>
        (let cm = \<lparr>cm_meta = component_meta p h (sh_cmName h), cm_data = Some [(ApplicationPropertiesFileName, txt)]\<rparr>
         in owned env p (cm_meta cm) w (\<lambda>_. done_unit
              (up_configMap (ve_up env) w cm (\<lambda>w live. (write_properties (ve_props env) txt d live, w))))))"
subsection \<open>The deployment\<close>

definition service_probe :: "string \<Rightarrow> http_probe" where
  "service_probe path =
    \<lparr>hp_path = path, hp_port = DefaultHTTPWorkflowPortInt, hp_initialDelay = 45, hp_timeout = 10, hp_period = 30,
     hp_failureThreshold = 4\<rparr>"

definition service_container :: "('w, 'p) service_handler \<Rightarrow> container" where
  "service_container h =
    (let image = sh_image h PersistenceTypeEphemeral
     in \<lparr>ct_name = '''', ct_image = image, ct_imagePullPolicy = GetImagePullPolicy image, ct_args = [], ct_workingDir = '''',
         ct_env = sh_env h, ct_mounts = [mk_VolumeMount ''application-config'' False ''/home/kogito/config''],
         ct_ports = [defaultContainerPort],
         ct_extras = no_extras\<lparr>ce_readiness := Some (service_probe QuarkusHealthPathReady),
           ce_liveness := Some (service_probe QuarkusHealthPathLive),
           ce_requests := sh_requests h, ce_limits := sh_limits h\<rparr>\<rparr>)"

definition service_pod :: "('w, 'p) service_handler \<Rightarrow> container \<Rightarrow> pod_spec outcome" where
  "service_pod h c =
    obind (sh_mergePod h (empty_pod_spec\<lparr>ps_volumes := [mk_VolumeConfigMap ''application-config'' (sh_cmName h) []]\<rparr>))
      (\<lambda>ps. Ret (AddOrReplaceContainer (ct_name c) c ps))"

text \<open>The change of the live deployment: what Knative injected is kept, the desired specification is merged
  over it and the replicas are set.\<close>

definition service_mutate :: "('w, 'p) services_env \<Rightarrow> deployment \<Rightarrow> deployment visitor" where
  "service_mutate env desired live =
    (let desired = desired\<lparr>dp_pod := SaveKnativeData (dp_pod desired) (dp_pod live)\<rparr>
     in obind (lift_sum (ve_mergeSpec env live desired)) (\<lambda>d. Ret (d\<lparr>dp_replicas := dp_replicas desired\<rparr>)))"

text \<open>The deployment as it is handed to the library, and its desired specification.\<close>

definition component_deployment :: "sonataflow_platform \<Rightarrow> ('w, 'p) service_handler \<Rightarrow> deployment" where
  "component_deployment p h =
    \<lparr>dp_meta = component_meta p h (sh_serviceName h), dp_paused = False, dp_selector = [], dp_replicas = None,
     dp_strategy = '''', dp_templateLabels = [], dp_templateAnnotations = None, dp_pod = empty_pod_spec,
     dp_conditions = []\<rparr>"

definition desired_deployment :: "sonataflow_platform \<Rightarrow> ('w, 'p) service_handler \<Rightarrow> int \<Rightarrow> pod_spec \<Rightarrow> deployment" where
  "desired_deployment p h n ps =
    (component_deployment p h)\<lparr>dp_selector := snd (getLabels p h), dp_replicas := Some n,
       dp_strategy := sh_strategy h, dp_templateLabels := fst (getLabels p h), dp_pod := ps\<rparr>"

text \<open>The error of the check for the injected sink ends the function without an error.\<close>

definition createOrUpdateDeployment ::
  "('w, 'p) services_env \<Rightarrow> sonataflow_platform \<Rightarrow> ('w, 'p) service_handler \<Rightarrow> 'w \<Rightarrow> unit outcome \<times> 'w" where
  "createOrUpdateDeployment env p h w =
    (case obind (sh_persistence h (service_container h)) (sh_mergeContainer h) of
       Panic \<Rightarrow> (Panic, w)
     | Fail e \<Rightarrow> (Fail e, w)
     | Ret c \<Rightarrow>
        (let c = c\<lparr>ct_name := sh_containerName h\<rparr>
         in case sh_replicas h of
              Panic \<Rightarrow> (Panic, w)
            | Fail e \<Rightarrow> (Fail e, w)
            | Ret n \<Rightarrow>
               (case sh_kSink h w of
                  Panic \<Rightarrow> (Panic, w)
                | Fail e \<Rightarrow> (Ret (), w)
                | Ret injected \<Rightarrow>
                   (case service_pod h c of
                      Panic \<Rightarrow> (Panic, w)
                    | Fail e \<Rightarrow> (Fail e, w)
                    | Ret ps \<Rightarrow>
                       owned env p (dp_meta (component_deployment p h)) w (\<lambda>_. done_unit
                         (up_deployment (ve_up env) w (component_deployment p h) (\<lambda>w live.
                            (service_mutate env (desired_deployment p h (if injected then n else 0) ps) live, w))))))))"
subsection \<open>The service\<close>

definition createOrUpdateService ::
  "('w, 'p) services_env \<Rightarrow> sonataflow_platform \<Rightarrow> ('w, 'p) service_handler \<Rightarrow> 'w \<Rightarrow> unit outcome \<times> 'w" where
  "createOrUpdateService env p h w =
    (let s = \<lparr>sv_meta = component_meta p h (sh_serviceName h), sv_type = '''', sv_clusterIP = '''', sv_externalName = '''',
              sv_selector = [], sv_ports = []\<rparr>
     in owned env p (sv_meta s) w (\<lambda>_. done_unit
          (up_service (ve_up env) w s (\<lambda>w live.
             (Ret \<lparr>sv_meta = sv_meta live, sv_type = '''', sv_clusterIP = '''', sv_externalName = '''',
                   sv_selector = snd (getLabels p h),
                   sv_ports = [\<lparr>sp_name = DefaultServicePortName, sp_protocol = ''TCP'', sp_port = 80,
                                sp_targetPort = DefaultHTTPWorkflowPortInt, sp_nodePort = 0\<rparr>]\<rparr>, w)))))"

subsection \<open>The Knative objects\<close>

definition setSonataFlowPlatformFinalizer ::
  "'w cluster \<Rightarrow> sonataflow_platform \<Rightarrow> 'w \<Rightarrow> kerror option \<times> sonataflow_platform \<times> 'w" where
  "setSonataFlowPlatformFinalizer k p w =
    (if ContainsFinalizer (pf_meta p) TriggerFinalizer then (None, p, w)
     else (let p = p\<lparr>pf_meta := AddFinalizer TriggerFinalizer (pf_meta p)\<rparr>; (e, w) = c_update (k_platforms k) w p
           in (e, p, w)))"

definition addToSonataFlowPlatformTriggerList :: "sonataflow_platform \<Rightarrow> trigger \<Rightarrow> sonataflow_platform" where
  "addToSonataFlowPlatformTriggerList p t =
    (let m = tg_meta t
     in if list_ex (\<lambda>r. nr_name r = om_name m \<and> nr_namespace r = om_namespace m) (pf_triggers p) then p
        else p\<lparr>pf_triggers := pf_triggers p @ [\<lparr>nr_name = om_name m, nr_namespace = om_namespace m\<rparr>]\<rparr>)"

text \<open>A trigger in the platform's namespace is owned by the platform; for another one the platform gets the
  finalizer.\<close>

definition attach_trigger ::
  "('w, 'p) services_env \<Rightarrow> sonataflow_platform \<Rightarrow> trigger \<Rightarrow> 'w \<Rightarrow> kerror option \<times> sonataflow_platform \<times> 'w" where
  "attach_trigger env p t w =
    (if pf_namespace p = om_namespace (tg_meta t)
     then (lb_setOwner (ve_libs env) (pf_meta p) (tg_meta t), p, w)
     else setSonataFlowPlatformFinalizer (ve_cluster env) p w)"

fun create_triggers ::
  "('w, 'p) services_env \<Rightarrow> trigger list \<Rightarrow> sonataflow_platform \<Rightarrow> 'w \<Rightarrow> unit outcome \<times> sonataflow_platform \<times> 'w" where
  "create_triggers env [] p w = (Ret (), p, w)"
| "create_triggers env (t # ts) p w =
    (case attach_trigger env p t w of
       (Some e, p, w) \<Rightarrow> (Fail e, p, w)
     | (None, p, w) \<Rightarrow>
        (case ve_trigger env w t (\<lambda>w live. (Ret (t\<lparr>tg_meta := tg_meta live\<rparr>), w)) of
           (Panic, w) \<Rightarrow> (Panic, p, w)
         | (Fail e, w) \<Rightarrow> (Fail e, p, w)
         | (Ret _, w) \<Rightarrow> create_triggers env ts (addToSonataFlowPlatformTriggerList p t) w))"

text \<open>The sink binding comes last: an event, or nothing, and the end of the function.\<close>

definition create_sink_binding ::
  "('w, 'p) services_env \<Rightarrow> ('w, 'p) service_handler \<Rightarrow> sonataflow_platform \<Rightarrow> sink_binding \<Rightarrow> 'w \<Rightarrow>
   ((string \<times> string \<times> string) option \<times> kerror option \<times> sonataflow_platform \<times> 'w) option" where
  "create_sink_binding env h p sb w =
    (case owned env p (sn_meta sb) w (\<lambda>_. done_unit (up_sinkBinding (ve_up env) w sb (\<lambda>w live.
             (Ret (live\<lparr>sn_sink := sn_sink sb, sn_subject := sn_subject sb\<rparr>), w)))) of
       (Panic, w) \<Rightarrow> None
     | (Fail e, w) \<Rightarrow> Some (None, Some e, p, w)
     | (Ret _, w) \<Rightarrow>
        (case sh_kSink h w of
           Panic \<Rightarrow> None
         | Fail e \<Rightarrow> Some (None, Some e, p, w)
         | Ret True \<Rightarrow> Some (None, None, p, w)
         | Ret False \<Rightarrow>
            (let msg = ''waiting for K_SINK injection for service '' @ sh_serviceName h @ '' to complete''
             in Some (Some (warning_event, WaitingKnativeEventing, msg), Some (OtherError msg), p, w))))"

definition createOrUpdateKnativeResources ::
  "('w, 'p) services_env \<Rightarrow> ('w, 'p) service_handler \<Rightarrow> 'w components" where
  "createOrUpdateKnativeResources env h p w =
    (case sh_knative h p (fst (getLabels p h)) w of
       Panic \<Rightarrow> None
     | Fail e \<Rightarrow> Some (None, Some e, p, w)
     | Ret (Inl (m, e)) \<Rightarrow> Some (Some (warning_event, WaitingKnativeEventing, m), Some e, p, w)
     | Ret (Inr (ts, sb)) \<Rightarrow>
        (case create_triggers env ts p w of
           (Panic, _, _) \<Rightarrow> None
         | (Fail e, p, w) \<Rightarrow> Some (None, Some e, p, w)
         | (Ret _, p, w) \<Rightarrow>
            (case SafeUpdatePlatformStatus (ve_cluster env) p w of
               (Some e, w) \<Rightarrow> Some (None, Some e, p, w)
             | (None, w) \<Rightarrow> (case sb of None \<Rightarrow> Some (None, None, p, w) | Some sb \<Rightarrow> create_sink_binding env h p sb w))))"

subsection \<open>All of a service\<close>

definition createOrUpdateServiceComponents :: "('w, 'p) services_env \<Rightarrow> ('w, 'p) service_handler \<Rightarrow> 'w components" where
  "createOrUpdateServiceComponents env h p w =
    (let step = (\<lambda>f next w. case f env p h w of
             (Panic, _) \<Rightarrow> None | (Fail e, w) \<Rightarrow> Some (None, Some e, p, w) | (Ret (), w) \<Rightarrow> next w)
     in step createOrUpdateConfigMap (step createOrUpdateDeployment (step createOrUpdateService
          (createOrUpdateKnativeResources env h p))) w)"

definition di_components :: "('w, 'p) services_env \<Rightarrow> 'w components" where
  "di_components env p w = createOrUpdateServiceComponents env (NewDataIndexHandler env p) p w"

definition js_components :: "('w, 'p) services_env \<Rightarrow> 'w components" where
  "js_components env p w = createOrUpdateServiceComponents env (NewJobServiceHandler env p) p w"

text \<open>The reconciliation of a platform with the components of both services.\<close>

definition full_Platform_Reconcile ::
  "('w, 'p) services_env \<Rightarrow> int \<Rightarrow> request \<Rightarrow> 'w \<Rightarrow> ((ctrl_result \<times> kerror option) \<times> 'w) option" where
  "full_Platform_Reconcile env now req w =
    Platform_Reconcile (di_components env) (js_components env) now (ve_cluster env) req w"

subsection \<open>The variables of the container\<close>

lemma foldl_AddEnv:
  "find (\<lambda>e. ev_name e = n) (ct_env (foldl (\<lambda>c e. fst (AddEnvIfNotPresent c e)) c es)) =
    (case find (\<lambda>e. ev_name e = n) (ct_env c) of Some e \<Rightarrow> Some e | None \<Rightarrow> find (\<lambda>e. ev_name e = n) es)"
proof (induction es arbitrary: c)
  case Nil
  then show ?case by (simp split: option.split)
next
  case (Cons e es)
  show ?case
  proof (cases "list_ex (\<lambda>x. ev_name x = ev_name e) (ct_env c)")
    case True
    then have "find (\<lambda>x. ev_name x = ev_name e) (ct_env c) \<noteq> None" by (auto simp: list_ex_iff find_None_iff)
    then show ?thesis using Cons[of c] True by (auto simp: AddEnvIfNotPresent_def split: option.split)
  next
    case False
    then have "find (\<lambda>x. ev_name x = ev_name e) (ct_env c) = None" by (auto simp: list_ex_iff find_None_iff)
    then show ?thesis
      using Cons[of "c\<lparr>ct_env := ct_env c @ [e]\<rparr>"] False
      by (auto simp: AddEnvIfNotPresent_def find_append split: option.split)
  qed
qed

text \<open>C30: The variables of a service's container: a name the operator has set keeps the operator's value, whatever the
  user's pod template says, and every other name has the template's value.\<close>

theorem operator_env_wins:
  assumes "mergeContainerPreservingEnvVars lb dest src = Ret c"
  shows "find (\<lambda>e. ev_name e = n) (ct_env c) =
    (case find (\<lambda>e. ev_name e = n) (ct_env dest) of Some e \<Rightarrow> Some e | None \<Rightarrow> find (\<lambda>e. ev_name e = n) (ct_env src))"
  using assms by (auto simp: mergeContainerPreservingEnvVars_def obind_def foldl_AddEnv split: outcome.splits)

subsection \<open>The injected sink\<close>

text \<open>The contract of \<open>CreateOrUpdate\<close> with a function that only changes the object and keeps its key: what is stored
  afterwards is the function's answer on the live object or, if there was none, on the given one.\<close>

locale object_upsert =
  fixes up :: "('w, 'o) upsert" and cl :: "('w, 'o) client" and meta :: "'o \<Rightarrow> object_meta"
  assumes up_stored: "up w x (\<lambda>w z. (f z, w)) = (Ret (y, op), w') \<Longrightarrow>
      (\<And>z u. f z = Ret u \<Longrightarrow> (om_namespace (meta u), om_name (meta u)) = (om_namespace (meta z), om_name (meta z))) \<Longrightarrow>
      f (case c_get cl w (om_namespace (meta x)) (om_name (meta x)) of Inr z \<Rightarrow> z | Inl _ \<Rightarrow> x) = Ret y \<and>
        c_get cl w' (om_namespace (meta x)) (om_name (meta x)) = Inr y"
begin

lemma stored_satisfies:
  assumes "up w x (\<lambda>w z. (f z, w)) = (Ret r, w')"
    "\<And>z u. f z = Ret u \<Longrightarrow> (om_namespace (meta u), om_name (meta u)) = (om_namespace (meta z), om_name (meta z)) \<and> P u"
  shows "\<exists>y. c_get cl w' (om_namespace (meta x)) (om_name (meta x)) = Inr y \<and> P y"
  using up_stored[of w x f "fst r" "snd r" w'] assms(1) assms(2) by auto

end

lemma client_upsert_stored:
  assumes store: "object_store c (\<lambda>x. om_namespace (meta x)) (\<lambda>x. om_name (meta x))"
    and key: "\<And>w n m y. c_get c w n m = Inr y \<Longrightarrow> om_namespace (meta y) = n \<and> om_name (meta y) = m"
    and patch: "c_patch c = c_update c"
  shows "object_upsert (client_upsert (\<lambda>w. w) (\<lambda>w _. w) c meta) c meta"
proof (unfold_locales)
  fix w x f y op w'
  assume up: "client_upsert (\<lambda>w. w) (\<lambda>w _. w) c meta w x (\<lambda>w z. (f z, w)) = (Ret (y, op), w')"
    and keep: "\<And>z u. f z = Ret u \<Longrightarrow> (om_namespace (meta u), om_name (meta u)) = (om_namespace (meta z), om_name (meta z))"
  let ?n = "om_namespace (meta x)" and ?m = "om_name (meta x)"
  show "f (case c_get c w ?n ?m of Inr z \<Rightarrow> z | Inl _ \<Rightarrow> x) = Ret y \<and> c_get c w' ?n ?m = Inr y"
  proof (cases "c_get c w ?n ?m")
    case (Inr z)
    then have u: "f z = Ret y" "c_update c w y = (None, w')"
      using up by (auto simp: client_upsert_def Let_def patch split: outcome.splits prod.splits option.splits)
    have "om_namespace (meta y) = ?n" "om_name (meta y) = ?m" using keep[OF u(1)] key[OF Inr] by auto
    then show ?thesis using object_store.update_get[OF store u(2)] Inr u(1) by auto
  next
    case (Inl e)
    then have u: "f x = Ret y" "c_create c w y = (None, w')"
      using up by (auto simp: client_upsert_def Let_def split: outcome.splits prod.splits option.splits if_splits)
    have "om_namespace (meta y) = ?n" "om_name (meta y) = ?m" using keep[OF u(1)] by auto
    then show ?thesis using object_store.create_get[OF store u(2)] u(1) Inl by auto
  qed
qed

lemma mem_key: "c_get (mem_of meta get upd) w n m = Inr y \<Longrightarrow> om_namespace (meta y) = n \<and> om_name (meta y) = m"
  by (auto simp: mem_of_ops find_Some_iff split: option.splits)

lemma mem_upsert_stored:
  assumes "\<And>v w. get (upd v w) = v"
  shows "object_upsert (client_upsert (\<lambda>w. w) (\<lambda>w _. w) (mem_of meta get upd) meta) (mem_of meta get upd) meta"
  by (rule client_upsert_stored[OF mem_of_store[OF assms] _ mem_of_ops(6)]) (rule mem_key)

interpretation mem_deployments: object_upsert "up_deployment mem_upserts" "k_deployments mem_cluster" dp_meta
proof -
  have u: "up_deployment mem_upserts = client_upsert (\<lambda>w. w) (\<lambda>w _. w) (k_deployments mem_cluster) dp_meta"
    by (simp add: mem_upserts_def Let_def)
  show "object_upsert (up_deployment mem_upserts) (k_deployments mem_cluster) dp_meta"
    unfolding u mem_cluster_fields
    by (rule mem_upsert_stored) simp
qed

interpretation mem_configMaps: object_upsert "up_configMap mem_upserts" "k_configMaps mem_cluster" cm_meta
proof -
  have u: "up_configMap mem_upserts = client_upsert (\<lambda>w. w) (\<lambda>w _. w) (k_configMaps mem_cluster) cm_meta"
    by (simp add: mem_upserts_def Let_def)
  show "object_upsert (up_configMap mem_upserts) (k_configMaps mem_cluster) cm_meta"
    unfolding u mem_cluster_fields
    by (rule mem_upsert_stored) simp
qed

lemma service_mutate_view:
  assumes "\<And>a b c. ve_mergeSpec env a b = Inr c \<Longrightarrow> dp_meta c = dp_meta a" "service_mutate env d live = Ret u"
  shows "dp_meta u = dp_meta live" "dp_replicas u = dp_replicas d"
  using assms by (auto simp: service_mutate_def Let_def obind_def lift_sum_def split: sum.splits outcome.splits)

lemma done_unit_Ret: "done_unit u = (Ret (), w') \<longleftrightarrow> (\<exists>r. u = (Ret r, w'))"
  by (cases u; cases "fst u") (auto simp: done_unit_def)

lemma owned_Ret: "owned env p m w f = (Ret a, w') \<longleftrightarrow> lb_setOwner (ve_libs env) (pf_meta p) m = None \<and> f () = (Ret a, w')"
  by (auto simp: owned_def split: option.splits)

text \<open>What a successful pass over the deployment went through.\<close>

lemma deployment_pass:
  assumes "createOrUpdateDeployment env p h w = (Ret (), w')" "sh_kSink h w = Ret injected"
  obtains n ps r where "sh_replicas h = Ret n"
    "up_deployment (ve_up env) w (component_deployment p h)
       (\<lambda>w live. (service_mutate env (desired_deployment p h (if injected then n else 0) ps) live, w)) = (Ret r, w')"
  using assms unfolding createOrUpdateDeployment_def
  by (auto simp: Let_def owned_Ret done_unit_Ret split: outcome.splits)
text \<open>C11: No service of a platform runs before its sink is injected: after each pass that had no error the stored
  deployment of the service has no replicas as long as the injection is pending, and the handler's number of
  replicas from then on.\<close>

theorem no_replicas_without_sink:
  assumes "object_upsert (up_deployment (ve_up env)) (k_deployments (ve_cluster env)) dp_meta"
    "\<And>a b c. ve_mergeSpec env a b = Inr c \<Longrightarrow> dp_meta c = dp_meta a"
    "createOrUpdateDeployment env p h w = (Ret (), w')" "sh_kSink h w = Ret injected"
  shows "\<exists>n d. sh_replicas h = Ret n \<and>
    c_get (k_deployments (ve_cluster env)) w' (pf_namespace p) (sh_serviceName h) = Inr d \<and>
    dp_replicas d = Some (if injected then n else 0)"
proof -
  obtain n ps r where d: "sh_replicas h = Ret n"
    "up_deployment (ve_up env) w (component_deployment p h)
       (\<lambda>w live. (service_mutate env (desired_deployment p h (if injected then n else 0) ps) live, w)) = (Ret r, w')"
    using deployment_pass[OF assms(3,4)] .
  have "\<exists>y. c_get (k_deployments (ve_cluster env)) w' (om_namespace (dp_meta (component_deployment p h)))
      (om_name (dp_meta (component_deployment p h))) = Inr y \<and> dp_replicas y = Some (if injected then n else 0)"
  proof (rule object_upsert.stored_satisfies[OF assms(1) d(2)])
    show "(om_namespace (dp_meta u), om_name (dp_meta u)) = (om_namespace (dp_meta z), om_name (dp_meta z)) \<and>
        dp_replicas u = Some (if injected then n else 0)"
      if u: "service_mutate env (desired_deployment p h (if injected then n else 0) ps) z = Ret u" for z u
      using service_mutate_view[of env, OF _ u] assms(2) by (simp add: desired_deployment_def)
  qed
  then show ?thesis using d(1) by (simp add: component_deployment_def component_meta_def new_meta_def)
qed
text \<open>A failure to read the sink binding of the job service is not reported: the pass over its deployment then ends
  without an error and without having touched the deployment, which may not even exist.\<close>

theorem sink_check_error_ignored:
  assumes "js_GetSink p = Ret (Some s)"
    "CheckKSinkInjected (ve_cluster env) (js_GetServiceName p) (pf_namespace p) w = Inl e"
    "obind (sh_persistence (NewJobServiceHandler env p) (service_container (NewJobServiceHandler env p)))
       (sh_mergeContainer (NewJobServiceHandler env p)) = Ret c"
  shows "createOrUpdateDeployment env p (NewJobServiceHandler env p) w = (Ret (), w)"
proof -
  have "sh_kSink (NewJobServiceHandler env p) w = Fail e"
    using assms(1,2) by (simp add: NewJobServiceHandler_def js_CheckKSinkInjected_def)
  moreover obtain n where "sh_replicas (NewJobServiceHandler env p) = Ret n"
    using assms(1) by (auto simp: NewJobServiceHandler_def js_GetSink_def js_GetReplicaCount_def with_spec_def split: option.splits)
  ultimately show ?thesis using assms(3) by (simp add: createOrUpdateDeployment_def)
qed

subsection \<open>The text of the properties\<close>

lemma write_properties_meta: "write_properties o1 user d live = Ret u \<Longrightarrow> cm_meta u = cm_meta live"
  by (auto simp: write_properties_def obind_def split: option.splits outcome.splits)

text \<open>The properties of a service belong to the operator: after a pass over the config map the file holds the text made
  from the platform alone, whatever was in it, and the other keys of the config map are as they were.\<close>

theorem service_properties_restored:
  assumes "object_upsert (up_configMap (ve_up env)) (k_configMaps (ve_cluster env)) cm_meta"
    "createOrUpdateConfigMap env p h w = (Ret (), w')"
  shows "\<exists>d0 txt d txt' d' cm m. sh_properties h = Ret d0 \<and> service_Build (ve_props env) '''' d0 = Ret (txt, d) \<and>
    service_Build (ve_props env) txt d = Ret (txt', d') \<and>
    c_get (k_configMaps (ve_cluster env)) w' (pf_namespace p) (sh_cmName h) = Inr cm \<and> cm_data cm = Some m \<and>
    map_of m ApplicationPropertiesFileName = Some txt' \<and>
    (\<forall>key. key \<noteq> ApplicationPropertiesFileName \<longrightarrow> map_of m key =
      (case c_get (k_configMaps (ve_cluster env)) w (pf_namespace p) (sh_cmName h) of
         Inl _ \<Rightarrow> None | Inr live \<Rightarrow> map_of (map_init (cm_data live)) key))"
proof -
  obtain d0 t0 d x r where d: "sh_properties h = Ret d0" "service_Build (ve_props env) '''' d0 = Ret (t0, d)"
    and x: "x = \<lparr>cm_meta = component_meta p h (sh_cmName h), cm_data = Some [(ApplicationPropertiesFileName, t0)]\<rparr>"
    and up: "up_configMap (ve_up env) w x (\<lambda>w live. (write_properties (ve_props env) t0 d live, w)) = (Ret r, w')"    using assms(2)
    by (cases "sh_properties h"; cases "service_Build (ve_props env) '''' (case sh_properties h of Ret d0 \<Rightarrow> d0)")
      (auto simp: createOrUpdateConfigMap_def Let_def owned_Ret done_unit_Ret)
  have n: "om_namespace (cm_meta x) = pf_namespace p" "om_name (cm_meta x) = sh_cmName h"
    by (simp_all add: x component_meta_def new_meta_def)
  obtain y op where ry: "r = (y, op)" by (cases r)
  let ?z = "case c_get (k_configMaps (ve_cluster env)) w (pf_namespace p) (sh_cmName h) of Inr z \<Rightarrow> z | Inl _ \<Rightarrow> x"
  have z: "write_properties (ve_props env) t0 d ?z = Ret y"
      "c_get (k_configMaps (ve_cluster env)) w' (pf_namespace p) (sh_cmName h) = Inr y"
    using object_upsert.up_stored[OF assms(1) up[unfolded ry]] n by (simp_all add: write_properties_meta)
  obtain m t1 d' where m: "cm_data ?z = Some m" "service_Build (ve_props env) t0 d = Ret (t1, d')"
      "y = ?z\<lparr>cm_data := Some (AList.update ApplicationPropertiesFileName t1 m)\<rparr>"
    using z(1) by (cases "cm_data ?z"; cases "service_Build (ve_props env) t0 d") (auto simp: write_properties_def)  have "key \<noteq> ApplicationPropertiesFileName \<longrightarrow> map_of m key =
      (case c_get (k_configMaps (ve_cluster env)) w (pf_namespace p) (sh_cmName h) of
         Inl _ \<Rightarrow> None | Inr live \<Rightarrow> map_of (map_init (cm_data live)) key)" for key
    using m(1) x by (auto simp: map_init_def split: sum.splits)  then show ?thesis
    using d m z(2) by (intro exI[of _ d0] exI[of _ t0] exI[of _ d] exI[of _ t1] exI[of _ d'] exI[of _ y]
        exI[of _ "AList.update ApplicationPropertiesFileName t1 m"]) (auto simp: update_conv')
qed

subsection \<open>Triggers and their removal\<close>

definition listed :: "sonataflow_platform \<Rightarrow> trigger \<Rightarrow> bool" where
  "listed p t \<longleftrightarrow> (\<exists>r\<in>set (pf_triggers p). nr_name r = om_name (tg_meta t) \<and> nr_namespace r = om_namespace (tg_meta t)) \<and>
    (om_namespace (tg_meta t) \<noteq> pf_namespace p \<longrightarrow> ContainsFinalizer (pf_meta p) TriggerFinalizer)"

lemma attach_trigger_frame:
  assumes "attach_trigger env p t w = (e, q, w')"
  shows "pf_triggers q = pf_triggers p" "pf_namespace q = pf_namespace p"
    "ContainsFinalizer (pf_meta p) TriggerFinalizer \<Longrightarrow> ContainsFinalizer (pf_meta q) TriggerFinalizer"
    "om_namespace (tg_meta t) \<noteq> pf_namespace q \<Longrightarrow> ContainsFinalizer (pf_meta q) TriggerFinalizer"
  using assms
  by (auto simp: attach_trigger_def setSonataFlowPlatformFinalizer_def Let_def AddFinalizer_def ContainsFinalizer_def
      pf_namespace_def list_ex_iff split: if_splits prod.splits)

lemma add_to_list_lists:
  "om_namespace (tg_meta t) \<noteq> pf_namespace p \<longrightarrow> ContainsFinalizer (pf_meta p) TriggerFinalizer \<Longrightarrow>
    listed (addToSonataFlowPlatformTriggerList p t) t"
  "listed p t' \<Longrightarrow> listed (addToSonataFlowPlatformTriggerList p t) t'"
  by (auto simp: listed_def addToSonataFlowPlatformTriggerList_def Let_def list_ex_iff pf_namespace_def)

lemma create_triggers_lists:
  "create_triggers env ts p w = (Ret (), q, w') \<Longrightarrow> (\<And>t. t \<in> T \<Longrightarrow> listed p t) \<Longrightarrow> t \<in> T \<union> set ts \<Longrightarrow> listed q t"
proof (induction ts arbitrary: p w T)
  case (Cons t0 ts)
  obtain p1 w1 where a: "attach_trigger env p t0 w = (None, p1, w1)"
    using Cons.prems(1) by (auto split: prod.splits option.splits)
  obtain r w2 where u: "ve_trigger env w1 t0 (\<lambda>w live. (Ret (t0\<lparr>tg_meta := tg_meta live\<rparr>), w)) = (Ret r, w2)"
    and rest: "create_triggers env ts (addToSonataFlowPlatformTriggerList p1 t0) w2 = (Ret (), q, w')"
    using Cons.prems(1) a by (auto split: prod.splits outcome.splits)
  have "listed p1 t'" if "t' \<in> T" for t'
    using Cons.prems(2)[OF that] attach_trigger_frame[OF a] by (auto simp: listed_def)
  then have "listed (addToSonataFlowPlatformTriggerList p1 t0) t'" if "t' \<in> insert t0 T" for t'
    using add_to_list_lists attach_trigger_frame(4)[OF a] that by blast
  from Cons.IH[OF rest this] show ?case using Cons.prems(3) by auto
qed simp

lemma sink_binding_platform: "create_sink_binding env h p sb w = Some (ev, e, q, w') \<Longrightarrow> q = p"
  by (auto simp: create_sink_binding_def Let_def split: prod.splits outcome.splits bool.splits)


subsection \<open>Witnesses\<close>

definition ex_spec :: service_spec where
  "ex_spec = \<lparr>vp_enabled = Some True, vp_persistence = None,
     vp_podTemplate = sp_podTemplate (sf_spec (new_workflow ''ns'' ''wf'')), vp_source = None, vp_sink = None\<rparr>"

definition ex_services_platform :: sonataflow_platform where
  "ex_services_platform = (new_platform ''ns'' ''p'')\<lparr>
     pf_services := Some \<lparr>vc_dataIndex = Some ex_spec, vc_jobService = Some ex_spec\<rparr>,
     pf_broker := Some \<lparr>de_ref = Some \<lparr>kr_kind = ''Broker'', kr_namespace = ''other'', kr_name = ''b'', kr_apiVersion = ''v1''\<rparr>,
       de_uri = None\<rparr>\<rparr>"

definition ex_services_env :: "mem_world cluster \<Rightarrow> (mem_world, gomap) services_env" where
  "ex_services_env k = \<lparr>ve_cluster = k, ve_libs = ex_libs, ve_props = list_props,
     ve_url = \<lparr>ul_parse = (\<lambda>_. Inl (OtherError ''url'')), ul_query = (\<lambda>_. Inr [])\<rparr>, ve_up = mem_upserts,
     ve_trigger = client_upsert (\<lambda>w. w) (\<lambda>w _. w) (k_triggers k) tg_meta,
     ve_mergeSpec = (\<lambda>a b. Inr (b\<lparr>dp_meta := dp_meta a, dp_conditions := dp_conditions a\<rparr>))\<rparr>"

definition ex_services_world :: mem_world where
  "ex_services_world = empty_world\<lparr>mw_platforms := [ex_services_platform]\<rparr>"

definition ex_js :: "mem_world cluster \<Rightarrow> (mem_world, gomap) service_handler" where
  "ex_js k = NewJobServiceHandler (ex_services_env k) ex_services_platform"

definition ex_di :: "(mem_world, gomap) service_handler" where
  "ex_di = NewDataIndexHandler (ex_services_env mem_cluster) ex_services_platform"

definition is_ret :: "'a outcome \<times> 'w \<Rightarrow> bool" where
  "is_ret r \<longleftrightarrow> (case fst r of Ret _ \<Rightarrow> True | _ \<Rightarrow> False)"

lemma is_ret_unit: "is_ret r \<Longrightarrow> \<exists>w. r = (Ret (), w)"
  by (cases r) (auto simp: is_ret_def split: outcome.splits)

definition ex_dest :: container where
  "ex_dest = defaultFlowContainer\<lparr>ct_env := [\<lparr>ev_name = ''A'', ev_value = ''1'', ev_valueFrom = None\<rparr>]\<rparr>"

definition ex_src :: container where
  "ex_src = defaultFlowContainer\<lparr>ct_env := [\<lparr>ev_name = ''A'', ev_value = ''2'', ev_valueFrom = None\<rparr>,
     \<lparr>ev_name = ''B'', ev_value = ''3'', ev_valueFrom = None\<rparr>]\<rparr>"

theorem operator_env_wins_witness:
  "\<exists>c. mergeContainerPreservingEnvVars ex_libs ex_dest ex_src = Ret c \<and>
     map_option ev_value (find (\<lambda>e. ev_name e = ''A'') (ct_env c)) = Some ''1'' \<and>
     map_option ev_value (find (\<lambda>e. ev_name e = ''B'') (ct_env c)) = Some ''3''"
proof -
  obtain c where c: "mergeContainerPreservingEnvVars ex_libs ex_dest ex_src = Ret c"
    by (simp add: mergeContainerPreservingEnvVars_def ex_libs_def lift_sum_def)
  then show ?thesis
    using operator_env_wins[OF c, of "''A''"] operator_env_wins[OF c, of "''B''"] by (simp add: ex_dest_def ex_src_def)
qed

lemma ex_services_facts:
  "is_ret (createOrUpdateDeployment (ex_services_env mem_cluster) ex_services_platform (ex_js mem_cluster) ex_services_world)"
  "sh_kSink (ex_js mem_cluster) ex_services_world = Ret False"
  by code_simp+

lemma ex_merge_meta: "ve_mergeSpec (ex_services_env k) a b = Inr c \<Longrightarrow> dp_meta c = dp_meta a"
  by (auto simp: ex_services_env_def)

theorem no_replicas_without_sink_witness:
  "\<exists>w' d. createOrUpdateDeployment (ex_services_env mem_cluster) ex_services_platform (ex_js mem_cluster) ex_services_world =
       (Ret (), w') \<and>
     c_get (k_deployments mem_cluster) w' ''ns'' ''p-jobs-service'' = Inr d \<and> dp_replicas d = Some 0"
proof -
  obtain w' where w: "createOrUpdateDeployment (ex_services_env mem_cluster) ex_services_platform (ex_js mem_cluster) ex_services_world
      = (Ret (), w')"
    using is_ret_unit[OF ex_services_facts(1)] by blast
  have u: "object_upsert (up_deployment (ve_up (ex_services_env mem_cluster))) (k_deployments (ve_cluster (ex_services_env mem_cluster))) dp_meta"
    unfolding ex_services_env_def services_env.simps by (rule mem_deployments.object_upsert_axioms)
  have n: "sh_serviceName (ex_js mem_cluster) = ''p-jobs-service''" "pf_namespace ex_services_platform = ''ns''"
      "ve_cluster (ex_services_env k) = k" for k
    by (simp_all add: ex_js_def NewJobServiceHandler_def js_GetServiceName_def JobServiceName_def ex_services_platform_def
        new_platform_def pf_name_def pf_namespace_def new_meta_def ex_services_env_def)
  show ?thesis
    using no_replicas_without_sink[OF u ex_merge_meta w ex_services_facts(2)] w by (auto simp: n)
qed

lemma list_props_build: "\<exists>t d'. service_Build list_props u d = Ret (t, d')"
proof -
  obtain i where i: "po_load list_props immutableApplicationProperties = Some i" by (simp add: list_props_def)
  have "po_load list_props u \<noteq> None" by (simp add: list_props_def)
  then show ?thesis
    using i by (cases "build_properties list_props (Some (load_user list_props u)) (Some i) (Some d)") (simp add: service_Build_def)
qed

lemma ex_services_props:
  "\<exists>w'. createOrUpdateConfigMap (ex_services_env mem_cluster) ex_services_platform ex_di ex_services_world = (Ret (), w')"
proof -
  obtain d0 where p: "sh_properties ex_di = Ret d0" by (simp add: ex_di_def NewDataIndexHandler_def)
  have o1: "ve_props (ex_services_env mem_cluster) = list_props" "ve_up (ex_services_env mem_cluster) = mem_upserts"
    "lb_setOwner (ve_libs (ex_services_env mem_cluster)) a b = None" for a b
    by (simp_all add: ex_services_env_def ex_libs_def)
  obtain t d where b: "service_Build list_props '''' d0 = Ret (t, d)" using list_props_build by blast
  obtain t' d' where b': "service_Build list_props t d = Ret (t', d')" using list_props_build by blast
  have none: "mw_configMaps ex_services_world = []" by (simp add: ex_services_world_def empty_world_fields)
  show ?thesis
    using b b' none
    by (simp add: createOrUpdateConfigMap_def p o1 owned_def done_unit_def write_properties_def mem_upserts_def Let_def
        client_upsert_def mem_cluster_fields mem_of_ops)
qed

theorem service_properties_restored_witness:
  "\<exists>w' cm m. createOrUpdateConfigMap (ex_services_env mem_cluster) ex_services_platform ex_di ex_services_world = (Ret (), w') \<and>
     c_get (k_configMaps mem_cluster) w' ''ns'' ''p-data-index-service-props'' = Inr cm \<and> cm_data cm = Some m \<and>
     map_of m ApplicationPropertiesFileName \<noteq> None"
proof -
  obtain w' where w: "createOrUpdateConfigMap (ex_services_env mem_cluster) ex_services_platform ex_di ex_services_world = (Ret (), w')"
    using ex_services_props by blast
  have u: "object_upsert (up_configMap (ve_up (ex_services_env mem_cluster))) (k_configMaps (ve_cluster (ex_services_env mem_cluster))) cm_meta"
    unfolding ex_services_env_def services_env.simps by (rule mem_configMaps.object_upsert_axioms)
  have n: "sh_cmName ex_di = ''p-data-index-service-props''" "pf_namespace ex_services_platform = ''ns''"
      "ve_cluster (ex_services_env mem_cluster) = mem_cluster"
    by (simp_all add: ex_di_def NewDataIndexHandler_def di_GetServiceCmName_def di_GetServiceName_def DataIndexServiceName_def
        ex_services_platform_def new_platform_def pf_name_def pf_namespace_def new_meta_def ex_services_env_def)
  from service_properties_restored[OF u w, unfolded n] w show ?thesis by blast
qed

text \<open>A cluster whose sink bindings cannot be read.\<close>

definition ex_blind_cluster :: "mem_world cluster" where
  "ex_blind_cluster = mem_cluster\<lparr>k_sinkBindings := (k_sinkBindings mem_cluster)\<lparr>c_get := (\<lambda>_ _ _. Inl (OtherError ''timeout''))\<rparr>\<rparr>"

theorem sink_check_error_ignored_witness:
  "createOrUpdateDeployment (ex_services_env ex_blind_cluster) ex_services_platform (ex_js ex_blind_cluster) ex_services_world =
     (Ret (), ex_services_world)"
proof -
  have s: "\<exists>s. js_GetSink ex_services_platform = Ret (Some s)"
    by (simp add: js_GetSink_def js_spec_def ex_services_platform_def ex_spec_def GetPlatformBroker_def)
  have c: "CheckKSinkInjected (ve_cluster (ex_services_env ex_blind_cluster)) n m w = Inl (OtherError ''timeout'')" for n m w
    by (simp add: CheckKSinkInjected_def ex_services_env_def ex_blind_cluster_def)
  have h: "\<exists>c. obind (sh_persistence (ex_js ex_blind_cluster) (service_container (ex_js ex_blind_cluster)))
      (sh_mergeContainer (ex_js ex_blind_cluster)) = Ret c"
    by (simp add: ex_js_def NewJobServiceHandler_def js_ConfigurePersistence_def has_postgresql_def js_spec_def with_spec_def
        ex_services_platform_def ex_spec_def mergeContainerPreservingEnvVars_def ex_services_env_def ex_libs_def lift_sum_def)
  show ?thesis
    using s h sink_check_error_ignored[OF _ c, of ex_services_platform] unfolding ex_js_def by blast
qed

definition pass_clean :: "((string \<times> string \<times> string) option \<times> kerror option \<times> sonataflow_platform \<times> mem_world) option \<Rightarrow> bool"
where
  "pass_clean r \<longleftrightarrow> (case r of
     Some (None, None, q, w) \<Rightarrow> fst (delete_triggers mem_cluster (pf_triggers q) w) = None | _ \<Rightarrow> False)"

lemma ex_triggers_facts:
  "pass_clean (createOrUpdateKnativeResources (ex_services_env mem_cluster) ex_di ex_services_platform ex_services_world)"
  "(case sh_knative ex_di ex_services_platform (fst (getLabels ex_services_platform ex_di)) ex_services_world of
      Ret (Inr (t # ts, sb)) \<Rightarrow> True | _ \<Rightarrow> False)"
  by code_simp+


end
