(* ===== verification/Workflow_Project.thy ===== *)
theory Workflow_Project
  imports Workflow_Objects Go_Regexp
begin

text \<open>
  Workflow projects: the conversion between a workflow of the serverless workflow specification and the custom
  resource (\<open>api/v1alpha08/conversion.go\<close>, \<open>internal/controller/workflowdef/json.go\<close>) and the library that
  makes the manifests of a project from its files (\<open>workflowproj/workflowproj.go\<close>, \<open>io.go\<close>).  The parsers, the
  YAML codecs and the file system are parameters.  Strings are ASCII; the type meta of an object (its kind
  and API version) is an argument where the code reads it.
\<close>

subsection \<open>Names\<close>

definition lower_digit :: "(nat \<times> nat) list" where "lower_digit = [(97, 122), (48, 57)]"

definition namingRegexp :: rx where
  "namingRegexp = RSeq (RSet lower_digit) (RSeq (RStar (RSeq (ROpt (rx_char (CHR ''-''))) (RSet lower_digit))) REnd)"

definition name_char :: "char \<Rightarrow> bool" where
  "name_char c \<longleftrightarrow> in_ranges lower_digit c \<or> c = CHR ''-''"

definition charLimit :: nat where "charLimit = 253"

definition TrimSpace :: "string \<Rightarrow> string" where
  "TrimSpace s = rev (dropWhile is_space (rev (dropWhile is_space s)))"

definition sanitizeNaming :: "string \<Rightarrow> string" where
  "sanitizeNaming name =
    (if name = '''' \<or> rx_after namingRegexp name \<noteq> None then name
     else take charLimit (dropWhile (\<lambda>c. c = CHR ''-'')
            (map (\<lambda>c. if name_char c then c else CHR ''-'') (TrimSpace (ToLower name)))))"

subsection \<open>The conversion\<close>

text \<open>A workflow of the specification: the fields the conversion treats itself, and the rest.\<close>

record 'b cncf_workflow =
  cw_id :: string
  cw_key :: string
  cw_name :: string
  cw_description :: string
  cw_version :: string
  cw_specVersion :: string
  cw_expressionLang :: string
  cw_body :: 'b

text \<open>The flow of a workflow and the workflow of a flow, both through YAML; the parsers of the two formats.\<close>

record 'b flow_codec =
  fc_toFlow :: "'b cncf_workflow \<Rightarrow> kerror + flow"
  fc_ofFlow :: "flow \<Rightarrow> kerror + 'b cncf_workflow"
  fc_json :: "string \<Rightarrow> kerror + 'b cncf_workflow"
  fc_yaml :: "string \<Rightarrow> kerror + 'b cncf_workflow"

definition ExpressionLang :: string where "ExpressionLang = Domain @ ''/expressionLang''"
definition VersionAnnotation :: string where "VersionAnnotation = Domain @ ''/version''"
definition Description :: string where "Description = Domain @ ''/description''"
definition KeyAnnotation :: string where "KeyAnnotation = Domain @ ''/key''"
definition DefaultExpressionLang :: string where "DefaultExpressionLang = ''jq''"

lemmas cncf_annotation_defs = ExpressionLang_def VersionAnnotation_def Description_def KeyAnnotation_def

definition extractName :: "'b cncf_workflow \<Rightarrow> string" where
  "extractName c =
    (if cw_id c \<noteq> '''' then sanitizeNaming (cw_id c)
     else if cw_key c \<noteq> '''' then sanitizeNaming (cw_key c)
     else if cw_name c \<noteq> '''' then sanitizeNaming (cw_name c) else '''')"

definition FromCNCFWorkflow :: "'b flow_codec \<Rightarrow> 'b cncf_workflow option \<Rightarrow> kerror + sonataflow" where
  "FromCNCFWorkflow fc cw =
    (case cw of
       None \<Rightarrow> Inl (OtherError ''CNCF Workflow is nil'')
     | Some c \<Rightarrow>
        (let wo = new_workflow '''' (extractName c);
             anns = [(ExpressionLang, cw_expressionLang c), (VersionAnnotation, cw_version c), (Description, cw_description c)]
         in case fc_toFlow fc c of
              Inl e \<Rightarrow> Inl e
            | Inr f \<Rightarrow> Inr (wo\<lparr>sf_meta := (sf_meta wo)\<lparr>om_annotations := Some anns\<rparr>,
                              sf_spec := (sf_spec wo)\<lparr>sp_flow := f\<rparr>\<rparr>)))"

definition extractExpressionLang :: "gomap option \<Rightarrow> string" where
  "extractExpressionLang anns =
    (if nil_map_get anns ExpressionLang \<noteq> '''' then nil_map_get anns ExpressionLang else DefaultExpressionLang)"

text \<open>\<open>path.Base\<close>: trailing slashes are removed; the base of the empty string is a dot.\<close>

definition path_Base :: "string \<Rightarrow> string" where
  "path_Base s =
    (if s = '''' then ''.''
     else let t = rev (takeWhile (\<lambda>c. c \<noteq> CHR ''/'') (dropWhile (\<lambda>c. c = CHR ''/'') (rev s)))
          in if t = '''' then ''/'' else t)"

text \<open>\<open>ReplaceAllString\<close> of an expression that matches no empty string.\<close>

function rx_replace_all :: "rx \<Rightarrow> string \<Rightarrow> string \<Rightarrow> string" where
  "rx_replace_all r new [] = []"
| "rx_replace_all r new (c # s) =
    (case rx_after r (c # s) of
       Some t \<Rightarrow> if length t \<le> length s then new @ rx_replace_all r new t else c # rx_replace_all r new s
     | None \<Rightarrow> c # rx_replace_all r new s)"
  by pat_completeness auto
termination by (relation "measure (\<lambda>(_, _, s). length s)") auto

definition crdVersionRegexp :: rx where
  "crdVersionRegexp = RSeq (rx_char (CHR ''v'')) (RSeq (RSet [(48, 57)]) (ROpt (RAlt (rx_lit ''alpha'') (rx_lit ''beta''))))"

text \<open>The first character is sliced off whatever is left of the version.\<close>

definition extractSpecVersion :: "string \<Rightarrow> string outcome" where
  "extractSpecVersion apiVersion =
    (let base = path_Base apiVersion
     in if base = '''' then Ret SpecVersion
        else (case rx_replace_all crdVersionRegexp '''' base of
                [] \<Rightarrow> Panic
              | c # s \<Rightarrow> Ret ([c] @ ''.'' @ s)))"

definition warnIfSpecVersionNotSupported :: "'b cncf_workflow \<Rightarrow> 'b cncf_workflow" where
  "warnIfSpecVersionNotSupported c = (if cw_specVersion c = '''' then c\<lparr>cw_specVersion := SpecVersion\<rparr> else c)"

definition ToCNCFWorkflow :: "'b flow_codec \<Rightarrow> string \<Rightarrow> sonataflow option \<Rightarrow> 'b cncf_workflow outcome" where
  "ToCNCFWorkflow fc apiVersion w =
    (case w of
       None \<Rightarrow> Fail (OtherError ''SonataFlow is nil'')
     | Some wo \<Rightarrow>
        (case fc_ofFlow fc (sp_flow (sf_spec wo)) of
           Inl e \<Rightarrow> Fail e
         | Inr c \<Rightarrow>
            (let anns = om_annotations (sf_meta wo)
             in case extractSpecVersion apiVersion of
                  Panic \<Rightarrow> Panic
                | Fail e \<Rightarrow> Fail e
                | Ret v \<Rightarrow> Ret (warnIfSpecVersionNotSupported
                    (c\<lparr>cw_id := sf_name wo, cw_key := nil_map_get anns KeyAnnotation,
                       cw_description := nil_map_get anns Description, cw_version := nil_map_get anns VersionAnnotation,
                       cw_specVersion := v, cw_expressionLang := extractExpressionLang anns\<rparr>)))))"

definition GetJSONWorkflow ::
  "'b flow_codec \<Rightarrow> ('b cncf_workflow \<Rightarrow> kerror + string) \<Rightarrow> string \<Rightarrow> sonataflow \<Rightarrow> string outcome" where
  "GetJSONWorkflow fc marshal apiVersion wo =
    (case ToCNCFWorkflow fc apiVersion (Some wo) of
       Panic \<Rightarrow> Panic
     | Fail e \<Rightarrow> Fail e
     | Ret c \<Rightarrow> (case marshal c of Inl e \<Rightarrow> Fail e | Inr s \<Rightarrow> Ret s))"

subsection \<open>The handler of a project\<close>

text \<open>A reader is used up by reading it.\<close>

datatype reader = Reader string | Broken kerror

fun ReadAll :: "reader \<Rightarrow> (kerror + string) \<times> reader" where
  "ReadAll (Reader s) = (Inr s, Reader '''')"
| "ReadAll (Broken e) = (Inl e, Broken e)"

record project_handler =
  wp_name :: string
  wp_namespace :: string
  wp_profile :: string
  wp_workflow :: "sonataflow option"
  wp_properties :: "config_map option"
  wp_resources :: "config_map list"
  wp_rawWorkflow :: "reader option"
  wp_rawAppProperties :: "reader option"
  wp_rawResources :: "(string \<times> (string \<times> reader) list) list"
  wp_parsed :: bool

definition defaultResourcePath :: string where "defaultResourcePath = ''specs''"

definition NewProject :: "string \<Rightarrow> project_handler" where
  "NewProject ns =
    \<lparr>wp_name = '''', wp_namespace = ns, wp_profile = '''', wp_workflow = None, wp_properties = None, wp_resources = [],
     wp_rawWorkflow = None, wp_rawAppProperties = None, wp_rawResources = [], wp_parsed = False\<rparr>"

definition Named :: "string \<Rightarrow> project_handler \<Rightarrow> project_handler" where
  "Named n h = h\<lparr>wp_name := ToLower n, wp_parsed := False\<rparr>"

definition WithProfile :: "string \<Rightarrow> project_handler \<Rightarrow> project_handler" where
  "WithProfile p h = h\<lparr>wp_profile := p, wp_parsed := False\<rparr>"

definition WithWorkflow :: "reader \<Rightarrow> project_handler \<Rightarrow> project_handler" where
  "WithWorkflow r h = h\<lparr>wp_rawWorkflow := Some r, wp_parsed := False\<rparr>"

definition WithAppProperties :: "reader \<Rightarrow> project_handler \<Rightarrow> project_handler" where
  "WithAppProperties r h = h\<lparr>wp_rawAppProperties := Some r, wp_parsed := False\<rparr>"

definition resources_at :: "string \<Rightarrow> project_handler \<Rightarrow> (string \<times> reader) list" where
  "resources_at path h = (case map_of (wp_rawResources h) path of None \<Rightarrow> [] | Some rs \<Rightarrow> rs)"

text \<open>A resource that is there already gets the new reader, and the project stays parsed.\<close>

definition AddResourceAt :: "string \<Rightarrow> string \<Rightarrow> reader \<Rightarrow> project_handler \<Rightarrow> project_handler" where
  "AddResourceAt name path r h =
    (let rs = resources_at path h
     in if list_ex (\<lambda>x. fst x = name) rs
        then h\<lparr>wp_rawResources := AList.update path (AList.update name r rs) (wp_rawResources h)\<rparr>
        else h\<lparr>wp_rawResources := AList.update path (rs @ [(name, r)]) (wp_rawResources h), wp_parsed := False\<rparr>)"

definition AddResource :: "string \<Rightarrow> reader \<Rightarrow> project_handler \<Rightarrow> project_handler" where
  "AddResource name r h = AddResourceAt name defaultResourcePath r h"

definition SetWorkflowProfile :: "string \<Rightarrow> sonataflow \<Rightarrow> sonataflow" where
  "SetWorkflowProfile p wo = wo\<lparr>sf_meta := (sf_meta wo)
     \<lparr>om_annotations := Some (AList.update Profile p (map_init (om_annotations (sf_meta wo))))\<rparr>\<rparr>"

text \<open>The image goes to the workflow of the parsed project; without one it is a nil dereference.\<close>

definition Image :: "string \<Rightarrow> project_handler \<Rightarrow> project_handler option" where
  "Image img h =
    map_option (\<lambda>wo. h\<lparr>wp_workflow := Some (wo\<lparr>sf_spec := (sf_spec wo)\<lparr>sp_podTemplate := (sp_podTemplate (sf_spec wo))
      \<lparr>pt_container := (pt_container (sp_podTemplate (sf_spec wo)))\<lparr>ct_image := img\<rparr>\<rparr>\<rparr>\<rparr>)\<rparr>) (wp_workflow h)"

subsection \<open>Kinds of resources\<close>

datatype resource_kind = OpenApiResource | AsyncApiResource | CamelRouteResource | GenericResource

text \<open>The parsers the kind is found with: the document of an API, and whether it is an asynchronous one; the schema of
  Camel routes; the decoder of the contents and the validation of its value.\<close>

record 'v resource_parsers =
  rp_newDocument :: "string \<Rightarrow> kerror + bool"
  rp_camelSchema :: "kerror option"
  rp_decode :: "string \<Rightarrow> kerror + 'v"
  rp_validate :: "'v \<Rightarrow> kerror option"

definition validateCamelRoute :: "'v resource_parsers \<Rightarrow> string \<Rightarrow> kerror option" where
  "validateCamelRoute rp contents =
    (case rp_camelSchema rp of
       Some e \<Rightarrow> Some e
     | None \<Rightarrow> (case rp_decode rp contents of Inl e \<Rightarrow> Some e | Inr v \<Rightarrow> rp_validate rp v))"

definition ParseResourceKind :: "'v resource_parsers \<Rightarrow> string \<Rightarrow> resource_kind" where
  "ParseResourceKind rp contents =
    (if contents = '''' then GenericResource
     else case rp_newDocument rp contents of
            Inr async \<Rightarrow> if async then AsyncApiResource else OpenApiResource
          | Inl _ \<Rightarrow> (if validateCamelRoute rp contents = None then CamelRouteResource else GenericResource))"

subsection \<open>Parsing\<close>

definition project_workflow :: "project_handler \<Rightarrow> sonataflow \<Rightarrow> sonataflow" where
  "project_workflow h wo =
    (let wo = wo\<lparr>sf_meta := (sf_meta wo)\<lparr>om_name := wp_name h, om_namespace := wp_namespace h\<rparr>\<rparr>;
         wo = SetWorkflowProfile (if wp_profile h \<noteq> '''' then wp_profile h else DevProfile) wo
     in wo\<lparr>sf_meta := SetMergedLabels wo (sf_meta wo)\<rparr>)"

text \<open>The error of the conversion is not looked at before its nil result is used.\<close>

definition parseRawWorkflow :: "'b flow_codec \<Rightarrow> project_handler \<Rightarrow> unit outcome \<times> project_handler" where
  "parseRawWorkflow fc h =
    (case wp_rawWorkflow h of
       None \<Rightarrow> (Panic, h)
     | Some r \<Rightarrow>
        (case ReadAll r of
           (Inl e, r) \<Rightarrow> (Fail e, h\<lparr>wp_rawWorkflow := Some r\<rparr>)
         | (Inr s, r) \<Rightarrow>
            (let h = h\<lparr>wp_rawWorkflow := Some r\<rparr>
             in case (case fc_json fc s of Inr c \<Rightarrow> Inr c | Inl _ \<Rightarrow> fc_yaml fc s) of
                  Inl e \<Rightarrow> (Fail (OtherError (''Failed to parse the workflow either as a JSON or as a YAML file: '' @ error_text e)), h)
                | Inr c \<Rightarrow>
                   (let h = (if wp_name h = '''' then h\<lparr>wp_name := ToLower (cw_id c)\<rparr> else h)
                    in case FromCNCFWorkflow fc (Some c) of
                         Inl e \<Rightarrow> (Panic, h\<lparr>wp_workflow := None\<rparr>)
                       | Inr wo \<Rightarrow> (Ret (), h\<lparr>wp_workflow := Some (project_workflow h wo)\<rparr>)))))"

definition parseRawAppProperties :: "project_handler \<Rightarrow> unit outcome \<times> project_handler" where
  "parseRawAppProperties h =
    (case (wp_rawAppProperties h, wp_workflow h) of
       (None, _) \<Rightarrow> (Ret (), h)
     | (Some r, w) \<Rightarrow>
        (case ReadAll r of
           (Inl e, r) \<Rightarrow> (Fail e, h\<lparr>wp_rawAppProperties := Some r\<rparr>)
         | (Inr s, r) \<Rightarrow>
            (let h = h\<lparr>wp_rawAppProperties := Some r\<rparr>
             in case w of
                  None \<Rightarrow> (Panic, h)
                | Some wo \<Rightarrow>
                   (Ret (), h\<lparr>wp_properties := Some ((CreateNewUserPropsConfigMap wo)
                      \<lparr>cm_data := Some [(ApplicationPropertiesFileName, s)]\<rparr>)\<rparr>))))"

fun read_resources :: "(string \<times> reader) list \<Rightarrow> gomap \<Rightarrow> (kerror + gomap) \<times> (string \<times> reader) list" where
  "read_resources [] m = (Inr m, [])"
| "read_resources ((n, r) # rs) m =
    (case ReadAll r of
       (Inl e, r) \<Rightarrow> (Inl e, (n, r) # rs)
     | (Inr s, r) \<Rightarrow>
        if s = '''' then
          (Inl (OtherError (''Content for the resource '' @ n @
             '' is empty. Can'' @ [CHR 0x27] @ ''t add an empty resource to the workflow project'')), (n, r) # rs)
        else (case read_resources rs (AList.update n s m) of (x, rs) \<Rightarrow> (x, (n, r) # rs)))"

definition resource_name :: "nat \<Rightarrow> string \<Rightarrow> string \<Rightarrow> string" where
  "resource_name i name path = pad2 (int i) @ ''-'' @ name @ ''-resources-'' @ path"

definition addResourceConfigMapToProject :: "config_map \<Rightarrow> string \<Rightarrow> project_handler \<Rightarrow> project_handler option" where
  "addResourceConfigMapToProject cm path h =
    (if cm_data cm = None then Some h
     else map_option (\<lambda>wo. h\<lparr>wp_workflow := Some (wo\<lparr>sf_spec := (sf_spec wo)\<lparr>sp_resources :=
              sp_resources (sf_spec wo) @ [\<lparr>cr_configMap = om_name (cm_meta cm), cr_workflowPath = path\<rparr>]\<rparr>\<rparr>),
              wp_resources := wp_resources h @ [cm]\<rparr>) (wp_workflow h))"

fun parse_paths :: "nat \<Rightarrow> string list \<Rightarrow> project_handler \<Rightarrow> unit outcome \<times> project_handler" where
  "parse_paths i [] h = (Ret (), h)"
| "parse_paths i (p # ps) h =
    (case read_resources (resources_at p h) [] of
       (x, rs) \<Rightarrow>
         (let h = h\<lparr>wp_rawResources := AList.update p rs (wp_rawResources h)\<rparr>
          in case x of
               Inl e \<Rightarrow> (Fail e, h)
             | Inr m \<Rightarrow>
                (case addResourceConfigMapToProject
                        \<lparr>cm_meta = new_meta (wp_namespace h) (resource_name i (wp_name h) p), cm_data = Some m\<rparr> p h of
                   None \<Rightarrow> (Panic, h)
                 | Some h \<Rightarrow> parse_paths (Suc i) ps h)))"

definition parseRawResources :: "project_handler \<Rightarrow> unit outcome \<times> project_handler" where
  "parseRawResources h = parse_paths 1 (sort (map fst (wp_rawResources h))) h"

definition parseRawProject :: "'b flow_codec \<Rightarrow> project_handler \<Rightarrow> unit outcome \<times> project_handler" where
  "parseRawProject fc h =
    (if wp_parsed h then (Ret (), h)
     else if wp_rawWorkflow h = None
     then (Fail (OtherError ''A workflow reader pointer is required when building Workflow projects''), h)
     else case parseRawWorkflow fc h of
       (Ret _, h) \<Rightarrow>
         (case parseRawAppProperties h of
            (Ret _, h) \<Rightarrow>
              (case parseRawResources h of
                 (Ret _, h) \<Rightarrow> (Ret (), h\<lparr>wp_parsed := True\<rparr>)
               | (x, h) \<Rightarrow> (x, h))
          | (x, h) \<Rightarrow> (x, h))
     | (x, h) \<Rightarrow> (x, h))"

type_synonym project = "sonataflow option \<times> config_map option \<times> config_map list"

definition AsObjects :: "'b flow_codec \<Rightarrow> project_handler \<Rightarrow> project outcome \<times> project_handler" where
  "AsObjects fc h =
    (case parseRawProject fc h of
       (Ret _, h) \<Rightarrow> (Ret (wp_workflow h, wp_properties h, wp_resources h), h)
     | (Fail e, h) \<Rightarrow> (Fail e, h)
     | (Panic, h) \<Rightarrow> (Panic, h))"

subsection \<open>Manifest files\<close>

datatype manifest = ConfigMapManifest config_map | WorkflowManifest sonataflow

text \<open>The file system: making a directory with its parents, joining paths, writing a file; and YAML.\<close>

record 'w filesystem =
  fs_mkdirAll :: "'w \<Rightarrow> string \<Rightarrow> kerror option \<times> 'w"
  fs_join :: "string \<Rightarrow> string \<Rightarrow> string"
  fs_write :: "'w \<Rightarrow> string \<Rightarrow> string \<Rightarrow> kerror option \<times> 'w"
  fs_yaml :: "manifest \<Rightarrow> kerror + string"

definition manifest_file :: "nat \<Rightarrow> manifest \<Rightarrow> string" where
  "manifest_file i m = ToLower (pad2 (int i) @ ''-'' @
     (case m of ConfigMapManifest cm \<Rightarrow> ''ConfigMap_'' @ om_name (cm_meta cm) | WorkflowManifest wo \<Rightarrow> ''SonataFlow_'' @ sf_name wo) @
     ''.yaml'')"

definition saveAsKubernetesManifest :: "'w filesystem \<Rightarrow> manifest \<Rightarrow> string \<Rightarrow> nat \<Rightarrow> 'w \<Rightarrow> kerror option \<times> 'w" where
  "saveAsKubernetesManifest fs m path i w =
    (case fs_yaml fs m of
       Inl e \<Rightarrow> (Some e, w)
     | Inr s \<Rightarrow> fs_write fs w (fs_join fs path (manifest_file i m)) s)"

fun save_all :: "'w filesystem \<Rightarrow> string \<Rightarrow> nat \<Rightarrow> manifest list \<Rightarrow> 'w \<Rightarrow> kerror option \<times> 'w" where
  "save_all fs path i [] w = (None, w)"
| "save_all fs path i (m # ms) w =
    (case saveAsKubernetesManifest fs m path i w of
       (Some e, w) \<Rightarrow> (Some e, w)
     | (None, w) \<Rightarrow> save_all fs path (Suc i) ms w)"

text \<open>The properties come first, then the resources and last the workflow; the saving of a nil workflow does nothing.\<close>

definition project_manifests :: "project_handler \<Rightarrow> manifest list" where
  "project_manifests h =
    (case wp_properties h of None \<Rightarrow> [] | Some cm \<Rightarrow> [ConfigMapManifest cm]) @ map ConfigMapManifest (wp_resources h) @
    (case wp_workflow h of None \<Rightarrow> [] | Some wo \<Rightarrow> [WorkflowManifest wo])"

definition SaveAsKubernetesManifests ::
  "'b flow_codec \<Rightarrow> 'w filesystem \<Rightarrow> string \<Rightarrow> project_handler \<Rightarrow> 'w \<Rightarrow> unit outcome \<times> project_handler \<times> 'w" where
  "SaveAsKubernetesManifests fc fs path h w =
    (case fs_mkdirAll fs w path of
       (Some e, w) \<Rightarrow> (Fail e, h, w)
     | (None, w) \<Rightarrow>
        (case parseRawProject fc h of
           (Panic, h) \<Rightarrow> (Panic, h, w)
         | (Fail e, h) \<Rightarrow> (Fail e, h, w)
         | (Ret _, h) \<Rightarrow>
            (case save_all fs path 1 (project_manifests h) w of
               (Some e, w) \<Rightarrow> (Fail e, h, w)
             | (None, w) \<Rightarrow> (Ret (), h, w))))"

subsection \<open>Names of workflows\<close>

text \<open>What the expression for names describes: letters and digits, with single dashes between them.\<close>

fun dash_groups :: "string \<Rightarrow> bool" where
  "dash_groups [] \<longleftrightarrow> True"
| "dash_groups (c # s) \<longleftrightarrow>
    (if c = CHR ''-'' then (case s of [] \<Rightarrow> False | d # t \<Rightarrow> in_ranges lower_digit d \<and> dash_groups t)
     else in_ranges lower_digit c \<and> dash_groups s)"

definition dashed_name :: "string \<Rightarrow> bool" where
  "dashed_name s \<longleftrightarrow> s \<noteq> '''' \<and> hd s \<noteq> CHR ''-'' \<and> dash_groups s"

abbreviation name_group :: rx where
  "name_group \<equiv> RSeq (ROpt (rx_char (CHR ''-''))) (RSet lower_digit)"

lemma dash_not_lower_digit [simp]: "\<not> in_ranges lower_digit (CHR ''-'')"
  by (simp add: in_ranges_def lower_digit_def)

lemma in_dash [simp]: "in_ranges [(45, 45)] c \<longleftrightarrow> c = CHR ''-''"
proof -
  have "c = CHR ''-''" if "of_char c = (45 :: nat)"
  proof -
    have "c = char_of (of_char c :: nat)" by simp
    then show ?thesis unfolding that by (simp add: char_of_def bit_numeral_rec bit_Suc_0_iff)
  qed
  then show ?thesis by (auto simp: in_ranges_def)
qed

lemma rx_dash: "rx_char (CHR ''-'') = RSet [(45, 45)]" by (simp add: rx_char_def)

lemma dash_groups_loop:
  assumes "dash_groups s" "length s \<le> n"
  shows "star_loop (rx_match name_group) n s (\<lambda>t. rx_match REnd t Some) = Some []"
  using assms
proof (induction n arbitrary: s)
  case 0 then show ?case by simp
next
  case (Suc n)
  show ?case
  proof (cases s)
    case Nil then show ?thesis by (simp add: ROpt_def rx_dash)
  next
    case (Cons c t)
    show ?thesis
    proof (cases "c = CHR ''-''")
      case True
      then obtain d u where "t = d # u" "in_ranges lower_digit d" "dash_groups u"
        using Suc.prems(1) Cons by (auto split: list.splits)
      then show ?thesis using Suc.IH[of u] Suc.prems(2) True Cons by (simp add: ROpt_def rx_dash)
    next
      case False
      then show ?thesis using Suc.IH[of t] Suc.prems Cons by (simp add: ROpt_def rx_dash)
    qed
  qed
qed

lemma name_group_lang: "u \<in> lang name_group \<Longrightarrow> dash_groups v \<Longrightarrow> dash_groups (u @ v)"
  by (auto simp: ROpt_def rx_dash)

lemma star_group_lang: "u \<in> star_lang (lang name_group) \<Longrightarrow> dash_groups u"
  by (induction rule: star_lang.induct) (simp, blast intro: name_group_lang)

lemma namingRegexp_iff: "rx_after namingRegexp s \<noteq> None \<longleftrightarrow> dashed_name s"
proof
  assume "dashed_name s"
  then obtain c t where s: "s = c # t" and c: "c \<noteq> CHR ''-''" "dash_groups (c # t)"
    by (cases s) (auto simp: dashed_name_def)
  then have "in_ranges lower_digit c" "dash_groups t" by auto
  then show "rx_after namingRegexp s \<noteq> None"
    using dash_groups_loop[of t "length t"] by (simp add: rx_after_def namingRegexp_def s)
next
  assume "rx_after namingRegexp s \<noteq> None"
  then obtain x where "rx_match (RSet lower_digit) s (\<lambda>t. rx_match (RStar name_group) t (\<lambda>t. rx_match REnd t Some)) = Some x"
    by (auto simp: rx_after_def namingRegexp_def)
  from rx_match_sound[OF this] obtain c t where s: "s = c # t" "in_ranges lower_digit c"
    and m: "rx_match (RStar name_group) t (\<lambda>t. rx_match REnd t Some) = Some x" by auto
  from rx_match_sound[OF m] obtain u v where u: "t = u @ v" "u \<in> lang (RStar name_group)" "rx_match REnd v Some = Some x"
    by blast
  have "v = []" using u(3) by (simp split: if_splits)
  moreover have "dash_groups u" using u(2) star_group_lang by simp
  ultimately show "dashed_name s" using s u(1) dash_not_lower_digit by (auto simp: dashed_name_def)
qed

lemma dash_groups_chars: "dash_groups s \<Longrightarrow> list_all name_char s"
  by (induction s rule: dash_groups.induct) (auto simp: name_char_def split: if_splits list.splits)

lemma name_char_lower: "name_char c \<Longrightarrow> lower_char c = c"
  by (auto simp: name_char_def in_ranges_def lower_digit_def lower_char_def)

lemma dropWhile_id: "list_all (\<lambda>c. \<not> P c) s \<Longrightarrow> dropWhile P s = s"
  by (cases s) auto

lemma name_char_not_space: "name_char c \<Longrightarrow> \<not> is_space c"
  by (auto simp: name_char_def in_ranges_def lower_digit_def is_space_def Let_def)

lemma TrimSpace_id: "list_all name_char s \<Longrightarrow> TrimSpace s = s"
proof -
  assume "list_all name_char s"
  then have "list_all (\<lambda>c. \<not> is_space c) s" by (auto simp: list_all_iff name_char_not_space)
  then show ?thesis by (simp add: TrimSpace_def dropWhile_id list_all_iff)
qed

lemma ToLower_id: "list_all name_char s \<Longrightarrow> ToLower s = s"
  by (simp add: ToLower_def list_all_iff name_char_lower map_idI)

lemma hd_dropWhile_not: "dropWhile P s \<noteq> [] \<Longrightarrow> \<not> P (hd (dropWhile P s))"
  by (rule hd_dropWhile)

lemma dropWhile_dash: "s = [] \<or> hd s \<noteq> CHR ''-'' \<Longrightarrow> dropWhile (\<lambda>c. c = CHR ''-'') s = s"
  by (cases s) auto

lemma hd_take_not: "d = [] \<or> hd d \<noteq> c \<Longrightarrow> take n d = [] \<or> hd (take n d) \<noteq> c"
  by (cases d; cases n) auto

lemma sanitizeNaming_same: "n = '''' \<or> dashed_name n \<Longrightarrow> sanitizeNaming n = n"
  unfolding sanitizeNaming_def by (rule if_P) (use namingRegexp_iff[of n] in blast)

lemma sanitizeNaming_shape:
  "list_all name_char (sanitizeNaming n) \<and> (sanitizeNaming n = '''' \<or> hd (sanitizeNaming n) \<noteq> CHR ''-'')
    \<and> (length (sanitizeNaming n) \<le> charLimit \<or> sanitizeNaming n = n \<and> dashed_name n)"
proof (cases "n = '''' \<or> dashed_name n")
  case True
  then have "sanitizeNaming n = n" by (rule sanitizeNaming_same)
  then show ?thesis using True by (auto simp: dashed_name_def dash_groups_chars)
next
  case False
  let ?m = "map (\<lambda>c. if name_char c then c else CHR ''-'') (TrimSpace (ToLower n))"
  let ?d = "dropWhile (\<lambda>c. c = CHR ''-'') ?m"
  have s: "sanitizeNaming n = take charLimit ?d"
    unfolding sanitizeNaming_def by (rule if_not_P) (use False namingRegexp_iff[of n] in blast)
  have "list_all name_char ?m" by (auto simp: list_all_iff name_char_def)
  then have "list_all name_char (take charLimit ?d)"
    unfolding list_all_iff by (blast dest: in_set_takeD set_dropWhileD)
  moreover have "?d = [] \<or> hd ?d \<noteq> CHR ''-''" using hd_dropWhile_not by blast
  moreover have "take charLimit ?d = [] \<or> hd (take charLimit ?d) \<noteq> CHR ''-''"
    using calculation(2) by (rule hd_take_not)
  ultimately show ?thesis unfolding s by simp
qed

lemma sanitizeNaming_kept:
  assumes m: "list_all name_char m" "m = '''' \<or> hd m \<noteq> CHR ''-''" "length m \<le> charLimit"
  shows "sanitizeNaming m = m"
proof -
  have "map (\<lambda>c. if name_char c then c else CHR ''-'') m = m" using m(1) by (simp add: list_all_iff map_idI)
  then show ?thesis by (simp add: sanitizeNaming_def ToLower_id[OF m(1)] TrimSpace_id[OF m(1)] dropWhile_dash[OF m(2)] m(3))
qed

lemma sanitizeNaming_idem: "sanitizeNaming (sanitizeNaming n) = sanitizeNaming n"
  using sanitizeNaming_shape[of n] sanitizeNaming_kept sanitizeNaming_same by metis

text \<open>Sanitizing once is enough, and the result is a name of the expression unless it ends with a dash or has two
  dashes in a row: the cutting and the replacing of characters are not followed by a second look.\<close>

theorem sanitized_names:
  "sanitizeNaming (sanitizeNaming n) = sanitizeNaming n
    \<and> list_all name_char (sanitizeNaming n) \<and> (sanitizeNaming n = '''' \<or> hd (sanitizeNaming n) \<noteq> CHR ''-'')
    \<and> (sanitizeNaming n = n \<longleftrightarrow> n = '''' \<or> dashed_name n
         \<or> list_all name_char n \<and> hd n \<noteq> CHR ''-'' \<and> length n \<le> charLimit)
    \<and> (length (sanitizeNaming n) \<le> charLimit \<or> sanitizeNaming n = n \<and> dashed_name n)"
proof -
  note sh = sanitizeNaming_shape[of n]
  have "sanitizeNaming n = n \<longleftrightarrow> n = '''' \<or> dashed_name n
         \<or> list_all name_char n \<and> hd n \<noteq> CHR ''-'' \<and> length n \<le> charLimit"
    using sh sanitizeNaming_kept sanitizeNaming_same by metis
  then show ?thesis using sh sanitizeNaming_idem by fastforce
qed

lemma sanitized_names_example:
  "sanitizeNaming '' Hello World! '' = ''hello-world-''" "\<not> dashed_name ''hello-world-''"
  by code_simp+

subsection \<open>Converting there and back\<close>

text \<open>What the conversion relies on: the flow of a workflow is made from its body alone, and the workflow read back
  from the flow has that body and none of the fields that a flow does not have.\<close>

definition flow_keeps_body :: "'b flow_codec \<Rightarrow> bool" where
  "flow_keeps_body fc \<longleftrightarrow>
    (\<forall>c d. cw_body c = cw_body d \<longrightarrow> fc_toFlow fc c = fc_toFlow fc d) \<and>
    (\<forall>c f. fc_toFlow fc c = Inr f \<longrightarrow> (\<exists>d. fc_ofFlow fc f = Inr d \<and> cw_body d = cw_body c \<and> cw_name d = ''''))"

lemma path_Base_last:
  assumes "list_all (\<lambda>c. c \<noteq> CHR ''/'') v" "v \<noteq> ''''"
  shows "path_Base (g @ ''/'' @ v) = v"
proof -
  let ?P = "\<lambda>c. c \<noteq> CHR ''/''"
  have all: "\<forall>c\<in>set (rev v). ?P c" using assms(1) by (simp add: list_all_iff)
  have "last v \<noteq> CHR ''/''" using assms by (simp add: list_all_iff)
  then have "dropWhile (\<lambda>c. c = CHR ''/'') (rev v @ rest) = rev v @ rest" for rest
    using assms(2) by (cases v rule: rev_cases) simp_all
  moreover have "takeWhile ?P (rev v @ CHR ''/'' # rest) = rev v" for rest
    using all takeWhile_append2[of "rev v" ?P "CHR ''/'' # rest"] by simp
  ultimately show ?thesis using assms(2) by (simp add: path_Base_def Let_def)
qed

lemma path_Base_not_Nil: "path_Base s \<noteq> ''''" by (simp add: path_Base_def Let_def)

lemma spec_version_of:
  assumes "list_all (\<lambda>c. c \<noteq> CHR ''/'') v" "v \<noteq> ''''"
  shows "extractSpecVersion (g @ ''/'' @ v) =
      (case rx_replace_all crdVersionRegexp '''' v of [] \<Rightarrow> Panic | c # s \<Rightarrow> Ret ([c] @ ''.'' @ s))"
  unfolding extractSpecVersion_def path_Base_last[OF assms] Let_def using assms(2) by simp

lemma spec_version_v1alpha08: "extractSpecVersion (g @ ''/v1alpha08'') = Ret ''0.8''"
proof -
  have "rx_replace_all crdVersionRegexp '''' ''v1alpha08'' = ''08''" by code_simp
  then show ?thesis using spec_version_of[of "''v1alpha08''" g] by simp
qed

text \<open>Only versions with something left after the stability level have a version of the specification: a stable
  version panics, and the default for an object without a version is never taken, since the base of a path is
  never empty; the answer there is two dots.\<close>

theorem spec_versions:
  "extractSpecVersion (g @ ''/v1alpha08'') = Ret ''0.8'' \<and> extractSpecVersion (g @ ''/v1beta10'') = Ret ''1.0''
    \<and> (\<forall>d\<in>set ''0123456789''. extractSpecVersion (g @ ''/v'' @ [d]) = Panic)
    \<and> extractSpecVersion '''' = Ret ''..'' \<and> SpecVersion \<noteq> ''..''"
proof (intro conjI ballI spec_version_v1alpha08)
  have "rx_replace_all crdVersionRegexp '''' ''v1beta10'' = ''10''" by code_simp
  then show "extractSpecVersion (g @ ''/v1beta10'') = Ret ''1.0''" using spec_version_of[of "''v1beta10''" g] by simp
next
  fix d assume d: "d \<in> set ''0123456789''"
  have "\<forall>d\<in>set ''0123456789''. rx_replace_all crdVersionRegexp '''' (''v'' @ [d]) = ''''" by code_simp
  then have "rx_replace_all crdVersionRegexp '''' (''v'' @ [d]) = ''''" using d by blast
  moreover have "list_all (\<lambda>c. c \<noteq> CHR ''/'') (''v'' @ [d])" using d by auto
  ultimately show "extractSpecVersion (g @ ''/v'' @ [d]) = Panic"
    using spec_version_of[of "''v'' @ [d]" g] by simp
next
  show "extractSpecVersion '''' = Ret ''..''" by code_simp
  show "SpecVersion \<noteq> ''..''" by (simp add: SpecVersion_def)
qed

lemma From_workflow:
  assumes "FromCNCFWorkflow fc (Some c) = Inr wo"
  shows "\<exists>f. fc_toFlow fc c = Inr f \<and> sp_flow (sf_spec wo) = f \<and> sf_name wo = extractName c
    \<and> om_annotations (sf_meta wo) = Some [(ExpressionLang, cw_expressionLang c), (VersionAnnotation, cw_version c), (Description, cw_description c)]"
  using assms by (auto simp: FromCNCFWorkflow_def Let_def new_workflow_def new_meta_def sf_name_def split: sum.splits)

lemma cncf_annotations_get:
  fixes a b c defines "m \<equiv> Some [(ExpressionLang, a), (VersionAnnotation, b), (Description, c)]"
  shows "nil_map_get m ExpressionLang = a" "nil_map_get m VersionAnnotation = b" "nil_map_get m Description = c"
    "nil_map_get m KeyAnnotation = ''''"
  by (simp_all add: cncf_annotation_defs nil_map_get_def map_get_def m_def)

lemma extractName_sanitized: "sanitizeNaming (extractName c) = extractName c"
  using sanitizeNaming_idem by (simp add: extractName_def sanitizeNaming_same)


definition ex_cncf :: "string \<Rightarrow> flow \<Rightarrow> flow cncf_workflow" where
  "ex_cncf i f = \<lparr>cw_id = i, cw_key = '''', cw_name = '''', cw_description = ''greets'', cw_version = ''1'', cw_specVersion = '''',
     cw_expressionLang = '''', cw_body = f\<rparr>"

definition ex_codec :: "flow flow_codec" where
  "ex_codec = \<lparr>fc_toFlow = (\<lambda>c. Inr (cw_body c)), fc_ofFlow = (\<lambda>f. Inr (ex_cncf '''' f)),
     fc_json = (\<lambda>s. Inl (OtherError ''not JSON'')),
     fc_yaml = (\<lambda>s. if s = '''' then Inl (OtherError ''empty'')
       else Inr (ex_cncf ''Greeting'' (sp_flow (sf_spec (new_workflow '''' '''')))))\<rparr>"

lemma ex_codec_keeps_body: "flow_keeps_body ex_codec"
  by (simp add: flow_keeps_body_def ex_codec_def ex_cncf_def)


subsection \<open>The resources of a project\<close>

text \<open>Every path is there once, with at least one resource, and every resource of a path has a name of its own.\<close>

definition resources_ok :: "project_handler \<Rightarrow> bool" where
  "resources_ok h \<longleftrightarrow> distinct (map fst (wp_rawResources h)) \<and>
     list_all (\<lambda>(p, rs). rs \<noteq> [] \<and> distinct (map fst rs)) (wp_rawResources h)"

lemma resources_ok_same: "wp_rawResources h' = wp_rawResources h \<Longrightarrow> resources_ok h' = resources_ok h"
  by (simp add: resources_ok_def)

lemma list_all_update:
  "list_all P m \<Longrightarrow> P (k, v) \<Longrightarrow> list_all P (AList.update k v m)"
  by (induction m) auto

lemma resources_ok_update:
  "resources_ok h \<Longrightarrow> rs \<noteq> [] \<Longrightarrow> distinct (map fst rs) \<Longrightarrow> wp_rawResources h' = AList.update p rs (wp_rawResources h) \<Longrightarrow>
    resources_ok h'"
  by (simp add: resources_ok_def list_all_update distinct_update)

lemma resources_at_ok: "resources_ok h \<Longrightarrow> distinct (map fst (resources_at p h))"
  by (auto simp: resources_at_def resources_ok_def list_all_iff dest!: map_of_SomeD split: option.splits)

lemma read_resources_names: "map fst (snd (read_resources rs m)) = map fst rs"
  by (induction rs m rule: read_resources.induct) (auto split: prod.splits sum.splits)

lemma AddResourceAt_ok: "resources_ok h \<Longrightarrow> resources_ok (AddResourceAt n p r h)"
proof -
  assume ok: "resources_ok h"
  let ?rs = "resources_at p h"
  note d = resources_at_ok[OF ok, of p]
  show ?thesis
  proof (cases "list_ex (\<lambda>x. fst x = n) ?rs")
    case True
    then show ?thesis using d
      by (intro resources_ok_update[OF ok, of "AList.update n r ?rs"]) (auto simp: AddResourceAt_def Let_def distinct_update)
  next
    case False
    then have "n \<notin> fst ` set ?rs" by (auto simp: list_ex_iff)
    then show ?thesis using d False
      by (intro resources_ok_update[OF ok, of "?rs @ [(n, r)]"]) (simp_all add: AddResourceAt_def Let_def)
  qed
qed

lemma resources_at_not_Nil: "resources_ok h \<Longrightarrow> p \<in> fst ` set (wp_rawResources h) \<Longrightarrow> resources_at p h \<noteq> []"
  by (auto simp: resources_at_def resources_ok_def list_all_iff split: option.splits dest!: map_of_SomeD)

lemma addResourceConfigMap_raw:
  "addResourceConfigMapToProject cm p h = Some h' \<Longrightarrow> wp_rawResources h' = wp_rawResources h"
  by (auto simp: addResourceConfigMapToProject_def split: if_splits)

lemma read_keeps_ok:
  assumes "resources_ok h" "p \<in> fst ` set (wp_rawResources h)"
  shows "resources_ok (h\<lparr>wp_rawResources := AList.update p (snd (read_resources (resources_at p h) m)) (wp_rawResources h)\<rparr>)"
proof (rule resources_ok_update[OF assms(1), of "snd (read_resources (resources_at p h) m)"])
  show "snd (read_resources (resources_at p h) m) \<noteq> []"
    using resources_at_not_Nil[OF assms] read_resources_names by (metis map_is_Nil_conv)
  show "distinct (map fst (snd (read_resources (resources_at p h) m)))"
    using resources_at_ok[OF assms(1)] by (simp add: read_resources_names)
qed simp

lemma parse_paths_ok:
  "resources_ok h \<Longrightarrow> set ps \<subseteq> fst ` set (wp_rawResources h) \<Longrightarrow> resources_ok (snd (parse_paths i ps h))"
proof (induction ps arbitrary: i h)
  case (Cons p ps)
  obtain x rs where r: "read_resources (resources_at p h) [] = (x, rs)" by force
  let ?h = "h\<lparr>wp_rawResources := AList.update p rs (wp_rawResources h)\<rparr>"
  have ok: "resources_ok ?h" using read_keeps_ok[of h p "[]"] Cons.prems r by simp
  have keys: "set ps \<subseteq> fst ` set (wp_rawResources ?h)" using Cons.prems(2) by (auto simp: dom_update)
  show ?case
  proof (cases x)
    case (Inl e) then show ?thesis using ok by (simp add: r Let_def)
  next
    case (Inr m)
    let ?a = "addResourceConfigMapToProject
      \<lparr>cm_meta = new_meta (wp_namespace ?h) (resource_name i (wp_name ?h) p), cm_data = Some m\<rparr> p ?h"
    have step: "parse_paths i (p # ps) h = (case ?a of None \<Rightarrow> (Panic, ?h) | Some h \<Rightarrow> parse_paths (Suc i) ps h)"
      by (simp add: r Let_def Inr)
    show ?thesis
    proof (cases ?a)
      case None then show ?thesis using ok unfolding step by simp
    next
      case (Some h')
      then have raw: "wp_rawResources h' = wp_rawResources ?h" by (rule addResourceConfigMap_raw)
      show ?thesis unfolding step Some option.case
        by (rule Cons.IH) (use ok keys raw resources_ok_same[OF raw] in simp_all)
    qed
  qed
qed simp

subsection \<open>The objects of a project\<close>

fun reader_text :: "reader \<Rightarrow> string" where
  "reader_text (Reader s) = s"
| "reader_text (Broken e) = ''''"

abbreviation readable :: "(string \<times> reader) list \<Rightarrow> bool" where
  "readable rs \<equiv> list_all (\<lambda>x. reader_text (snd x) \<noteq> '''') rs"

abbreviation texts :: "(string \<times> reader) list \<Rightarrow> gomap" where
  "texts rs \<equiv> map (\<lambda>x. (fst x, reader_text (snd x))) rs"

text \<open>The config map of a path, and its entry in the workflow.\<close>

definition path_map :: "project_handler \<Rightarrow> nat \<times> string \<Rightarrow> config_map" where
  "path_map h x = \<lparr>cm_meta = new_meta (wp_namespace h) (resource_name (fst x) (wp_name h) (snd x)),
     cm_data = Some (texts (resources_at (snd x) h))\<rparr>"

definition path_entry :: "project_handler \<Rightarrow> nat \<times> string \<Rightarrow> cm_resource" where
  "path_entry h x = \<lparr>cr_configMap = resource_name (fst x) (wp_name h) (snd x), cr_workflowPath = snd x\<rparr>"

lemma update_new: "k \<notin> fst ` set m \<Longrightarrow> AList.update k v m = m @ [(k, v)]"
  by (induction m) auto

lemma read_resources_all:
  "readable rs \<Longrightarrow> distinct (map fst rs) \<Longrightarrow> fst ` set rs \<inter> fst ` set m = {} \<Longrightarrow>
    fst (read_resources rs m) = Inr (m @ texts rs)"
proof (induction rs m rule: read_resources.induct)
  case (2 n r rs m)
  obtain s where s: "r = Reader s" "s \<noteq> ''''" using 2(2) by (cases r) auto
  have "fst (read_resources rs (m @ [(n, s)])) = Inr ((m @ [(n, s)]) @ texts rs)"
    using 2 s by (simp add: update_new Int_commute)
  then show ?case using 2(4) s by (cases "read_resources rs (m @ [(n, s)])") (simp add: update_new)
qed simp

lemma parse_paths_all:
  assumes "distinct ps" "\<forall>p\<in>set ps. readable (resources_at p h) \<and> distinct (map fst (resources_at p h))" "wp_workflow h = Some wo"
  shows "\<exists>h'. parse_paths i ps h = (Ret (), h')
    \<and> wp_workflow h' = Some (wo\<lparr>sf_spec := (sf_spec wo)\<lparr>sp_resources := sp_resources (sf_spec wo) @ map (path_entry h) (enumerate i ps)\<rparr>\<rparr>)
    \<and> wp_resources h' = wp_resources h @ map (path_map h) (enumerate i ps) \<and> wp_properties h' = wp_properties h"
  using assms
proof (induction ps arbitrary: i h wo)
  case (Cons p ps)
  obtain rs where r: "read_resources (resources_at p h) [] = (Inr (texts (resources_at p h)), rs)"
    using read_resources_all[of "resources_at p h" "[]"] Cons.prems(2)
    by (cases "read_resources (resources_at p h) []") simp
  let ?h = "h\<lparr>wp_rawResources := AList.update p rs (wp_rawResources h)\<rparr>"
  let ?wo = "wo\<lparr>sf_spec := (sf_spec wo)\<lparr>sp_resources := sp_resources (sf_spec wo) @ [path_entry h (i, p)]\<rparr>\<rparr>"
  let ?g = "?h\<lparr>wp_workflow := Some ?wo, wp_resources := wp_resources h @ [path_map h (i, p)]\<rparr>"
  have "addResourceConfigMapToProject \<lparr>cm_meta = new_meta (wp_namespace ?h) (resource_name i (wp_name ?h) p),
      cm_data = Some (texts (resources_at p h))\<rparr> p ?h = Some ?g"
    using Cons.prems(3) by (simp add: addResourceConfigMapToProject_def path_entry_def path_map_def new_meta_def)
  then have a: "parse_paths i (p # ps) h = parse_paths (Suc i) ps ?g"
    unfolding parse_paths.simps r prod.case Let_def sum.case by (simp only: option.case)
  have at: "resources_at q ?g = resources_at q h" if "q \<in> set ps" for q
    using that Cons.prems(1) by (auto simp: resources_at_def update_conv')
  have "\<forall>x\<in>set (enumerate (Suc i) ps). snd x \<in> set ps" by (auto simp: in_set_enumerate_eq)
  then have maps: "map (path_map ?g) (enumerate (Suc i) ps) = map (path_map h) (enumerate (Suc i) ps)"
    "map (path_entry ?g) (enumerate (Suc i) ps) = map (path_entry h) (enumerate (Suc i) ps)"
    using at by (simp_all add: path_map_def path_entry_def)
  have ih: "\<exists>h'. parse_paths (Suc i) ps ?g = (Ret (), h')
    \<and> wp_workflow h' = Some (?wo\<lparr>sf_spec := (sf_spec ?wo)\<lparr>sp_resources := sp_resources (sf_spec ?wo) @ map (path_entry ?g) (enumerate (Suc i) ps)\<rparr>\<rparr>)
    \<and> wp_resources h' = wp_resources ?g @ map (path_map ?g) (enumerate (Suc i) ps) \<and> wp_properties h' = wp_properties ?g"
    by (rule Cons.IH) (use Cons.prems at in simp_all)
  then show ?case unfolding a maps by simp
qed simp

abbreviation parse_source :: "'b flow_codec \<Rightarrow> string \<Rightarrow> kerror + 'b cncf_workflow" where
  "parse_source fc s \<equiv> (case fc_json fc s of Inr c \<Rightarrow> Inr c | Inl _ \<Rightarrow> fc_yaml fc s)"

lemma project_workflow_fields:
  "sf_name (project_workflow h wo) = wp_name h" "sf_namespace (project_workflow h wo) = wp_namespace h"
  "sf_spec (project_workflow h wo) = sf_spec wo"
  "nil_map_get (om_annotations (sf_meta (project_workflow h wo))) Profile = (if wp_profile h = '''' then DevProfile else wp_profile h)"
  by (simp_all add: project_workflow_def SetWorkflowProfile_def SetMergedLabels_def sf_name_def sf_namespace_def Let_def nil_map_get_def)

lemma parseRawWorkflow_Ret:
  assumes "wp_rawWorkflow h = Some (Reader s)" "parse_source fc s = Inr c" "fc_toFlow fc c = Inr f"
  shows "\<exists>wo. parseRawWorkflow fc h = (Ret (), h\<lparr>wp_rawWorkflow := Some (Reader ''''),
      wp_name := (if wp_name h = '''' then ToLower (cw_id c) else wp_name h), wp_workflow := Some wo\<rparr>)
    \<and> sf_name wo = (if wp_name h = '''' then ToLower (cw_id c) else wp_name h) \<and> sf_namespace wo = wp_namespace h
    \<and> sp_flow (sf_spec wo) = f \<and> sp_resources (sf_spec wo) = []
    \<and> nil_map_get (om_annotations (sf_meta wo)) Profile = (if wp_profile h = '''' then DevProfile else wp_profile h)"
proof -
  let ?h = "h\<lparr>wp_rawWorkflow := Some (Reader ''''), wp_name := (if wp_name h = '''' then ToLower (cw_id c) else wp_name h)\<rparr>"
  obtain wo where w: "FromCNCFWorkflow fc (Some c) = Inr wo" "sp_flow (sf_spec wo) = f" "sp_resources (sf_spec wo) = []"
    using assms(3) by (simp add: FromCNCFWorkflow_def Let_def new_workflow_def)
  have "parseRawWorkflow fc h = (Ret (), ?h\<lparr>wp_workflow := Some (project_workflow ?h wo)\<rparr>)"
    using assms(1,2) w(1) by (simp add: parseRawWorkflow_def Let_def)
  then show ?thesis using w(2,3) project_workflow_fields[of ?h wo] by (intro exI[where x = "project_workflow ?h wo"]) simp
qed

definition all_readable :: "project_handler \<Rightarrow> bool" where
  "all_readable h \<longleftrightarrow> list_all (\<lambda>x. readable (resources_at x h)) (map fst (wp_rawResources h))"

text \<open>C26: The objects of a project whose sources can be read: the workflow with the given name, namespace and profile
  and the flow of the source; the properties, when there are any; and one config map for each path, numbered
  in the order of the paths and listed in that order in the workflow.  The config maps of an earlier parse stay.\<close>

theorem project_objects:
  assumes ok: "resources_ok h" and rd: "all_readable h" and np: "\<not> wp_parsed h"
    and src: "wp_rawWorkflow h = Some (Reader s)" "parse_source fc s = Inr c" "fc_toFlow fc c = Inr f"
    and props: "wp_rawAppProperties h = map_option Reader pr"
    and n: "n = (if wp_name h = '''' then ToLower (cw_id c) else wp_name h)"
    and ps: "ps = enumerate 1 (sort (map fst (wp_rawResources h)))"
  shows "\<exists>wo pm h'. AsObjects fc h = (Ret (Some wo, pm, wp_resources h @ map (path_map (h\<lparr>wp_name := n\<rparr>)) ps), h')
    \<and> wp_parsed h' \<and> sf_name wo = n \<and> sf_namespace wo = wp_namespace h \<and> sp_flow (sf_spec wo) = f
    \<and> nil_map_get (om_annotations (sf_meta wo)) Profile = (if wp_profile h = '''' then DevProfile else wp_profile h)
    \<and> sp_resources (sf_spec wo) = map (path_entry (h\<lparr>wp_name := n\<rparr>)) ps
    \<and> (case pr of None \<Rightarrow> pm = wp_properties h
       | Some t \<Rightarrow> \<exists>cm. pm = Some cm \<and> cm_data cm = Some [(ApplicationPropertiesFileName, t)] \<and> om_name (cm_meta cm) = n @ ''-props''
           \<and> om_namespace (cm_meta cm) = wp_namespace h)"
proof -
  obtain wo where p1: "parseRawWorkflow fc h = (Ret (), h\<lparr>wp_rawWorkflow := Some (Reader ''''), wp_name := n, wp_workflow := Some wo\<rparr>)"
    and w: "sf_name wo = n" "sf_namespace wo = wp_namespace h" "sp_flow (sf_spec wo) = f" "sp_resources (sf_spec wo) = []"
      "nil_map_get (om_annotations (sf_meta wo)) Profile = (if wp_profile h = '''' then DevProfile else wp_profile h)"
    using parseRawWorkflow_Ret[OF src] unfolding n[symmetric] by blast
  let ?cm = "\<lambda>t. (CreateNewUserPropsConfigMap wo)\<lparr>cm_data := Some [(ApplicationPropertiesFileName, t)]\<rparr>"
  let ?pm = "case pr of None \<Rightarrow> wp_properties h | Some t \<Rightarrow> Some (?cm t)"
  let ?h1 = "h\<lparr>wp_rawWorkflow := Some (Reader ''''), wp_name := n, wp_workflow := Some wo\<rparr>"
  obtain h2 where p2: "parseRawAppProperties ?h1 = (Ret (), h2)" and h2: "wp_workflow h2 = Some wo" "wp_properties h2 = ?pm"
      "wp_resources h2 = wp_resources h" "wp_rawResources h2 = wp_rawResources h" "wp_name h2 = n" "wp_namespace h2 = wp_namespace h"
    using props by (cases pr) (simp_all add: parseRawAppProperties_def Let_def)
  have at: "resources_at q h2 = resources_at q h" for q by (simp add: resources_at_def h2)
  let ?ks = "sort (map fst (wp_rawResources h))"
  have d: "distinct ?ks" using ok by (simp add: resources_ok_def)
  have r: "\<forall>q\<in>set ?ks. readable (resources_at q h2) \<and> distinct (map fst (resources_at q h2))"
    using rd resources_at_ok[OF ok] by (auto simp: all_readable_def at list_all_iff)
  obtain h3 where p3: "parse_paths 1 ?ks h2 = (Ret (), h3)"
    and h3: "wp_workflow h3 = Some (wo\<lparr>sf_spec := (sf_spec wo)\<lparr>sp_resources := sp_resources (sf_spec wo) @ map (path_entry h2) ps\<rparr>\<rparr>)"
      "wp_resources h3 = wp_resources h2 @ map (path_map h2) ps" "wp_properties h3 = wp_properties h2"
    using parse_paths_all[OF d r h2(1)] unfolding ps by blast
  have m: "path_map h2 = path_map (h\<lparr>wp_name := n\<rparr>)" "path_entry h2 = path_entry (h\<lparr>wp_name := n\<rparr>)"
    by (auto simp: path_map_def path_entry_def resources_at_def h2)
  have "parseRawProject fc h = (Ret (), h3\<lparr>wp_parsed := True\<rparr>)"
    using np src(1) by (simp add: parseRawProject_def p1 p2 parseRawResources_def h2(4) p3 del: One_nat_def)
  then show ?thesis using h3 h2 w m
    by (cases pr) (simp_all add: AsObjects_def sf_name_def sf_namespace_def CreateNewUserPropsConfigMap_def labelled_meta_def new_meta_def
        GetWorkflowUserPropertiesConfigMapName_def)
qed

definition ex_project :: project_handler where
  "ex_project = AddResourceAt ''b.json'' ''schemas'' (Reader ''{}'') (AddResource ''a.yaml'' (Reader ''x'')
     (AddResourceAt ''s.json'' ''schemas'' (Reader ''[]'')
       (WithAppProperties (Reader ''k=v'') (WithWorkflow (Reader ''id: Greeting'') (NewProject ''ns'')))))"

lemma NewProject_ok: "resources_ok (NewProject ns)" by (simp add: resources_ok_def NewProject_def)

lemma ex_project_raw: "wp_rawResources ex_project =
    [(''schemas'', [(''s.json'', Reader ''[]''), (''b.json'', Reader ''{}'')]), (''specs'', [(''a.yaml'', Reader ''x'')])]"
  by (simp add: ex_project_def AddResourceAt_def AddResource_def resources_at_def WithAppProperties_def WithWorkflow_def NewProject_def
      defaultResourcePath_def)

lemma ex_project_fields:
  "\<not> wp_parsed ex_project" "wp_rawWorkflow ex_project = Some (Reader ''id: Greeting'')" "wp_name ex_project = ''''"
  "wp_rawAppProperties ex_project = Some (Reader ''k=v'')" "wp_resources ex_project = []" "wp_namespace ex_project = ''ns''"
  "wp_profile ex_project = ''''"
  by (simp_all add: ex_project_def AddResourceAt_def AddResource_def resources_at_def WithAppProperties_def WithWorkflow_def NewProject_def)

lemma ex_project_ok: "resources_ok ex_project" "all_readable ex_project"
  by (simp_all add: resources_ok_def all_readable_def resources_at_def ex_project_raw)

lemma ex_project_source:
  "parse_source ex_codec ''id: Greeting'' = Inr (ex_cncf ''Greeting'' (sp_flow (sf_spec (new_workflow '''' ''''))))"
  by (simp add: ex_codec_def)

lemma project_objects_witness:
  "\<exists>wo pm rs h'. AsObjects ex_codec ex_project = (Ret (Some wo, Some pm, rs), h')
    \<and> map (\<lambda>cm. om_name (cm_meta cm)) rs = [''01-greeting-resources-schemas'', ''02-greeting-resources-specs'']
    \<and> map cr_configMap (sp_resources (sf_spec wo)) = [''01-greeting-resources-schemas'', ''02-greeting-resources-specs'']
    \<and> sf_name wo = ''greeting'' \<and> om_name (cm_meta pm) = ''greeting-props''"
proof -
  let ?f = "sp_flow (sf_spec (new_workflow '''' ''''))"
  have "ToLower ''Greeting'' = ''greeting''" by code_simp
  then have n: "ToLower (cw_id (ex_cncf ''Greeting'' ?f)) = ''greeting''" by (simp add: ex_cncf_def)
  have ps: "enumerate 1 (sort (map fst (wp_rawResources ex_project))) = [(1, ''schemas''), (2, ''specs'')]"
    by (simp add: ex_project_raw enumerate_eq_zip)
  have toF: "fc_toFlow ex_codec (ex_cncf ''Greeting'' ?f) = Inr ?f" by (simp add: ex_codec_def ex_cncf_def)
  have props: "wp_rawAppProperties ex_project = map_option Reader (Some ''k=v'')" by (simp add: ex_project_fields)
  have nn: "''greeting'' = (if wp_name ex_project = '''' then ToLower (cw_id (ex_cncf ''Greeting'' ?f)) else wp_name ex_project)"
    using n by (simp add: ex_project_fields)
  have pads: "pad2 1 = ''01''" "pad2 2 = ''02''" by (simp_all add: pad2_def show_int_eval)
  show ?thesis
    using project_objects[OF ex_project_ok ex_project_fields(1,2) ex_project_source toF props nn ps[symmetric]] pads
    by (fastforce simp: ex_project_fields path_map_def path_entry_def new_meta_def resource_name_def)qed

subsection \<open>Building and building again\<close>

text \<open>The handlers that the calls of the library can lead to.\<close>

inductive handler_built :: "'b flow_codec \<Rightarrow> project_handler \<Rightarrow> bool" for fc where
  built_New: "handler_built fc (NewProject ns)"
| built_Named: "handler_built fc h \<Longrightarrow> handler_built fc (Named n h)"
| built_WithProfile: "handler_built fc h \<Longrightarrow> handler_built fc (WithProfile p h)"
| built_WithWorkflow: "handler_built fc h \<Longrightarrow> handler_built fc (WithWorkflow r h)"
| built_WithAppProperties: "handler_built fc h \<Longrightarrow> handler_built fc (WithAppProperties r h)"
| built_AddResourceAt: "handler_built fc h \<Longrightarrow> handler_built fc (AddResourceAt n p r h)"
| built_Image: "handler_built fc h \<Longrightarrow> Image img h = Some h' \<Longrightarrow> handler_built fc h'"
| built_AsObjects: "handler_built fc h \<Longrightarrow> AsObjects fc h = (Ret pr, h') \<Longrightarrow> handler_built fc h'"
| built_failed: "handler_built fc h \<Longrightarrow> AsObjects fc h = (Fail e, h') \<Longrightarrow> handler_built fc h'"

lemma parse_paths_keep:
  assumes "parse_paths i ps h = (x, h')"
  shows "wp_name h' = wp_name h \<and> wp_namespace h' = wp_namespace h \<and> wp_parsed h' = wp_parsed h
    \<and> map_option sf_meta (wp_workflow h') = map_option sf_meta (wp_workflow h)"
  using assms
proof (induction ps arbitrary: i h)
  case (Cons p ps)
  obtain y rs where r: "read_resources (resources_at p h) [] = (y, rs)" by force
  show ?case
  proof (cases y)
    case (Inl e) then show ?thesis using Cons.prems by (auto simp: r Let_def)
  next
    case (Inr m)
    let ?h = "h\<lparr>wp_rawResources := AList.update p rs (wp_rawResources h)\<rparr>"
    let ?a = "addResourceConfigMapToProject
      \<lparr>cm_meta = new_meta (wp_namespace ?h) (resource_name i (wp_name ?h) p), cm_data = Some m\<rparr> p ?h"
    have step: "parse_paths i (p # ps) h = (case ?a of None \<Rightarrow> (Panic, ?h) | Some h \<Rightarrow> parse_paths (Suc i) ps h)"
      by (simp add: r Let_def Inr)
    show ?thesis
    proof (cases ?a)
      case None then show ?thesis using Cons.prems unfolding step by auto
    next
      case (Some g)
      then have "wp_name g = wp_name h \<and> wp_namespace g = wp_namespace h \<and> wp_parsed g = wp_parsed h
          \<and> map_option sf_meta (wp_workflow g) = map_option sf_meta (wp_workflow h)"
        by (auto simp: addResourceConfigMapToProject_def split: if_splits)
      then show ?thesis using Cons.IH[of "Suc i" g] Cons.prems unfolding step Some option.case by metis
    qed
  qed
qed simp

lemma parseRawWorkflow_keep:
  "parseRawWorkflow fc h = (x, h') \<Longrightarrow> wp_rawResources h' = wp_rawResources h \<and> wp_namespace h' = wp_namespace h \<and> wp_parsed h' = wp_parsed h
    \<and> (x = Ret () \<longrightarrow> (\<exists>wo. wp_workflow h' = Some wo \<and> sf_name wo = wp_name h' \<and> sf_namespace wo = wp_namespace h))"
  by (auto simp: parseRawWorkflow_def Let_def project_workflow_fields split: option.splits prod.splits sum.splits if_splits)

lemma parseRawAppProperties_keep:
  "parseRawAppProperties h = (x, h') \<Longrightarrow> wp_rawResources h' = wp_rawResources h \<and> wp_name h' = wp_name h \<and> wp_namespace h' = wp_namespace h
    \<and> wp_parsed h' = wp_parsed h \<and> wp_workflow h' = wp_workflow h"
  by (auto simp: parseRawAppProperties_def Let_def split: option.splits prod.splits sum.splits)

definition handler_ok :: "project_handler \<Rightarrow> bool" where
  "handler_ok h \<longleftrightarrow> resources_ok h \<and>
     (\<forall>wo. wp_parsed h \<and> wp_workflow h = Some wo \<longrightarrow> sf_name wo = wp_name h \<and> sf_namespace wo = wp_namespace h) \<and>
     (wp_parsed h \<longrightarrow> wp_workflow h \<noteq> None)"

lemma AsObjects_ok:
  assumes ok: "handler_ok h" and a: "AsObjects fc h = (x, h')" and x: "x \<noteq> Panic"
  shows "handler_ok h'"
proof -
  obtain y where p: "parseRawProject fc h = (y, h')"
    using a by (auto simp: AsObjects_def split: prod.splits outcome.splits)
  show ?thesis
  proof (cases "wp_parsed h \<or> wp_rawWorkflow h = None")
    case True then show ?thesis using p ok by (auto simp: parseRawProject_def split: if_splits)
  next
    case False
    obtain z1 h1 where p1: "parseRawWorkflow fc h = (z1, h1)" by force
    obtain z2 h2 where p2: "parseRawAppProperties h1 = (z2, h2)" by force
    obtain z3 h3 where p3: "parseRawResources h2 = (z3, h3)" by force
    note k1 = parseRawWorkflow_keep[OF p1] and k2 = parseRawAppProperties_keep[OF p2]
    note k3 = parse_paths_keep[OF p3[unfolded parseRawResources_def]]
    have r1: "resources_ok h1" and r2: "resources_ok h2"
      using ok k1 k2 resources_ok_same unfolding handler_ok_def by metis+
    have r3: "resources_ok h3"
      using parse_paths_ok[OF r2, of "sort (map fst (wp_rawResources h2))" 1] p3 by (simp add: parseRawResources_def)
    have np: "\<not> wp_parsed h3" "\<not> wp_parsed h2" "\<not> wp_parsed h1" using k1 k2 k3 False by simp_all
    have "h' = h1 \<or> h' = h2 \<or> h' = h3 \<or> z1 = Ret () \<and> h' = h3\<lparr>wp_parsed := True\<rparr>"
      using p False p1 p2 p3 by (auto simp: parseRawProject_def split: outcome.splits)
    moreover have "handler_ok (h3\<lparr>wp_parsed := True\<rparr>)" if "z1 = Ret ()"
    proof -
      obtain wo where "wp_workflow h2 = Some wo" "sf_name wo = wp_name h2" "sf_namespace wo = wp_namespace h2"
        using k1 k2 \<open>z1 = Ret ()\<close> by auto
      then show ?thesis using k3 r3 resources_ok_same[of "h3\<lparr>wp_parsed := True\<rparr>" h3]
        by (cases "wp_workflow h3") (auto simp: handler_ok_def sf_name_def sf_namespace_def)
    qed
    ultimately show ?thesis using r1 r2 r3 np by (auto simp: handler_ok_def)
  qed
qed

text \<open>Whatever calls a handler has been through: no path and no name of a path is there twice, and a parsed project has
  its workflow, with the handler's name and namespace.\<close>

theorem built_handlers_ok: assumes "handler_built fc h" shows "handler_ok h"
  using assms
proof (induction rule: handler_built.induct)
  case (built_New ns) then show ?case using NewProject_ok by (simp add: handler_ok_def NewProject_def)
next
  case (built_AddResourceAt h n p r)
  have "wp_workflow (AddResourceAt n p r h) = wp_workflow h" "wp_name (AddResourceAt n p r h) = wp_name h"
    "wp_namespace (AddResourceAt n p r h) = wp_namespace h" "wp_parsed (AddResourceAt n p r h) \<longrightarrow> wp_parsed h"
    by (simp_all add: AddResourceAt_def Let_def)
  then show ?case using built_AddResourceAt.IH AddResourceAt_ok[of h] by (simp add: handler_ok_def)
next
  case (built_Image h img h')
  then show ?case by (auto simp: Image_def handler_ok_def resources_ok_def sf_name_def sf_namespace_def)
next
  case (built_AsObjects h pr h') then show ?case using AsObjects_ok by blast
next
  case (built_failed h e h') then show ?case using AsObjects_ok by blast
qed (simp_all add: handler_ok_def resources_ok_def Named_def WithProfile_def WithWorkflow_def WithAppProperties_def)

lemma built_handlers_ok_witness: "handler_ok ex_project"
proof (rule built_handlers_ok[of ex_codec])
  show "handler_built ex_codec ex_project" unfolding ex_project_def AddResource_def by (intro handler_built.intros)
qed

lemma parseRawWorkflow_reader:
  assumes "parseRawWorkflow fc h = (Ret (), h')" shows "wp_rawWorkflow h' = Some (Reader '''')"
proof -
  obtain r where "wp_rawWorkflow h = Some r" using assms by (cases "wp_rawWorkflow h") (simp_all add: parseRawWorkflow_def)
  then show ?thesis using assms
    by (cases r) (auto simp: parseRawWorkflow_def Let_def split: sum.splits if_splits)
qed

lemma parseRawAppProperties_reader:
  "parseRawAppProperties h = (x, h') \<Longrightarrow> wp_rawWorkflow h' = wp_rawWorkflow h"
  by (auto simp: parseRawAppProperties_def Let_def split: option.splits prod.splits sum.splits)

lemma addResourceConfigMap_reader:
  "addResourceConfigMapToProject cm p h = Some h' \<Longrightarrow> wp_rawWorkflow h' = wp_rawWorkflow h"
  by (auto simp: addResourceConfigMapToProject_def split: if_splits)

lemma parse_paths_reader: "wp_rawWorkflow (snd (parse_paths i ps h)) = wp_rawWorkflow h"
proof (induction ps arbitrary: i h)
  case (Cons p ps)
  show ?case
    by (auto simp: Let_def Cons.IH dest: addResourceConfigMap_reader split: prod.splits sum.splits option.splits)
qed simp

lemma parsed_project:
  assumes "AsObjects fc h = (Ret pr, h')" "\<not> wp_parsed h"
  shows "wp_parsed h' \<and> wp_rawWorkflow h' = Some (Reader '''') \<and> pr = (wp_workflow h', wp_properties h', wp_resources h')"
proof -
  have np: "wp_rawWorkflow h \<noteq> None" using assms by (cases "wp_rawWorkflow h") (simp_all add: AsObjects_def parseRawProject_def)
  obtain z1 h1 where p1: "parseRawWorkflow fc h = (z1, h1)" by force
  obtain z2 h2 where p2: "parseRawAppProperties h1 = (z2, h2)" by force
  obtain z3 h3 where p3: "parseRawResources h2 = (z3, h3)" by force
  have z: "z1 = Ret ()" "z2 = Ret ()" "z3 = Ret ()" "h' = h3\<lparr>wp_parsed := True\<rparr>" "pr = (wp_workflow h', wp_properties h', wp_resources h')"
    using assms np p1 p2 p3 by (auto simp: AsObjects_def parseRawProject_def split: outcome.splits)
  have "wp_rawWorkflow h3 = wp_rawWorkflow h2" using parse_paths_reader p3 unfolding parseRawResources_def by (metis snd_conv)
  then show ?thesis using parseRawWorkflow_reader p1 parseRawAppProperties_reader[OF p2] z by simp
qed

lemma spent_source:
  assumes "wp_rawWorkflow g = Some (Reader '''')" "\<not> wp_parsed g" "parse_source fc '''' = Inl e"
  shows "AsObjects fc g = (Fail (OtherError (''Failed to parse the workflow either as a JSON or as a YAML file: '' @ error_text e)), g)"
  using assms by (simp add: AsObjects_def parseRawProject_def parseRawWorkflow_def Let_def)


subsection \<open>Manifest files\<close>

definition dec :: "string \<Rightarrow> nat" where "dec s = foldl (\<lambda>n c. 10 * n + (of_char c - 48)) 0 s"

lemma dec_show_nat: "dec (show_nat n) = n"
proof (induction n rule: show_nat.induct)
  case (1 n)
  have d: "of_char (digit n) = 48 + n mod 10" by (auto simp: digit_def)
  show ?case
  proof (cases "n < 10")
    case True then show ?thesis using d by (simp add: show_nat_small dec_def)
  next
    case False
    then show ?thesis using 1 d unfolding show_nat_large[OF False] dec_def by simp
  qed
qed

abbreviation decimal :: "char \<Rightarrow> bool" where
  "decimal c \<equiv> 48 \<le> (of_char c :: nat) \<and> (of_char c :: nat) \<le> 57"

lemma digit_decimal: "decimal (digit n)"
proof -
  have "n mod 10 < 10" by simp
  then have "n mod 10 \<le> 9" by linarith
  then show ?thesis by (simp add: digit_def)
qed

lemma show_nat_digits: "list_all decimal (show_nat n)"
proof (induction n rule: show_nat.induct)
  case (1 n)
  show ?case
  proof (cases "n < 10")
    case True then show ?thesis using digit_decimal[of n] by (simp add: show_nat_small)
  next
    case False
    then show ?thesis using 1 digit_decimal[of n] by (simp add: show_nat_large)
  qed
qed

lemma pad2_digits: "list_all decimal (pad2 (int i))"
  using show_nat_digits[of i] by (simp add: pad2_def show_int_def)

lemma pad2_inj: "pad2 (int i) = pad2 (int j) \<Longrightarrow> i = j"
proof -
  have "dec (pad2 (int i)) = i" for i using dec_show_nat[of i] by (auto simp: pad2_def show_int_def dec_def)
  then show "pad2 (int i) = pad2 (int j) \<Longrightarrow> i = j" by metis
qed

lemma lower_decimal: "list_all decimal s \<Longrightarrow> map lower_char s = s"
  by (induction s) (auto simp: lower_char_def)

lemma dash_not_decimal: "\<not> decimal (CHR ''-'')" by simp

lemma manifest_file_prefix:
  "\<exists>t. manifest_file i m = pad2 (int i) @ CHR ''-'' # t"
proof -
  have "lower_char (CHR ''-'') = CHR ''-''" by (simp add: lower_char_def)
  then show ?thesis
    using lower_decimal[OF pad2_digits[of i]] by (simp add: manifest_file_def ToLower_def)
qed

text \<open>No manifest of a project overwrites another: the files of different numbers have different names, whatever the
  names of the objects are.\<close>

lemma manifest_file_inj: "manifest_file i m = manifest_file j k \<Longrightarrow> i = j"
proof -
  assume eq: "manifest_file i m = manifest_file j k"
  have pre: "takeWhile decimal (manifest_file i m) = pad2 (int i)" for i m
    using manifest_file_prefix[of i m] pad2_digits[of i] by (auto simp: list_all_iff)
  then show ?thesis using eq pad2_inj by metis
qed

definition manifest_name :: "manifest \<Rightarrow> string" where
  "manifest_name m = (case m of ConfigMapManifest cm \<Rightarrow> om_name (cm_meta cm) | WorkflowManifest wo \<Rightarrow> sf_name wo)"

abbreviation slash_free :: "string \<Rightarrow> bool" where
  "slash_free \<equiv> list_all (\<lambda>c. c \<noteq> CHR ''/'')"

text \<open>What saving relies on: a successful write changes the file it names and no other, and file names without a
  slash (the dots apart) lead to different paths below one directory.\<close>

definition filesystem_ok :: "'w filesystem \<Rightarrow> ('w \<Rightarrow> string \<Rightarrow> string option) \<Rightarrow> bool" where
  "filesystem_ok fs rd \<longleftrightarrow>
    (\<forall>w p s w'. fs_write fs w p s = (None, w') \<longrightarrow> rd w' p = Some s \<and> (\<forall>q. q \<noteq> p \<longrightarrow> rd w' q = rd w q)) \<and>
    (\<forall>d a b. slash_free a \<and> slash_free b \<and> a \<notin> {'''', ''.'', ''..''} \<and> b \<notin> {'''', ''.'', ''..''} \<and> fs_join fs d a = fs_join fs d b \<longrightarrow> a = b)"

lemma lower_slash: "c \<noteq> CHR ''/'' \<Longrightarrow> lower_char c \<noteq> CHR ''/''"
proof
  assume c: "c \<noteq> CHR ''/''" "lower_char c = CHR ''/''"
  then have u: "65 \<le> (of_char c :: nat)" "(of_char c :: nat) \<le> 90" by (auto simp: lower_char_def Let_def split: if_splits)
  then have "of_char (lower_char c) = (of_char c + 32 :: nat)" by (simp add: lower_char_def)
  then show False using u c(2) by simp
qed

lemma ToLower_slash_free: "slash_free s \<Longrightarrow> slash_free (ToLower s)"
  by (auto simp: ToLower_def list_all_iff lower_slash)

lemma manifest_file_plain:
  assumes "slash_free (manifest_name m)"
  shows "slash_free (manifest_file i m)" "manifest_file i m \<notin> {'''', ''.'', ''..''}"
proof -
  have "slash_free (pad2 (int i))" using pad2_digits[of i] by (auto simp: list_all_iff)
  then show "slash_free (manifest_file i m)" unfolding manifest_file_def using assms
    by (intro ToLower_slash_free) (auto simp: manifest_name_def split: manifest.splits)
  obtain t where "manifest_file i m = pad2 (int i) @ CHR ''-'' # t" using manifest_file_prefix by blast
  then have "CHR ''-'' \<in> set (manifest_file i m)" by simp
  then show "manifest_file i m \<notin> {'''', ''.'', ''..''}" by auto
qed

lemma manifest_path_inj:
  assumes fs: "filesystem_ok fs rd" and n: "slash_free (manifest_name m)" "slash_free (manifest_name k)"
    and eq: "fs_join fs d (manifest_file i m) = fs_join fs d (manifest_file j k)"
  shows "i = j"
proof -
  have inj: "\<lbrakk>slash_free a; slash_free b; a \<notin> {'''', ''.'', ''..''}; b \<notin> {'''', ''.'', ''..''}; fs_join fs d a = fs_join fs d b\<rbrakk> \<Longrightarrow> a = b" for a b
    using fs unfolding filesystem_ok_def by blast
  have "manifest_file i m = manifest_file j k"
    by (rule inj[OF manifest_file_plain(1)[OF n(1)] manifest_file_plain(1)[OF n(2)] manifest_file_plain(2)[OF n(1)] manifest_file_plain(2)[OF n(2)] eq])
  then show ?thesis by (rule manifest_file_inj)
qed

lemma save_all_files:
  assumes fs: "filesystem_ok fs rd" and names: "list_all (\<lambda>m. slash_free (manifest_name m)) ms"
    and s: "save_all fs path i ms w = (None, w')"
  shows "(\<forall>x\<in>set (enumerate i ms). \<exists>t. fs_yaml fs (snd x) = Inr t \<and> rd w' (fs_join fs path (manifest_file (fst x) (snd x))) = Some t)
    \<and> (\<forall>q. (\<forall>x\<in>set (enumerate i ms). q \<noteq> fs_join fs path (manifest_file (fst x) (snd x))) \<longrightarrow> rd w' q = rd w q)"
  using names s
proof (induction ms arbitrary: i w)
  case (Cons m ms)
  let ?p = "\<lambda>i m. fs_join fs path (manifest_file i m)"
  obtain t w1 where y: "fs_yaml fs m = Inr t" and w1: "fs_write fs w (?p i m) t = (None, w1)" and r: "save_all fs path (Suc i) ms w1 = (None, w')"
    using Cons.prems(2) by (auto simp: saveAsKubernetesManifest_def split: sum.splits prod.splits option.splits)
  have wr: "rd w1 (?p i m) = Some t" "q \<noteq> ?p i m \<Longrightarrow> rd w1 q = rd w q" for q
    using fs w1 unfolding filesystem_ok_def by blast+
  have ih: "(\<forall>x\<in>set (enumerate (Suc i) ms). \<exists>t. fs_yaml fs (snd x) = Inr t \<and> rd w' (?p (fst x) (snd x)) = Some t)
    \<and> (\<forall>q. (\<forall>x\<in>set (enumerate (Suc i) ms). q \<noteq> ?p (fst x) (snd x)) \<longrightarrow> rd w' q = rd w1 q)"
    by (rule Cons.IH) (use Cons.prems r in simp_all)
  have "?p i m \<noteq> ?p (fst x) (snd x)" if x: "x \<in> set (enumerate (Suc i) ms)" for x
  proof
    assume eq: "?p i m = ?p (fst x) (snd x)"
    have z: "(fst x, snd x) \<in> set (zip [Suc i..<Suc i + length ms] ms)" using x by (simp add: enumerate_eq_zip)
    have "snd x \<in> set ms" "i < fst x" using set_zip_rightD[OF z] set_zip_leftD[OF z] by auto
    then have "slash_free (manifest_name (snd x))" "slash_free (manifest_name m)" using Cons.prems(1) by (auto simp: list_all_iff)
    then show False using manifest_path_inj[OF fs _ _ eq] \<open>i < fst x\<close> by simp
  qed
  then have "rd w' (?p i m) = rd w1 (?p i m)" using ih by blast
  then have A: "\<forall>x\<in>set (enumerate i (m # ms)). \<exists>t. fs_yaml fs (snd x) = Inr t \<and> rd w' (?p (fst x) (snd x)) = Some t"
    using ih y wr(1) by simp
  have B: "rd w' q = rd w q" if "\<forall>x\<in>set (enumerate i (m # ms)). q \<noteq> ?p (fst x) (snd x)" for q
    using that ih wr(2)[of q] by simp
  show ?case using A B by blast
qed simp


definition ex_fs :: "(string \<Rightarrow> string option) filesystem" where
  "ex_fs = \<lparr>fs_mkdirAll = (\<lambda>w p. (None, w)), fs_join = (\<lambda>d a. d @ ''/'' @ a), fs_write = (\<lambda>w p s. (None, w(p \<mapsto> s))),
     fs_yaml = (\<lambda>m. Inr (manifest_name m))\<rparr>"

lemma ex_fs_ok: "filesystem_ok ex_fs (\<lambda>w p. w p)"
  by (auto simp: filesystem_ok_def ex_fs_def)

definition ex_parsed :: project_handler where
  "ex_parsed = (NewProject ''ns'')\<lparr>wp_workflow := Some (new_workflow ''ns'' ''wf''), wp_parsed := True\<rparr>"

lemma ex_parsed_save:
  "SaveAsKubernetesManifests ex_codec ex_fs ''out'' ex_parsed (\<lambda>p. None) =
    (Ret (), ex_parsed, [''out/'' @ manifest_file 1 (WorkflowManifest (new_workflow ''ns'' ''wf'')) \<mapsto> ''wf''])"
  by (simp add: SaveAsKubernetesManifests_def ex_fs_def ex_parsed_def parseRawProject_def project_manifests_def NewProject_def
      saveAsKubernetesManifest_def manifest_name_def sf_name_def new_workflow_def new_meta_def)


definition ex_small :: project_handler where
  "ex_small = AddResource ''a.yaml'' (Reader ''x'') (WithWorkflow (Reader ''id: Greeting'') (NewProject ''ns''))"

lemma ex_small_parsed:
  "\<exists>pr h'. AsObjects ex_codec ex_small = (Ret pr, h') \<and> resources_at ''specs'' h' = [(''a.yaml'', Reader '''')]"
  by (simp add: ex_small_def AddResource_def AddResourceAt_def WithWorkflow_def NewProject_def resources_at_def defaultResourcePath_def
      AsObjects_def parseRawProject_def parseRawWorkflow_def ex_codec_def FromCNCFWorkflow_def parseRawAppProperties_def
      parseRawResources_def addResourceConfigMapToProject_def Let_def new_workflow_def)


end
