(* ===== verification/Object_Collections.thy ===== *)
theory Object_Collections
  imports Workflow_Objects
begin

text \<open>
  Collections of objects, their replacement in the cluster and the files of the operator's resources
  (\<open>utils/kubernetes/collection.go\<close>, \<open>replace.go\<close>, \<open>utils/resources/resources.go\<close>).  An object is a value of one
  of the types the code tells apart; a visitor may change the object it is given, so a visit answers the new
  collection, and what the visitor's closure remembers is a state.  An object is taken to be in a collection once.
  Clients, decoders and the file system are parameters; the text that wrapping adds to an error is left out.
\<close>

subsection \<open>Collections\<close>

datatype kobject =
    DeploymentObject deployment
  | ConfigMapObject config_map
  | ServiceObject service
  | RouteObject route
  | CronJobObject object_meta
  | PodMonitorObject object_meta
  | OtherObject string object_meta

primrec kobject_meta :: "kobject \<Rightarrow> object_meta" where
  "kobject_meta (DeploymentObject d) = dp_meta d"
| "kobject_meta (ConfigMapObject c) = cm_meta c"
| "kobject_meta (ServiceObject s) = sv_meta s"
| "kobject_meta (RouteObject r) = ro_meta r"
| "kobject_meta (CronJobObject m) = m"
| "kobject_meta (PodMonitorObject m) = m"
| "kobject_meta (OtherObject k m) = m"

primrec map_meta :: "(object_meta \<Rightarrow> object_meta) \<Rightarrow> kobject \<Rightarrow> kobject" where
  "map_meta f (DeploymentObject d) = DeploymentObject (d\<lparr>dp_meta := f (dp_meta d)\<rparr>)"
| "map_meta f (ConfigMapObject c) = ConfigMapObject (c\<lparr>cm_meta := f (cm_meta c)\<rparr>)"
| "map_meta f (ServiceObject s) = ServiceObject (s\<lparr>sv_meta := f (sv_meta s)\<rparr>)"
| "map_meta f (RouteObject r) = RouteObject (r\<lparr>ro_meta := f (ro_meta r)\<rparr>)"
| "map_meta f (CronJobObject m) = CronJobObject (f m)"
| "map_meta f (PodMonitorObject m) = PodMonitorObject (f m)"
| "map_meta f (OtherObject k m) = OtherObject k (f m)"

primrec kobject_kind :: "kobject \<Rightarrow> string" where
  "kobject_kind (DeploymentObject d) = ''Deployment''"
| "kobject_kind (ConfigMapObject c) = ''ConfigMap''"
| "kobject_kind (ServiceObject s) = ''Service''"
| "kobject_kind (RouteObject r) = ''Route''"
| "kobject_kind (CronJobObject m) = ''CronJob''"
| "kobject_kind (PodMonitorObject m) = ''PodMonitor''"
| "kobject_kind (OtherObject k m) = k"

type_synonym collection = "kobject list"

definition NewCollection :: "kobject list \<Rightarrow> collection" where "NewCollection objects = [] @ objects"
definition Size :: "collection \<Rightarrow> nat" where "Size c = length c"
definition Items :: "collection \<Rightarrow> kobject list" where "Items c = c"

definition Add :: "kobject option \<Rightarrow> collection \<Rightarrow> collection" where
  "Add r c = (case r of None \<Rightarrow> c | Some x \<Rightarrow> c @ [x])"

definition AddFirst :: "kobject option \<Rightarrow> collection \<Rightarrow> collection" where
  "AddFirst r c = (case r of None \<Rightarrow> c | Some x \<Rightarrow> [x] @ c)"

definition AddAll :: "kobject list \<Rightarrow> collection \<Rightarrow> collection" where "AddAll rs c = c @ rs"

definition AsKubernetesList :: "collection \<Rightarrow> string \<times> string \<times> kobject list" where
  "AsKubernetesList c = (''List'', ''v1'', map (\<lambda>res. res) c)"

primrec Visit :: "(kobject \<Rightarrow> 's \<Rightarrow> kobject \<times> 's) \<Rightarrow> collection \<Rightarrow> 's \<Rightarrow> collection \<times> 's" where
  "Visit v [] s = ([], s)"
| "Visit v (res # c) s = (case v res s of (res, s) \<Rightarrow> (case Visit v c s of (c, s) \<Rightarrow> (res # c, s)))"

primrec VisitE ::
  "(kobject \<Rightarrow> 's \<Rightarrow> kerror option \<times> kobject \<times> 's) \<Rightarrow> collection \<Rightarrow> 's \<Rightarrow> kerror option \<times> collection \<times> 's" where
  "VisitE v [] s = (None, [], s)"
| "VisitE v (res # c) s =
    (case v res s of
       (Some e, res, s) \<Rightarrow> (Some e, res # c, s)
     | (None, res, s) \<Rightarrow> (case VisitE v c s of (e, c, s) \<Rightarrow> (e, res # c, s)))"

fun Remove :: "(kobject \<Rightarrow> bool) \<Rightarrow> collection \<Rightarrow> kobject option \<times> collection" where
  "Remove sel [] = (None, [])"
| "Remove sel (res # c) =
    (if sel res then (Some res, c) else (case Remove sel c of (r, c) \<Rightarrow> (r, res # c)))"

subsection \<open>Typed visits\<close>

fun on_deployment :: "(deployment \<Rightarrow> 's \<Rightarrow> deployment \<times> 's) \<Rightarrow> kobject \<Rightarrow> 's \<Rightarrow> kobject \<times> 's" where
  "on_deployment v (DeploymentObject d) s = (case v d s of (d, s) \<Rightarrow> (DeploymentObject d, s))"
| "on_deployment v res s = (res, s)"

fun on_deploymentE ::
  "(deployment \<Rightarrow> 's \<Rightarrow> kerror option \<times> deployment \<times> 's) \<Rightarrow> kobject \<Rightarrow> 's \<Rightarrow> kerror option \<times> kobject \<times> 's" where
  "on_deploymentE v (DeploymentObject d) s = (case v d s of (e, d, s) \<Rightarrow> (e, DeploymentObject d, s))"
| "on_deploymentE v res s = (None, res, s)"

fun on_configMap :: "(config_map \<Rightarrow> 's \<Rightarrow> config_map \<times> 's) \<Rightarrow> kobject \<Rightarrow> 's \<Rightarrow> kobject \<times> 's" where
  "on_configMap v (ConfigMapObject d) s = (case v d s of (d, s) \<Rightarrow> (ConfigMapObject d, s))"
| "on_configMap v res s = (res, s)"

fun on_service :: "(service \<Rightarrow> 's \<Rightarrow> service \<times> 's) \<Rightarrow> kobject \<Rightarrow> 's \<Rightarrow> kobject \<times> 's" where
  "on_service v (ServiceObject d) s = (case v d s of (d, s) \<Rightarrow> (ServiceObject d, s))"
| "on_service v res s = (res, s)"

fun on_route :: "(route \<Rightarrow> 's \<Rightarrow> route \<times> 's) \<Rightarrow> kobject \<Rightarrow> 's \<Rightarrow> kobject \<times> 's" where
  "on_route v (RouteObject d) s = (case v d s of (d, s) \<Rightarrow> (RouteObject d, s))"
| "on_route v res s = (res, s)"

fun on_cronJob :: "(object_meta \<Rightarrow> 's \<Rightarrow> object_meta \<times> 's) \<Rightarrow> kobject \<Rightarrow> 's \<Rightarrow> kobject \<times> 's" where
  "on_cronJob v (CronJobObject d) s = (case v d s of (d, s) \<Rightarrow> (CronJobObject d, s))"
| "on_cronJob v res s = (res, s)"

fun on_cronJobE ::
  "(object_meta \<Rightarrow> 's \<Rightarrow> kerror option \<times> object_meta \<times> 's) \<Rightarrow> kobject \<Rightarrow> 's \<Rightarrow> kerror option \<times> kobject \<times> 's" where
  "on_cronJobE v (CronJobObject d) s = (case v d s of (e, d, s) \<Rightarrow> (e, CronJobObject d, s))"
| "on_cronJobE v res s = (None, res, s)"

fun on_podMonitor :: "(object_meta \<Rightarrow> 's \<Rightarrow> object_meta \<times> 's) \<Rightarrow> kobject \<Rightarrow> 's \<Rightarrow> kobject \<times> 's" where
  "on_podMonitor v (PodMonitorObject d) s = (case v d s of (d, s) \<Rightarrow> (PodMonitorObject d, s))"
| "on_podMonitor v res s = (res, s)"

definition VisitDeployment where "VisitDeployment v c s = Visit (on_deployment v) c s"
definition VisitDeploymentE where "VisitDeploymentE v c s = VisitE (on_deploymentE v) c s"
definition VisitConfigMap where "VisitConfigMap v c s = Visit (on_configMap v) c s"
definition VisitService where "VisitService v c s = Visit (on_service v) c s"
definition VisitRoute where "VisitRoute v c s = Visit (on_route v) c s"
definition VisitCronJob where "VisitCronJob v c s = Visit (on_cronJob v) c s"
definition VisitCronJobE where "VisitCronJobE v c s = VisitE (on_cronJobE v) c s"
definition VisitPodMonitor where "VisitPodMonitor v c s = Visit (on_podMonitor v) c s"

definition VisitMetaObject :: "(object_meta \<Rightarrow> 's \<Rightarrow> object_meta \<times> 's) \<Rightarrow> collection \<Rightarrow> 's \<Rightarrow> collection \<times> 's" where
  "VisitMetaObject v c s =
    Visit (\<lambda>res s. case v (kobject_meta res) s of (m, s) \<Rightarrow> (map_meta (\<lambda>_. m) res, s)) c s"

text \<open>The closure of a search keeps what the filter accepted last.\<close>

definition keep_if :: "('o \<Rightarrow> bool) \<Rightarrow> 'o \<Rightarrow> 'o option \<Rightarrow> 'o \<times> 'o option" where
  "keep_if f re ret = (re, if f re then Some re else ret)"

definition GetDeployment :: "(deployment \<Rightarrow> bool) \<Rightarrow> collection \<Rightarrow> deployment option" where
  "GetDeployment f c = snd (VisitDeployment (keep_if f) c None)"

definition GetConfigMap :: "(config_map \<Rightarrow> bool) \<Rightarrow> collection \<Rightarrow> config_map option" where
  "GetConfigMap f c = snd (VisitConfigMap (keep_if f) c None)"

definition GetService :: "(service \<Rightarrow> bool) \<Rightarrow> collection \<Rightarrow> service option" where
  "GetService f c = snd (VisitService (keep_if f) c None)"

definition GetRoute :: "(route \<Rightarrow> bool) \<Rightarrow> collection \<Rightarrow> route option" where
  "GetRoute f c = snd (VisitRoute (keep_if f) c None)"

definition GetCronJob :: "(object_meta \<Rightarrow> bool) \<Rightarrow> collection \<Rightarrow> object_meta option" where
  "GetCronJob f c = snd (VisitCronJob (keep_if f) c None)"

definition GetPodMonitor :: "(object_meta \<Rightarrow> bool) \<Rightarrow> collection \<Rightarrow> object_meta option" where
  "GetPodMonitor f c = snd (VisitPodMonitor (keep_if f) c None)"

definition NameAnnotation :: string where "NameAnnotation = Domain @ ''/name''"
definition LabelAnnotation :: string where "LabelAnnotation = Domain @ ''/label''"

definition GetDeploymentForWorkflow :: "sonataflow option \<Rightarrow> collection \<Rightarrow> deployment option" where
  "GetDeploymentForWorkflow workflow c =
    (case workflow of
       None \<Rightarrow> None
     | Some wo \<Rightarrow> GetDeployment (\<lambda>d. nil_map_get (om_labels (dp_meta d)) NameAnnotation = sf_name wo) c)"

definition HasDeployment :: "(deployment \<Rightarrow> bool) \<Rightarrow> collection \<Rightarrow> bool" where
  "HasDeployment f c \<longleftrightarrow> GetDeployment f c \<noteq> None"

definition GetServiceForWorkflow :: "sonataflow option \<Rightarrow> collection \<Rightarrow> service option" where
  "GetServiceForWorkflow workflow c =
    (case workflow of
       None \<Rightarrow> None
     | Some wo \<Rightarrow> GetService (\<lambda>s. om_labels (sv_meta s) \<noteq> None \<and> nil_map_get (om_labels (sv_meta s)) LabelAnnotation = sf_name wo) c)"

definition RemoveDeployment :: "(deployment \<Rightarrow> bool) \<Rightarrow> collection \<Rightarrow> deployment option \<times> collection" where
  "RemoveDeployment f c =
    (case Remove (\<lambda>res. case res of DeploymentObject d \<Rightarrow> f d | _ \<Rightarrow> False) c of
       (r, c) \<Rightarrow> (case r of Some (DeploymentObject d) \<Rightarrow> Some d | _ \<Rightarrow> None, c))"

definition RemoveConfigMap :: "(config_map \<Rightarrow> bool) \<Rightarrow> collection \<Rightarrow> config_map option \<times> collection" where
  "RemoveConfigMap f c =
    (case Remove (\<lambda>res. case res of ConfigMapObject d \<Rightarrow> f d | _ \<Rightarrow> False) c of
       (r, c) \<Rightarrow> (case r of Some (ConfigMapObject d) \<Rightarrow> Some d | _ \<Rightarrow> None, c))"

primrec visit_containers :: "(container \<Rightarrow> 's \<Rightarrow> container \<times> 's) \<Rightarrow> container list \<Rightarrow> 's \<Rightarrow> container list \<times> 's" where
  "visit_containers v [] s = ([], s)"
| "visit_containers v (x # xs) s = (case v x s of (x, s) \<Rightarrow> (case visit_containers v xs s of (xs, s) \<Rightarrow> (x # xs, s)))"

definition VisitContainer :: "(container \<Rightarrow> 's \<Rightarrow> container \<times> 's) \<Rightarrow> collection \<Rightarrow> 's \<Rightarrow> collection \<times> 's" where
  "VisitContainer v c s = VisitDeployment (\<lambda>d s.
     case visit_containers v (ps_containers (dp_pod d)) s of
       (xs, s) \<Rightarrow> (d\<lparr>dp_pod := (dp_pod d)\<lparr>ps_containers := xs\<rparr>\<rparr>, s)) c s"

definition GetContainer :: "(container \<Rightarrow> bool) \<Rightarrow> collection \<Rightarrow> container option" where
  "GetContainer f c = snd (VisitContainer (keep_if f) c None)"

definition collection_GetContainerByName :: "string \<Rightarrow> collection \<Rightarrow> container option" where
  "collection_GetContainerByName name c = GetContainer (\<lambda>x. ct_name x = name) c"

definition GetController :: "(kobject \<Rightarrow> bool) \<Rightarrow> collection \<Rightarrow> kobject option" where
  "GetController f c = map_option DeploymentObject (GetDeployment (\<lambda>d. f (DeploymentObject d)) c)"

definition VisitPodSpec :: "(pod_spec \<Rightarrow> 's \<Rightarrow> pod_spec \<times> 's) \<Rightarrow> collection \<Rightarrow> 's \<Rightarrow> collection \<times> 's" where
  "VisitPodSpec v c s = VisitDeployment (\<lambda>d s. case v (dp_pod d) s of (p, s) \<Rightarrow> (d\<lparr>dp_pod := p\<rparr>, s)) c s"

definition VisitPodTemplateMeta ::
  "(gomap \<times> gomap option \<Rightarrow> 's \<Rightarrow> (gomap \<times> gomap option) \<times> 's) \<Rightarrow> collection \<Rightarrow> 's \<Rightarrow> collection \<times> 's" where
  "VisitPodTemplateMeta v c s = VisitDeployment (\<lambda>d s.
     case v (dp_templateLabels d, dp_templateAnnotations d) s of
       ((ls, as), s) \<Rightarrow> (d\<lparr>dp_templateLabels := ls, dp_templateAnnotations := as\<rparr>, s)) c s"

subsection \<open>Replacing an object\<close>

text \<open>A client for each kind of object.\<close>

type_synonym 'w kclients = "string \<Rightarrow> ('w, kobject) client"

definition mapRequiredMeta :: "kobject \<Rightarrow> kobject \<Rightarrow> kobject" where
  "mapRequiredMeta from' to = map_meta (\<lambda>m. m\<lparr>om_resourceVersion := om_resourceVersion (kobject_meta from')\<rparr>) to"

definition mapRequiredServiceData :: "kobject \<Rightarrow> kobject \<Rightarrow> kobject" where
  "mapRequiredServiceData from' to =
    (case (from', to) of
       (ServiceObject f, ServiceObject t) \<Rightarrow> ServiceObject (t\<lparr>sv_clusterIP := sv_clusterIP f\<rparr>)
     | _ \<Rightarrow> to)"

definition mapRequiredRouteData :: "kobject \<Rightarrow> kobject \<Rightarrow> kobject" where
  "mapRequiredRouteData from' to =
    (case (from', to) of
       (RouteObject f, RouteObject t) \<Rightarrow> RouteObject (t\<lparr>ro_host := ro_host f\<rparr>)
     | _ \<Rightarrow> to)"

text \<open>The answer: whether there was one to replace, the error, the object as it was sent, and the world.\<close>

definition ReplaceResource :: "'w kclients \<Rightarrow> kobject \<Rightarrow> 'w \<Rightarrow> bool \<times> kerror option \<times> kobject \<times> 'w" where
  "ReplaceResource cl res w =
    (let k = cl (kobject_kind res); m = kobject_meta res
     in case c_create k w res of
          (None, w) \<Rightarrow> (False, None, res, w)
        | (Some e, w) \<Rightarrow>
            if \<not> IsAlreadyExists e then (False, Some e, res, w)
            else (case c_get k w (om_namespace m) (om_name m) of
                    Inl e \<Rightarrow> (True, Some e, res, w)
                  | Inr existing \<Rightarrow>
                     (let res = mapRequiredRouteData existing (mapRequiredServiceData existing (mapRequiredMeta existing res))
                      in case c_update k w res of (e, w) \<Rightarrow> (True, e, res, w))))"

subsection \<open>Resource files\<close>

text \<open>An open file: what it holds, what it is, its entries (with which of them are directories) and how it closes.
  The paths of the operating system are functions of the standard library.\<close>

record asset =
  as_content :: "kerror + string"
  as_isDir :: "kerror + bool"
  as_entries :: "kerror + (string \<times> bool) list"
  as_close :: "kerror option"

record assets =
  at_open :: "string \<Rightarrow> kerror + asset"
  at_join :: "string \<Rightarrow> string \<Rightarrow> string"
  at_dir :: "string \<Rightarrow> string"
  at_match :: "string \<Rightarrow> string \<Rightarrow> bool"
  at_builderPath :: string

definition trim_blanks :: "string \<Rightarrow> string" where
  "trim_blanks s = rev (dropWhile (\<lambda>c. c = CHR '' '') (rev (dropWhile (\<lambda>c. c = CHR '' '') s)))"

definition has_prefix :: "string \<Rightarrow> string \<Rightarrow> bool" where
  "has_prefix p s \<longleftrightarrow> take (length p) s = p"

text \<open>An error of closing comes with the data.\<close>

definition Resource :: "assets \<Rightarrow> string \<Rightarrow> string \<times> kerror option" where
  "Resource at name =
    (let name = trim_blanks name;
         name = (if has_prefix (at_builderPath at) name then name else at_builderPath at @ name)
     in case at_open at name of
          Inl e \<Rightarrow> ('''', Some e)
        | Inr file \<Rightarrow> (case as_content file of Inl e \<Rightarrow> ('''', Some e) | Inr data \<Rightarrow> (data, as_close file)))"

definition ResourceAsString :: "assets \<Rightarrow> string \<Rightarrow> string \<times> kerror option" where
  "ResourceAsString at name = (case Resource at name of (data, e) \<Rightarrow> (data, e))"

definition DirExists :: "assets \<Rightarrow> string \<Rightarrow> bool" where
  "DirExists at dirName \<longleftrightarrow> (case at_open at dirName of Inl _ \<Rightarrow> False | Inr _ \<Rightarrow> True)"

text \<open>Wrapping the nil error of a file that is no directory gives nil.\<close>

definition Resources :: "assets \<Rightarrow> string \<Rightarrow> string list \<times> kerror option" where
  "Resources at dirName =
    (case at_open at dirName of
       Inl e \<Rightarrow> if IsNotFound e then ([], None) else ([], Some e)
     | Inr dir \<Rightarrow>
        (case as_isDir dir of
           Inl _ \<Rightarrow> ([], as_close dir)
         | Inr isDir \<Rightarrow>
            if \<not> isDir then ([], None)
            else (case as_entries dir of
                    Inl e \<Rightarrow> ([], Some e)
                  | Inr files \<Rightarrow> (map (\<lambda>f. at_join at dirName (fst f)) (filter (\<lambda>f. \<not> snd f) files), as_close dir))))"

definition WithPrefix :: "assets \<Rightarrow> string \<Rightarrow> string list \<times> kerror option" where
  "WithPrefix at pathPrefix =
    (case Resources at (at_dir at pathPrefix) of
       (_, Some e) \<Rightarrow> ([], Some e)
     | (paths, None) \<Rightarrow> (filter (at_match at (pathPrefix @ ''*'')) paths, None))"

subsection \<open>Creating or collecting resources\<close>

text \<open>The operations of this part: clients, the status client of platforms, and the decoder of an object.\<close>

record 'w resource_env =
  re_clients :: "'w kclients"
  re_load :: "string \<Rightarrow> kerror + kobject"
  re_assets :: assets

definition ObjectOrCollect ::
  "'w resource_env \<Rightarrow> string \<Rightarrow> collection option \<Rightarrow> bool \<Rightarrow> kobject \<Rightarrow> 'w \<Rightarrow> kerror option \<times> collection option \<times> 'w" where
  "ObjectOrCollect env namespace coll force obj w =
    (case coll of
       Some c \<Rightarrow> (None, Some (Add (Some obj) c), w)
     | None \<Rightarrow>
        (let obj = map_meta (\<lambda>m. m\<lparr>om_namespace := namespace\<rparr>) obj;
             k = re_clients env (kobject_kind obj);
             (stop, w) = (if kobject_kind obj = ''PersistentVolumeClaim''
                          then (case c_create k w obj of
                                  (Some e, w) \<Rightarrow> (if IsAlreadyExists e then None else Some e, w)
                                | (None, w) \<Rightarrow> (None, w))
                          else (None, w))
         in case stop of
              Some e \<Rightarrow> (Some e, None, w)
            | None \<Rightarrow>
               if force then
                 (case ReplaceResource (re_clients env) obj w of
                    (_, Some e, _, w) \<Rightarrow> (Some e, None, w)
                  | (_, None, obj, w) \<Rightarrow>
                     if kobject_kind obj = ''SonataFlowPlatform''
                     then (case c_status k w obj of (e, w) \<Rightarrow> (e, None, w))
                     else (None, None, w))
               else (case c_create k w obj of (e, w) \<Rightarrow> (e, None, w))))"

definition ResourceOrCollect ::
  "'w resource_env \<Rightarrow> string \<Rightarrow> collection option \<Rightarrow> bool \<Rightarrow> (kobject \<Rightarrow> kobject) \<Rightarrow> string \<Rightarrow> 'w \<Rightarrow>
     kerror option \<times> collection option \<times> 'w" where
  "ResourceOrCollect env namespace coll force customizer name w =
    (case ResourceAsString (re_assets env) name of
       (_, Some e) \<Rightarrow> (Some e, coll, w)
     | (content, None) \<Rightarrow>
        (case re_load env content of
           Inl e \<Rightarrow> (Some e, coll, w)
         | Inr obj \<Rightarrow> ObjectOrCollect env namespace coll force (customizer obj) w))"

fun ResourcesOrCollect ::
  "'w resource_env \<Rightarrow> string \<Rightarrow> collection option \<Rightarrow> bool \<Rightarrow> (kobject \<Rightarrow> kobject) \<Rightarrow> string list \<Rightarrow> 'w \<Rightarrow>
     kerror option \<times> collection option \<times> 'w" where
  "ResourcesOrCollect env namespace coll force customizer [] w = (None, coll, w)"
| "ResourcesOrCollect env namespace coll force customizer (name # names) w =
    (case ResourceOrCollect env namespace coll force customizer name w of
       (Some e, coll, w) \<Rightarrow> (Some e, coll, w)
     | (None, coll, w) \<Rightarrow> ResourcesOrCollect env namespace coll force customizer names w)"

subsection \<open>What visits, searches and removals do\<close>

lemma map_meta_id [simp]: "map_meta (\<lambda>m. m) o1 = o1" by (cases o1) simp_all

lemma kobject_kind_meta [simp]: "kobject_kind (map_meta f o1) = kobject_kind o1" by (cases o1) simp_all

lemma kobject_meta_map [simp]: "kobject_meta (map_meta f o1) = f (kobject_meta o1)" by (cases o1) simp_all

lemma Visit_length: "length (fst (Visit v c s)) = length c"
proof (induction c arbitrary: s)
  case (Cons x c)
  obtain y t where "v x s = (y, t)" by force
  then show ?case using Cons.IH[of t] by (simp split: prod.split) (metis fst_conv)
qed simp

text \<open>The closure of a search, on the objects of one type: the last one that fits.\<close>

definition last_of :: "('o \<Rightarrow> bool) \<Rightarrow> 'o list \<Rightarrow> 'o option" where
  "last_of f xs = (case filter f xs of [] \<Rightarrow> None | ys \<Rightarrow> Some (last ys))"

lemma last_of_Cons: "last_of f (x # xs) = (case last_of f xs of Some y \<Rightarrow> Some y | None \<Rightarrow> if f x then Some x else None)"
  by (simp add: last_of_def split: list.splits)

definition deployments :: "collection \<Rightarrow> deployment list" where
  "deployments c = List.map_filter (\<lambda>x. case x of DeploymentObject d \<Rightarrow> Some d | _ \<Rightarrow> None) c"

lemma deployments_simps [simp]:
  "deployments [] = []" "deployments (DeploymentObject d # c) = d # deployments c"
  "deployments (x # c) = (case x of DeploymentObject d \<Rightarrow> [d] | _ \<Rightarrow> []) @ deployments c"
  by (auto simp: deployments_def map_filter_def split: kobject.splits)

lemma Visit_keep:
  "Visit (on_deployment (\<lambda>re ret. (re, if f re then Some re else ret))) c r = (c, case last_of f (deployments c) of Some d \<Rightarrow> Some d | None \<Rightarrow> r)"
proof (induction c arbitrary: r)
  case Nil then show ?case by (simp add: last_of_def)
next
  case (Cons x c)
  show ?case by (cases x) (simp_all add: Cons.IH last_of_Cons split: option.splits)
qed

lemma GetDeployment_last: "GetDeployment f c = last_of f (deployments c)"
  by (simp add: GetDeployment_def VisitDeployment_def keep_if_def[abs_def] Visit_keep split: option.splits)

lemma Remove_find: "Remove sel c = (find sel c, case find sel c of None \<Rightarrow> c | Some x \<Rightarrow> remove1 x c)"
proof (induction c)
  case (Cons x c)
  have "y \<noteq> x" if "\<not> sel x" "find sel c = Some y" for y using that by (auto simp: find_Some_iff)
  then show ?case using Cons by (auto split: option.splits)
qed simp

lemma find_deployment:
  "find (\<lambda>res. case res of DeploymentObject d \<Rightarrow> f d | _ \<Rightarrow> False) c = map_option DeploymentObject (find f (deployments c))"
proof (induction c)
  case (Cons x c) then show ?case by (cases x) simp_all
qed simp

lemma Remove_first:
  "RemoveDeployment f c =
    (find f (deployments c),
     case find f (deployments c) of None \<Rightarrow> c | Some d \<Rightarrow> remove1 (DeploymentObject d) c)"
  by (simp add: RemoveDeployment_def Remove_find find_deployment split: option.splits)

text \<open>A search answers the last object that fits and a removal takes the first one away; an object is found before a
  removal that finds it again afterwards just when two fit.\<close>

theorem removed_first_found_last:
  "GetDeployment f c = last_of f (deployments c) \<and> fst (RemoveDeployment f c) = find f (deployments c)
    \<and> (HasDeployment f (snd (RemoveDeployment f c)) \<longleftrightarrow> 1 < length (filter f (deployments c)))"
proof -
  have first: "filter f (deployments (remove1 (DeploymentObject d) c)) = tl (filter f (deployments c))"
    if d: "find f (deployments c) = Some d" for d
  proof -
    have "f d" using d by (auto simp: find_Some_iff)
    with d show ?thesis
    proof (induction c)
      case (Cons x c) then show ?case by (cases x) (auto split: if_splits)
    qed simp
  qed
  have has: "HasDeployment f c' \<longleftrightarrow> filter f (deployments c') \<noteq> []" for c'
    by (simp add: HasDeployment_def GetDeployment_last last_of_def split: list.splits)
  have tl: "1 < length xs \<longleftrightarrow> tl xs \<noteq> []" for xs :: "deployment list" by (cases xs) auto
  have "HasDeployment f (snd (RemoveDeployment f c)) \<longleftrightarrow> 1 < length (filter f (deployments c))"
  proof (cases "find f (deployments c)")
    case None
    then have "filter f (deployments c) = []" by (auto simp: find_None_iff filter_empty_conv)
    then show ?thesis by (simp add: Remove_first None has)
  next
    case (Some d) then show ?thesis unfolding has tl by (simp add: Remove_first first)
  qed
  then show ?thesis by (simp add: GetDeployment_last Remove_first)
qed

subsection \<open>Replacing and creating\<close>

text \<open>The contract of the clients of all kinds: a store for each kind, and an object that exists is no change.\<close>

locale object_clients =
  fixes cl :: "'w kclients"
  assumes store: "object_store (cl k) (\<lambda>o1. om_namespace (kobject_meta o1)) (\<lambda>o1. om_name (kobject_meta o1))"
    and exists_kept: "c_create (cl k) w x = (Some e, w') \<Longrightarrow> IsAlreadyExists e \<Longrightarrow> w' = w"
begin

text \<open>When a replacement succeeds, the cluster holds the object as it was sent: the one given, but for the resource
  version, the address of a service and the host of a route that were there.\<close>

lemma replace_stores:
  assumes r: "ReplaceResource cl res w = (b, None, res', w')"
  defines "k \<equiv> cl (kobject_kind res)" and "n \<equiv> om_namespace (kobject_meta res)" and "m \<equiv> om_name (kobject_meta res)"
  shows "c_get k w' n m = Inr res' \<and> (\<not> b \<longrightarrow> res' = res)
    \<and> (b \<longrightarrow> (\<exists>old. c_get k w n m = Inr old
         \<and> res' = mapRequiredRouteData old (mapRequiredServiceData old (mapRequiredMeta old res))))"
proof -
  have st: "object_store k (\<lambda>o1. om_namespace (kobject_meta o1)) (\<lambda>o1. om_name (kobject_meta o1))"
    unfolding k_def by (rule store)
  have key: "kobject_meta (mapRequiredRouteData old (mapRequiredServiceData old (mapRequiredMeta old res)))
      = (kobject_meta res)\<lparr>om_resourceVersion := om_resourceVersion (kobject_meta old)\<rparr>" for old
    by (cases res; cases old) (simp_all add: mapRequiredRouteData_def mapRequiredServiceData_def mapRequiredMeta_def)
  obtain e1 w1 where c: "c_create k w res = (e1, w1)" by force
  show ?thesis
  proof (cases e1)
    case None
    then have "b = False" "res' = res" "w' = w1" using r c by (simp_all add: ReplaceResource_def k_def Let_def)
    then show ?thesis using object_store.create_get[OF st, of w res w1] c None by (simp add: n_def m_def)
  next
    case (Some e)
    then have ae: "IsAlreadyExists e" using r c by (auto simp: ReplaceResource_def k_def Let_def split: if_splits)
    then have w1: "w1 = w" using exists_kept c Some unfolding k_def by blast
    obtain old where g: "c_get k w n m = Inr old"
      using r c Some ae w1 by (auto simp: ReplaceResource_def k_def n_def m_def Let_def split: sum.splits)
    let ?r = "mapRequiredRouteData old (mapRequiredServiceData old (mapRequiredMeta old res))"
    have u: "b = True" "res' = ?r" "c_update k w ?r = (None, w')"
      using r c Some ae w1 g by (auto simp: ReplaceResource_def k_def n_def m_def Let_def split: prod.splits)
    then show ?thesis using object_store.update_get[OF st u(3)] g by (simp add: key n_def m_def)
  qed
qed

text \<open>Without force a volume claim is created twice, and the second attempt always fails.\<close>

lemma claim_needs_force:
  assumes "kobject_kind obj = ''PersistentVolumeClaim''" "re_clients env = cl"
  shows "\<exists>e. fst (ObjectOrCollect env ns None False obj w) = Some e"
proof -
  let ?o = "map_meta (\<lambda>m. m\<lparr>om_namespace := ns\<rparr>) obj" and ?k = "cl ''PersistentVolumeClaim''"
  have st: "object_store ?k (\<lambda>o1. om_namespace (kobject_meta o1)) (\<lambda>o1. om_name (kobject_meta o1))" by (rule store)
  obtain e1 w1 where c: "c_create ?k w ?o = (e1, w1)" by force
  have "\<exists>e w2. c_create ?k w1 ?o = (Some e, w2)" if "e1 = None \<or> (\<exists>e. e1 = Some e \<and> IsAlreadyExists e)"
    using that object_store.create_not_idempotent[OF st, of w ?o w1] exists_kept[of _ w ?o _ w1] c by auto
  then show ?thesis using c assms
    by (cases e1) (auto simp: ObjectOrCollect_def Let_def split: if_splits)
qed

end

text \<open>The clients of a cluster in memory: one list of objects for each kind.\<close>

definition mem_kclients :: "(string \<Rightarrow> kobject list) kclients" where
  "mem_kclients k = mem_client (\<lambda>o1. om_namespace (kobject_meta o1)) (\<lambda>o1. om_name (kobject_meta o1)) (\<lambda>w. w k) (\<lambda>xs w. w(k := xs))"

interpretation mem_objects: object_clients mem_kclients
proof (rule object_clients.intro)
  fix k
  show "object_store (mem_kclients k) (\<lambda>o1. om_namespace (kobject_meta o1)) (\<lambda>o1. om_name (kobject_meta o1))"
    unfolding mem_kclients_def by (rule mem_client_store) simp_all
next
  fix k w x e w'
  assume "c_create (mem_kclients k) w x = (Some e, w')" "IsAlreadyExists e"
  then show "w' = w" by (auto simp: mem_kclients_def mem_client_def Let_def split: option.splits)
qed

text \<open>The property of a claim on this cluster, for any object of the kind.\<close>

lemma claim_in_memory:
  "kobject_kind obj = ''PersistentVolumeClaim'' \<Longrightarrow> re_clients env = mem_kclients \<Longrightarrow>
    \<exists>e. fst (ObjectOrCollect env ns None False obj w) = Some e"
  by (rule mem_objects.claim_needs_force)

end
