(* ===== verification/Host_Registry.thy ===== *)
theory Host_Registry
  imports Kube_Client
begin

text \<open>
  The container registry of the host that builds outside a cluster push to (\<open>container-builder/common\<close>:
  \<open>docker.go\<close>, \<open>registry_docker.go\<close>, \<open>registry.go\<close>).  The Docker daemon, the ports of the host and the passing of time
  are a record of operations on an abstract world; the progress streams of pulls and pushes are not read except where
  the code reads them.
\<close>

subsection \<open>The daemon\<close>

record docker_image =
  im_id :: string
  im_tags :: "string list option"
  im_digests :: "string list option"

record docker_container =
  dc_id :: string
  dc_image :: string

type_synonym docker_filters = "(string \<times> string) list"

text \<open>A push answers a stream, which is nil with an error; listening on a port answers an error or a listener that is
  closed at once.\<close>

record 'w docker =
  dk_imageList :: "'w \<Rightarrow> bool \<Rightarrow> docker_filters \<Rightarrow> kerror + docker_image list"
  dk_imageRemove :: "'w \<Rightarrow> string \<Rightarrow> kerror option \<times> 'w"
  dk_imagesPrune :: "'w \<Rightarrow> docker_filters \<Rightarrow> kerror option \<times> 'w"
  dk_imageTag :: "'w \<Rightarrow> string \<Rightarrow> string \<Rightarrow> kerror option \<times> 'w"
  dk_imagePush :: "'w \<Rightarrow> string \<Rightarrow> string \<Rightarrow> (kerror + unit) \<times> 'w"
  dk_imagePull :: "'w \<Rightarrow> string \<Rightarrow> kerror option \<times> 'w"
  dk_auth :: "string \<Rightarrow> string \<Rightarrow> string \<Rightarrow> string"
  dk_containerList :: "'w \<Rightarrow> bool \<Rightarrow> kerror + docker_container list"
  dk_containerCreate :: "'w \<Rightarrow> string \<Rightarrow> string \<Rightarrow> (kerror + string) \<times> 'w"
  dk_containerStart :: "'w \<Rightarrow> string \<Rightarrow> kerror option \<times> 'w"
  dk_containerStop :: "'w \<Rightarrow> string \<Rightarrow> int \<Rightarrow> kerror option \<times> 'w"
  dk_containerKill :: "'w \<Rightarrow> string \<Rightarrow> kerror option \<times> 'w"
  dk_containerRemove :: "'w \<Rightarrow> string \<Rightarrow> kerror option \<times> 'w"
  dk_listen :: "'w \<Rightarrow> string \<Rightarrow> kerror option \<times> 'w"
  dk_sleep :: "nat \<Rightarrow> 'w \<Rightarrow> 'w"

subsection \<open>Images and containers\<close>

definition GetImages :: "'w docker \<Rightarrow> bool \<Rightarrow> docker_filters \<Rightarrow> 'w \<Rightarrow> kerror + docker_image list" where
  "GetImages d all fs w = (case dk_imageList d w all fs of Inl e \<Rightarrow> Inl e | Inr images \<Rightarrow> Inr images)"

fun remove_images :: "'w docker \<Rightarrow> docker_image list \<Rightarrow> 'w \<Rightarrow> kerror option \<times> 'w" where
  "remove_images d [] w = (None, w)"
| "remove_images d (img # images) w =
    (case dk_imageRemove d w (im_id img) of
       (Some e, w) \<Rightarrow> (Some e, w)
     | (None, w) \<Rightarrow> remove_images d images w)"

text \<open>Whether an image has no tag; the first elements of both lists are taken without a look at their lengths.\<close>

definition untagged :: "docker_image \<Rightarrow> bool option" where
  "untagged img =
    (case im_tags img of
       None \<Rightarrow> Some False
     | Some [] \<Rightarrow> None
     | Some (t # _) \<Rightarrow>
        if t \<noteq> ''<none>:<none>'' then Some False
        else (case im_digests img of Some (g # _) \<Rightarrow> Some (g = ''<none>@<none>'') | _ \<Rightarrow> None))"

fun remove_untagged :: "'w docker \<Rightarrow> docker_image list \<Rightarrow> 'w \<Rightarrow> unit outcome \<times> 'w" where
  "remove_untagged d [] w = (Ret (), w)"
| "remove_untagged d (img # images) w =
    (case untagged img of
       None \<Rightarrow> (Panic, w)
     | Some False \<Rightarrow> remove_untagged d images w
     | Some True \<Rightarrow>
        (case dk_imageRemove d w (im_id img) of
           (Some e, w) \<Rightarrow> (Fail e, w)
         | (None, w) \<Rightarrow> remove_untagged d images w))"

definition RemoveImagesUntagged :: "'w docker \<Rightarrow> 'w \<Rightarrow> unit outcome \<times> 'w" where
  "RemoveImagesUntagged d w =
    (case GetImages d True [] w of Inl e \<Rightarrow> (Fail e, w) | Inr images \<Rightarrow> remove_untagged d images w)"

definition RemoveDanglingImages :: "'w docker \<Rightarrow> 'w \<Rightarrow> kerror option \<times> 'w" where
  "RemoveDanglingImages d w =
    (case GetImages d False [(''dangling'', ''true'')] w of Inl e \<Rightarrow> (Some e, w) | Inr images \<Rightarrow> remove_images d images w)"

definition PurgeImages :: "'w docker \<Rightarrow> 'w \<Rightarrow> kerror option \<times> 'w" where
  "PurgeImages d w = dk_imagesPrune d w [(''dangling'', ''true'')]"

definition ContainerKill :: "'w docker \<Rightarrow> string \<Rightarrow> 'w \<Rightarrow> kerror option \<times> 'w" where
  "ContainerKill d i w = dk_containerKill d w i"

definition ContainerRemove :: "'w docker \<Rightarrow> string \<Rightarrow> 'w \<Rightarrow> kerror option \<times> 'w" where
  "ContainerRemove d i w = dk_containerRemove d w i"

definition ContainerStop :: "'w docker \<Rightarrow> string \<Rightarrow> 'w \<Rightarrow> kerror option \<times> 'w" where
  "ContainerStop d i w = dk_containerStop d w i 10"

text \<open>The errors of killing and removing are dropped.\<close>

fun purge_containers :: "'w docker \<Rightarrow> string \<Rightarrow> string \<Rightarrow> docker_container list \<Rightarrow> 'w \<Rightarrow> 'w" where
  "purge_containers d i img [] w = w"
| "purge_containers d i img (c # cs) w =
    purge_containers d i img cs
      (if dc_image c = img \<or> dc_id c = i then snd (ContainerRemove d (dc_id c) (snd (ContainerKill d (dc_id c) w))) else w)"

definition PurgeContainer :: "'w docker \<Rightarrow> string \<Rightarrow> string \<Rightarrow> 'w \<Rightarrow> kerror option \<times> 'w" where
  "PurgeContainer d i img w =
    (case dk_containerList d w True of Inl e \<Rightarrow> (Some e, w) | Inr cs \<Rightarrow> (None, purge_containers d i img cs w))"

text \<open>Both the image with its tag and the image alone are asked for.\<close>

definition image_filters :: "string \<Rightarrow> string \<Rightarrow> docker_filters" where
  "image_filters repo tag =
    (if repo \<noteq> '''' \<and> tag \<noteq> '''' then [(''reference'', repo @ '':'' @ tag)] else []) @
    (if repo \<noteq> '''' then [(''reference'', repo)] else [])"

definition RemoveImagesFiltered :: "'w docker \<Rightarrow> string \<Rightarrow> string \<Rightarrow> 'w \<Rightarrow> kerror option \<times> 'w" where
  "RemoveImagesFiltered d repo tag w =
    (case GetImages d False (image_filters repo tag) w of Inl e \<Rightarrow> (Some e, w) | Inr images \<Rightarrow> remove_images d images w)"

definition TagImage :: "'w docker \<Rightarrow> string \<Rightarrow> string \<Rightarrow> 'w \<Rightarrow> kerror option \<times> 'w" where
  "TagImage d source tag w = dk_imageTag d w source tag"

text \<open>After an error the nil stream is read.\<close>

definition PushImage :: "'w docker \<Rightarrow> string \<Rightarrow> string \<Rightarrow> string \<Rightarrow> string \<Rightarrow> 'w \<Rightarrow> unit outcome \<times> 'w" where
  "PushImage d img url username password w =
    (case dk_imagePush d w img (dk_auth d username password url) of
       (Inl e, w) \<Rightarrow> (Panic, w)
     | (Inr _, w) \<Rightarrow> (Ret (), w))"

definition PullImage :: "'w docker \<Rightarrow> string \<Rightarrow> 'w \<Rightarrow> kerror option \<times> 'w" where
  "PullImage d img w = dk_imagePull d w img"

text \<open>An error of the list is only logged.\<close>

definition GetContainerID :: "'w docker \<Rightarrow> string \<Rightarrow> 'w \<Rightarrow> string \<times> kerror option" where
  "GetContainerID d imageName w =
    (let cs = (case dk_containerList d w False of Inl _ \<Rightarrow> [] | Inr cs \<Rightarrow> cs)
     in case find (\<lambda>c. dc_image c = imageName) cs of Some c \<Rightarrow> (dc_id c, None) | None \<Rightarrow> ('''', None))"

subsection \<open>The registry\<close>

definition RegistryImg :: string where "RegistryImg = ''registry''"
definition registryImgFullTag :: string where "registryImgFullTag = ''docker.io/library/registry:latest''"

definition GetRegistryRunningID :: "'w docker \<Rightarrow> 'w \<Rightarrow> string" where
  "GetRegistryRunningID d w =
    (case dk_containerList d w False of
       Inl _ \<Rightarrow> ''''
     | Inr cs \<Rightarrow> (case find (\<lambda>c. dc_image c = RegistryImg) cs of Some c \<Rightarrow> dc_id c | None \<Rightarrow> ''''))"

definition first_is :: "string list option \<Rightarrow> (string \<Rightarrow> bool) \<Rightarrow> bool" where
  "first_is xs P \<longleftrightarrow> (case xs of Some (x # _) \<Rightarrow> P x | _ \<Rightarrow> False)"

definition str_prefix :: "string \<Rightarrow> string \<Rightarrow> bool" where
  "str_prefix p s \<longleftrightarrow> take (length p) s = p"

definition IsRegistryImagePresent :: "'w docker \<Rightarrow> 'w \<Rightarrow> bool" where
  "IsRegistryImagePresent d w \<longleftrightarrow>
    (case dk_imageList d w False [] of
       Inl _ \<Rightarrow> False
     | Inr images \<Rightarrow> list_ex (\<lambda>x. first_is (im_tags x) (\<lambda>t. t = RegistryImg) \<or> first_is (im_digests x) (str_prefix RegistryImg)) images)"

definition IsImagePresent :: "'w docker \<Rightarrow> string \<Rightarrow> 'w \<Rightarrow> bool" where
  "IsImagePresent d name w \<longleftrightarrow>
    (case dk_imageList d w False [] of
       Inl _ \<Rightarrow> False
     | Inr images \<Rightarrow> list_ex (\<lambda>x. first_is (im_tags x) (\<lambda>_. True) \<and> first_is (im_digests x) (\<lambda>_. True) \<and>
         (first_is (im_tags x) (\<lambda>t. t = name) \<or> first_is (im_digests x) (str_prefix name))) images)"

text \<open>The listener is closed even when there is none: a port that is taken is a nil dereference.\<close>

definition IsPortAvailable :: "'w docker \<Rightarrow> string \<Rightarrow> 'w \<Rightarrow> bool outcome \<times> 'w" where
  "IsPortAvailable d port w = (case dk_listen d w port of (Some e, w) \<Rightarrow> (Panic, w) | (None, w) \<Rightarrow> (Ret True, w))"

partial_function (option) wait_port :: "'w docker \<Rightarrow> 'w \<Rightarrow> (unit outcome \<times> 'w) option" where
  "wait_port d w =
    (case IsPortAvailable d ''5000'' (dk_sleep d 1 w) of
       (Panic, w) \<Rightarrow> Some (Panic, w)
     | (Fail e, w) \<Rightarrow> Some (Fail e, w)
     | (Ret b, w) \<Rightarrow> if b then Some (Ret (), w) else wait_port d w)"

text \<open>A container that could not be created is started all the same, with an empty id.\<close>

definition start_container :: "'w docker \<Rightarrow> 'w \<Rightarrow> string \<times> 'w" where
  "start_container d w =
    (case dk_containerCreate d (dk_sleep d 2 w) RegistryImg RegistryImg of
       (r, w) \<Rightarrow>
        (case dk_containerStart d w (case r of Inl _ \<Rightarrow> '''' | Inr i \<Rightarrow> i) of
           (Some e, w) \<Rightarrow> ('''', w)
         | (None, w) \<Rightarrow> (let w = dk_sleep d 4 w in (GetRegistryRunningID d w, w))))"

definition StartRegistry :: "'w docker \<Rightarrow> 'w \<Rightarrow> (string outcome \<times> 'w) option" where
  "StartRegistry d w =
    (case wait_port d w of
       None \<Rightarrow> None
     | Some (Panic, w) \<Rightarrow> Some (Panic, w)
     | Some (Fail e, w) \<Rightarrow> Some (Fail e, w)
     | Some (Ret _, w) \<Rightarrow>
        (let i = GetRegistryRunningID d w
         in if i \<noteq> '''' then Some (Ret i, w)
            else if \<not> IsRegistryImagePresent d w
            then (case dk_imagePull d w RegistryImg of
                    (Some e, w) \<Rightarrow> Some (Ret '''', w)
                  | (None, w) \<Rightarrow> (case start_container d w of (i, w) \<Rightarrow> Some (Ret i, w)))
            else (case start_container d w of (i, w) \<Rightarrow> Some (Ret i, w))))"

definition StopAndRemoveContainer :: "'w docker \<Rightarrow> string \<Rightarrow> 'w \<Rightarrow> bool \<times> 'w" where
  "StopAndRemoveContainer d i w =
    (if i \<noteq> '''' then (case dk_containerRemove d (snd (dk_containerKill d w i)) i of (e, w) \<Rightarrow> (e = None, w))
     else (True, w))"

definition StopRegistry :: "'w docker \<Rightarrow> 'w \<Rightarrow> bool \<times> 'w" where
  "StopRegistry d w =
    (let i = GetRegistryRunningID d w
     in if i \<noteq> '''' then (case dk_containerRemove d (snd (dk_containerKill d w i)) i of
                            (Some e, w) \<Rightarrow> (False, w) | (None, w) \<Rightarrow> (True, w))
        else (True, w))"

text \<open>The connection is there; without one an empty registry is answered.\<close>

definition SetupDockerSocket :: "'w docker option \<Rightarrow> 'w \<Rightarrow> (string outcome \<times> 'w) option" where
  "SetupDockerSocket conn w =
    (case conn of
       None \<Rightarrow> Some (Ret '''', w)
     | Some d \<Rightarrow>
        (let w = snd (PurgeContainer d '''' RegistryImg w);
             w = (if \<not> IsRegistryImagePresent d w then snd (PullImage d registryImgFullTag w) else w);
             i = GetRegistryRunningID d w
         in if i = '''' then StartRegistry d w else Some (Ret i, w)))"

definition DockerTearDown :: "'w docker \<Rightarrow> 'w \<Rightarrow> 'w" where
  "DockerTearDown d w =
    (if GetRegistryRunningID d w \<noteq> '''' then snd (StopAndRemoveContainer d (GetRegistryRunningID d w) w)
     else snd (StopRegistry d w))"

subsection \<open>Starting the registry\<close>

lemma wait_port_once:
  "wait_port d w = Some (case dk_listen d (dk_sleep d 1 w) ''5000'' of (Some e, w) \<Rightarrow> (Panic, w) | (None, w) \<Rightarrow> (Ret (), w))"
  by (subst wait_port.simps) (auto simp: IsPortAvailable_def split: prod.splits option.splits)

text \<open>The loop that waits for the port never goes round: a port that is free ends it, and one that is taken, by the
  registry itself for instance, ends the program.  A registry that is found running is answered and nothing is created.\<close>

theorem start_registry:
  "\<exists>x. StartRegistry d w = Some x
    \<and> (case dk_listen d (dk_sleep d 1 w) ''5000'' of
         (Some e, w1) \<Rightarrow> x = (Panic, w1)
       | (None, w1) \<Rightarrow> fst x \<noteq> Panic \<and> (GetRegistryRunningID d w1 = '''' \<or> x = (Ret (GetRegistryRunningID d w1), w1)))"
  by (auto simp: StartRegistry_def wait_port_once Let_def split: prod.splits option.splits)

subsection \<open>Removing images\<close>

text \<open>The contract of the daemon: it lists the images that are there, and a successful removal takes the image away, and
  perhaps its parents.\<close>

locale docker_daemon =
  fixes d :: "'w docker" and images :: "'w \<Rightarrow> docker_image list"
  assumes listed: "dk_imageList d w True [] = Inr (images w)"
    and removed: "dk_imageRemove d w i = (None, w') \<Longrightarrow> set (images w') \<subseteq> {x \<in> set (images w). im_id x \<noteq> i}"
begin

lemma remove_untagged_images:
  "remove_untagged d xs w = (Ret (), w') \<Longrightarrow>
    set (images w') \<subseteq> {x \<in> set (images w). \<forall>y\<in>set xs. untagged y = Some True \<longrightarrow> im_id y \<noteq> im_id x}"
proof (induction xs arbitrary: w)
  case (Cons x xs)
  show ?case
  proof (cases "untagged x = Some True")
    case True
    then obtain w1 where w1: "dk_imageRemove d w (im_id x) = (None, w1)" "remove_untagged d xs w1 = (Ret (), w')"
      using Cons.prems by (auto split: prod.splits option.splits)
    show ?thesis using Cons.IH[OF w1(2)] removed[OF w1(1)] by auto
  next
    case False
    then have "remove_untagged d xs w = (Ret (), w')" using Cons.prems by (auto split: option.splits bool.splits)
    then show ?thesis using Cons.IH False by auto
  qed
qed simp

text \<open>After a clean-up that ends well no untagged image is left, and no image is there that was not there before.\<close>

lemma no_untagged_left:
  assumes "RemoveImagesUntagged d w = (Ret (), w')"
  shows "set (images w') \<subseteq> {x \<in> set (images w). untagged x \<noteq> Some True}"
  using remove_untagged_images[of "images w" w w'] assms by (auto simp: RemoveImagesUntagged_def GetImages_def listed)

end

text \<open>A daemon in memory: images, running containers and whether the port of the registry is free.\<close>

record docker_host =
  dh_images :: "docker_image list"
  dh_containers :: "docker_container list"
  dh_portFree :: bool

definition mem_docker :: "docker_host docker" where
  "mem_docker = \<lparr>dk_imageList = (\<lambda>w all fs. Inr (dh_images w)),
     dk_imageRemove = (\<lambda>w i. (None, w\<lparr>dh_images := filter (\<lambda>x. im_id x \<noteq> i) (dh_images w)\<rparr>)),
     dk_imagesPrune = (\<lambda>w fs. (None, w)), dk_imageTag = (\<lambda>w s t. (None, w)), dk_imagePush = (\<lambda>w i a. (Inr (), w)),
     dk_imagePull = (\<lambda>w i. (None, w\<lparr>dh_images := dh_images w @ [\<lparr>im_id = i, im_tags = Some [i], im_digests = None\<rparr>]\<rparr>)),
     dk_auth = (\<lambda>u p s. u @ p @ s), dk_containerList = (\<lambda>w all. Inr (dh_containers w)),
     dk_containerCreate = (\<lambda>w i n. (Inr n, w)),
     dk_containerStart = (\<lambda>w i. (None, w\<lparr>dh_containers := dh_containers w @ [\<lparr>dc_id = i, dc_image = i\<rparr>], dh_portFree := False\<rparr>)),
     dk_containerStop = (\<lambda>w i t. (None, w)), dk_containerKill = (\<lambda>w i. (None, w)),
     dk_containerRemove = (\<lambda>w i. (None, w\<lparr>dh_containers := filter (\<lambda>x. dc_id x \<noteq> i) (dh_containers w), dh_portFree := True\<rparr>)),
     dk_listen = (\<lambda>w p. (if dh_portFree w then None else Some (OtherError ''address already in use''), w)),
     dk_sleep = (\<lambda>n w. w)\<rparr>"

interpretation mem_daemon: docker_daemon mem_docker dh_images
  by unfold_locales (auto simp: mem_docker_def)

text \<open>A registry that was set up is torn down again, and starting it twice ends the program, since it holds the port.\<close>

lemma registry_example:
  fixes w :: docker_host
  defines "w \<equiv> \<lparr>dh_images = [], dh_containers = [], dh_portFree = True\<rparr>"
  shows "\<exists>w1. SetupDockerSocket (Some mem_docker) w = Some (Ret ''registry'', w1)
    \<and> StartRegistry mem_docker w1 = Some (Panic, w1) \<and> GetRegistryRunningID mem_docker (DockerTearDown mem_docker w1) = ''''"
  by (simp add: w_def SetupDockerSocket_def StartRegistry_def wait_port_once PurgeContainer_def mem_docker_def Let_def PullImage_def
      start_container_def GetRegistryRunningID_def IsRegistryImagePresent_def first_is_def str_prefix_def DockerTearDown_def
      StopAndRemoveContainer_def RegistryImg_def registryImgFullTag_def)

lemma untagged_removed_in_memory:
  "RemoveImagesUntagged mem_docker w = (Ret (), w') \<Longrightarrow> set (dh_images w') \<subseteq> {x \<in> set (dh_images w). untagged x \<noteq> Some True}"
  by (rule mem_daemon.no_untagged_left)

end
