(* ===== verification/Build_Handover.thy ===== *)
theory Build_Handover
  imports Build_Controller Service_Components
begin

text \<open>
  The way of an image through three components: the container builder pushes it from its pod, the controller of
  builds writes its name to the status of the build, the state that follows the build turns the built
  condition of the workflow, and the state that deploys puts the name into the workflow's container.  Nothing
  of the code is defined here; the lemmas put the models of the components together.
\<close>

subsection \<open>The image of the deployment\<close>

text \<open>The image of the workflow's container, which is found by name.\<close>

definition workflow_image :: "pod_spec \<Rightarrow> string option" where
  "workflow_image ps = map_option ct_image (find (\<lambda>c. ct_name c = DefaultContainerName) (ps_containers ps))"

lemma find_update_takeWhile:
  assumes "find P xs = Some x" "P y"
  shows "find P (xs[length (takeWhile (\<lambda>x. \<not> P x) xs) := y]) = Some y"
  using assms by (induction xs) (auto split: if_splits)

lemma upd_workflow_container_Ret:
  assumes "upd_workflow_container f ps = Ret ps'" "\<And>c. ct_name (f c) = ct_name c"
  shows "\<exists>c. find (\<lambda>c. ct_name c = DefaultContainerName) (ps_containers ps) = Some c \<and>
    find (\<lambda>c. ct_name c = DefaultContainerName) (ps_containers ps') = Some (f c)"
proof -
  obtain c where c: "find (\<lambda>c. ct_name c = DefaultContainerName) (ps_containers ps) = Some c"
    and ps': "ps' = ps\<lparr>ps_containers :=
      (ps_containers ps)[length (takeWhile (\<lambda>x. ct_name x \<noteq> DefaultContainerName) (ps_containers ps)) := f c]\<rparr>"
    using assms(1)
    by (auto simp: upd_workflow_container_def GetContainerByName_def index_by_spec split: option.splits)
  have "ct_name (f c) = DefaultContainerName" using c assms(2) by (auto simp: find_Some_iff)
  then show ?thesis using c find_update_takeWhile[OF c, of "f c"] by (simp add: ps')
qed

lemma set_image_sets: "upd_workflow_container (set_image img) ps = Ret ps' \<Longrightarrow> workflow_image ps' = Some img"
  by (frule upd_workflow_container_Ret) (auto simp: set_image_def workflow_image_def)

lemma mount_props_image: "mount_props wo u m ps = Ret ps' \<Longrightarrow> workflow_image ps' = workflow_image ps"
proof -
  assume "mount_props wo u m ps = Ret ps'"
  then obtain prs where "upd_workflow_container
        (\<lambda>c. AddOrReplaceVolumeMount c
          [mk_VolumeMount ConfigMapWorkflowPropsVolumeName True quarkusProdConfigMountPath])
        (AddOrReplaceVolume ps [\<lparr>vl_name = ConfigMapWorkflowPropsVolumeName, vl_source = VsProjected prs\<rparr>]) = Ret ps'"
    by (auto simp: mount_props_def obind_def split: outcome.splits)
  from upd_workflow_container_Ret[OF this] show ?thesis
    by (auto simp: AddOrReplaceVolumeMount_def AddOrReplaceVolume_def workflow_image_def)
qed

lemma find_map_same: "(\<And>x. P (f x) = P x) \<Longrightarrow> find P (map f xs) = map_option f (find P xs)"
  by (induction xs) auto

lemma restore_image: "workflow_image (RestoreKnativeVolumeAndVolumeMount ps) = workflow_image ps"
  by (simp add: RestoreKnativeVolumeAndVolumeMount_def visitContainers_def workflow_image_def find_map_same
      option.map_comp comp_def)

lemma rollout_pod: "RolloutDeploymentIfCMChangedMutateVisitor now wo u m d = Ret d' \<Longrightarrow> dp_pod d' = dp_pod d \<and> dp_meta d' = dp_meta d"
  by (auto simp: RolloutDeploymentIfCMChangedMutateVisitor_def AnnotateDeploymentConfigChecksum_def Let_def split: if_splits)

lemma on_pod_d_Ret: "on_pod_d f d = Ret d' \<longleftrightarrow> (\<exists>ps. f (dp_pod d) = Ret ps \<and> d' = d\<lparr>dp_pod := ps\<rparr>)"
  by (cases "f (dp_pod d)") (auto simp: on_pod_d_def)

lemma on_pod_k_Ret: "on_pod_k f d = Ret d' \<longleftrightarrow> (\<exists>ps. f (ks_pod d) = Ret ps \<and> d' = d\<lparr>ks_pod := ps\<rparr>)"
  by (cases "f (ks_pod d)") (auto simp: on_pod_k_def)

lemma obind_Ret: "obind x f = Ret y \<longleftrightarrow> (\<exists>a. x = Ret a \<and> f a = Ret y)"
  by (cases x) auto

lemma mount_d_image: "mount_d now wo u m d = Ret d' \<Longrightarrow> workflow_image (dp_pod d') = workflow_image (dp_pod d) \<and> dp_meta d' = dp_meta d"
  by (auto simp: mount_d_def obind_Ret on_pod_d_Ret dest!: mount_props_image rollout_pod)

lemma visitors_image:
  assumes "run_visitors (deployment_visitors su wo pl img u m) d = Ret d'" "\<not> HasContainerSpecImage wo"
  shows "workflow_image (dp_pod d') = Some img"
  using assms
  by (auto simp: deployment_visitors_def Let_def obind_Ret ImageDeploymentMutateVisitor_def on_pod_d_Ret restore_image
      RestoreDeploymentVolumeAndVolumeMountMutateVisitor_def addOpenShiftImageTriggerDeploymentMutateVisitor_def
      dest!: rollout_pod mount_d_image set_image_sets split: if_splits)

lemma kvisitors_image:
  assumes "run_visitors (kservice_visitors su wo pl img u m) d = Ret d'" "\<not> HasContainerSpecImage wo"
  shows "workflow_image (ks_pod d') = Some img"
  using assms
  by (auto simp: kservice_visitors_def obind_Ret ImageKServiceMutateVisitor_def on_pod_k_Ret restore_image mount_k_def
      RestoreKServiceVolumeAndVolumeMountMutateVisitor_def dest!: mount_props_image set_image_sets)

lemma visitor_meta:
  assumes "run_visitors (deployment_visitors su wo pl img u m) d = Ret d'"
  shows "om_namespace (dp_meta d') = om_namespace (dp_meta d) \<and> om_name (dp_meta d') = om_name (dp_meta d)"
proof -
  have c: "om_namespace (dp_meta b) = om_namespace (dp_meta a) \<and> om_name (dp_meta b) = om_name (dp_meta a)"
    if "DeploymentMutateVisitor lb wo pl a = Ret b" for lb a b
    using that by (auto simp: DeploymentMutateVisitor_def EnsureDeployment_def Let_def obind_Ret on_pod_d_Ret split: if_splits)
  show ?thesis
    using assms
    by (auto simp: deployment_visitors_def Let_def obind_Ret ImageDeploymentMutateVisitor_def on_pod_d_Ret
        RestoreDeploymentVolumeAndVolumeMountMutateVisitor_def addOpenShiftImageTriggerDeploymentMutateVisitor_def
        dest!: rollout_pod mount_d_image c split: if_splits)
qed

text \<open>C7: Whatever object there was and whatever \<open>mergo\<close> makes of it, a workflow whose user names no image of
  their own is deployed with the image it is handed: once the deployment has been ensured, the one in the
  cluster has the workflow's container, with this image, on Kubernetes and on OpenShift.\<close>

theorem deployed_with_image:
  assumes "object_upsert (up_deployment up) (k_deployments (su_cluster su)) dp_meta"
    "su_ensurers su = NewObjectEnsurers lb ops k up"
    "ensure_deployment su wo pl img u m w = (Ret op, w')" "\<not> IsKnativeDeployment wo" "\<not> HasContainerSpecImage wo"
  shows "\<exists>d. c_get (k_deployments (su_cluster su)) w' (sf_namespace wo) (sf_name wo) = Inr d \<and>
    workflow_image (dp_pod d) = Some img"
proof -
  obtain x where x: "DeploymentCreator lb wo pl = Ret x" and
    e: "fst (ensureObject lb dp_meta (up_deployment up) wo (deployment_visitors su wo pl img u m) x w) \<noteq> Panic"
    "\<exists>r. ensureObject lb dp_meta (up_deployment up) wo (deployment_visitors su wo pl img u m) x w = (Ret r, w')"
    using assms(3,4)
    by (auto simp: ensure_deployment_def assms(2) NewObjectEnsurers_def ensure_created_def obind_Ret
        split: prod.splits outcome.splits)
  let ?f = "\<lambda>d. obind (run_visitors (deployment_visitors su wo pl img u m) d) (own lb dp_meta wo)"
  obtain y op2 where up: "up_deployment up w x (\<lambda>w z. (?f z, w)) = (Ret (y, op2), w')"
    using e(2) by (auto simp: ensureObject_def obind_Ret split: prod.splits)
  have own: "b = a" if "own lb dp_meta wo a = Ret b" for a b :: deployment
    using that by (auto simp: own_def split: option.splits)
  have keep: "(om_namespace (dp_meta b), om_name (dp_meta b)) = (om_namespace (dp_meta a), om_name (dp_meta a)) \<and>
      workflow_image (dp_pod b) = Some img" if "?f a = Ret b" for a b
  proof -
    have r: "run_visitors (deployment_visitors su wo pl img u m) a = Ret b" using that own by (fastforce simp: obind_Ret)
    show ?thesis using visitors_image[OF r assms(5)] visitor_meta[OF r] by simp
  qed
  have "om_namespace (dp_meta x) = sf_namespace wo" "om_name (dp_meta x) = sf_name wo"
    using x by (auto simp: DeploymentCreator_def labelled_meta_def new_meta_def sf_namespace_def split: outcome.splits)
  then show ?thesis
    using object_upsert.stored_satisfies[OF assms(1) up, of "\<lambda>d. workflow_image (dp_pod d) = Some img"] keep by simp
qed

text \<open>A deployment that is to be created always gets through its visitors.\<close>

lemma upd_workflow_container_total:
  assumes "workflow_image ps \<noteq> None" shows "\<exists>ps'. upd_workflow_container f ps = Ret ps'"
  using assms
  by (auto simp: upd_workflow_container_def GetContainerByName_def index_by_spec workflow_image_def split: option.splits)

lemma mount_props_total:
  assumes "workflow_image ps \<noteq> None" "props_projections wo u m = Ret prs" shows "\<exists>ps'. mount_props wo u m ps = Ret ps'"
  using assms(1) upd_workflow_container_total[of "AddOrReplaceVolume ps vs" for vs]
  by (simp add: mount_props_def assms(2) workflow_image_def AddOrReplaceVolume_def)

lemma rollout_total: "\<not> dp_paused d \<Longrightarrow> \<exists>as. RolloutDeploymentIfCMChangedMutateVisitor now wo u m d = Ret (d\<lparr>dp_templateAnnotations := as\<rparr>)"
  by (auto simp: RolloutDeploymentIfCMChangedMutateVisitor_def AnnotateDeploymentConfigChecksum_def Let_def)

lemma mount_d_total:
  assumes "workflow_image (dp_pod d) \<noteq> None" "props_projections wo u m = Ret prs" "\<not> dp_paused d"
  shows "\<exists>d'. mount_d now wo u m d = Ret d' \<and> \<not> dp_paused d'"
proof -
  obtain as where "RolloutDeploymentIfCMChangedMutateVisitor now wo u m d = Ret (d\<lparr>dp_templateAnnotations := as\<rparr>)"
    using rollout_total[OF assms(3)] by blast
  then show ?thesis using mount_props_total[OF assms(1,2)] assms(3) by (auto simp: mount_d_def obind_Ret on_pod_d_Ret)
qed

lemma new_deployment_visited:
  assumes "\<not> k_openShift (su_cluster su)" "\<not> HasContainerSpecImage wo" "IsObjectNew (dp_meta d)" "\<not> dp_paused d" "workflow_image (dp_pod d) \<noteq> None"
    "props_projections wo u m = Ret prs"
  shows "\<exists>d'. run_visitors (deployment_visitors su wo pl img u m) d = Ret d'"
proof -
  obtain ps where ps: "upd_workflow_container (set_image img) (dp_pod d) = Ret ps" "workflow_image ps = Some img"
    using upd_workflow_container_total[OF assms(5)] set_image_sets by blast
  obtain d2 where d2: "mount_d (su_now su) wo u m (d\<lparr>dp_pod := ps\<rparr>) = Ret d2" "\<not> dp_paused d2"
    using mount_d_total[of "d\<lparr>dp_pod := ps\<rparr>"] ps(2) assms(4,6) by fastforce
  let ?d3 = "d2\<lparr>dp_pod := RestoreKnativeVolumeAndVolumeMount (dp_pod d2)\<rparr>"
  obtain as where r: "RolloutDeploymentIfCMChangedMutateVisitor (su_now su) wo u m ?d3 = Ret (?d3\<lparr>dp_templateAnnotations := as\<rparr>)"
    using rollout_total[of ?d3] d2(2) by fastforce
  show ?thesis
    using r d2 ps assms(1-3)
    by (simp add: deployment_visitors_def Let_def DeploymentMutateVisitor_def ImageDeploymentMutateVisitor_def on_pod_d_def
        RestoreDeploymentVolumeAndVolumeMountMutateVisitor_def)
qed

subsection \<open>The image of the build\<close>

text \<open>The pod a pass over a build looks at, and the build with the tasks it knows then: the pod that is there,
  or the one the pass has just created.\<close>

definition builder_pod :: "'w cb_env \<Rightarrow> 'w \<Rightarrow> container_build \<Rightarrow> (container_build \<times> pod) option" where
  "builder_pod env w c =
    (case getBuilderPod env w c of
       Inl _ \<Rightarrow> None
     | Inr (Some p) \<Rightarrow> Some (c, p)
     | Inr None \<Rightarrow>
        (case newBuildPod env w c of
           Inl _ \<Rightarrow> None
         | Inr (c1, q) \<Rightarrow>
            (case c_create (ce_pods env) w q of (Some _, _) \<Rightarrow> None | (None, w) \<Rightarrow> Some (c1, created_pod env w q))))"

lemma follow_pod_succeeds:
  assumes "follow_pod env w b p = (Ret (Some b'), w')" "cb_phase b \<noteq> PhaseSucceeded" "cb_phase b' = PhaseSucceeded"
  shows "pd_phase p = ''Succeeded'' \<and> cb_imageTag b' = first_image_tag b \<and> cb_tasks b' = cb_tasks b"
  using assms by (auto simp: follow_pod_def failed_phase_def Let_def split: if_splits option.splits prod.splits)

lemma monitor_succeeds:
  assumes "monitor_Handle env w c = (Ret (Some c'), w')" "cb_phase c \<noteq> PhaseSucceeded" "cb_phase c' = PhaseSucceeded"
  shows "\<exists>c1 p. builder_pod env w c = Some (c1, p) \<and> pd_phase p = ''Succeeded'' \<and> cb_imageTag c' = first_image_tag c1"
proof -
  have n: "cb_phase c1 = cb_phase c" if "newBuildPod env w c = Inr (c1, q)" for c1 q
    using newBuildPod_frame[OF that] by auto
  show ?thesis
    using assms n
    by (auto simp: monitor_Handle_def builder_pod_def split: sum.splits option.splits prod.splits if_splits
        dest!: follow_pod_succeeds)
qed

lemma step_succeeds:
  assumes "cb_Reconcile env w c = (Ret c', w')" "cb_strategy c = ContainerBuildStrategyPod"
    "cb_phase c \<noteq> PhaseSucceeded" "cb_phase c' = PhaseSucceeded"
  shows "\<exists>c1 p. builder_pod env w c = Some (c1, p) \<and> pd_phase p = ''Succeeded'' \<and> cb_imageTag c' = first_image_tag c1"
proof -
  have "monitor_Handle env w c = (Ret (Some c'), w')"
    using assms initialize_Ret[of env w c] recovery_total[of env w c]
    by (cases "cb_phase c")
      (auto simp: cb_Reconcile_cases schedule_Handle_def recovery_Handle_def Let_def
        split: prod.splits outcome.splits option.splits if_splits)
  then show ?thesis by (rule monitor_succeeds[OF _ assms(3,4)])
qed

text \<open>A pass over a build sees that its pod has succeeded, and takes the tag of the tasks it knows for the name
  of the image.\<close>

definition pushed_in :: "'w build_env \<Rightarrow> 'w \<Rightarrow> sonataflow_build \<Rightarrow> string \<Rightarrow> bool" where
  "pushed_in env w b img \<longleftrightarrow>
    (case inner_build env b of
       Inl _ \<Rightarrow> False
     | Inr c \<Rightarrow>
        (case builder_pod (be_cb env) w c of
           None \<Rightarrow> False
         | Some (c1, p) \<Rightarrow> pd_phase p = ''Succeeded'' \<and> img = first_image_tag c1))"

lemma history_succeeded:
  assumes "build_json (be_codec env)" "build_history env b" "sb_phase b = PhaseSucceeded"
  shows "\<exists>m b0 v b1 v'. build_history env b0 \<and> \<not> is_done (sb_phase b0) \<and> kaniko_Reconcile env m b0 v = (Ret b1, v') \<and>
    b = b1\<lparr>sb_meta := sb_meta b, sb_template := sb_template b\<rparr> \<and> pushed_in env v b0 (sb_imageTag b)"
  using assms(2,3)
proof (induction rule: build_history.induct)
  case (scheduled m b w b' w')
  then obtain c where s: "scheduleNewKanikoBuildWithContainerFile env m b (schedule_task env m b) w = (Ret c, w')"
    and p: "sb_phase b' = (if cb_phase c = PhaseNone then PhaseInitialization else cb_phase c)"
    by (auto simp: kaniko_Schedule_def split: outcome.splits prod.splits sum.splits)
  obtain c0 where c0: "fresh_build c0" "cb_step (be_cb env) c0 c" using scheduled_steps[OF s] by blast
  then have "cb_phase c = PhaseNone \<or> cb_phase c = PhaseScheduling"
    using cb_step_summary[OF c0(2) fresh_build_inv[OF c0(1)]] by (auto simp: fresh_build_def phase_next_def)
  then show ?case using p scheduled.prems by auto
next
  case (polled b m w b' w')
  obtain c where c: "tracked env b c" using history_tracked[OF assms(1) polled.hyps(1)] by blast
  then obtain c' where r: "cb_Reconcile (be_cb env) w c = (Ret c', w')" "sb_phase b' = cb_phase c'"
    "sb_imageTag b' = cb_imageTag c'"
    using kaniko_pass[OF assms(1) _ polled.hyps(3)] by (auto simp: tracked_def)
  have "cb_phase c \<noteq> PhaseSucceeded" "cb_strategy c = ContainerBuildStrategyPod"
    using c polled.hyps(2) by (auto simp: tracked_def shows_phase_def is_done_def)
  then have "pushed_in env w b (sb_imageTag b')"
    using step_succeeds[OF r(1)] r polled.prems c by (auto simp: pushed_in_def tracked_def)
  then show ?case using polled.hyps by (intro exI[of _ m] exI[of _ b] exI[of _ w] exI[of _ b'] exI[of _ w']) simp
next
  case (edited b t om)
  then obtain m b0 v b1 v' where "build_history env b0" "\<not> is_done (sb_phase b0)" "kaniko_Reconcile env m b0 v = (Ret b1, v')"
    and b: "b = b1\<lparr>sb_meta := sb_meta b, sb_template := sb_template b\<rparr>" and "pushed_in env v b0 (sb_imageTag b)"
    by auto
  moreover have "b\<lparr>sb_meta := om, sb_template := t\<rparr> = b1\<lparr>sb_meta := om, sb_template := t\<rparr>" "sb_imageTag b = sb_imageTag b1"
    by (subst b, simp)+
  ultimately show ?case
    by (intro exI[of _ m] exI[of _ b0] exI[of _ v] exI[of _ b1] exI[of _ v']) simp
qed

lemma follow_turns_built:
  assumes "wf_status (sf_conds wo)"
    "GetOrCreateBuild (su_libs su) (su_cluster su) wo w = (Inr b, w1)" "follow_Do su wo w = Some s"
    "\<not> view_is CTrue (built wo)" "view_is CTrue (built (sd_workflow s))"
  shows "sb_phase b = PhaseSucceeded"
proof (rule ccontr)
  assume n: "sb_phase b \<noteq> PhaseSucceeded"
  have same: "built (sd_workflow (update_and su r ev x v)) = built x" for r ev x v
  proof (cases "PerformStatusUpdate (su_cluster su) x v")
    case (fields e a c)
    then show ?thesis using same_conds_view[OF PerformStatusUpdate_conds[OF fields]] by (simp add: update_and_def built_def)
  qed
  have fr: "sd_workflow (follow_result x) = sd_workflow x" for x :: "'a stepped" by (simp add: follow_result_def)
  have mf: "\<not> view_is CTrue (built (mark_false n BuiltConditionType r m wo))" for n r m
    using assms(1) by (simp add: built_def mark_false_def)
  show False
    using assms n mf by (auto simp: follow_Do_def Let_def fr same split: if_splits)
qed

lemma task_pushes:
  assumes "addKanikoTaskToPod env w b t p = Inr (t', p')"
  shows "kaniko_registry env w t = Inr t' \<and> (\<exists>k. ps_containers (pd_spec p') = ps_containers (pd_spec p) @ [k] \<and>
    ''--destination='' @ GetRepositoryImageTag t' \<in> set (ct_args k))"
  using assms by (auto simp: addKanikoTaskToPod_def Let_def kaniko_args_def split: sum.splits prod.splits)

lemma tasks_push:
  "add_tasks env w b ts p = Inr (ts', p') \<Longrightarrow>
    set (ps_containers (pd_spec p)) \<subseteq> set (ps_containers (pd_spec p')) \<and>
    (\<forall>t. Some t \<in> set ts' \<longrightarrow>
      (\<exists>k\<in>set (ps_containers (pd_spec p')). ''--destination='' @ GetRepositoryImageTag t \<in> set (ct_args k)))"
proof (induction env w b ts p arbitrary: ts' p' rule: add_tasks.induct)
  case (3 env w b t ts p)
  obtain ex_push_passes p1 ts2 where a: "addKanikoTaskToPod env w b t p = Inr (ex_push_passes, p1)" and r: "add_tasks env w b ts p1 = Inr (ts2, p')"
    and ts': "ts' = Some ex_push_passes # ts2"
    using "3.prems" by (auto simp: map_sum_Inr_iff split: sum.splits)
  obtain k where k: "ps_containers (pd_spec p1) = ps_containers (pd_spec p) @ [k]"
    "''--destination='' @ GetRepositoryImageTag ex_push_passes \<in> set (ct_args k)"
    using task_pushes[OF a] by blast
  have "set (ps_containers (pd_spec p1)) \<subseteq> set (ps_containers (pd_spec p'))"
    "\<forall>t. Some t \<in> set ts2 \<longrightarrow>
      (\<exists>k\<in>set (ps_containers (pd_spec p')). ''--destination='' @ GetRepositoryImageTag t \<in> set (ct_args k))"
    using "3.IH"[OF a refl r] by auto
  then show ?case using k by (auto simp: ts')
qed (auto simp: map_sum_Inr_iff)

lemma new_pod_pushes:
  assumes "newBuildPod env w c = Inr (c1, q)" "Some t \<in> set (cb_tasks c1)"
  shows "\<exists>k\<in>set (ps_containers (pd_spec q)). ''--destination='' @ GetRepositoryImageTag t \<in> set (ct_args k)"
  using assms by (auto simp: newBuildPod_def Let_def map_sum_Inr_iff dest: tasks_push)

text \<open>C36: A registry address that is discovered, not configured, is only noted in the build in memory.  When the
  status cannot be written after the pass that created the pod, the next pass starts from the build without
  the address: the pod pushes to the registry, the build succeeds, and the name of its image has no
  registry.\<close>

theorem registry_address_lost:
  assumes "inner_build env b = Inr c" "cb_strategy c = ContainerBuildStrategyPod" "cb_phase c = PhasePending"
    "cb_startedAt c \<noteq> None" "cb_tasks c = [Some t]" "rg_address (kt_registry t) = ''''"
    and first: "getBuilderPod (be_cb env) w c = Inr None" "newBuildPod (be_cb env) w c = Inr (c1, q)"
      "kaniko_registry (be_cb env) w t = Inr t'" "rg_address (kt_registry t') = a" "a \<noteq> ''''"
    and next_pass: "getBuilderPod (be_cb env) w2 c = Inr (Some p)" "pd_phase p = ''Succeeded''"
      "kaniko_Reconcile env m b w2 = (Ret b2, w2')"
  shows "(\<exists>k\<in>set (ps_containers (pd_spec q)). ''--destination='' @ a @ ''/'' @ kt_image t \<in> set (ct_args k)) \<and>
    sb_phase b2 = PhaseSucceeded \<and> sb_imageTag b2 = kt_image t"
proof -
  have i: "kt_image t' = kt_image t"
    using first(3) by (auto simp: kaniko_registry_def Let_def split: if_splits sum.splits option.splits)
  have "cb_tasks c1 = [Some t']"
    using first(2,3) assms(5)
    by (auto simp: newBuildPod_def Let_def map_sum_Inr_iff split: sum.splits dest!: task_pushes)
  then have d: "\<exists>k\<in>set (ps_containers (pd_spec q)). ''--destination='' @ a @ ''/'' @ kt_image t \<in> set (ct_args k)"
    using new_pod_pushes[OF first(2), of t'] first(4,5) by (simp add: GetRepositoryImageTag_def i)
  obtain c' where "cb_Reconcile (be_cb env) w2 c = (Ret c', w2')" "sb_phase b2 = cb_phase c'" "sb_imageTag b2 = cb_imageTag c'"
    using assms(1) next_pass(3)
    by (auto simp: kaniko_Reconcile_def SetInnerBuild_def map_sum_Inr_iff split: outcome.splits prod.splits sum.splits)
  moreover have "first_image_tag c = kt_image t"
    using assms(5,6) by (simp add: first_image_tag_def GetRepositoryImageTag_def)
  ultimately show ?thesis
    using d assms(2-4) next_pass(1,2)
    by (auto simp: cb_Reconcile_cases monitor_Handle_def follow_pod_def split: prod.splits option.splits)
qed


subsection \<open>Examples\<close>

text \<open>A build that has been pushed, in a cluster whose registry is found by its service, and the workflow that
  waits for it.\<close>

definition ex_inner4 :: container_build where
  "ex_inner4 = ex_inner2\<lparr>cb_phase := PhaseSucceeded, cb_duration := Some (- 7000000000), cb_imageTag := ''ns/wf:latest''\<rparr>"

definition ex_push_env :: "mem_world build_env" where
  "ex_push_env = (ex_build_env [ex_inner1, ex_inner2, ex_inner4])
     \<lparr>be_cb := ex_cluster_cb\<lparr>ce_list_services := (\<lambda>_ _ _. Inr [(ServiceCreator ex_workflow)\<lparr>sv_clusterIP := ''10.0.0.7''\<rparr>])\<rparr>\<rparr>"

definition ex_build4 :: sonataflow_build where
  "ex_build4 = ex_build\<lparr>sb_phase := PhaseSucceeded, sb_imageTag := ''ns/wf:latest'', sb_innerBuild := ''xxx''\<rparr>"

definition ex_pushed_world :: mem_world where
  "ex_pushed_world = ex_build_world\<lparr>mw_pods := [ex_builder_pod ''Succeeded''], mw_builds := [ex_build4]\<rparr>"

definition ex_context_world :: mem_world where
  "ex_context_world = ex_build_world\<lparr>mw_configMaps := ex_builder_config #
     map (\<lambda>n. \<lparr>cm_meta = new_meta ''ns'' n, cm_data = Some [(''Dockerfile'', ''FROM a:1'')]\<rparr>)
       [''sonataflow-wf-builder'', ''wf-props'', ''wf-managed-props'']\<rparr>"

lemma ex_push_passes: "fst (kaniko_Schedule ex_push_env ex_km ex_build ex_build_world) = Ret ex_build1"
  "fst (kaniko_Reconcile ex_push_env ex_km ex_build1 ex_build_world) = Ret ex_build2"
  "fst (kaniko_Reconcile ex_push_env ex_km ex_build2 ex_pushed_world) = Ret ex_build4"
  by code_simp+

lemma ex_pod_made: "isl (newBuildPod (be_cb ex_push_env) ex_context_world ex_inner2) = False" by code_simp

definition ex_followed :: sonataflow where
  "ex_followed = mark_false 5 BuiltConditionType BuildIsRunningReason '''' (upd_conds (InitializeConditions 3 workflow_manager) ex_workflow)"

lemma ex_pushed_found: "fst (GetOrCreateBuild ex_libs mem_cluster ex_followed ex_pushed_world) = Inr ex_build4" by code_simp
lemma ex_build_followed: "map_option (\<lambda>s. view_is CTrue (built (sd_workflow s))) (follow_Do ex_support ex_followed ex_pushed_world) = Some True"
  "\<not> view_is CTrue (built ex_followed)" "wf_status (sf_conds ex_followed)"
  by code_simp+

text \<open>The deployment of the example and its two property files.\<close>

definition ex_new_deployment :: deployment where
  "ex_new_deployment = (case DeploymentCreator ex_libs ex_workflow None of Ret d \<Rightarrow> d)"

definition ex_cm :: "string \<Rightarrow> config_map" where
  "ex_cm f = \<lparr>cm_meta = new_meta ''ns'' f, cm_data = Some [(f, ''a=b'')]\<rparr>"

lemma ex_deployment: "DeploymentCreator ex_libs ex_workflow None = Ret ex_new_deployment"
  "IsObjectNew (dp_meta ex_new_deployment)" "\<not> dp_paused ex_new_deployment"
  "workflow_image (dp_pod ex_new_deployment) \<noteq> None" "\<not> HasContainerSpecImage ex_workflow" "\<not> IsKnativeDeployment ex_workflow"
  "om_namespace (dp_meta ex_new_deployment) = ''ns''" "om_name (dp_meta ex_new_deployment) = ''wf''"
  "sf_namespace ex_workflow = ''ns''" "sf_name ex_workflow = ''wf''" "mw_deployments ex_build_world = []"
  by code_simp+

lemma ex_files: "(case props_projections ex_workflow (ex_cm ApplicationPropertiesFileName) (ex_cm (GetManagedPropertiesFileName ex_workflow)) of Ret _ \<Rightarrow> True | _ \<Rightarrow> False)"
  by code_simp

theorem deployed_with_image_witness:
  "\<exists>op w' d. ensure_deployment ex_support ex_workflow None ''ns/wf:latest'' (ex_cm ApplicationPropertiesFileName)
       (ex_cm (GetManagedPropertiesFileName ex_workflow)) ex_build_world = (Ret op, w') \<and>
     c_get (k_deployments mem_cluster) w' ''ns'' ''wf'' = Inr d \<and> workflow_image (dp_pod d) = Some ''ns/wf:latest''"
proof -
  let ?u = "ex_cm ApplicationPropertiesFileName" and ?m = "ex_cm (GetManagedPropertiesFileName ex_workflow)"
  have su: "su_cluster ex_support = mem_cluster" "su_ensurers ex_support = NewObjectEnsurers ex_libs list_props mem_cluster mem_upserts"
    by (simp_all add: ex_support_def)
  obtain prs where "props_projections ex_workflow ?u ?m = Ret prs" using ex_files by (auto split: outcome.splits)
  then obtain d where d: "run_visitors (deployment_visitors ex_support ex_workflow None ''ns/wf:latest'' ?u ?m) ex_new_deployment = Ret d"
    using new_deployment_visited[of ex_support ex_workflow ex_new_deployment ?u ?m prs] ex_deployment su by (auto simp: mem_eval)
  have n: "om_namespace (dp_meta d) = ''ns''" "om_name (dp_meta d) = ''wf''" using visitor_meta[OF d] ex_deployment by simp_all
  have "up_deployment mem_upserts = client_upsert (\<lambda>w. w) (\<lambda>w _. w) (k_deployments mem_cluster) dp_meta"
    by (simp add: mem_upserts_def Let_def)
  then obtain w' where e: "ensure_deployment ex_support ex_workflow None ''ns/wf:latest'' ?u ?m ex_build_world = (Ret OpCreated, w')"
    using d ex_deployment n
    by (simp add: ensure_deployment_def su NewObjectEnsurers_def ensure_created_def ensureObject_def client_upsert_def
        own_def ex_libs_def mem_eval)
  then show ?thesis
    using deployed_with_image[of mem_upserts ex_support ex_libs list_props mem_cluster, unfolded su,
        OF mem_deployments.object_upsert_axioms refl e] ex_deployment by auto
qed

lemma ex_push_history: "build_json (be_codec ex_push_env)" "build_history ex_push_env ex_build4"
proof -
  show "build_json (be_codec ex_push_env)"
    by (simp add: ex_push_env_def ex_build_env_def table_json.build_json_axioms)
  have h1: "build_history ex_push_env ex_build1"
    using fst_Ret[OF ex_push_passes(1)] by (auto intro: build_history.scheduled)
  have n: "\<not> is_done (sb_phase ex_build1)" "\<not> is_done (sb_phase ex_build2)" by (simp_all add: ex_phases is_done_def)
  have h2: "build_history ex_push_env ex_build2" using fst_Ret[OF ex_push_passes(2)] by (auto intro: build_history.polled[OF h1 n(1)])
  show "build_history ex_push_env ex_build4" using fst_Ret[OF ex_push_passes(3)] by (auto intro: build_history.polled[OF h2 n(2)])
qed


lemma ex_unpushed: "inner_build ex_push_env ex_build2 = Inr ex_inner2" "cb_strategy ex_inner2 = ContainerBuildStrategyPod"
  "cb_phase ex_inner2 = PhasePending" "cb_startedAt ex_inner2 \<noteq> None" "cb_tasks ex_inner2 = [Some (the (hd (cb_tasks ex_inner1)))]"
  "rg_address (kt_registry (the (hd (cb_tasks ex_inner1)))) = ''''" "kt_image (the (hd (cb_tasks ex_inner1))) = ''ns/wf:latest''"
  "getBuilderPod (be_cb ex_push_env) ex_context_world ex_inner2 = Inr None"
  "(case kaniko_registry (be_cb ex_push_env) ex_context_world (the (hd (cb_tasks ex_inner1))) of Inr t \<Rightarrow> rg_address (kt_registry t) = ''10.0.0.7'' | _ \<Rightarrow> False)"
  "getBuilderPod (be_cb ex_push_env) ex_pushed_world ex_inner2 = Inr (Some (ex_builder_pod ''Succeeded''))"
  "pd_phase (ex_builder_pod ''Succeeded'') = ''Succeeded''"
  by code_simp+

theorem registry_address_lost_witness:
  "\<exists>c1 q v. newBuildPod (be_cb ex_push_env) ex_context_world ex_inner2 = Inr (c1, q) \<and>
     (\<exists>k\<in>set (ps_containers (pd_spec q)). ''--destination=10.0.0.7/ns/wf:latest'' \<in> set (ct_args k)) \<and>
     kaniko_Reconcile ex_push_env ex_km ex_build2 ex_pushed_world = (Ret ex_build4, v) \<and>
     sb_phase ex_build4 = PhaseSucceeded \<and> sb_imageTag ex_build4 = ''ns/wf:latest''"
proof -
  obtain c1 q where q: "newBuildPod (be_cb ex_push_env) ex_context_world ex_inner2 = Inr (c1, q)"
    using ex_pod_made by (cases "newBuildPod (be_cb ex_push_env) ex_context_world ex_inner2") auto
  obtain t' where t': "kaniko_registry (be_cb ex_push_env) ex_context_world (the (hd (cb_tasks ex_inner1))) = Inr t'"
    "rg_address (kt_registry t') = ''10.0.0.7''"
    using ex_unpushed(9) by (auto split: sum.splits)
  obtain w2' where r: "kaniko_Reconcile ex_push_env ex_km ex_build2 ex_pushed_world = (Ret ex_build4, w2')"
    using fst_Ret[OF ex_push_passes(3)] by blast
  show ?thesis
    using registry_address_lost[OF ex_unpushed(1-6,8) q t' _ ex_unpushed(10,11) r] q r ex_unpushed(7) by auto
qed

end
