(* ===== verification/Spec2Isabelle.thy ===== *)
theory Spec2Isabelle
  imports Kube_Utils Container_Build Discovery Workflow_Controller Build_Controller Cluster_Platform Service_Components Workflow_Project
    Object_Collections Host_Registry Build_Handover
begin

text \<open>
  The SonataFlow operator: a Kubernetes operator in Go that builds and runs serverless workflows.

  \<^bold>\<open>The program.\<close>  Users write \<open>SonataFlow\<close> objects (workflows) and \<open>SonataFlowPlatform\<close> objects.  The
  operator's controllers are called with the name of an object that may have changed, read the
  cluster, bring it one step closer to what the object asks for, record what they saw in the object's
  status conditions, and say when they want to be called again.  The workflow controller picks a
  profile from an annotation (dev, preview, gitops); a profile is a list of states, each with a guard on
  the status (\<open>CanReconcile\<close>) and a step (\<open>Do\<close>), of which the first that can is run.  The preview profile
  creates a \<open>SonataFlowBuild\<close>, follows it, and deploys its image; the gitops profile only deploys; the dev
  profile mounts the workflow's definition into a running container.  A workflow needs an active platform
  of its namespace, which the platform controller prepares together with the supporting services (data
  index, job service); a \<open>SonataFlowClusterPlatform\<close> lends the services of one platform to the whole cluster.
  A \<open>SonataFlowBuild\<close> is followed by the build controller through a build manager: on Kubernetes by a pod
  whose life is a state machine of its own, kept as text in the build's status, on OpenShift by a build of
  the cluster.  The
  configuration of a workflow is a properties file in which addresses of other services can be asked for
  by a URI (service discovery).

  \<^bold>\<open>Theories and sources.\<close>  A struct is a record whose fields carry a short prefix, an interface or
  pointer that may be nil is an option, an error is a value of \<open>kerror\<close>, a nil dereference or an index out
  of range is \<open>Panic\<close> (or \<open>None\<close> where nothing else can go wrong).  The cluster is a world \<open>'w\<close> of any type
  with one record of client operations for each kind of object (\<open>Cluster.thy\<close>); a step takes the world and
  answers the new one, so the order of reads and writes is that of the code.

  \<^item> \<open>Prelude\<close>: Go's maps, slices and loops over lists, with the lemmas they share (\<open>go_find\<close>, \<open>go_map\<close>).
  \<^item> \<open>Conditions\<close>: \<open>api/condition_types.go\<close>, \<open>api/status_types.go\<close>.
  \<^item> \<open>K8s_Types\<close>, \<open>Api_Types\<close>: the objects of Kubernetes and Knative the code touches; the custom
    resources of \<open>api/v1alpha08\<close>.
  \<^item> \<open>Kube_Client\<close>, \<open>Cluster\<close>: the clients and the configuration (\<open>controllers_cfg.go\<close>).
  \<^item> \<open>Checksums\<close>, \<open>Kube_Utils\<close>: \<open>utils/crc.go\<close>, \<open>utils/kubernetes\<close>; \<open>Object_Collections\<close>: its \<open>collection.go\<close> and
    \<open>replace.go\<close>, and \<open>utils/resources\<close>.
  \<^item> \<open>Container_Build\<close>: \<open>container-builder/builder/kubernetes\<close> and its types and helpers; \<open>Host_Registry\<close>: the local
    registry of \<open>container-builder/common\<close>.
  \<^item> \<open>Go_Regexp\<close>, \<open>Discovery_Uri\<close>, \<open>Discovery\<close>: \<open>internal/controller/discovery\<close>.
  \<^item> \<open>Knative\<close>, \<open>Platform_Services\<close>: \<open>internal/controller/knative\<close>, \<open>platform/services\<close>.
  \<^item> \<open>Platform\<close>, \<open>Platform_Controller\<close>: \<open>internal/controller/platform\<close>, \<open>clusterplatform\<close> (its searches) and
    \<open>sonataflowplatform_controller.go\<close>; \<open>Service_Components\<close>: \<open>platform/k8s.go\<close>, what the service action of a
    platform deploys (\<open>full_Platform_Reconcile\<close> is the reconciliation with it).
  \<^item> \<open>Cluster_Platform\<close>: \<open>clusterplatform/initialize.go\<close>, \<open>defaults.go\<close> and \<open>sonataflowclusterplatform_controller.go\<close>.
  \<^item> \<open>Builder_Image\<close>, \<open>Build_Controller\<close>: \<open>platform/platformutils.go\<close>, \<open>internal/controller/builder\<close> and
    \<open>sonataflowbuild_controller.go\<close>.
  \<^item> \<open>Workflow_Objects\<close>, \<open>Managed_Properties\<close>, \<open>Object_Ensurers\<close>, \<open>Workflow_Reconciler\<close>:
    \<open>profiles/common\<close> with \<open>persistence\<close> and \<open>properties\<close>, and the manager of builds.
  \<^item> \<open>Preview_Profile\<close>, \<open>Gitops_Profile\<close>, \<open>Dev_Profile\<close>: the three profiles; \<open>Workflow_Lifecycle\<close> and
    \<open>Dev_Lifecycle\<close> hold what their states do to each other.
  \<^item> \<open>Workflow_Controller\<close>: \<open>sonataflow_controller.go\<close>, \<open>profiles/factory\<close>, \<open>profiles/monitoring\<close>,
    \<open>workflows/workflows.go\<close>.
  \<^item> \<open>Build_Handover\<close>: how the build controller, the container builder and the preview profile hand an image
    to each other; it has lemmas only.
  \<^item> \<open>Workflow_Project\<close>: \<open>api/v1alpha08/conversion.go\<close>, \<open>workflowdef/json.go\<close> and \<open>workflowproj\<close>, the library that
    makes the manifests of a workflow from its files.

  \<^bold>\<open>What the lemmas show.\<close>  Conditions: the sorted list of a status is a map from types to payloads, every
  operation of the manager keeps that shape, and the manager implements the map operations one would expect
  (locale \<open>condition_store\<close>, interpreted on the list).  Container builds: the phases follow a fixed graph,
  nothing panics after scheduling, and a measure bounds the changes; a local registry is started at most once, and no
  untagged image survives a clean-up (locale \<open>docker_daemon\<close>).  Object helpers: the keyed updates of
  containers, volumes and mounts are one algorithm with a closed form; over clients that keep their contract (locale
  \<open>object_clients\<close>, interpreted on stores in memory) a replacement leaves the object in the cluster.  Discovery: the parser of URIs is
  total and inverse to the printer, queries panic only on malformed objects, addresses follow the ranking of
  ports.  Platforms: the state machine from the condition to the action and back, who holds the lock of a
  namespace, idempotence of defaults.  Properties: the order of precedence of the managed properties, over any
  property library that satisfies \<open>properties_lib\<close> (interpreted on association lists).  Workflows: the states of
  a profile cover every status reachable from a new workflow, which step follows which, that a changed flow
  rebuilds before it deploys, and what triggers in other namespaces leave behind (locales \<open>workflow_upsert\<close> and
  \<open>trigger_upsert\<close>, interpreted on a client-backed \<open>CreateOrPatch\<close>).  Builds: the build on Kubernetes refines
  its inner build (locale \<open>build_json\<close> for the text in its status, \<open>status_store\<close> for the status subresource),
  a marked build is scheduled once, and the managers' guards.  Across components: a workflow counts as built only
  after a builder pod has succeeded, and its deployment runs the image of that build.  Cluster platforms: the condition follows the
  referenced platform and at most one is active (locale \<open>cluster_store\<close>).  Services of a platform: no replicas
  before the sink is injected, the operator's variables and properties win, and no trigger outlives the
  platform (locale \<open>object_upsert\<close>, what \<open>CreateOrUpdate\<close> stores).  Projects: what the objects of a project are, that no
  manifest overwrites another, the conversion there and back, and the names and versions it makes.  Clients: \<open>object_store\<close> is the documented
  contract of the API server without concurrent writers, interpreted on stores in memory, which also carry the
  witnesses.

  Some properties record behaviour one would not expect, as the code has it: the platform that is overwritten
  by the search for an active one, the deployment error that is not retried, the recovery that ends for ever
  after ten minutes, the search for a broker that does not return, the build that is never recovered, the
  registry address that is lost with a failed write of a status.

  \<^bold>\<open>Bounds and fuel.\<close>  \<open>RetryOnConflict\<close> makes the five attempts (the first and four more) of
  \<open>retry.DefaultRetry\<close>.  The wait for a free port is a \<open>partial_function\<close> that is shown to return; the search for a broker through platforms is a \<open>partial_function\<close> whose value \<open>None\<close> is
  not returning; \<open>TriggersCreator\<close> and what calls it hand the \<open>None\<close> on.  Everything else is structural
  recursion or has a termination proof.  CRC-32 and SHA-256 are on machine words.  Times are nanoseconds in
  \<open>int\<close>; the clock is an argument.

  \<^bold>\<open>Not modelled.\<close>  Logging and events, except where an event is written through the recorder of \<open>cluster\<close>;
  the construction of clients and the registration of watches; the lists of objects the states answer for
  inspection; the answer a client writes back into an object, except where the code reads it; owner references
  beyond the error of setting one; \<open>mergo\<close>, \<open>controllerutil.CreateOrPatch\<close> and \<open>CreateOrUpdate\<close>, \<open>kmeta.ChildName\<close>, the properties file format, the JSON
  and YAML codecs and the serverless workflow SDK, which are not in the repository and are arguments; the
  parsers of resources, the file system, the Docker daemon; the schema of Camel routes, which is data; the
  clients of the container builder (\<open>container-builder/client\<close>, \<open>cleaner\<close>: glue), generated
  deep copies, the start-up (\<open>cmd\<close>) and the test framework.
\<close>

end
